(* ===== verification/Prelude.thy ===== *)
theory Prelude
  imports Main "HOL-Library.Sublist" "HOL-Library.Char_ord"
begin

text \<open>
  Shared vocabulary of the development: JavaScript strings and the handful of string methods the
  sources use, the classes of characters its regular expressions name, decimal printing, and the
  list facts the component theories share.

  A JavaScript string is a sequence of UTF-16 code units.  Wherever the text is configuration,
  an address, a tag or an argument, the model uses \<^typ>\<open>string\<close> and so covers exactly the
  strings whose code units are below 256 (Latin-1); the character classes below are the
  restriction of \<^verbatim>\<open>\s\<close>, \<^verbatim>\<open>\p{L}\<close>, \<^verbatim>\<open>\p{N}\<close> and of case folding to that range.  On this range one code unit is one
  \<^typ>\<open>char\<close>, so \<^const>\<open>length\<close> is the \<^verbatim>\<open>.length\<close> of the source.
\<close>

named_theorems js_simps \<open>evaluation rules of the JavaScript string helpers\<close>

section \<open>Characters\<close>

abbreviation code :: "char \<Rightarrow> nat" where
  "code c \<equiv> of_char c"

text \<open>The regular expression class \<^verbatim>\<open>\s\<close> and the characters \<^verbatim>\<open>trim\<close> removes, on Latin-1.\<close>

definition js_space :: "char \<Rightarrow> bool" where
  "js_space c \<longleftrightarrow> (9 \<le> code c \<and> code c \<le> 13) \<or> code c = 32 \<or> code c = 160"

text \<open>The class \<^verbatim>\<open>[\x00-\x1F\x7F]\<close>.\<close>

definition is_control :: "char \<Rightarrow> bool" where
  "is_control c \<longleftrightarrow> code c < 32 \<or> code c = 127"

definition is_digit :: "char \<Rightarrow> bool" where
  "is_digit c \<longleftrightarrow> 48 \<le> code c \<and> code c \<le> 57"

definition is_ascii_upper :: "char \<Rightarrow> bool" where
  "is_ascii_upper c \<longleftrightarrow> 65 \<le> code c \<and> code c \<le> 90"

definition is_ascii_lower :: "char \<Rightarrow> bool" where
  "is_ascii_lower c \<longleftrightarrow> 97 \<le> code c \<and> code c \<le> 122"

definition is_ascii_alnum :: "char \<Rightarrow> bool" where
  "is_ascii_alnum c \<longleftrightarrow> is_digit c \<or> is_ascii_upper c \<or> is_ascii_lower c"

definition is_hex :: "char \<Rightarrow> bool" where
  "is_hex c \<longleftrightarrow> is_digit c \<or> (65 \<le> code c \<and> code c \<le> 70) \<or> (97 \<le> code c \<and> code c \<le> 102)"

text \<open>\<^verbatim>\<open>\p{L}\<close> and \<^verbatim>\<open>\p{N}\<close> on Latin-1 (general categories L* and N*).\<close>

definition uni_letter :: "char \<Rightarrow> bool" where
  "uni_letter c \<longleftrightarrow> is_ascii_upper c \<or> is_ascii_lower c \<or>
     code c = 170 \<or> code c = 181 \<or> code c = 186 \<or>
     (192 \<le> code c \<and> code c \<noteq> 215 \<and> code c \<noteq> 247)"

definition uni_number :: "char \<Rightarrow> bool" where
  "uni_number c \<longleftrightarrow> is_digit c \<or> code c = 178 \<or> code c = 179 \<or> code c = 185 \<or>
     (188 \<le> code c \<and> code c \<le> 190)"

definition uni_alnum :: "char \<Rightarrow> bool" where
  "uni_alnum c \<longleftrightarrow> uni_letter c \<or> uni_number c"

lemmas char_classes =
  js_space_def is_control_def is_digit_def is_ascii_upper_def is_ascii_lower_def
  is_ascii_alnum_def is_hex_def uni_letter_def uni_number_def uni_alnum_def

text \<open>\<^verbatim>\<open>toLowerCase\<close> on Latin-1: the capitals of ASCII and of the upper half.\<close>

definition to_lower_char :: "char \<Rightarrow> char" where
  "to_lower_char c =
     (if is_ascii_upper c \<or> (192 \<le> code c \<and> code c \<le> 222 \<and> code c \<noteq> 215)
      then char_of (code c + 32) else c)"

definition to_lower :: "string \<Rightarrow> string" where
  "to_lower s = map to_lower_char s"

text \<open>The line terminators that the regular expression \<^verbatim>\<open>.\<close> does not match.\<close>

definition line_terminator :: "char \<Rightarrow> bool" where
  "line_terminator c \<longleftrightarrow> code c = 10 \<or> code c = 13"

abbreviation newline :: char where
  "newline \<equiv> CHR 0x0A"

section \<open>String methods\<close>

definition starts_with :: "'a list \<Rightarrow> 'a list \<Rightarrow> bool" where
  "starts_with p s \<longleftrightarrow> take (length p) s = p"

definition ends_with :: "'a list \<Rightarrow> 'a list \<Rightarrow> bool" where
  "ends_with p s \<longleftrightarrow> starts_with (rev p) (rev s)"

text \<open>\<^verbatim>\<open>s.split(d)\<close> for a one-character separator; never the empty list.\<close>

fun split_on :: "'a \<Rightarrow> 'a list \<Rightarrow> 'a list list" where
  "split_on d [] = [[]]"
| "split_on d (c # cs) =
     (if c = d then [] # split_on d cs
      else (case split_on d cs of [] \<Rightarrow> [[c]] | w # ws \<Rightarrow> (c # w) # ws))"

text \<open>\<^verbatim>\<open>xs.join(d)\<close>.\<close>

fun join :: "'a list \<Rightarrow> 'a list list \<Rightarrow> 'a list" where
  "join d [] = []"
| "join d [w] = w"
| "join d (w # v # ws) = w @ d @ join d (v # ws)"

text \<open>\<^verbatim>\<open>s.indexOf(c)\<close> and \<^verbatim>\<open>s.lastIndexOf(c)\<close>; \<^const>\<open>None\<close> is the source's \<^verbatim>\<open>-1\<close>.\<close>

fun index_of :: "'a \<Rightarrow> 'a list \<Rightarrow> nat option" where
  "index_of d [] = None"
| "index_of d (c # cs) = (if c = d then Some 0 else map_option Suc (index_of d cs))"

definition last_index_of :: "'a \<Rightarrow> 'a list \<Rightarrow> nat option" where
  "last_index_of d s = map_option (\<lambda>i. length s - Suc i) (index_of d (rev s))"

definition trim_by :: "('a \<Rightarrow> bool) \<Rightarrow> 'a list \<Rightarrow> 'a list" where
  "trim_by p s = rev (dropWhile p (rev (dropWhile p s)))"

definition trim :: "string \<Rightarrow> string" where
  "trim s = trim_by js_space s"

fun show_nat :: "nat \<Rightarrow> string" where
  "show_nat n = (if n < 10 then [char_of (48 + n)] else show_nat (n div 10) @ [char_of (48 + n mod 10)])"

declare show_nat.simps [simp del]

text \<open>\<^verbatim>\<open>Number(digits)\<close>.\<close>

definition read_digits :: "string \<Rightarrow> nat" where
  "read_digits s = foldl (\<lambda>n c. n * 10 + (of_char c - 48)) 0 s"

lemma read_digits_snoc: "read_digits (s @ [c]) = read_digits s * 10 + (of_char c - 48)"
  by (simp add: read_digits_def)

lemma show_nat_digits: "list_all is_digit (show_nat n)"
proof (induction n rule: show_nat.induct)
  case (1 n)
  have "is_digit (char_of (48 + m))" if "m < 10" for m :: nat using that by (simp add: is_digit_def)
  with 1 show ?case by (cases "n < 10") (simp_all add: show_nat.simps [of n])
qed

lemma read_digits_show_nat [simp]: "read_digits (show_nat n) = n"
proof (induction n rule: show_nat.induct)
  case (1 n)
  then show ?case
    by (cases "n < 10") (simp_all add: show_nat.simps [of n] read_digits_snoc, simp add: read_digits_def)
qed

text \<open>\<^verbatim>\<open>`"${s}"`\<close>: a value between double quotes inside a message.\<close>

definition in_quotes :: "string \<Rightarrow> string" where
  "in_quotes s = CHR 0x22 # s @ [CHR 0x22]"

lemma starts_with_append [simp, js_simps]: "starts_with p (p @ s)"
  by (simp add: starts_with_def)

lemma starts_with_Nil [simp, js_simps]: "starts_with [] s"
  by (simp add: starts_with_def)

lemma starts_with_Cons [simp, js_simps]:
  "starts_with (a # p) s \<longleftrightarrow> (case s of [] \<Rightarrow> False | b # t \<Rightarrow> b = a \<and> starts_with p t)"
  by (auto simp: starts_with_def split: list.split)

lemma starts_with_iff: "starts_with p s \<longleftrightarrow> (\<exists>t. s = p @ t)"
  by (metis append_eq_conv_conj append_take_drop_id starts_with_def)

lemma ends_with_iff: "ends_with p s \<longleftrightarrow> (\<exists>t. s = t @ p)"
  by (metis ends_with_def rev_append rev_rev_ident starts_with_iff)

lemma split_on_nonempty [simp]: "split_on d s \<noteq> []"
  by (induction s) (auto split: list.split)

lemma split_on_no_sep: "w \<in> set (split_on d s) \<Longrightarrow> d \<notin> set w"
proof (induction s arbitrary: w)
  case (Cons c s)
  then show ?case by (cases "split_on d s") (auto split: if_splits)
qed simp

lemma split_on_fresh: "d \<notin> set s \<Longrightarrow> split_on d s = [s]"
  by (induction s) auto

lemma split_on_append_sep: "d \<notin> set w \<Longrightarrow> split_on d (w @ d # s) = w # split_on d s"
  by (induction w) auto

lemma join_Cons: "join d (w # ws) = (if ws = [] then w else w @ d @ join d ws)"
  by (cases ws) auto

lemma join_Cons_head: "join d ((c # w) # ws) = c # join d (w # ws)"
  by (cases ws) auto

lemma set_join: "set (join d ws) \<subseteq> set d \<union> \<Union> (set ` set ws)"
  by (induction d ws rule: join.induct) auto

lemma join_split_on: "join [d] (split_on d s) = s"
proof (induction s)
  case (Cons c s)
  then show ?case
    by (cases "split_on d s") (auto simp: join_Cons_head join_Cons)
qed simp

lemma split_on_join:
  "ws \<noteq> [] \<Longrightarrow> list_all (\<lambda>w. d \<notin> set w) ws \<Longrightarrow> split_on d (join [d] ws) = ws"
proof (induction ws)
  case (Cons w ws)
  then show ?case by (cases ws) (simp_all add: split_on_append_sep split_on_fresh)
qed simp

lemma set_split_on: "w \<in> set (split_on d s) \<Longrightarrow> set w \<subseteq> set s"
proof (induction s arbitrary: w)
  case (Cons c s)
  then show ?case
    by (cases "split_on d s") (force split: if_splits)+
qed simp

lemma index_of_None: "index_of d s = None \<longleftrightarrow> d \<notin> set s"
  by (induction s) auto

lemma index_of_SomeD:
  "index_of d s = Some i \<Longrightarrow> i < length s \<and> s ! i = d \<and> d \<notin> set (take i s)"
  by (induction s arbitrary: i) (auto split: if_splits)

lemma index_of_split: "index_of d s = Some i \<Longrightarrow> s = take i s @ d # drop (Suc i) s"
  using index_of_SomeD [of d s i] by (metis id_take_nth_drop)

lemma index_of_append: "d \<notin> set w \<Longrightarrow> index_of d (w @ d # s) = Some (length w)"
  by (induction w) auto

lemma last_index_of_append: "d \<notin> set w \<Longrightarrow> last_index_of d (s @ d # w) = Some (length s)"
  using index_of_append [of d "rev w" "rev s"] by (simp add: last_index_of_def)

section \<open>Lists\<close>

lemma filter_singleton_mem: "filter P xs = [x] \<Longrightarrow> x \<in> set xs \<and> P x"
  by (auto simp: filter_eq_Cons_iff)

lemma filter_singleton_unique:
  assumes "filter P xs = [x]" and "y \<in> set xs" and "P y"
  shows "y = x"
proof -
  from assms(2,3) have "y \<in> set (filter P xs)" by simp
  with assms(1) show ?thesis by simp
qed

lemma filter_eq_singleton:
  "filter P xs = [x] \<longleftrightarrow> (\<exists>us vs. xs = us @ x # vs \<and> P x \<and> \<not> list_ex P (us @ vs))"
proof
  assume "filter P xs = [x]"
  then obtain us vs where "xs = us @ x # vs" "\<forall>u\<in>set us. \<not> P u" "P x" "[] = filter P vs"
    unfolding filter_eq_Cons_iff by blast
  then have "xs = us @ x # vs \<and> P x \<and> \<not> list_ex P (us @ vs)"
    by (simp add: list_ex_iff filter_empty_conv [symmetric] Ball_def) (metis filter_empty_conv)
  then show "\<exists>us vs. xs = us @ x # vs \<and> P x \<and> \<not> list_ex P (us @ vs)" by blast
next
  assume "\<exists>us vs. xs = us @ x # vs \<and> P x \<and> \<not> list_ex P (us @ vs)"
  then show "filter P xs = [x]" by (auto simp: list_ex_iff filter_empty_conv)
qed

lemma prefix_extend: "prefix xs ys \<Longrightarrow> prefix xs (ys @ zs)"
  by (metis prefix_prefix)

end
