(* ===== verification/Json.thy ===== *)
theory Json
  imports Complex_Main Prelude
begin

text \<open>
  JSON values and the reading of the object schemas the protocol is declared with.  A schema such as
  \<^verbatim>\<open>z.object({ operation: z.literal('volume.remove'), name: z.string() }).strict()\<close> is a function
  from the members of an object to the typed request, \<^const>\<open>None\<close> when the object does not parse.
  \<open>strict\<close> is \<^verbatim>\<open>.strict()\<close>: a member that the schema does not name makes the parse fail.  Numbers
  are rationals (JSON has no infinities); \<^verbatim>\<open>z.number().int()\<close> is Zod 4's, which also requires
  a safe integer.
\<close>

datatype json =
    JNull
  | JBool bool
  | JNum rat
  | JStr string
  | JArr "json list"
  | JObj "(string \<times> json) list"

type_synonym json_object = "(string \<times> json) list"

definition json_int :: "rat \<Rightarrow> bool" where
  "json_int q \<longleftrightarrow> of_int \<lfloor>q\<rfloor> = q \<and> \<bar>q\<bar> \<le> 9007199254740991"

section \<open>Members\<close>

definition strict :: "string list \<Rightarrow> json_object \<Rightarrow> 'a option \<Rightarrow> 'a option" where
  "strict fields obj result =
     (if list_all (\<lambda>(k, _). k \<in> set (''operation'' # fields)) obj then result else None)"

text \<open>A required string that a validator accepts; a validator returns the message of a problem.\<close>

definition string_field :: "(string \<Rightarrow> string option) \<Rightarrow> json_object \<Rightarrow> string \<Rightarrow> string option" where
  "string_field check obj k =
     (case map_of obj k of
        Some (JStr s) \<Rightarrow> (if check s = None then Some s else None)
      | _ \<Rightarrow> None)"

definition no_check :: "string \<Rightarrow> string option" where
  "no_check s = None"

text \<open>An \<^verbatim>\<open>.optional()\<close> member: absent is \<open>Some None\<close>, present must parse.\<close>

definition optional_field :: "(json_object \<Rightarrow> string \<Rightarrow> 'a option) \<Rightarrow> json_object \<Rightarrow> string \<Rightarrow> 'a option option" where
  "optional_field field obj k =
     (if map_of obj k = None then Some None else map_option Some (field obj k))"

definition bool_field :: "json_object \<Rightarrow> string \<Rightarrow> bool option" where
  "bool_field obj k = (case map_of obj k of Some (JBool b) \<Rightarrow> Some b | _ \<Rightarrow> None)"

definition int_field :: "(int \<Rightarrow> bool) \<Rightarrow> json_object \<Rightarrow> string \<Rightarrow> int option" where
  "int_field ok obj k =
     (case map_of obj k of
        Some (JNum q) \<Rightarrow> (if json_int q \<and> ok \<lfloor>q\<rfloor> then Some \<lfloor>q\<rfloor> else None)
      | _ \<Rightarrow> None)"

definition enum_field :: "(string \<times> 'a) list \<Rightarrow> json_object \<Rightarrow> string \<Rightarrow> 'a option" where
  "enum_field values obj k =
     (case map_of obj k of Some (JStr s) \<Rightarrow> map_of values s | _ \<Rightarrow> None)"

fun strings_of :: "(string \<Rightarrow> string option) \<Rightarrow> json list \<Rightarrow> string list option" where
  "strings_of check [] = Some []"
| "strings_of check (JStr s # js) =
     (if check s = None then map_option (Cons s) (strings_of check js) else None)"
| "strings_of check (_ # js) = None"

text \<open>\<^verbatim>\<open>z.array(field).min(1)\<close>.\<close>

definition nonempty_array_field ::
  "(string \<Rightarrow> string option) \<Rightarrow> json_object \<Rightarrow> string \<Rightarrow> string list option" where
  "nonempty_array_field check obj k =
     (case map_of obj k of
        Some (JArr js) \<Rightarrow> (if js = [] then None else strings_of check js)
      | _ \<Rightarrow> None)"

section \<open>What a parsed member satisfies\<close>

named_theorems schema_dest \<open>facts about a member that parsed\<close>

lemma strict_Some: "strict fields obj r = Some x \<longleftrightarrow> r = Some x \<and> fst ` set obj \<subseteq> insert ''operation'' (set fields)"
  by (auto simp: strict_def list_all_iff)

lemma string_fieldD [schema_dest]: "string_field check obj k = Some s \<Longrightarrow> check s = None"
  by (auto simp: string_field_def split: option.splits json.splits if_splits)

lemma optional_fieldD [schema_dest]:
  "optional_field field obj k = Some (Some x) \<Longrightarrow> field obj k = Some x"
  by (auto simp: optional_field_def split: if_splits)

lemma int_fieldD [schema_dest]: "int_field ok obj k = Some i \<Longrightarrow> ok i"
  by (auto simp: int_field_def split: option.splits json.splits if_splits)

lemma strings_ofD:
  "strings_of check js = Some ss \<Longrightarrow> list_all (\<lambda>s. check s = None) ss \<and> length ss = length js"
  by (induction check js arbitrary: ss rule: strings_of.induct) (auto split: if_splits)

lemma nonempty_array_fieldD [schema_dest]:
  "nonempty_array_field check obj k = Some ss \<Longrightarrow> list_all (\<lambda>s. check s = None) ss \<and> ss \<noteq> []"
  by (auto simp: nonempty_array_field_def dest: strings_ofD split: option.splits json.splits if_splits)

end
