(* ===== verification/DmsValidators.thy ===== *)
theory DmsValidators
  imports Prelude
begin

text \<open>
  The validators every caller-supplied leaf value passes, in the web tier and again in the broker
  (\<^verbatim>\<open>packages/shared/src/dms-validators.ts\<close>).  A validator returns the message of the first rule
  the value breaks, or \<^const>\<open>None\<close> (the source's \<^verbatim>\<open>null\<close>) when it is acceptable.  The interfaces
  \<open>leaf_check\<close> and \<open>path_leaf_check\<close> state what the argv builders and the path builders rely on.
\<close>

section \<open>The patterns\<close>

definition contains_whitespace_or_control :: "string \<Rightarrow> bool" where
  "contains_whitespace_or_control v \<longleftrightarrow> list_ex js_space v \<or> list_ex is_control v"

text \<open>\<^verbatim>\<open>^[\p{L}\p{N}](?:[\p{L}\p{N}._%+-]*[\p{L}\p{N}])?$\<close>\<close>

definition LOCAL_PART_PATTERN :: "string \<Rightarrow> bool" where
  "LOCAL_PART_PATTERN v \<longleftrightarrow> v \<noteq> [] \<and> uni_alnum (hd v) \<and> uni_alnum (last v) \<and>
     list_all (\<lambda>c. uni_alnum c \<or> c \<in> set ''._%+-'') v"

text \<open>\<^verbatim>\<open>^[\p{L}\p{N}](?:[\p{L}\p{N}-]*[\p{L}\p{N}])?$\<close>\<close>

definition DOMAIN_LABEL_PATTERN :: "string \<Rightarrow> bool" where
  "DOMAIN_LABEL_PATTERN v \<longleftrightarrow> v \<noteq> [] \<and> uni_alnum (hd v) \<and> uni_alnum (last v) \<and>
     list_all (\<lambda>c. uni_alnum c \<or> c = CHR ''-'') v"

definition isValidDomainShape :: "string \<Rightarrow> bool" where
  "isValidDomainShape domain =
     (if length domain = 0 \<or> length domain > 253 then False
      else let labels = split_on CHR ''.'' domain
           in if length labels < 2 then False
              else list_all (\<lambda>label. length label > 0 \<and> length label \<le> 63 \<and>
                     DOMAIN_LABEL_PATTERN label) labels)"

section \<open>The validators\<close>

definition validateDomain :: "string \<Rightarrow> string option" where
  "validateDomain value =
     (if length value = 0 then Some ''domain must not be empty''
      else if starts_with ''-'' value
        then Some (''domain must not start with '' @ in_quotes ''-'' @ '' (would be read as a command-line flag)'')
      else if contains_whitespace_or_control value
        then Some ''domain must not contain whitespace or control characters''
      else if \<not> isValidDomainShape value then Some (in_quotes value @ '' is not a valid domain'')
      else None)"

definition validateAddressForArgv :: "string \<Rightarrow> bool \<Rightarrow> string option" where
  "validateAddressForArgv value allowCatchAll =
     (if length value = 0 then Some ''address must not be empty''
      else if starts_with ''-'' value
        then Some (''address must not start with '' @ in_quotes ''-'' @ '' (would be read as a command-line flag)'')
      else if contains_whitespace_or_control value
        then Some ''address must not contain whitespace or control characters''
      else
        (let atCount = count_list value CHR ''@''
         in if atCount \<noteq> 1 then Some (''address must contain exactly one '' @ in_quotes ''@'')
            else
              (let atIndex = (case index_of CHR ''@'' value of Some i \<Rightarrow> i | None \<Rightarrow> 0);
                   localPart = take atIndex value;
                   domain = drop (Suc atIndex) value
               in if length localPart = 0 \<and> \<not> allowCatchAll
                    then Some (''address is missing a local part before '' @ in_quotes ''@'')
                  else if length localPart \<noteq> 0 \<and> \<not> LOCAL_PART_PATTERN localPart
                    then Some (in_quotes localPart @ '' is not a valid local part (letters, numbers, and . _ % + - only, not leading/trailing punctuation)'')
                  else if \<not> isValidDomainShape domain
                    then Some (in_quotes domain @ '' is not a valid domain'')
                  else None)))"

text \<open>\<^verbatim>\<open>^[0-9]+[bBkKmMgGtT]?$\<close>\<close>

definition QUOTA_PATTERN :: "string \<Rightarrow> bool" where
  "QUOTA_PATTERN v \<longleftrightarrow>
     (let unit = dropWhile is_digit v
      in takeWhile is_digit v \<noteq> [] \<and>
         (unit = [] \<or> (length unit = 1 \<and> hd unit \<in> set ''bBkKmMgGtT'')))"

definition validateQuota :: "string \<Rightarrow> string option" where
  "validateQuota value =
     (if length value = 0 then Some ''quota must not be empty''
      else if \<not> QUOTA_PATTERN value
        then Some (''quota must be digits optionally followed by a single unit letter, e.g. '' @
                   in_quotes ''50M'' @ '' or '' @ in_quotes ''2G'')
      else None)"

text \<open>One alternative of \<^verbatim>\<open>25[0-5]|2[0-4]\d|1\d\d|[1-9]?\d\<close> per equation.\<close>

fun ipv4_octet :: "string \<Rightarrow> bool" where
  "ipv4_octet [a] = is_digit a"
| "ipv4_octet [a, b] = (is_digit a \<and> a \<noteq> CHR ''0'' \<and> is_digit b)"
| "ipv4_octet [a, b, c] =
     ((a = CHR ''2'' \<and> b = CHR ''5'' \<and> c \<in> set ''012345'') \<or>
      (a = CHR ''2'' \<and> b \<in> set ''01234'' \<and> is_digit c) \<or>
      (a = CHR ''1'' \<and> is_digit b \<and> is_digit c))"
| "ipv4_octet _ = False"

definition IPV4_PATTERN :: "string \<Rightarrow> bool" where
  "IPV4_PATTERN v \<longleftrightarrow>
     (let parts = split_on CHR ''.'' v in length parts = 4 \<and> list_all ipv4_octet parts)"

text \<open>\<^verbatim>\<open>^[0-9a-fA-F]{0,4}(:[0-9a-fA-F]{0,4}){2,7}$\<close>\<close>

definition IPV6_PATTERN :: "string \<Rightarrow> bool" where
  "IPV6_PATTERN v \<longleftrightarrow>
     (let groups = split_on CHR '':'' v
      in 3 \<le> length groups \<and> length groups \<le> 8 \<and>
         list_all (\<lambda>g. length g \<le> 4 \<and> list_all is_hex g) groups)"

definition validateIpAddress :: "string \<Rightarrow> string option" where
  "validateIpAddress value =
     (if length value = 0 then Some ''IP address must not be empty''
      else if starts_with ''-'' value
        then Some (''IP address must not start with '' @ in_quotes ''-'' @ '' (would be read as a command-line flag)'')
      else if IPV4_PATTERN value \<or> IPV6_PATTERN value then None
      else Some (in_quotes value @ '' is not a valid IPv4 or IPv6 address''))"

text \<open>\<^verbatim>\<open>^[A-Za-z0-9][A-Za-z0-9_-]*$\<close>\<close>

definition SELECTOR_PATTERN :: "string \<Rightarrow> bool" where
  "SELECTOR_PATTERN v \<longleftrightarrow> v \<noteq> [] \<and> is_ascii_alnum (hd v) \<and>
     list_all (\<lambda>c. is_ascii_alnum c \<or> c = CHR ''_'' \<or> c = CHR ''-'') v"

definition validateDkimSelector :: "string \<Rightarrow> string option" where
  "validateDkimSelector value =
     (if length value = 0 then Some ''selector must not be empty''
      else if \<not> SELECTOR_PATTERN value
        then Some (''selector may only contain letters, numbers, '' @ in_quotes ''-'' @ '' and '' @
                   in_quotes ''_'' @ '', and must start with a letter or number'')
      else None)"

definition VALID_DKIM_KEYSIZES :: "nat list" where
  "VALID_DKIM_KEYSIZES = [1024, 2048, 4096]"

definition validateDkimKeysize :: "nat \<Rightarrow> string option" where
  "validateDkimKeysize value =
     (if value \<notin> set VALID_DKIM_KEYSIZES
      then Some (''keysize must be one of '' @ join '', '' (map show_nat VALID_DKIM_KEYSIZES))
      else None)"

definition validatePassword :: "string \<Rightarrow> string option" where
  "validatePassword value = (if length value = 0 then Some ''password must not be empty'' else None)"

text \<open>\<^verbatim>\<open>^[A-Za-z0-9][A-Za-z0-9_.-]{0,127}$\<close>\<close>

definition SIEVE_SCRIPT_NAME_PATTERN :: "string \<Rightarrow> bool" where
  "SIEVE_SCRIPT_NAME_PATTERN v \<longleftrightarrow> v \<noteq> [] \<and> is_ascii_alnum (hd v) \<and> length v \<le> 128 \<and>
     list_all (\<lambda>c. is_ascii_alnum c \<or> c \<in> set ''_.-'') v"

definition validateSieveScriptName :: "string \<Rightarrow> string option" where
  "validateSieveScriptName value =
     (if length value = 0 then Some ''script name must not be empty''
      else if starts_with ''-'' value
        then Some (''script name must not start with '' @ in_quotes ''-'' @ '' (would be read as a command-line flag)'')
      else if value = ''.'' \<or> value = ''..''
        then Some (''script name must not be '' @ in_quotes ''.'' @ '' or '' @ in_quotes ''..'')
      else if CHR ''/'' \<in> set value \<or> CHR 0x5C \<in> set value
        then Some ''script name must not contain a path separator''
      else if list_ex is_control value \<or> list_ex js_space value
        then Some ''script name must not contain whitespace or control characters''
      else if \<not> SIEVE_SCRIPT_NAME_PATTERN value
        then Some (''script name may only contain letters, numbers, '' @ in_quotes ''-'' @ '', '' @
                   in_quotes ''_'' @ '' and '' @ in_quotes ''.'' @
                   '' (max 128 characters), and must start with a letter or number'')
      else None)"

section \<open>What an accepted value cannot contain\<close>

text \<open>
  A leaf value is inert as one argument of a command line when it is non-empty, cannot be read as a
  flag, and holds no whitespace and no control character (so no NUL and no newline).
\<close>

definition argv_inert :: "string \<Rightarrow> bool" where
  "argv_inert v \<longleftrightarrow> v \<noteq> [] \<and> hd v \<noteq> CHR ''-'' \<and>
     list_all (\<lambda>c. \<not> js_space c \<and> \<not> is_control c) v"

text \<open>A value is one path component when it has no separator and is neither \<^verbatim>\<open>.\<close> nor \<^verbatim>\<open>..\<close>.\<close>

definition path_component :: "string \<Rightarrow> bool" where
  "path_component v \<longleftrightarrow> v \<noteq> [] \<and> CHR ''/'' \<notin> set v \<and> v \<noteq> ''.'' \<and> v \<noteq> ''..''"

locale leaf_check =
  fixes check :: "string \<Rightarrow> string option"
  assumes check_inert: "check v = None \<Longrightarrow> argv_inert v"
begin

lemma check_nonempty: "check v = None \<Longrightarrow> v \<noteq> []"
  by (drule check_inert) (simp add: argv_inert_def)

lemma check_not_flag: "check v = None \<Longrightarrow> \<not> starts_with ''-'' v"
  by (drule check_inert) (cases v; simp add: argv_inert_def)

lemma check_no_newline: "check v = None \<Longrightarrow> newline \<notin> set v"
  by (drule check_inert) (auto simp: argv_inert_def list_all_iff is_control_def)

lemma check_list_inert: "list_all (\<lambda>v. check v = None) vs \<Longrightarrow> list_all argv_inert vs"
  by (auto simp: list_all_iff check_inert)

text \<open>Accepted values joined by a comma are still one inert argument.\<close>

lemma check_join_inert:
  "vs \<noteq> [] \<Longrightarrow> list_all (\<lambda>v. check v = None) vs \<Longrightarrow> argv_inert (join '','' vs)"
proof (induction vs)
  case (Cons v vs)
  have v: "argv_inert v" using Cons.prems(2) check_inert by simp
  show ?case
  proof (cases "vs = []")
    case True
    with v show ?thesis by simp
  next
    case False
    with Cons have "argv_inert (join '','' vs)" by simp
    with v False show ?thesis
      by (auto simp: argv_inert_def join_Cons js_space_def is_control_def)
  qed
qed simp

end

locale path_leaf_check = leaf_check +
  assumes check_component: "check v = None \<Longrightarrow> path_component v"
begin

lemma check_split_path:
  assumes "check v = None"
  shows "split_on CHR ''/'' (v @ CHR ''/'' # rest) = v # split_on CHR ''/'' rest"
  using check_component [OF assms] by (simp add: path_component_def split_on_append_sep)

end

subsection \<open>The validators meet the interfaces\<close>

lemma inertI:
  "length v \<noteq> 0 \<Longrightarrow> \<not> starts_with ''-'' v \<Longrightarrow> \<not> contains_whitespace_or_control v \<Longrightarrow> argv_inert v"
  by (cases v)
    (auto simp: argv_inert_def contains_whitespace_or_control_def list_all_iff list_ex_iff)

lemma uni_alnum_inert:
  "uni_alnum c \<Longrightarrow> c \<noteq> CHR ''-'' \<and> c \<noteq> CHR ''/'' \<and> c \<noteq> CHR ''.'' \<and> c \<noteq> CHR ''@''"
  by (auto simp: char_classes)

lemma ascii_alnum_inert:
  "is_ascii_alnum c \<Longrightarrow> \<not> js_space c \<and> \<not> is_control c \<and> c \<noteq> CHR ''-'' \<and> c \<noteq> CHR ''/'' \<and> c \<noteq> CHR ''.''"
  by (auto simp: char_classes)

lemma validateDomain_None:
  assumes "validateDomain v = None"
  shows "argv_inert v" and "isValidDomainShape v"
  using assms by (auto simp: validateDomain_def intro!: inertI split: if_splits)

lemma validateAddressForArgv_None:
  assumes "validateAddressForArgv v allow = None"
  shows "argv_inert v" and "count_list v CHR ''@'' = 1"
  using assms by (auto simp: validateAddressForArgv_def Let_def intro!: inertI split: if_splits)

lemma DOMAIN_LABEL_chars:
  "DOMAIN_LABEL_PATTERN w \<Longrightarrow> c \<in> set w \<Longrightarrow> uni_alnum c \<or> c = CHR ''-''"
  by (auto simp: DOMAIN_LABEL_PATTERN_def list_all_iff)

lemma domain_shape_chars:
  assumes "isValidDomainShape v" and "c \<in> set v"
  shows "uni_alnum c \<or> c = CHR ''-'' \<or> c = CHR ''.''"
proof -
  have "c \<in> set (join [CHR ''.''] (split_on CHR ''.'' v))" using assms(2) by (simp add: join_split_on)
  then have "c = CHR ''.'' \<or> (\<exists>w \<in> set (split_on CHR ''.'' v). c \<in> set w)"
    using set_join [of "[CHR ''.'']" "split_on CHR ''.'' v"] by auto
  with assms(1) show ?thesis
    by (auto simp: isValidDomainShape_def Let_def list_all_iff dest: DOMAIN_LABEL_chars split: if_splits)
qed

lemma domain_shape_head:
  assumes "isValidDomainShape v"
  shows "v \<noteq> ''.''" and "v \<noteq> ''..''"
  using assms by (auto simp: isValidDomainShape_def Let_def)

lemma validateQuota_None: "validateQuota v = None \<Longrightarrow> argv_inert v"
proof -
  assume "validateQuota v = None"
  then have q: "QUOTA_PATTERN v" by (auto simp: validateQuota_def split: if_splits)
  have eq: "v = takeWhile is_digit v @ dropWhile is_digit v" by simp
  have digits: "\<forall>c \<in> set (takeWhile is_digit v). is_digit c" by (auto dest: set_takeWhileD)
  have unit: "\<forall>c \<in> set (dropWhile is_digit v). c \<in> set ''bBkKmMgGtT''"
  proof (cases "dropWhile is_digit v")
    case (Cons u us)
    with q show ?thesis by (simp add: QUOTA_PATTERN_def Let_def)
  next
    case Nil
    show ?thesis unfolding Nil by simp
  qed
  have "set v = set (takeWhile is_digit v) \<union> set (dropWhile is_digit v)"
    by (metis eq set_append)
  with digits unit have all: "\<forall>c \<in> set v. is_digit c \<or> c \<in> set ''bBkKmMgGtT''"
    by blast
  have ne: "v \<noteq> []" using q by (auto simp: QUOTA_PATTERN_def Let_def)
  with all show "argv_inert v"
    by (cases v) (auto simp: argv_inert_def list_all_iff char_classes)
qed

lemma validateDkimSelector_None:
  "validateDkimSelector v = None \<Longrightarrow> argv_inert v \<and> path_component v"
  by (cases v)
    (auto simp: validateDkimSelector_def SELECTOR_PATTERN_def argv_inert_def path_component_def
      list_all_iff char_classes split: if_splits)

lemma validateSieveScriptName_None:
  "validateSieveScriptName v = None \<Longrightarrow> argv_inert v \<and> path_component v"
  by (auto simp: validateSieveScriptName_def path_component_def contains_whitespace_or_control_def
      intro!: inertI split: if_splits)

lemma validateDomain_component: "validateDomain v = None \<Longrightarrow> path_component v"
  using domain_shape_chars [of v "CHR ''/''"] domain_shape_head [of v] validateDomain_None [of v]
  by (auto simp: path_component_def argv_inert_def uni_alnum_inert dest: uni_alnum_inert)

lemma ipv4_octet_digits: "ipv4_octet w \<Longrightarrow> w \<noteq> [] \<and> list_all is_digit w"
  by (induction w rule: ipv4_octet.induct) (auto simp: char_classes)

lemma split_chars:
  assumes "list_all (list_all P) (split_on d v)" and "c \<in> set v"
  shows "P c \<or> c = d"
proof -
  have "c \<in> set (join [d] (split_on d v))" using assms(2) by (simp add: join_split_on)
  with set_join [of "[d]" "split_on d v"] assms(1) show ?thesis by (auto simp: list_all_iff)
qed

lemma validateIpAddress_None:
  assumes "validateIpAddress v = None"
  shows "argv_inert v"
proof -
  have nf: "v \<noteq> []" "hd v \<noteq> CHR ''-''" and p: "IPV4_PATTERN v \<or> IPV6_PATTERN v"
    using assms by (cases v; auto simp: validateIpAddress_def split: if_splits)+
  from p have "list_all (list_all is_digit) (split_on CHR ''.'' v) \<or>
      list_all (list_all is_hex) (split_on CHR '':'' v)"
  proof
    assume "IPV4_PATTERN v"
    then have "list_all ipv4_octet (split_on CHR ''.'' v)" by (simp add: IPV4_PATTERN_def Let_def)
    then have "list_all (list_all is_digit) (split_on CHR ''.'' v)"
      by (rule list.pred_mono_strong) (simp add: ipv4_octet_digits)
    then show ?thesis ..
  next
    assume "IPV6_PATTERN v"
    then show ?thesis by (simp add: IPV6_PATTERN_def Let_def list_all_iff)
  qed
  then have "\<forall>c \<in> set v. is_hex c \<or> c = CHR ''.'' \<or> c = CHR '':''"
    using split_chars [of is_digit "CHR ''.''" v] split_chars [of is_hex "CHR '':''" v]
    by (auto simp: is_hex_def)
  with nf show ?thesis by (auto simp: argv_inert_def list_all_iff char_classes)
qed

interpretation domain: path_leaf_check validateDomain
  by unfold_locales (auto intro: validateDomain_None validateDomain_component)

interpretation selector: path_leaf_check validateDkimSelector
  by unfold_locales (auto dest: validateDkimSelector_None)

interpretation sieve_name: path_leaf_check validateSieveScriptName
  by unfold_locales (auto dest: validateSieveScriptName_None)

interpretation address: leaf_check "\<lambda>v. validateAddressForArgv v allow" for allow
  by unfold_locales (rule validateAddressForArgv_None)

interpretation quota: leaf_check validateQuota
  by unfold_locales (rule validateQuota_None)

interpretation ip: leaf_check validateIpAddress
  by unfold_locales (rule validateIpAddress_None)

end
