(* ===== verification/DmsProtocol.thy ===== *)
theory DmsProtocol
  imports Json DmsValidators
begin

text \<open>
  The docker-mailserver half of the broker vocabulary (\<^verbatim>\<open>packages/shared/src/dms.ts\<close>): the closed
  enumerations, one constructor per operation carrying exactly the fields its request schema names,
  and the request schemas themselves.
\<close>

section \<open>Enumerations\<close>

datatype dms_config_file_key =
  PostfixAccounts | PostfixVirtual | DovecotQuotas | PostfixSendAccess | PostfixReceiveAccess

definition DMS_CONFIG_FILE_KEYS :: "(string \<times> dms_config_file_key) list" where
  "DMS_CONFIG_FILE_KEYS =
     [(''postfix-accounts'', PostfixAccounts), (''postfix-virtual'', PostfixVirtual),
      (''dovecot-quotas'', DovecotQuotas), (''postfix-send-access'', PostfixSendAccess),
      (''postfix-receive-access'', PostfixReceiveAccess)]"

definition DMS_ENV_KEYS :: "string list" where
  "DMS_ENV_KEYS =
     [''ENABLE_QUOTAS'', ''ENABLE_RSPAMD'', ''ENABLE_CLAMAV'', ''ENABLE_FAIL2BAN'',
      ''ACCOUNT_PROVISIONER'', ''SSL_TYPE'']"

datatype clamd_verb = CLAMD_PING | CLAMD_VERSION | CLAMD_STATS

definition CLAMD_VERBS :: "(string \<times> clamd_verb) list" where
  "CLAMD_VERBS = [(''PING'', CLAMD_PING), (''VERSION'', CLAMD_VERSION), (''STATS'', CLAMD_STATS)]"

datatype restrict_action = RestrictAdd | RestrictDel | RestrictList

definition RESTRICT_ACTIONS :: "(string \<times> restrict_action) list" where
  "RESTRICT_ACTIONS = [(''add'', RestrictAdd), (''del'', RestrictDel), (''list'', RestrictList)]"

datatype restrict_scope = ScopeSend | ScopeReceive

definition RESTRICT_SCOPES :: "(string \<times> restrict_scope) list" where
  "RESTRICT_SCOPES = [(''send'', ScopeSend), (''receive'', ScopeReceive)]"

datatype mail_data_choice = MailDataDelete | MailDataKeep

definition MailDataChoiceSchema :: "(string \<times> mail_data_choice) list" where
  "MailDataChoiceSchema = [(''delete'', MailDataDelete), (''keep'', MailDataKeep)]"

section \<open>Requests\<close>

text \<open>The operations whose argv a builder produces (\<^verbatim>\<open>DMS_COMMAND_OPERATIONS\<close>) \<dots>\<close>

datatype dms_command_request =
    EmailAdd string string
  | EmailUpdate string string
  | EmailDel "string list" mail_data_choice
  | EmailRestrict restrict_action restrict_scope "string option"
  | EmailList
  | AliasAdd string string
  | AliasDel string string
  | AliasList
  | QuotaSet string string
  | QuotaDel string
  | QuotaGet string
  | DkimGenerate "nat option" "string option" "string list option"
  | Fail2banList
  | Fail2banStatus
  | Fail2banLog
  | Fail2banBan string
  | Fail2banUnban string
  | ClamdControl clamd_verb
  | ClamavUpdate
  | ClamavLog
  | SieveList string
  | SieveGet string string
  | SievePut string string string
  | SieveActivate string string
  | SieveDeactivate string
  | QueueList

text \<open>\<dots> and the three state reads.\<close>

datatype dms_request =
    DmsFileRead dms_config_file_key
  | DmsEnvRead
  | DmsDkimRecordRead string string
  | DmsCommand dms_command_request

section \<open>Fields\<close>

abbreviation AddressField :: "json_object \<Rightarrow> string \<Rightarrow> string option" where
  "AddressField \<equiv> string_field (\<lambda>v. validateAddressForArgv v False)"

abbreviation CatchAllAddressField :: "json_object \<Rightarrow> string \<Rightarrow> string option" where
  "CatchAllAddressField \<equiv> string_field (\<lambda>v. validateAddressForArgv v True)"

abbreviation PasswordField :: "json_object \<Rightarrow> string \<Rightarrow> string option" where
  "PasswordField \<equiv> string_field validatePassword"

abbreviation QuotaField :: "json_object \<Rightarrow> string \<Rightarrow> string option" where
  "QuotaField \<equiv> string_field validateQuota"

abbreviation IpField :: "json_object \<Rightarrow> string \<Rightarrow> string option" where
  "IpField \<equiv> string_field validateIpAddress"

abbreviation DomainField :: "json_object \<Rightarrow> string \<Rightarrow> string option" where
  "DomainField \<equiv> string_field validateDomain"

abbreviation DkimSelectorField :: "json_object \<Rightarrow> string \<Rightarrow> string option" where
  "DkimSelectorField \<equiv> string_field validateDkimSelector"

abbreviation SieveScriptNameField :: "json_object \<Rightarrow> string \<Rightarrow> string option" where
  "SieveScriptNameField \<equiv> string_field validateSieveScriptName"

definition DkimKeysizeField :: "json_object \<Rightarrow> string \<Rightarrow> nat option" where
  "DkimKeysizeField obj k =
     (case map_of obj k of
        Some (JNum q) \<Rightarrow>
          (if of_int \<lfloor>q\<rfloor> = q \<and> 0 \<le> q \<and> validateDkimKeysize (nat \<lfloor>q\<rfloor>) = None then Some (nat \<lfloor>q\<rfloor>) else None)
      | _ \<Rightarrow> None)"

text \<open>Combining members: the request is built when every member parses.\<close>

definition build1 :: "('a \<Rightarrow> 'r) \<Rightarrow> 'a option \<Rightarrow> 'r option" where
  "build1 f a = map_option f a"

definition build2 :: "('a \<Rightarrow> 'b \<Rightarrow> 'r) \<Rightarrow> 'a option \<Rightarrow> 'b option \<Rightarrow> 'r option" where
  "build2 f a b = Option.bind a (\<lambda>x. map_option (f x) b)"

definition build3 :: "('a \<Rightarrow> 'b \<Rightarrow> 'c \<Rightarrow> 'r) \<Rightarrow> 'a option \<Rightarrow> 'b option \<Rightarrow> 'c option \<Rightarrow> 'r option" where
  "build3 f a b c = Option.bind a (\<lambda>x. Option.bind b (\<lambda>y. map_option (f x y) c))"

lemmas build_simps = build1_def build2_def build3_def bind_eq_Some_conv

section \<open>Request schemas\<close>

definition DmsFileReadRequestSchema :: "json_object \<Rightarrow> dms_request option" where
  "DmsFileReadRequestSchema obj = strict [''file''] obj
     (build1 DmsFileRead (enum_field DMS_CONFIG_FILE_KEYS obj ''file''))"

definition DmsEnvReadRequestSchema :: "json_object \<Rightarrow> dms_request option" where
  "DmsEnvReadRequestSchema obj = strict [] obj (Some DmsEnvRead)"

definition DmsDkimRecordReadRequestSchema :: "json_object \<Rightarrow> dms_request option" where
  "DmsDkimRecordReadRequestSchema obj = strict [''domain'', ''selector''] obj
     (build2 DmsDkimRecordRead (DomainField obj ''domain'') (DkimSelectorField obj ''selector''))"

definition DmsEmailAddRequestSchema :: "json_object \<Rightarrow> dms_command_request option" where
  "DmsEmailAddRequestSchema obj = strict [''email'', ''password''] obj
     (build2 EmailAdd (AddressField obj ''email'') (PasswordField obj ''password''))"

definition DmsEmailUpdateRequestSchema :: "json_object \<Rightarrow> dms_command_request option" where
  "DmsEmailUpdateRequestSchema obj = strict [''email'', ''password''] obj
     (build2 EmailUpdate (AddressField obj ''email'') (PasswordField obj ''password''))"

definition DmsEmailDeleteRequestSchema :: "json_object \<Rightarrow> dms_command_request option" where
  "DmsEmailDeleteRequestSchema obj = strict [''emails'', ''mailData''] obj
     (build2 EmailDel (nonempty_array_field (\<lambda>v. validateAddressForArgv v False) obj ''emails'')
        (enum_field MailDataChoiceSchema obj ''mailData''))"

definition DmsEmailRestrictRequestSchema :: "json_object \<Rightarrow> dms_command_request option" where
  "DmsEmailRestrictRequestSchema obj = strict [''action'', ''scope'', ''email''] obj
     (Option.bind
        (build3 (\<lambda>a s e. (a, s, e)) (enum_field RESTRICT_ACTIONS obj ''action'')
           (enum_field RESTRICT_SCOPES obj ''scope'')
           (optional_field CatchAllAddressField obj ''email''))
        (\<lambda>(action, scope, email).
           if action \<noteq> RestrictList \<and> email = None then None
           else Some (EmailRestrict action scope email)))"

definition DmsEmailListRequestSchema :: "json_object \<Rightarrow> dms_command_request option" where
  "DmsEmailListRequestSchema obj = strict [] obj (Some EmailList)"

definition DmsAliasAddRequestSchema :: "json_object \<Rightarrow> dms_command_request option" where
  "DmsAliasAddRequestSchema obj = strict [''alias'', ''recipient''] obj
     (build2 AliasAdd (CatchAllAddressField obj ''alias'') (AddressField obj ''recipient''))"

definition DmsAliasDeleteRequestSchema :: "json_object \<Rightarrow> dms_command_request option" where
  "DmsAliasDeleteRequestSchema obj = strict [''alias'', ''recipient''] obj
     (build2 AliasDel (CatchAllAddressField obj ''alias'') (AddressField obj ''recipient''))"

definition DmsAliasListRequestSchema :: "json_object \<Rightarrow> dms_command_request option" where
  "DmsAliasListRequestSchema obj = strict [] obj (Some AliasList)"

definition DmsQuotaSetRequestSchema :: "json_object \<Rightarrow> dms_command_request option" where
  "DmsQuotaSetRequestSchema obj = strict [''email'', ''quota''] obj
     (build2 QuotaSet (AddressField obj ''email'') (QuotaField obj ''quota''))"

definition DmsQuotaDeleteRequestSchema :: "json_object \<Rightarrow> dms_command_request option" where
  "DmsQuotaDeleteRequestSchema obj = strict [''email''] obj (build1 QuotaDel (AddressField obj ''email''))"

definition DmsQuotaGetRequestSchema :: "json_object \<Rightarrow> dms_command_request option" where
  "DmsQuotaGetRequestSchema obj = strict [''email''] obj (build1 QuotaGet (AddressField obj ''email''))"

definition DmsDkimGenerateRequestSchema :: "json_object \<Rightarrow> dms_command_request option" where
  "DmsDkimGenerateRequestSchema obj = strict [''keysize'', ''selector'', ''domains''] obj
     (build3 DkimGenerate (optional_field DkimKeysizeField obj ''keysize'')
        (optional_field DkimSelectorField obj ''selector'')
        (optional_field (nonempty_array_field validateDomain) obj ''domains''))"

definition DmsFail2banListRequestSchema :: "json_object \<Rightarrow> dms_command_request option" where
  "DmsFail2banListRequestSchema obj = strict [] obj (Some Fail2banList)"

definition DmsFail2banStatusRequestSchema :: "json_object \<Rightarrow> dms_command_request option" where
  "DmsFail2banStatusRequestSchema obj = strict [] obj (Some Fail2banStatus)"

definition DmsFail2banLogRequestSchema :: "json_object \<Rightarrow> dms_command_request option" where
  "DmsFail2banLogRequestSchema obj = strict [] obj (Some Fail2banLog)"

definition DmsFail2banBanRequestSchema :: "json_object \<Rightarrow> dms_command_request option" where
  "DmsFail2banBanRequestSchema obj = strict [''ip''] obj (build1 Fail2banBan (IpField obj ''ip''))"

definition DmsFail2banUnbanRequestSchema :: "json_object \<Rightarrow> dms_command_request option" where
  "DmsFail2banUnbanRequestSchema obj = strict [''ip''] obj (build1 Fail2banUnban (IpField obj ''ip''))"

definition DmsClamdControlRequestSchema :: "json_object \<Rightarrow> dms_command_request option" where
  "DmsClamdControlRequestSchema obj = strict [''verb''] obj
     (build1 ClamdControl (enum_field CLAMD_VERBS obj ''verb''))"

definition DmsClamavUpdateRequestSchema :: "json_object \<Rightarrow> dms_command_request option" where
  "DmsClamavUpdateRequestSchema obj = strict [] obj (Some ClamavUpdate)"

definition DmsClamavLogRequestSchema :: "json_object \<Rightarrow> dms_command_request option" where
  "DmsClamavLogRequestSchema obj = strict [] obj (Some ClamavLog)"

definition DmsSieveListRequestSchema :: "json_object \<Rightarrow> dms_command_request option" where
  "DmsSieveListRequestSchema obj = strict [''user''] obj (build1 SieveList (AddressField obj ''user''))"

definition DmsSieveGetRequestSchema :: "json_object \<Rightarrow> dms_command_request option" where
  "DmsSieveGetRequestSchema obj = strict [''user'', ''script''] obj
     (build2 SieveGet (AddressField obj ''user'') (SieveScriptNameField obj ''script''))"

definition DmsSievePutRequestSchema :: "json_object \<Rightarrow> dms_command_request option" where
  "DmsSievePutRequestSchema obj = strict [''user'', ''script'', ''content''] obj
     (build3 SievePut (AddressField obj ''user'') (SieveScriptNameField obj ''script'')
        (string_field no_check obj ''content''))"

definition DmsSieveActivateRequestSchema :: "json_object \<Rightarrow> dms_command_request option" where
  "DmsSieveActivateRequestSchema obj = strict [''user'', ''script''] obj
     (build2 SieveActivate (AddressField obj ''user'') (SieveScriptNameField obj ''script''))"

definition DmsSieveDeactivateRequestSchema :: "json_object \<Rightarrow> dms_command_request option" where
  "DmsSieveDeactivateRequestSchema obj = strict [''user''] obj
     (build1 SieveDeactivate (AddressField obj ''user''))"

definition DmsQueueListRequestSchema :: "json_object \<Rightarrow> dms_command_request option" where
  "DmsQueueListRequestSchema obj = strict [] obj (Some QueueList)"

lemmas dms_command_schema_defs =
  DmsEmailAddRequestSchema_def DmsEmailUpdateRequestSchema_def DmsEmailDeleteRequestSchema_def
  DmsEmailRestrictRequestSchema_def DmsEmailListRequestSchema_def DmsAliasAddRequestSchema_def
  DmsAliasDeleteRequestSchema_def DmsAliasListRequestSchema_def DmsQuotaSetRequestSchema_def
  DmsQuotaDeleteRequestSchema_def DmsQuotaGetRequestSchema_def DmsDkimGenerateRequestSchema_def
  DmsFail2banListRequestSchema_def DmsFail2banStatusRequestSchema_def DmsFail2banLogRequestSchema_def
  DmsFail2banBanRequestSchema_def DmsFail2banUnbanRequestSchema_def DmsClamdControlRequestSchema_def
  DmsClamavUpdateRequestSchema_def DmsClamavLogRequestSchema_def DmsSieveListRequestSchema_def
  DmsSieveGetRequestSchema_def DmsSievePutRequestSchema_def DmsSieveActivateRequestSchema_def
  DmsSieveDeactivateRequestSchema_def DmsQueueListRequestSchema_def

definition DMS_COMMAND_SCHEMAS :: "(string \<times> (json_object \<Rightarrow> dms_command_request option)) list" where
  "DMS_COMMAND_SCHEMAS =
     [(''dms.email.add'', DmsEmailAddRequestSchema),
      (''dms.email.update'', DmsEmailUpdateRequestSchema),
      (''dms.email.del'', DmsEmailDeleteRequestSchema),
      (''dms.email.restrict'', DmsEmailRestrictRequestSchema),
      (''dms.email.list'', DmsEmailListRequestSchema),
      (''dms.alias.add'', DmsAliasAddRequestSchema),
      (''dms.alias.del'', DmsAliasDeleteRequestSchema),
      (''dms.alias.list'', DmsAliasListRequestSchema),
      (''dms.quota.set'', DmsQuotaSetRequestSchema),
      (''dms.quota.del'', DmsQuotaDeleteRequestSchema),
      (''dms.quota.get'', DmsQuotaGetRequestSchema),
      (''dms.dkim.generate'', DmsDkimGenerateRequestSchema),
      (''dms.fail2ban.list'', DmsFail2banListRequestSchema),
      (''dms.fail2ban.status'', DmsFail2banStatusRequestSchema),
      (''dms.fail2ban.log'', DmsFail2banLogRequestSchema),
      (''dms.fail2ban.ban'', DmsFail2banBanRequestSchema),
      (''dms.fail2ban.unban'', DmsFail2banUnbanRequestSchema),
      (''dms.clamd.control'', DmsClamdControlRequestSchema),
      (''dms.clamav.update'', DmsClamavUpdateRequestSchema),
      (''dms.clamav.log'', DmsClamavLogRequestSchema),
      (''dms.sieve.list'', DmsSieveListRequestSchema),
      (''dms.sieve.get'', DmsSieveGetRequestSchema),
      (''dms.sieve.put'', DmsSievePutRequestSchema),
      (''dms.sieve.activate'', DmsSieveActivateRequestSchema),
      (''dms.sieve.deactivate'', DmsSieveDeactivateRequestSchema),
      (''dms.queue.list'', DmsQueueListRequestSchema)]"

text \<open>The three state reads, then the command operations, in the order of the source.\<close>

definition DMS_REQUEST_SCHEMAS :: "(string \<times> (json_object \<Rightarrow> dms_request option)) list" where
  "DMS_REQUEST_SCHEMAS =
     [(''dms.file.read'', DmsFileReadRequestSchema),
      (''dms.env.read'', DmsEnvReadRequestSchema),
      (''dms.dkim.record.read'', DmsDkimRecordReadRequestSchema)] @
     map (\<lambda>(op, schema). (op, \<lambda>obj. map_option DmsCommand (schema obj))) DMS_COMMAND_SCHEMAS"

end
