(* ===== verification/DmsCommands.thy ===== *)
theory DmsCommands
  imports DmsProtocol
begin

text \<open>
  The argv builders (\<^verbatim>\<open>apps/broker/src/dms/commands.ts\<close>): every docker-mailserver operation is a
  fixed command whose leaf values are validated again here, whatever the request schema did.  A
  builder returns the first problem it finds or the argv and the standard input.  The builders take
  the request's fields as arguments; a field whose type is a closed enumeration needs no run-time
  membership test in the model, because the type has no other inhabitant.
\<close>

record dms_command =
  cmd_argv :: "string list"
  cmd_stdin :: "string option"

type_synonym command_result = "string + dms_command"

definition ok :: "string list \<Rightarrow> string option \<Rightarrow> command_result" where
  "ok argv stdin = Inr \<lparr>cmd_argv = argv, cmd_stdin = stdin\<rparr>"

text \<open>\<^verbatim>\<open>const e = check(v); if (e) return err(e);\<close> followed by the rest of the builder.\<close>

definition guard :: "string option \<Rightarrow> command_result \<Rightarrow> command_result" where
  "guard problem rest = (case problem of Some e \<Rightarrow> Inl e | None \<Rightarrow> rest)"

text \<open>The \<^verbatim>\<open>for\<close> loops over a list of values stop at the first problem.\<close>

fun first_problem :: "(string \<Rightarrow> string option) \<Rightarrow> string list \<Rightarrow> string option" where
  "first_problem check [] = None"
| "first_problem check (v # vs) = (case check v of Some e \<Rightarrow> Some e | None \<Rightarrow> first_problem check vs)"

definition passwordStdin :: "string \<Rightarrow> string" where
  "passwordStdin password = password @ [newline] @ password @ [newline]"

section \<open>Accounts\<close>

definition buildEmailAddCommand :: "string \<Rightarrow> string \<Rightarrow> command_result" where
  "buildEmailAddCommand email password =
     guard (validateAddressForArgv email False)
       (guard (validatePassword password)
         (ok [''setup'', ''email'', ''add'', email] (Some (passwordStdin password))))"

definition buildEmailUpdateCommand :: "string \<Rightarrow> string \<Rightarrow> command_result" where
  "buildEmailUpdateCommand email password =
     guard (validateAddressForArgv email False)
       (guard (validatePassword password)
         (ok [''setup'', ''email'', ''update'', email] (Some (passwordStdin password))))"

definition buildEmailDeleteCommand :: "string list \<Rightarrow> mail_data_choice \<Rightarrow> command_result" where
  "buildEmailDeleteCommand emails mailData =
     (if length emails = 0 then Inl ''at least one email address is required''
      else guard (first_problem (\<lambda>email. validateAddressForArgv email False) emails)
        (let flag = (case mailData of MailDataDelete \<Rightarrow> ''-y'' | MailDataKeep \<Rightarrow> ''-n'')
         in ok ([''setup'', ''email'', ''del'', flag] @ emails) None))"

definition restrict_action_name :: "restrict_action \<Rightarrow> string" where
  "restrict_action_name a =
     (case a of RestrictAdd \<Rightarrow> ''add'' | RestrictDel \<Rightarrow> ''del'' | RestrictList \<Rightarrow> ''list'')"

definition restrict_scope_name :: "restrict_scope \<Rightarrow> string" where
  "restrict_scope_name s = (case s of ScopeSend \<Rightarrow> ''send'' | ScopeReceive \<Rightarrow> ''receive'')"

definition buildEmailRestrictCommand ::
  "restrict_action \<Rightarrow> restrict_scope \<Rightarrow> string option \<Rightarrow> command_result" where
  "buildEmailRestrictCommand action scope email =
     (case email of
        None \<Rightarrow>
          (if action \<noteq> RestrictList
           then Inl (''email is required for action '' @ in_quotes (restrict_action_name action))
           else ok [''setup'', ''email'', ''restrict'', restrict_action_name action,
                    restrict_scope_name scope] None)
      | Some e \<Rightarrow>
          guard (validateAddressForArgv e False)
            (ok [''setup'', ''email'', ''restrict'', restrict_action_name action,
                 restrict_scope_name scope, e] None))"

definition buildEmailListCommand :: command_result where
  "buildEmailListCommand = ok [''setup'', ''email'', ''list''] None"

section \<open>Aliases and quotas\<close>

definition buildAliasAddCommand :: "string \<Rightarrow> string \<Rightarrow> command_result" where
  "buildAliasAddCommand alias recipient =
     guard (validateAddressForArgv alias True)
       (guard (validateAddressForArgv recipient False)
         (ok [''setup'', ''alias'', ''add'', alias, recipient] None))"

definition buildAliasDeleteCommand :: "string \<Rightarrow> string \<Rightarrow> command_result" where
  "buildAliasDeleteCommand alias recipient =
     guard (validateAddressForArgv alias True)
       (guard (validateAddressForArgv recipient False)
         (ok [''setup'', ''alias'', ''del'', alias, recipient] None))"

definition buildAliasListCommand :: command_result where
  "buildAliasListCommand = ok [''setup'', ''alias'', ''list''] None"

definition buildQuotaSetCommand :: "string \<Rightarrow> string \<Rightarrow> command_result" where
  "buildQuotaSetCommand email quota =
     guard (validateAddressForArgv email False)
       (guard (validateQuota quota)
         (ok [''setup'', ''quota'', ''set'', email, quota] None))"

definition buildQuotaDeleteCommand :: "string \<Rightarrow> command_result" where
  "buildQuotaDeleteCommand email =
     guard (validateAddressForArgv email False) (ok [''setup'', ''quota'', ''del'', email] None)"

definition buildDoveadmQuotaGetCommand :: "string \<Rightarrow> command_result" where
  "buildDoveadmQuotaGetCommand email =
     guard (validateAddressForArgv email False)
       (ok [''doveadm'', ''-f'', ''json'', ''quota'', ''get'', ''-u'', email] None)"

section \<open>DKIM\<close>

text \<open>
  The three optional parts are appended in turn; the first one that does not validate ends the
  builder.  \<open>Inl\<close> carries that message, \<open>Inr\<close> the argv so far.
\<close>

definition dkim_keysize_part :: "nat option \<Rightarrow> string list \<Rightarrow> string + string list" where
  "dkim_keysize_part keysize argv =
     (case keysize of
        None \<Rightarrow> Inr argv
      | Some k \<Rightarrow> (case validateDkimKeysize k of
                     Some e \<Rightarrow> Inl e
                   | None \<Rightarrow> Inr (argv @ [''keysize'', show_nat k])))"

definition dkim_selector_part :: "string option \<Rightarrow> string list \<Rightarrow> string + string list" where
  "dkim_selector_part selector argv =
     (case selector of
        None \<Rightarrow> Inr argv
      | Some s \<Rightarrow> (case validateDkimSelector s of
                     Some e \<Rightarrow> Inl e
                   | None \<Rightarrow> Inr (argv @ [''selector'', s])))"

definition dkim_domains_part :: "string list option \<Rightarrow> string list \<Rightarrow> string + string list" where
  "dkim_domains_part domains argv =
     (case domains of
        None \<Rightarrow> Inr argv
      | Some ds \<Rightarrow>
          (if length ds = 0 then Inl ''domains must not be an empty list''
           else (case first_problem validateDomain ds of
                   Some e \<Rightarrow> Inl e
                 | None \<Rightarrow> Inr (argv @ [''domain'', join '','' ds]))))"

definition sum_bind :: "'e + 'a \<Rightarrow> ('a \<Rightarrow> 'e + 'b) \<Rightarrow> 'e + 'b" where
  "sum_bind m f = (case m of Inl e \<Rightarrow> Inl e | Inr x \<Rightarrow> f x)"

definition buildConfigDkimCommand ::
  "nat option \<Rightarrow> string option \<Rightarrow> string list option \<Rightarrow> command_result" where
  "buildConfigDkimCommand keysize selector domains =
     sum_bind (dkim_keysize_part keysize [''setup'', ''config'', ''dkim'']) (\<lambda>argv.
     sum_bind (dkim_selector_part selector argv) (\<lambda>argv.
     sum_bind (dkim_domains_part domains argv) (\<lambda>argv. ok argv None)))"

section \<open>Fail2ban, ClamAV\<close>

definition buildFail2banListCommand :: command_result where
  "buildFail2banListCommand = ok [''setup'', ''fail2ban''] None"

definition buildFail2banBanCommand :: "string \<Rightarrow> command_result" where
  "buildFail2banBanCommand ip =
     guard (validateIpAddress ip) (ok [''setup'', ''fail2ban'', ''ban'', ip] None)"

definition buildFail2banUnbanCommand :: "string \<Rightarrow> command_result" where
  "buildFail2banUnbanCommand ip =
     guard (validateIpAddress ip) (ok [''setup'', ''fail2ban'', ''unban'', ip] None)"

definition buildFail2banLogCommand :: command_result where
  "buildFail2banLogCommand = ok [''setup'', ''fail2ban'', ''log''] None"

definition buildFail2banStatusCommand :: command_result where
  "buildFail2banStatusCommand = ok [''setup'', ''fail2ban'', ''status''] None"

definition CLAMD_SOCKET_PATH :: string where
  "CLAMD_SOCKET_PATH = ''/var/run/clamav/clamd.ctl''"

definition clamd_verb_name :: "clamd_verb \<Rightarrow> string" where
  "clamd_verb_name v =
     (case v of CLAMD_PING \<Rightarrow> ''PING'' | CLAMD_VERSION \<Rightarrow> ''VERSION'' | CLAMD_STATS \<Rightarrow> ''STATS'')"

definition buildClamdCommand :: "clamd_verb \<Rightarrow> command_result" where
  "buildClamdCommand verb =
     ok [''socat'', ''-'', ''UNIX-CONNECT:'' @ CLAMD_SOCKET_PATH] (Some (clamd_verb_name verb @ [newline]))"

definition buildFreshclamCommand :: command_result where
  "buildFreshclamCommand = ok [''freshclam''] None"

definition CLAMAV_LOG_TAIL_LINES :: string where
  "CLAMAV_LOG_TAIL_LINES = ''5000''"

definition buildClamavLogTailCommand :: command_result where
  "buildClamavLogTailCommand = ok [''tail'', ''-n'', CLAMAV_LOG_TAIL_LINES, ''/var/log/mail/mail.log''] None"

section \<open>Sieve and the queue\<close>

definition buildSieveListCommand :: "string \<Rightarrow> command_result" where
  "buildSieveListCommand user =
     guard (validateAddressForArgv user False)
       (ok [''doveadm'', ''-f'', ''json'', ''sieve'', ''list'', ''-u'', user] None)"

definition buildSieveGetCommand :: "string \<Rightarrow> string \<Rightarrow> command_result" where
  "buildSieveGetCommand user script =
     guard (validateAddressForArgv user False)
       (guard (validateSieveScriptName script)
         (ok [''doveadm'', ''sieve'', ''get'', ''-u'', user, script] None))"

definition buildSievePutCommand :: "string \<Rightarrow> string \<Rightarrow> string \<Rightarrow> command_result" where
  "buildSievePutCommand user script content =
     guard (validateAddressForArgv user False)
       (guard (validateSieveScriptName script)
         (ok [''doveadm'', ''sieve'', ''put'', ''-u'', user, script] (Some content)))"

definition buildSieveActivateCommand :: "string \<Rightarrow> string \<Rightarrow> command_result" where
  "buildSieveActivateCommand user script =
     guard (validateAddressForArgv user False)
       (guard (validateSieveScriptName script)
         (ok [''doveadm'', ''sieve'', ''activate'', ''-u'', user, script] None))"

definition buildSieveDeactivateCommand :: "string \<Rightarrow> command_result" where
  "buildSieveDeactivateCommand user =
     guard (validateAddressForArgv user False)
       (ok [''doveadm'', ''sieve'', ''deactivate'', ''-u'', user] None)"

definition buildPostqueueJsonCommand :: command_result where
  "buildPostqueueJsonCommand = ok [''postqueue'', ''-j''] None"

lemmas builder_defs =
  buildEmailAddCommand_def buildEmailUpdateCommand_def buildEmailDeleteCommand_def
  buildEmailRestrictCommand_def buildEmailListCommand_def buildAliasAddCommand_def
  buildAliasDeleteCommand_def buildAliasListCommand_def buildQuotaSetCommand_def
  buildQuotaDeleteCommand_def buildDoveadmQuotaGetCommand_def buildConfigDkimCommand_def
  buildFail2banListCommand_def buildFail2banBanCommand_def buildFail2banUnbanCommand_def
  buildFail2banLogCommand_def buildFail2banStatusCommand_def buildClamdCommand_def
  buildFreshclamCommand_def buildClamavLogTailCommand_def buildSieveListCommand_def
  buildSieveGetCommand_def buildSievePutCommand_def buildSieveActivateCommand_def
  buildSieveDeactivateCommand_def buildPostqueueJsonCommand_def

section \<open>The table of builders\<close>

text \<open>\<^verbatim>\<open>DMS_COMMAND_BUILDERS\<close> of \<^verbatim>\<open>dms/handlers.ts\<close>, indexed by the operation.\<close>

fun DMS_COMMAND_BUILDERS :: "dms_command_request \<Rightarrow> command_result" where
  "DMS_COMMAND_BUILDERS (EmailAdd email password) = buildEmailAddCommand email password"
| "DMS_COMMAND_BUILDERS (EmailUpdate email password) = buildEmailUpdateCommand email password"
| "DMS_COMMAND_BUILDERS (EmailDel emails mailData) = buildEmailDeleteCommand emails mailData"
| "DMS_COMMAND_BUILDERS (EmailRestrict action scope email) = buildEmailRestrictCommand action scope email"
| "DMS_COMMAND_BUILDERS EmailList = buildEmailListCommand"
| "DMS_COMMAND_BUILDERS (AliasAdd alias recipient) = buildAliasAddCommand alias recipient"
| "DMS_COMMAND_BUILDERS (AliasDel alias recipient) = buildAliasDeleteCommand alias recipient"
| "DMS_COMMAND_BUILDERS AliasList = buildAliasListCommand"
| "DMS_COMMAND_BUILDERS (QuotaSet email quota) = buildQuotaSetCommand email quota"
| "DMS_COMMAND_BUILDERS (QuotaDel email) = buildQuotaDeleteCommand email"
| "DMS_COMMAND_BUILDERS (QuotaGet email) = buildDoveadmQuotaGetCommand email"
| "DMS_COMMAND_BUILDERS (DkimGenerate keysize selector domains) = buildConfigDkimCommand keysize selector domains"
| "DMS_COMMAND_BUILDERS Fail2banList = buildFail2banListCommand"
| "DMS_COMMAND_BUILDERS Fail2banStatus = buildFail2banStatusCommand"
| "DMS_COMMAND_BUILDERS Fail2banLog = buildFail2banLogCommand"
| "DMS_COMMAND_BUILDERS (Fail2banBan ip) = buildFail2banBanCommand ip"
| "DMS_COMMAND_BUILDERS (Fail2banUnban ip) = buildFail2banUnbanCommand ip"
| "DMS_COMMAND_BUILDERS (ClamdControl verb) = buildClamdCommand verb"
| "DMS_COMMAND_BUILDERS ClamavUpdate = buildFreshclamCommand"
| "DMS_COMMAND_BUILDERS ClamavLog = buildClamavLogTailCommand"
| "DMS_COMMAND_BUILDERS (SieveList user) = buildSieveListCommand user"
| "DMS_COMMAND_BUILDERS (SieveGet user script) = buildSieveGetCommand user script"
| "DMS_COMMAND_BUILDERS (SievePut user script content) = buildSievePutCommand user script content"
| "DMS_COMMAND_BUILDERS (SieveActivate user script) = buildSieveActivateCommand user script"
| "DMS_COMMAND_BUILDERS (SieveDeactivate user) = buildSieveDeactivateCommand user"
| "DMS_COMMAND_BUILDERS QueueList = buildPostqueueJsonCommand"

section \<open>Lemmas\<close>

lemma ok_Inr [simp]: "ok argv stdin = Inr c \<longleftrightarrow> c = \<lparr>cmd_argv = argv, cmd_stdin = stdin\<rparr>"
  by (auto simp: ok_def)

lemma guard_Inr [simp]: "guard problem rest = Inr c \<longleftrightarrow> problem = None \<and> rest = Inr c"
  by (auto simp: guard_def split: option.split)

lemma sum_bind_Inr [simp]: "sum_bind m f = Inr c \<longleftrightarrow> (\<exists>x. m = Inr x \<and> f x = Inr c)"
  by (auto simp: sum_bind_def split: sum.split)

lemma first_problem_None: "first_problem check vs = None \<longleftrightarrow> list_all (\<lambda>v. check v = None) vs"
  by (induction vs) (auto split: option.split)

lemma dkim_keysize_part_Inr:
  "dkim_keysize_part k argv = Inr argv' \<longleftrightarrow>
     (k = None \<and> argv' = argv) \<or>
     (\<exists>n \<in> set VALID_DKIM_KEYSIZES. k = Some n \<and> argv' = argv @ [''keysize'', show_nat n])"
  by (auto simp: dkim_keysize_part_def validateDkimKeysize_def split: option.splits if_splits)

lemma dkim_selector_part_Inr:
  "dkim_selector_part s argv = Inr argv' \<longleftrightarrow>
     (s = None \<and> argv' = argv) \<or>
     (\<exists>v. s = Some v \<and> validateDkimSelector v = None \<and> argv' = argv @ [''selector'', v])"
  by (auto simp: dkim_selector_part_def split: option.splits)

lemma dkim_domains_part_Inr:
  "dkim_domains_part d argv = Inr argv' \<longleftrightarrow>
     (d = None \<and> argv' = argv) \<or>
     (\<exists>vs. d = Some vs \<and> vs \<noteq> [] \<and> list_all (\<lambda>v. validateDomain v = None) vs \<and>
        argv' = argv @ [''domain'', join '','' vs])"
  by (auto simp: dkim_domains_part_def first_problem_None [symmetric] split: option.splits)

lemmas dkim_part_Inr = dkim_keysize_part_Inr dkim_selector_part_Inr dkim_domains_part_Inr

section \<open>What reaches the command line\<close>

text \<open>
  The words the broker itself puts on a command line, one list per command.  Flags occur here and
  nowhere else.
\<close>

definition BROKER_WORDS :: "string list list" where
  "BROKER_WORDS =
     [[''setup'', ''email'', ''add''], [''setup'', ''email'', ''update''],
      [''setup'', ''email'', ''del'', ''-y''], [''setup'', ''email'', ''del'', ''-n''],
      [''setup'', ''email'', ''restrict''], [''setup'', ''email'', ''list''],
      [''setup'', ''alias'', ''add''], [''setup'', ''alias'', ''del''], [''setup'', ''alias'', ''list''],
      [''setup'', ''quota'', ''set''], [''setup'', ''quota'', ''del''],
      [''setup'', ''config'', ''dkim''], [''setup'', ''fail2ban''],
      [''doveadm'', ''-f'', ''json'', ''quota'', ''get'', ''-u''],
      [''doveadm'', ''-f'', ''json'', ''sieve'', ''list'', ''-u''],
      [''doveadm'', ''sieve'', ''get'', ''-u''], [''doveadm'', ''sieve'', ''put'', ''-u''],
      [''doveadm'', ''sieve'', ''activate'', ''-u''], [''doveadm'', ''sieve'', ''deactivate'', ''-u''],
      [''socat'', ''-''], [''freshclam''], [''tail'', ''-n''], [''postqueue'', ''-j'']]"

text \<open>An argument vector is safe when it is broker words followed by inert leaves only.\<close>

definition safe_argv :: "string list \<Rightarrow> bool" where
  "safe_argv argv \<longleftrightarrow>
     list_ex (\<lambda>ws. starts_with ws argv \<and> list_all argv_inert (drop (length ws) argv)) BROKER_WORDS"

lemma safe_argv_split:
  assumes "take n argv \<in> set BROKER_WORDS" and "list_all argv_inert (drop n argv)"
  shows "safe_argv argv"
proof -
  have "starts_with (take n argv) argv" by (simp add: starts_with_def min_def)
  moreover have "drop (length (take n argv)) argv = drop n argv" by (cases "n \<le> length argv") auto
  ultimately show ?thesis using assms by (auto simp: safe_argv_def list_ex_iff)
qed

lemma address_inert: "validateAddressForArgv v allow = None \<Longrightarrow> argv_inert v"
  by (rule address.check_inert)

lemma literal_inert:
  "argv_inert ''ban''" "argv_inert ''unban''" "argv_inert ''log''" "argv_inert ''status''"
  "argv_inert ''add''" "argv_inert ''del''" "argv_inert ''list''" "argv_inert ''send''"
  "argv_inert ''receive''" "argv_inert ''5000''" "argv_inert ''/var/log/mail/mail.log''"
  "argv_inert ''UNIX-CONNECT:/var/run/clamav/clamd.ctl''"
  "argv_inert ''keysize''" "argv_inert ''selector''" "argv_inert ''domain''"
  by code_simp+

lemma restrict_names_inert: "argv_inert (restrict_action_name a)" "argv_inert (restrict_scope_name s)"
  by (cases a; simp add: restrict_action_name_def literal_inert)
    (cases s; simp add: restrict_scope_name_def literal_inert)

lemma show_keysizes_inert: "list_all argv_inert (map show_nat VALID_DKIM_KEYSIZES)"
  by code_simp

lemma keysize_inert: "n \<in> set VALID_DKIM_KEYSIZES \<Longrightarrow> argv_inert (show_nat n)"
  using show_keysizes_inert by (simp add: list_all_iff)

lemma email_del_safe:
  assumes "buildEmailDeleteCommand emails mailData = Inr c"
  shows "safe_argv (cmd_argv c)"
proof (rule safe_argv_split [where n = 4])
  show "take 4 (cmd_argv c) \<in> set BROKER_WORDS"
    using assms by (cases mailData)
      (auto simp: buildEmailDeleteCommand_def BROKER_WORDS_def split: if_splits)
  show "list_all argv_inert (drop 4 (cmd_argv c))"
    using assms by (auto simp: buildEmailDeleteCommand_def first_problem_None
        dest: address.check_list_inert split: if_splits)
qed

lemma dkim_leaves:
  assumes "buildConfigDkimCommand keysize selector domains = Inr c"
  obtains leaves where "cmd_argv c = [''setup'', ''config'', ''dkim''] @ leaves"
    and "list_all argv_inert leaves"
proof -
  from assms obtain a b where
    a: "dkim_keysize_part keysize [''setup'', ''config'', ''dkim''] = Inr a"
    and b: "dkim_selector_part selector a = Inr b"
    and c: "dkim_domains_part domains b = Inr (cmd_argv c)"
    by (auto simp: buildConfigDkimCommand_def)
  from a obtain xs where xs: "a = [''setup'', ''config'', ''dkim''] @ xs" "list_all argv_inert xs"
    by (auto simp: dkim_keysize_part_Inr literal_inert keysize_inert)
  from b obtain ys where ys: "b = a @ ys" "list_all argv_inert ys"
    by (auto simp: dkim_selector_part_Inr literal_inert selector.check_inert)
  from c obtain zs where zs: "cmd_argv c = b @ zs" "list_all argv_inert zs"
    by (auto simp: dkim_domains_part_Inr literal_inert domain.check_join_inert)
  from xs ys zs show ?thesis by (intro that [of "xs @ ys @ zs"]) auto
qed

lemma dkim_safe:
  assumes "buildConfigDkimCommand keysize selector domains = Inr c"
  shows "safe_argv (cmd_argv c)"
  using assms by (rule dkim_leaves)
    (rule safe_argv_split [where n = 3]; simp add: BROKER_WORDS_def)

lemma builder_argv_safe:
  assumes "DMS_COMMAND_BUILDERS req = Inr c"
  shows "safe_argv (cmd_argv c)"
proof (cases req)
  case (EmailDel emails mailData)
  with assms show ?thesis by (simp add: email_del_safe)
next
  case (DkimGenerate keysize selector domains)
  with assms show ?thesis by (simp add: dkim_safe)
qed (use assms in \<open>auto simp: builder_defs safe_argv_def BROKER_WORDS_def
       CLAMD_SOCKET_PATH_def CLAMAV_LOG_TAIL_LINES_def literal_inert restrict_names_inert
       address_inert quota.check_inert ip.check_inert sieve_name.check_inert
       split: option.splits if_splits\<close>)

text \<open>
  C25 Whatever a docker-mailserver request contains, the command that its builder produces is one of
  the broker's own command lines followed by inert leaves: every flag on it is the broker's, no leaf
  can be read as a flag, and no leaf holds whitespace or a control character.
\<close>

theorem dms_argv_safe:
  assumes "DMS_COMMAND_BUILDERS req = Inr c"
  shows "safe_argv (cmd_argv c)"
  using assms by (rule builder_argv_safe)

theorem dms_argv_safe_witness:
  "safe_argv [''setup'', ''config'', ''dkim'', ''keysize'', ''2048'', ''selector'', ''mail'',
              ''domain'', ''a.example,b.example'']"
proof -
  have "DMS_COMMAND_BUILDERS
      (DkimGenerate (Some 2048) (Some ''mail'') (Some [''a.example'', ''b.example''])) =
      Inr \<lparr>cmd_argv = [''setup'', ''config'', ''dkim'', ''keysize'', ''2048'', ''selector'', ''mail'',
              ''domain'', ''a.example,b.example''], cmd_stdin = None\<rparr>"
    by code_simp
  from dms_argv_safe [OF this] show ?thesis by simp
qed

text \<open>
  Two requests agree up to secrets when they differ at most in a password or in the text of a Sieve
  script.
\<close>

definition redact :: "dms_command_request \<Rightarrow> dms_command_request" where
  "redact r =
     (case r of
        EmailAdd email password \<Rightarrow> EmailAdd email ''''
      | EmailUpdate email password \<Rightarrow> EmailUpdate email ''''
      | SievePut user script content \<Rightarrow> SievePut user script ''''
      | _ \<Rightarrow> r)"

lemma redact_eq_cases:
  assumes "redact r = redact r'"
  obtains "r = r'"
    | email p p' where "r = EmailAdd email p" "r' = EmailAdd email p'"
    | email p p' where "r = EmailUpdate email p" "r' = EmailUpdate email p'"
    | user script p p' where "r = SievePut user script p" "r' = SievePut user script p'"
  using assms by (cases r; cases r'; simp add: redact_def)

text \<open>
  No secret reaches a command line: requests that differ only in a password or in a Sieve script's
  text give the same argument vector.  (They go to the command's standard input.)
\<close>

theorem dms_secret_not_in_argv:
  assumes "redact r = redact r'"
    and "DMS_COMMAND_BUILDERS r = Inr c" and "DMS_COMMAND_BUILDERS r' = Inr c'"
  shows "cmd_argv c = cmd_argv c'"
  using assms(1)
  by (cases rule: redact_eq_cases) (use assms(2,3) in \<open>auto simp: builder_defs\<close>)

theorem dms_secret_not_in_argv_witness:
  "cmd_argv \<lparr>cmd_argv = [''setup'', ''email'', ''add'', ''a@example.org''],
             cmd_stdin = Some (passwordStdin ''one'')\<rparr> =
   cmd_argv \<lparr>cmd_argv = [''setup'', ''email'', ''add'', ''a@example.org''],
             cmd_stdin = Some (passwordStdin ''two'')\<rparr>"
proof (rule dms_secret_not_in_argv)
  show "redact (EmailAdd ''a@example.org'' ''one'') = redact (EmailAdd ''a@example.org'' ''two'')"
    by (simp add: redact_def)
  show "DMS_COMMAND_BUILDERS (EmailAdd ''a@example.org'' ''one'') =
      Inr \<lparr>cmd_argv = [''setup'', ''email'', ''add'', ''a@example.org''],
           cmd_stdin = Some (passwordStdin ''one'')\<rparr>" by code_simp
  show "DMS_COMMAND_BUILDERS (EmailAdd ''a@example.org'' ''two'') =
      Inr \<lparr>cmd_argv = [''setup'', ''email'', ''add'', ''a@example.org''],
           cmd_stdin = Some (passwordStdin ''two'')\<rparr>" by code_simp
qed

lemma first_problem_NoneI: "list_all (\<lambda>v. check v = None) vs \<Longrightarrow> first_problem check vs = None"
  by (simp add: first_problem_None)

lemma DkimKeysizeFieldD [schema_dest]: "DkimKeysizeField obj k = Some n \<Longrightarrow> validateDkimKeysize n = None"
  by (auto simp: DkimKeysizeField_def split: option.splits json.splits if_splits)

lemma dkim_builds:
  assumes "\<And>n. keysize = Some n \<Longrightarrow> validateDkimKeysize n = None"
    and "\<And>v. selector = Some v \<Longrightarrow> validateDkimSelector v = None"
    and "\<And>vs. domains = Some vs \<Longrightarrow> vs \<noteq> [] \<and> list_all (\<lambda>v. validateDomain v = None) vs"
  shows "\<exists>c. buildConfigDkimCommand keysize selector domains = Inr c"
  using assms
  by (cases keysize; cases selector; cases domains)
    (simp_all add: buildConfigDkimCommand_def dkim_keysize_part_def dkim_selector_part_def
      dkim_domains_part_def sum_bind_def first_problem_NoneI)

lemma dkim_schema_builds:
  assumes "DmsDkimGenerateRequestSchema obj = Some req"
  shows "\<exists>c. DMS_COMMAND_BUILDERS req = Inr c"
proof -
  from assms obtain k s d where req: "req = DkimGenerate k s d"
    and "optional_field DkimKeysizeField obj ''keysize'' = Some k"
    and "optional_field DkimSelectorField obj ''selector'' = Some s"
    and "optional_field (nonempty_array_field validateDomain) obj ''domains'' = Some d"
    by (auto simp: DmsDkimGenerateRequestSchema_def strict_Some build_simps)
  then have "\<exists>c. buildConfigDkimCommand k s d = Inr c"
    by (intro dkim_builds) (auto dest!: schema_dest)
  with req show ?thesis by simp
qed

text \<open>
  A request that its schema accepted is never refused by its builder, with one exception: a
  restriction whose address is a bare \<^verbatim>\<open>@domain\<close>, which the schema accepts and the builder does not.
\<close>

theorem dms_parsed_request_builds:
  assumes "(operation, schema) \<in> set DMS_COMMAND_SCHEMAS" and "schema obj = Some req"
    and "\<And>action scope email. req = EmailRestrict action scope (Some email) \<Longrightarrow>
           validateAddressForArgv email False = None"
  shows "\<exists>c. DMS_COMMAND_BUILDERS req = Inr c"
proof (cases "schema = DmsDkimGenerateRequestSchema")
  case True
  with assms(2) show ?thesis by (auto intro: dkim_schema_builds)
next
  case False
  with assms show ?thesis
    by (auto simp: DMS_COMMAND_SCHEMAS_def dms_command_schema_defs strict_Some build_simps
        builder_defs first_problem_NoneI guard_def Let_def ok_def
        dest!: schema_dest split: option.splits if_splits)
qed

theorem dms_parsed_request_builds_witness:
  "\<exists>c. DMS_COMMAND_BUILDERS (Fail2banBan ''192.0.2.1'') = Inr c"
proof (rule dms_parsed_request_builds)
  show "(''dms.fail2ban.ban'', DmsFail2banBanRequestSchema) \<in> set DMS_COMMAND_SCHEMAS"
    by (simp add: DMS_COMMAND_SCHEMAS_def)
  show "DmsFail2banBanRequestSchema
      [(''operation'', JStr ''dms.fail2ban.ban''), (''ip'', JStr ''192.0.2.1'')] =
      Some (Fail2banBan ''192.0.2.1'')" by code_simp
qed simp

end
