(* ===== verification/BrokerProtocol.thy ===== *)
theory BrokerProtocol
  imports DmsCommands
begin

text \<open>
  The wire contract of the broker (\<^verbatim>\<open>packages/shared/src/broker.ts\<close>): the closed set of operations,
  the strict schema of each, the union that dispatches on \<^verbatim>\<open>operation\<close>, and the rule that decides
  which volumes may never be removed.  A request body is a JavaScript object, so its member names
  are distinct; \<^const>\<open>map_of\<close> reads it.
\<close>

section \<open>Requests\<close>

datatype log_file_source = SourceMail | SourceFail2ban

definition LOG_FILE_SOURCES :: "(string \<times> log_file_source) list" where
  "LOG_FILE_SOURCES = [(''mail'', SourceMail), (''fail2ban'', SourceFail2ban)]"

datatype console_command = PostqueueP | PostconfN | DoveconfN | DoveadmWho

definition CONSOLE_COMMANDS :: "(string \<times> console_command) list" where
  "CONSOLE_COMMANDS =
     [(''postqueue-p'', PostqueueP), (''postconf-n'', PostconfN),
      (''doveconf-n'', DoveconfN), (''doveadm-who'', DoveadmWho)]"

datatype broker_request =
    ContainerList "bool option"
  | ContainerInspect
  | ContainerStart
  | ContainerStop
  | ContainerRestart
  | ContainerStats
  | ContainerLogs "int option" "int option" "bool option"
  | SystemPing
  | SystemVersion
  | SystemInfo
  | SystemDf
  | ImageList
  | VolumeList
  | NetworkList
  | VolumeRemove string
  | ImagePrune
  | LogsFile log_file_source "int option"
  | ConsoleExec console_command
  | PanelRestart
  | PanelSelfUpdateCheck
  | PanelSelfUpdateApply string
  | Dms dms_request

section \<open>Schemas\<close>

definition LOGS_TAIL_MIN :: int where "LOGS_TAIL_MIN = 1"
definition LOGS_TAIL_MAX :: int where "LOGS_TAIL_MAX = 5000"
definition LOGS_TAIL_DEFAULT :: int where "LOGS_TAIL_DEFAULT = 200"

abbreviation tail_field :: "json_object \<Rightarrow> string \<Rightarrow> int option option" where
  "tail_field \<equiv> optional_field (int_field (\<lambda>i. LOGS_TAIL_MIN \<le> i \<and> i \<le> LOGS_TAIL_MAX))"

definition ContainerListRequestSchema :: "json_object \<Rightarrow> broker_request option" where
  "ContainerListRequestSchema obj = strict [''all''] obj
     (build1 ContainerList (optional_field bool_field obj ''all''))"

definition ContainerInspectRequestSchema :: "json_object \<Rightarrow> broker_request option" where
  "ContainerInspectRequestSchema obj = strict [] obj (Some ContainerInspect)"

definition ContainerStartRequestSchema :: "json_object \<Rightarrow> broker_request option" where
  "ContainerStartRequestSchema obj = strict [] obj (Some ContainerStart)"

definition ContainerStopRequestSchema :: "json_object \<Rightarrow> broker_request option" where
  "ContainerStopRequestSchema obj = strict [] obj (Some ContainerStop)"

definition ContainerRestartRequestSchema :: "json_object \<Rightarrow> broker_request option" where
  "ContainerRestartRequestSchema obj = strict [] obj (Some ContainerRestart)"

definition ContainerStatsRequestSchema :: "json_object \<Rightarrow> broker_request option" where
  "ContainerStatsRequestSchema obj = strict [] obj (Some ContainerStats)"

definition ContainerLogsRequestSchema :: "json_object \<Rightarrow> broker_request option" where
  "ContainerLogsRequestSchema obj = strict [''tail'', ''since'', ''timestamps''] obj
     (build3 ContainerLogs (tail_field obj ''tail'')
        (optional_field (int_field (\<lambda>i. 0 \<le> i)) obj ''since'')
        (optional_field bool_field obj ''timestamps''))"

definition SystemPingRequestSchema :: "json_object \<Rightarrow> broker_request option" where
  "SystemPingRequestSchema obj = strict [] obj (Some SystemPing)"

definition SystemVersionRequestSchema :: "json_object \<Rightarrow> broker_request option" where
  "SystemVersionRequestSchema obj = strict [] obj (Some SystemVersion)"

definition SystemInfoRequestSchema :: "json_object \<Rightarrow> broker_request option" where
  "SystemInfoRequestSchema obj = strict [] obj (Some SystemInfo)"

definition SystemDfRequestSchema :: "json_object \<Rightarrow> broker_request option" where
  "SystemDfRequestSchema obj = strict [] obj (Some SystemDf)"

definition ImageListRequestSchema :: "json_object \<Rightarrow> broker_request option" where
  "ImageListRequestSchema obj = strict [] obj (Some ImageList)"

definition VolumeListRequestSchema :: "json_object \<Rightarrow> broker_request option" where
  "VolumeListRequestSchema obj = strict [] obj (Some VolumeList)"

definition NetworkListRequestSchema :: "json_object \<Rightarrow> broker_request option" where
  "NetworkListRequestSchema obj = strict [] obj (Some NetworkList)"

text \<open>\<^verbatim>\<open>z.string().min(1).max(255)\<close>: a validator of the length only.\<close>

definition volume_name_length :: "string \<Rightarrow> string option" where
  "volume_name_length s = (if 1 \<le> length s \<and> length s \<le> 255 then None else Some ''length'')"

definition VolumeRemoveRequestSchema :: "json_object \<Rightarrow> broker_request option" where
  "VolumeRemoveRequestSchema obj = strict [''name''] obj
     (build1 VolumeRemove (string_field volume_name_length obj ''name''))"

definition ImagePruneRequestSchema :: "json_object \<Rightarrow> broker_request option" where
  "ImagePruneRequestSchema obj = strict [] obj (Some ImagePrune)"

definition LogsFileRequestSchema :: "json_object \<Rightarrow> broker_request option" where
  "LogsFileRequestSchema obj = strict [''source'', ''tail''] obj
     (build2 LogsFile (enum_field LOG_FILE_SOURCES obj ''source'') (tail_field obj ''tail''))"

definition ConsoleExecRequestSchema :: "json_object \<Rightarrow> broker_request option" where
  "ConsoleExecRequestSchema obj = strict [''command''] obj
     (build1 ConsoleExec (enum_field CONSOLE_COMMANDS obj ''command''))"

definition PanelRestartRequestSchema :: "json_object \<Rightarrow> broker_request option" where
  "PanelRestartRequestSchema obj = strict [] obj (Some PanelRestart)"

definition PanelSelfUpdateCheckRequestSchema :: "json_object \<Rightarrow> broker_request option" where
  "PanelSelfUpdateCheckRequestSchema obj = strict [] obj (Some PanelSelfUpdateCheck)"

text \<open>\<^verbatim>\<open>^\d+\.\d+\.\d+$\<close>\<close>

definition semver_pattern :: "string \<Rightarrow> bool" where
  "semver_pattern s \<longleftrightarrow>
     (let parts = split_on CHR ''.'' s
      in length parts = 3 \<and> list_all (\<lambda>p. p \<noteq> [] \<and> list_all is_digit p) parts)"

definition bare_semver :: "string \<Rightarrow> string option" where
  "bare_semver s = (if semver_pattern s then None
     else Some (''targetVersion must be a bare semver version, e.g. '' @ in_quotes ''0.4.0''))"

definition PanelSelfUpdateApplyRequestSchema :: "json_object \<Rightarrow> broker_request option" where
  "PanelSelfUpdateApplyRequestSchema obj = strict [''targetVersion''] obj
     (build1 PanelSelfUpdateApply (string_field bare_semver obj ''targetVersion''))"

section \<open>The union\<close>

definition BROKER_REQUEST_SCHEMAS :: "(string \<times> (json_object \<Rightarrow> broker_request option)) list" where
  "BROKER_REQUEST_SCHEMAS =
     [(''container.list'', ContainerListRequestSchema),
      (''container.inspect'', ContainerInspectRequestSchema),
      (''container.start'', ContainerStartRequestSchema),
      (''container.stop'', ContainerStopRequestSchema),
      (''container.restart'', ContainerRestartRequestSchema),
      (''container.stats'', ContainerStatsRequestSchema),
      (''container.logs'', ContainerLogsRequestSchema),
      (''system.ping'', SystemPingRequestSchema),
      (''system.version'', SystemVersionRequestSchema),
      (''system.info'', SystemInfoRequestSchema),
      (''system.df'', SystemDfRequestSchema),
      (''image.list'', ImageListRequestSchema),
      (''volume.list'', VolumeListRequestSchema),
      (''network.list'', NetworkListRequestSchema),
      (''volume.remove'', VolumeRemoveRequestSchema),
      (''image.prune'', ImagePruneRequestSchema),
      (''logs.file'', LogsFileRequestSchema),
      (''console.exec'', ConsoleExecRequestSchema),
      (''panel.restart'', PanelRestartRequestSchema),
      (''panel.selfUpdateCheck'', PanelSelfUpdateCheckRequestSchema),
      (''panel.selfUpdateApply'', PanelSelfUpdateApplyRequestSchema)] @
     map (\<lambda>(op, schema). (op, \<lambda>obj. map_option Dms (schema obj))) DMS_REQUEST_SCHEMAS"

text \<open>\<^verbatim>\<open>z.discriminatedUnion('operation', \<dots>)\<close>: the member \<^verbatim>\<open>operation\<close> selects the one schema.\<close>

definition BrokerRequestSchema :: "json \<Rightarrow> broker_request option" where
  "BrokerRequestSchema body =
     (case body of
        JObj obj \<Rightarrow>
          (case map_of obj ''operation'' of
             Some (JStr operation) \<Rightarrow>
               (case map_of BROKER_REQUEST_SCHEMAS operation of
                  Some schema \<Rightarrow> schema obj
                | None \<Rightarrow> None)
           | _ \<Rightarrow> None)
      | _ \<Rightarrow> None)"

section \<open>Protected volumes\<close>

record container_mount =
  mnt_type :: string
  mnt_name :: "string option"
  mnt_destination :: string

definition DMS_PROTECTED_MOUNT_DESTINATIONS :: "string list" where
  "DMS_PROTECTED_MOUNT_DESTINATIONS =
     [''/var/mail'', ''/var/mail-state'', ''/var/log/mail'', ''/tmp/docker-mailserver'']"

fun computeProtectedVolumeNames :: "container_mount list \<Rightarrow> string set" where
  "computeProtectedVolumeNames [] = {}"
| "computeProtectedVolumeNames (mount # mounts) =
     (case mnt_name mount of
        Some name \<Rightarrow>
          (if mnt_type mount = ''volume'' \<and> mnt_destination mount \<in> set DMS_PROTECTED_MOUNT_DESTINATIONS
           then insert name (computeProtectedVolumeNames mounts)
           else computeProtectedVolumeNames mounts)
      | None \<Rightarrow> computeProtectedVolumeNames mounts)"

section \<open>Lemmas\<close>

lemmas broker_schema_defs =
  ContainerListRequestSchema_def ContainerInspectRequestSchema_def ContainerStartRequestSchema_def
  ContainerStopRequestSchema_def ContainerRestartRequestSchema_def ContainerStatsRequestSchema_def
  ContainerLogsRequestSchema_def SystemPingRequestSchema_def SystemVersionRequestSchema_def
  SystemInfoRequestSchema_def SystemDfRequestSchema_def ImageListRequestSchema_def
  VolumeListRequestSchema_def NetworkListRequestSchema_def VolumeRemoveRequestSchema_def
  ImagePruneRequestSchema_def LogsFileRequestSchema_def ConsoleExecRequestSchema_def
  PanelRestartRequestSchema_def PanelSelfUpdateCheckRequestSchema_def
  PanelSelfUpdateApplyRequestSchema_def

lemma computeProtectedVolumeNames_iff:
  "n \<in> computeProtectedVolumeNames mounts \<longleftrightarrow>
     (\<exists>m \<in> set mounts. mnt_type m = ''volume'' \<and> mnt_name m = Some n \<and>
        mnt_destination m \<in> set DMS_PROTECTED_MOUNT_DESTINATIONS)"
  by (induction mounts) (auto split: option.splits)

lemma BrokerRequestSchema_Some:
  "BrokerRequestSchema body = Some req \<longleftrightarrow>
     (\<exists>obj operation schema. body = JObj obj \<and> map_of obj ''operation'' = Some (JStr operation) \<and>
        map_of BROKER_REQUEST_SCHEMAS operation = Some schema \<and> schema obj = Some req)"
  by (auto simp: BrokerRequestSchema_def split: json.splits option.splits)

text \<open>The whole vocabulary of member names that a caller may use.\<close>

definition REQUEST_MEMBERS :: "string list" where
  "REQUEST_MEMBERS =
     [''operation'', ''all'', ''tail'', ''since'', ''timestamps'', ''name'', ''source'', ''command'',
      ''targetVersion'', ''file'', ''domain'', ''selector'', ''email'', ''password'', ''emails'',
      ''mailData'', ''action'', ''scope'', ''alias'', ''recipient'', ''quota'', ''keysize'',
      ''domains'', ''ip'', ''verb'', ''user'', ''script'', ''content'']"

lemma dms_command_members:
  assumes "(operation, schema) \<in> set DMS_COMMAND_SCHEMAS" and "schema obj = Some req"
  shows "fst ` set obj \<subseteq> set REQUEST_MEMBERS"
  using assms
  by (simp add: DMS_COMMAND_SCHEMAS_def REQUEST_MEMBERS_def)
    (elim disjE conjE; simp add: dms_command_schema_defs strict_Some; blast)

lemma dms_members:
  assumes "(operation, schema) \<in> set DMS_REQUEST_SCHEMAS" and "schema obj = Some req"
  shows "fst ` set obj \<subseteq> set REQUEST_MEMBERS"
proof -
  have reads: "fst ` set obj \<subseteq> set REQUEST_MEMBERS"
    if "DmsFileReadRequestSchema obj = Some req \<or> DmsEnvReadRequestSchema obj = Some req \<or>
        DmsDkimRecordReadRequestSchema obj = Some req"
    using that
    by (elim disjE; simp add: DmsFileReadRequestSchema_def DmsEnvReadRequestSchema_def
        DmsDkimRecordReadRequestSchema_def strict_Some REQUEST_MEMBERS_def; blast)
  from assms(1) consider "schema \<in> {DmsFileReadRequestSchema, DmsEnvReadRequestSchema, DmsDkimRecordReadRequestSchema}"
    | s where "(operation, s) \<in> set DMS_COMMAND_SCHEMAS" "schema = (\<lambda>obj. map_option DmsCommand (s obj))"
    by (auto simp: DMS_REQUEST_SCHEMAS_def)
  then show ?thesis
  proof cases
    case 1
    with assms(2) show ?thesis by (intro reads) auto
  next
    case 2
    with assms(2) obtain r where "s obj = Some r" by auto
    with 2(1) show ?thesis by (rule dms_command_members)
  qed
qed

text \<open>
  What a handler may assume of the values in a parsed request: the ranges of its numbers, the
  lengths of its strings, and that the pieces a path is built from are single path components.
\<close>

definition tail_in_range :: "int option \<Rightarrow> bool" where
  "tail_in_range tail \<longleftrightarrow>
     (case tail of None \<Rightarrow> True | Some t \<Rightarrow> LOGS_TAIL_MIN \<le> t \<and> t \<le> LOGS_TAIL_MAX)"

fun request_values_ok :: "broker_request \<Rightarrow> bool" where
  "request_values_ok (ContainerLogs tail since _) \<longleftrightarrow> tail_in_range tail \<and>
     (case since of None \<Rightarrow> True | Some s \<Rightarrow> 0 \<le> s)"
| "request_values_ok (LogsFile _ tail) \<longleftrightarrow> tail_in_range tail"
| "request_values_ok (VolumeRemove name) \<longleftrightarrow> 1 \<le> length name \<and> length name \<le> 255"
| "request_values_ok (PanelSelfUpdateApply v) \<longleftrightarrow> semver_pattern v"
| "request_values_ok (Dms (DmsDkimRecordRead d s)) \<longleftrightarrow> path_component d \<and> path_component s"
| "request_values_ok _ \<longleftrightarrow> True"

lemma broker_schema_facts:
  assumes "(operation, schema) \<in> set BROKER_REQUEST_SCHEMAS" and "schema obj = Some req"
  shows "fst ` set obj \<subseteq> set REQUEST_MEMBERS" and "request_values_ok req"
proof -
  let ?own = "take 21 BROKER_REQUEST_SCHEMAS"
  have split: "BROKER_REQUEST_SCHEMAS =
      ?own @ map (\<lambda>(op, s). (op, \<lambda>obj. map_option Dms (s obj))) DMS_REQUEST_SCHEMAS"
    by (simp add: BROKER_REQUEST_SCHEMAS_def)
  from assms(1) consider "(operation, schema) \<in> set ?own"
    | s where "(operation, s) \<in> set DMS_REQUEST_SCHEMAS" "schema = (\<lambda>obj. map_option Dms (s obj))"
    by (subst (asm) split) auto
  then have "fst ` set obj \<subseteq> set REQUEST_MEMBERS \<and> request_values_ok req"
  proof cases
    case 1
    with assms(2) show ?thesis
      by (simp add: BROKER_REQUEST_SCHEMAS_def)
        (elim disjE conjE; auto simp: broker_schema_defs strict_Some build_simps
          volume_name_length_def bare_semver_def tail_in_range_def REQUEST_MEMBERS_def
          dest!: schema_dest split: if_splits option.split)
  next
    case 2
    then obtain r where r: "s obj = Some r" "req = Dms r" using assms(2) by auto
    have "request_values_ok (Dms r)"
      using 2(1) r(1)
      by (auto simp: DMS_REQUEST_SCHEMAS_def DmsFileReadRequestSchema_def
          DmsEnvReadRequestSchema_def DmsDkimRecordReadRequestSchema_def strict_Some build_simps
          dest!: schema_dest domain.check_component selector.check_component)
    with 2 r show ?thesis using dms_members [OF 2(1) r(1)] by simp
  qed
  then show "fst ` set obj \<subseteq> set REQUEST_MEMBERS" and "request_values_ok req" by auto
qed

text \<open>
  C28 A body that the request schema accepts is an object whose member names come from a fixed
  vocabulary (none of which can name a container, an image, a path or a command line), and its values
  are within their bounds.
\<close>

theorem broker_request_closed:
  assumes "BrokerRequestSchema body = Some req"
  shows "\<exists>obj. body = JObj obj \<and> fst ` set obj \<subseteq> set REQUEST_MEMBERS \<and> request_values_ok req"
proof -
  from assms obtain obj operation schema where obj: "body = JObj obj" "schema obj = Some req"
    and "map_of BROKER_REQUEST_SCHEMAS operation = Some schema"
    by (auto simp: BrokerRequestSchema_Some)
  then have "(operation, schema) \<in> set BROKER_REQUEST_SCHEMAS" by (auto dest: map_of_SomeD)
  from broker_schema_facts [OF this obj(2)] obj(1) show ?thesis by blast
qed

theorem broker_request_closed_witness:
  "\<exists>obj. JObj [(''operation'', JStr ''dms.dkim.record.read''), (''domain'', JStr ''a.example''),
              (''selector'', JStr ''mail'')] = JObj obj \<and>
     fst ` set obj \<subseteq> set REQUEST_MEMBERS \<and>
     request_values_ok (Dms (DmsDkimRecordRead ''a.example'' ''mail''))"
proof (rule broker_request_closed)
  show "BrokerRequestSchema (JObj [(''operation'', JStr ''dms.dkim.record.read''),
      (''domain'', JStr ''a.example''), (''selector'', JStr ''mail'')]) =
      Some (Dms (DmsDkimRecordRead ''a.example'' ''mail''))" by code_simp
qed

end
