(* ===== verification/Visibility.thy ===== *)
theory Visibility
  imports Prelude
begin

text \<open>
  Which containers and images belong to the visible webmail set
  (\<^verbatim>\<open>packages/shared/src/visibility.ts\<close>).  Both tiers share this file: the broker filters every
  list with it, and identity matching is what resolves a configured service to one container.
  A JavaScript object used as a dictionary (\<^verbatim>\<open>labels\<close>) is an association list whose keys are
  distinct by construction; \<^const>\<open>map_of\<close> is its property access.
\<close>

section \<open>Identities\<close>

record service_identity =
  si_containerName :: string
  si_containerLabel :: "string option"

record identifiable =
  ct_names :: "string list"
  ct_labels :: "(string \<times> string) list"

definition stripLeadingSlash :: "string \<Rightarrow> string" where
  "stripLeadingSlash name = (if starts_with ''/'' name then drop 1 name else name)"

definition matchesServiceIdentity :: "'a identifiable_scheme \<Rightarrow> service_identity \<Rightarrow> bool" where
  "matchesServiceIdentity container identity =
     (case si_containerLabel identity of
        Some label \<Rightarrow>
          (let eq = index_of CHR ''='' label;
               key = (case eq of None \<Rightarrow> label | Some i \<Rightarrow> take i label);
               value = (case eq of None \<Rightarrow> '''' | Some i \<Rightarrow> drop (Suc i) label)
           in map_of (ct_labels container) key = Some value)
      | None \<Rightarrow>
          (let wanted = stripLeadingSlash (si_containerName identity)
           in list_ex (\<lambda>name. stripLeadingSlash name = wanted) (ct_names container)))"

section \<open>Glob patterns\<close>

text \<open>
  \<^verbatim>\<open>globToRegExp\<close> escapes every metacharacter but \<^verbatim>\<open>*\<close>, turns \<^verbatim>\<open>*\<close> into \<^verbatim>\<open>.*\<close>, anchors the result
  and makes it case-insensitive; \<^verbatim>\<open>.test\<close> then decides membership.  \<open>glob_test\<close> is that
  membership test: an escaped character matches itself up to case, \<^verbatim>\<open>.\<close> matches anything but a line
  terminator.
\<close>

definition same_fold :: "char \<Rightarrow> char \<Rightarrow> bool" where
  "same_fold a b \<longleftrightarrow> to_lower_char a = to_lower_char b"

fun glob_test :: "string \<Rightarrow> string \<Rightarrow> bool" where
  "glob_test [] s = (s = [])"
| "glob_test (p # ps) s =
     (if p = CHR ''*'' then
        glob_test ps s \<or>
        (case s of [] \<Rightarrow> False | c # cs \<Rightarrow> \<not> line_terminator c \<and> glob_test (p # ps) cs)
      else (case s of [] \<Rightarrow> False | c # cs \<Rightarrow> same_fold p c \<and> glob_test ps cs))"

declare glob_test.simps(2) [simp del]

definition matchesAnyPattern :: "string \<Rightarrow> string list \<Rightarrow> bool" where
  "matchesAnyPattern value patterns = list_ex (\<lambda>pattern. glob_test pattern value) patterns"

definition DEFAULT_VISIBLE_SERVICE_PATTERNS :: "string list" where
  "DEFAULT_VISIBLE_SERVICE_PATTERNS = [''*mailserver*'', ''roundcube*'', ''*docker-webmail-gui*'']"

definition parseVisiblePatterns :: "string option \<Rightarrow> string list" where
  "parseVisiblePatterns raw =
     (case raw of
        None \<Rightarrow> DEFAULT_VISIBLE_SERVICE_PATTERNS
      | Some r \<Rightarrow>
          (let items = filter (\<lambda>item. 0 < length item) (map trim (split_on CHR '','' r))
           in if 0 < length items then items else DEFAULT_VISIBLE_SERVICE_PATTERNS))"

section \<open>Visibility\<close>

record container_visibility =
  cv_identities :: "service_identity list"
  cv_patterns :: "string list"

definition isContainerVisible :: "'a identifiable_scheme \<Rightarrow> container_visibility \<Rightarrow> bool" where
  "isContainerVisible container visibility =
     (if list_ex (matchesServiceIdentity container) (cv_identities visibility) then True
      else list_ex (\<lambda>name. matchesAnyPattern (stripLeadingSlash name) (cv_patterns visibility))
             (ct_names container))"

record image_tags =
  im_id :: string
  im_repoTags :: "string list"

definition isImageVisible :: "'a image_tags_scheme \<Rightarrow> string list \<Rightarrow> string set \<Rightarrow> bool" where
  "isImageVisible img patterns referencedImageRefs =
     (if list_ex (\<lambda>tag. matchesAnyPattern tag patterns) (im_repoTags img) then True
      else if im_id img \<in> referencedImageRefs then True
      else list_ex (\<lambda>tag. tag \<in> referencedImageRefs) (im_repoTags img))"

section \<open>Lemmas\<close>

lemma stripLeadingSlash_Cons [simp]: "stripLeadingSlash (CHR ''/'' # s) = s"
  by (simp add: stripLeadingSlash_def)

lemma matchesServiceIdentity_name:
  "si_containerLabel i = None \<Longrightarrow>
     matchesServiceIdentity c i \<longleftrightarrow>
       stripLeadingSlash (si_containerName i) \<in> stripLeadingSlash ` set (ct_names c)"
  by (auto simp: matchesServiceIdentity_def list_ex_iff Let_def image_iff eq_commute)

lemma parseVisiblePatterns_nonempty: "parseVisiblePatterns raw \<noteq> []"
  by (auto simp: parseVisiblePatterns_def DEFAULT_VISIBLE_SERVICE_PATTERNS_def Let_def
      split: option.split)

lemma parseVisiblePatterns_items: "p \<in> set (parseVisiblePatterns raw) \<Longrightarrow> p \<noteq> []"
  by (auto simp: parseVisiblePatterns_def DEFAULT_VISIBLE_SERVICE_PATTERNS_def Let_def
      split: option.splits if_splits)

subsection \<open>What a glob matches\<close>

lemma glob_test_Nil_iff [simp]: "glob_test [] s \<longleftrightarrow> s = []"
  by simp

lemma glob_test_char:
  "p \<noteq> CHR ''*'' \<Longrightarrow>
     glob_test (p # ps) s \<longleftrightarrow> (\<exists>c cs. s = c # cs \<and> same_fold p c \<and> glob_test ps cs)"
  by (auto simp: glob_test.simps(2) split: list.split)

lemma glob_test_star:
  "glob_test (CHR ''*'' # ps) s \<longleftrightarrow>
     (\<exists>gap rest. s = gap @ rest \<and> \<not> list_ex line_terminator gap \<and> glob_test ps rest)"
proof (induction s)
  case Nil
  then show ?case by (auto simp: glob_test.simps(2))
next
  case (Cons c s)
  show ?case
  proof
    assume "glob_test (CHR ''*'' # ps) (c # s)"
    then consider "glob_test ps (c # s)"
      | "\<not> line_terminator c" "glob_test (CHR ''*'' # ps) s"
      by (auto simp: glob_test.simps(2))
    then show "\<exists>gap rest. c # s = gap @ rest \<and> \<not> list_ex line_terminator gap \<and> glob_test ps rest"
    proof cases
      case 1
      then have "c # s = [] @ (c # s) \<and> \<not> list_ex line_terminator [] \<and> glob_test ps (c # s)" by simp
      then show ?thesis by blast
    next
      case 2
      then obtain gap rest where
        "s = gap @ rest" "\<not> list_ex line_terminator gap" "glob_test ps rest"
        using Cons.IH by blast
      with 2(1) have "c # s = (c # gap) @ rest \<and> \<not> list_ex line_terminator (c # gap) \<and> glob_test ps rest"
        by simp
      then show ?thesis by blast
    qed
  next
    assume "\<exists>gap rest. c # s = gap @ rest \<and> \<not> list_ex line_terminator gap \<and> glob_test ps rest"
    then obtain gap rest where
      g: "c # s = gap @ rest" "\<not> list_ex line_terminator gap" "glob_test ps rest" by blast
    show "glob_test (CHR ''*'' # ps) (c # s)"
    proof (cases gap)
      case Nil
      with g show ?thesis by (simp add: glob_test.simps(2))
    next
      case (Cons d gap')
      with g Cons.IH have "glob_test (CHR ''*'' # ps) s" "\<not> line_terminator c" by auto
      then show ?thesis by (simp add: glob_test.simps(2))
    qed
  qed
qed

text \<open>
  The reading the source's comment promises: the text between the stars must occur in order, up to
  case, separated by arbitrary runs of characters.  \<open>glob_spec\<close> says it over the pieces of the
  pattern, without recursion on single characters.
\<close>

fun glob_spec :: "string list \<Rightarrow> string \<Rightarrow> bool" where
  "glob_spec [] s = False"
| "glob_spec [w] s = list_all2 same_fold w s"
| "glob_spec (w # v # ws) s =
     (\<exists>w' gap rest. s = w' @ gap @ rest \<and> list_all2 same_fold w w' \<and>
        \<not> list_ex line_terminator gap \<and> glob_spec (v # ws) rest)"

lemma glob_spec_char:
  "glob_spec ((p # w) # ws) s \<longleftrightarrow> (\<exists>c cs. s = c # cs \<and> same_fold p c \<and> glob_spec (w # ws) cs)"
proof (cases ws)
  case Nil
  then show ?thesis by (auto simp: list_all2_Cons1)
next
  case (Cons v vs)
  show ?thesis
  proof
    assume "glob_spec ((p # w) # ws) s"
    then obtain w' gap rest where
      "s = w' @ gap @ rest" "list_all2 same_fold (p # w) w'" "\<not> list_ex line_terminator gap"
      "glob_spec (v # vs) rest" using Cons by auto
    then show "\<exists>c cs. s = c # cs \<and> same_fold p c \<and> glob_spec (w # ws) cs"
      using Cons by (fastforce simp: list_all2_Cons1)
  next
    assume "\<exists>c cs. s = c # cs \<and> same_fold p c \<and> glob_spec (w # ws) cs"
    then obtain c w' gap rest where
      "s = c # w' @ gap @ rest" "same_fold p c" "list_all2 same_fold w w'"
      "\<not> list_ex line_terminator gap" "glob_spec (v # vs) rest" using Cons by auto
    then have "s = (c # w') @ gap @ rest \<and> list_all2 same_fold (p # w) (c # w') \<and>
        \<not> list_ex line_terminator gap \<and> glob_spec (v # vs) rest" by simp
    then have "glob_spec ((p # w) # v # vs) s" unfolding glob_spec.simps by blast
    then show "glob_spec ((p # w) # ws) s" using Cons by simp
  qed
qed

lemma glob_spec_empty_piece:
  "ws \<noteq> [] \<Longrightarrow> glob_spec ([] # ws) s \<longleftrightarrow>
     (\<exists>gap rest. s = gap @ rest \<and> \<not> list_ex line_terminator gap \<and> glob_spec ws rest)"
  by (cases ws) auto

lemma glob_test_spec: "glob_test p s = glob_spec (split_on CHR ''*'' p) s"
proof (induction p arbitrary: s)
  case Nil
  then show ?case by simp
next
  case (Cons c p)
  show ?case
  proof (cases "c = CHR ''*''")
    case True
    then show ?thesis by (simp add: glob_test_star glob_spec_empty_piece Cons.IH)
  next
    case False
    obtain w ws where sp: "split_on CHR ''*'' p = w # ws"
      by (cases "split_on CHR ''*'' p") auto
    with False show ?thesis by (simp add: glob_test_char glob_spec_char Cons.IH)
  qed
qed

lemma glob_test_literal: "CHR ''*'' \<notin> set p \<Longrightarrow> glob_test p s = list_all2 same_fold p s"
  by (simp add: glob_test_spec split_on_fresh)

end
