(* ===== verification/Effects.thy ===== *)
theory Effects
  imports Prelude
begin

text \<open>
  Programs with effects.  The outside world (the Docker daemon, a clock, a file) is a parameter of
  the model: each effect is a call, and what the world answers is an arbitrary function of the
  calls made before it.  A program takes the calls made so far and returns its outcome (an error or a
  value) together with the calls made by its end, oldest first.  \<open>wp\<close> turns a program into a
  condition on the history before it, so that a property of every call a handler makes is proved
  by rewriting along its text.
\<close>

type_synonym ('c, 'e, 'a) io = "'c list \<Rightarrow> ('e + 'a) \<times> 'c list"

definition ret :: "'a \<Rightarrow> ('c, 'e, 'a) io" where
  "ret x = (\<lambda>h. (Inr x, h))"

definition throw :: "'e \<Rightarrow> ('c, 'e, 'a) io" where
  "throw e = (\<lambda>h. (Inl e, h))"

definition and_then :: "('c, 'e, 'a) io \<Rightarrow> ('a \<Rightarrow> ('c, 'e, 'b) io) \<Rightarrow> ('c, 'e, 'b) io" where
  "and_then m f = (\<lambda>h. case m h of (Inl e, h') \<Rightarrow> (Inl e, h') | (Inr x, h') \<Rightarrow> f x h')"

text \<open>\<^verbatim>\<open>try { m } catch (err) { handler }\<close>.\<close>

definition try_catch :: "('c, 'e, 'a) io \<Rightarrow> ('e \<Rightarrow> ('c, 'e, 'a) io) \<Rightarrow> ('c, 'e, 'a) io" where
  "try_catch m handler = (\<lambda>h. case m h of (Inl e, h') \<Rightarrow> handler e h' | (Inr x, h') \<Rightarrow> (Inr x, h'))"

text \<open>One effect: the call is recorded, and the answer depends on the calls before it.\<close>

definition perform :: "'c \<Rightarrow> ('c list \<Rightarrow> 'e + 'a) \<Rightarrow> ('c, 'e, 'a) io" where
  "perform call answer = (\<lambda>h. (answer h, h @ [call]))"

text \<open>A pure computation that may throw.\<close>

definition lift_sum :: "'e + 'a \<Rightarrow> ('c, 'e, 'a) io" where
  "lift_sum r = (\<lambda>h. (r, h))"

text \<open>
  \<^verbatim>\<open>Promise.all([a, b])\<close>: both are started before either is awaited, so the calls of \<^verbatim>\<open>b\<close> are
  made even when \<^verbatim>\<open>a\<close> fails.  When both fail the source rejects with whichever fails first; the
  model takes the error of the first one.
\<close>

definition both :: "('c, 'e, 'a) io \<Rightarrow> ('c, 'e, 'b) io \<Rightarrow> ('c, 'e, 'a \<times> 'b) io" where
  "both a b = (\<lambda>h. case a h of (r, h') \<Rightarrow> (case b h' of (s, h'') \<Rightarrow>
     ((case r of Inl e \<Rightarrow> Inl e
       | Inr x \<Rightarrow> (case s of Inl e \<Rightarrow> Inl e | Inr y \<Rightarrow> Inr (x, y))), h'')))"

section \<open>Weakest preconditions\<close>

definition wp ::
  "('c, 'e, 'a) io \<Rightarrow> ('a \<Rightarrow> 'c list \<Rightarrow> bool) \<Rightarrow> ('e \<Rightarrow> 'c list \<Rightarrow> bool) \<Rightarrow> 'c list \<Rightarrow> bool" where
  "wp m Q E h = (case m h of (Inl e, h') \<Rightarrow> E e h' | (Inr x, h') \<Rightarrow> Q x h')"

named_theorems wp_simps \<open>rewriting of wp along a program\<close>

lemma wp_ret [wp_simps]: "wp (ret x) Q E = Q x"
  by (rule ext) (simp add: wp_def ret_def)

lemma wp_throw [wp_simps]: "wp (throw e) Q E = E e"
  by (rule ext) (simp add: wp_def throw_def)

lemma wp_and_then [wp_simps]: "wp (and_then m f) Q E = wp m (\<lambda>x. wp (f x) Q E) E"
  by (rule ext) (simp add: wp_def and_then_def split: prod.split sum.split)

lemma wp_try_catch [wp_simps]: "wp (try_catch m handler) Q E = wp m Q (\<lambda>e. wp (handler e) Q E)"
  by (rule ext) (simp add: wp_def try_catch_def split: prod.split sum.split)

lemma wp_perform [wp_simps]:
  "wp (perform c answer) Q E h =
     (case answer h of Inl e \<Rightarrow> E e (h @ [c]) | Inr x \<Rightarrow> Q x (h @ [c]))"
  by (simp add: wp_def perform_def split: sum.split)

lemma wp_lift_sum [wp_simps]: "wp (lift_sum r) Q E h = (case r of Inl e \<Rightarrow> E e h | Inr x \<Rightarrow> Q x h)"
  by (simp add: wp_def lift_sum_def split: sum.split)

lemma wp_both [wp_simps]:
  "wp (both a b) Q E h =
     wp a (\<lambda>x. wp b (\<lambda>y. Q (x, y)) E) (\<lambda>e. wp b (\<lambda>_. E e) (\<lambda>_. E e)) h"
  by (simp add: wp_def both_def split: prod.split sum.split)

lemma wp_mono:
  assumes "wp m Q E h" and "\<And>x h'. Q x h' \<Longrightarrow> Q' x h'" and "\<And>e h'. E e h' \<Longrightarrow> E' e h'"
  shows "wp m Q' E' h"
  using assms by (auto simp: wp_def split: prod.splits sum.splits)

lemma wp_conj:
  assumes "wp m Q E h" and "wp m Q' E' h"
  shows "wp m (\<lambda>x h'. Q x h' \<and> Q' x h') (\<lambda>e h'. E e h' \<and> E' e h') h"
  using assms by (auto simp: wp_def split: prod.splits sum.splits)

lemma wp_result: "wp m Q E h \<Longrightarrow> m h = (Inr x, h') \<Longrightarrow> Q x h'"
  by (simp add: wp_def)

lemma wp_error: "wp m Q E h \<Longrightarrow> m h = (Inl e, h') \<Longrightarrow> E e h'"
  by (simp add: wp_def)

lemma wp_trace: "wp m (\<lambda>_. P) (\<lambda>_. P) h \<longleftrightarrow> P (snd (m h))"
  by (simp add: wp_def split: prod.split sum.split)

section \<open>Policies on the calls of a program\<close>

text \<open>
  A policy says, given the calls made before it, whether a call is allowed.  A history is justified
  when every call in it was allowed at its own moment.
\<close>

fun justified_from :: "('c list \<Rightarrow> 'c \<Rightarrow> bool) \<Rightarrow> 'c list \<Rightarrow> 'c list \<Rightarrow> bool" where
  "justified_from allowed before [] = True"
| "justified_from allowed before (c # cs) =
     (allowed before c \<and> justified_from allowed (before @ [c]) cs)"

definition justified :: "('c list \<Rightarrow> 'c \<Rightarrow> bool) \<Rightarrow> 'c list \<Rightarrow> bool" where
  "justified allowed h = justified_from allowed [] h"

lemma justified_from_append:
  "justified_from allowed before (xs @ ys) \<longleftrightarrow>
     justified_from allowed before xs \<and> justified_from allowed (before @ xs) ys"
  by (induction xs arbitrary: before) auto

lemma justified_Nil [simp]: "justified allowed []"
  by (simp add: justified_def)

lemma justified_append [simp]:
  "justified allowed (h @ cs) \<longleftrightarrow> justified allowed h \<and> justified_from allowed h cs"
  by (simp add: justified_def justified_from_append)

text \<open>The reading of \<^const>\<open>justified\<close> that the properties use.\<close>

lemma justified_iff:
  "justified allowed h \<longleftrightarrow> (\<forall>before c after. h = before @ c # after \<longrightarrow> allowed before c)"
proof (induction h rule: rev_induct)
  case (snoc x xs)
  note IH = snoc.IH
  show ?case
  proof
    assume j: "justified allowed (xs @ [x])"
    show "\<forall>before c after. xs @ [x] = before @ c # after \<longrightarrow> allowed before c"
    proof (intro allI impI)
      fix before c after
      assume eq: "xs @ [x] = before @ c # after"
      show "allowed before c"
      proof (cases after rule: rev_cases)
        case Nil
        with eq j show ?thesis by simp
      next
        case (snoc ys y)
        with eq have xs: "xs = before @ c # ys" by simp
        from j have "justified allowed xs" by simp
        with IH xs show ?thesis by blast
      qed
    qed
  next
    assume all: "\<forall>before c after. xs @ [x] = before @ c # after \<longrightarrow> allowed before c"
    then have "allowed xs x" by blast
    moreover have "allowed before c" if "xs = before @ c # after" for before c after
      using all that by auto
    ultimately show "justified allowed (xs @ [x])" using IH by simp
  qed
qed simp

section \<open>Policies with harmless calls\<close>

text \<open>
  The interface between a policy and the programs checked against it: some calls only observe the
  world and are always allowed, so a program may make them anywhere.
\<close>

locale observing_policy =
  fixes allowed :: "'c list \<Rightarrow> 'c \<Rightarrow> bool" and observes :: "'c \<Rightarrow> bool"
  assumes observing_allowed: "observes c \<Longrightarrow> allowed h c"
begin

lemma observe_snoc: "justified allowed h \<Longrightarrow> observes c \<Longrightarrow> justified allowed (h @ [c])"
  by (simp add: observing_allowed)

lemma wp_observe:
  assumes "justified allowed h" and "observes c"
    and "\<And>x. justified allowed (h @ [c]) \<Longrightarrow> answer h = Inr x \<Longrightarrow> Q x (h @ [c])"
    and "\<And>e. justified allowed (h @ [c]) \<Longrightarrow> E e (h @ [c])"
  shows "wp (perform c answer) Q E h"
  using assms observing_allowed [of c h] by (auto simp: wp_perform split: sum.split)

lemma justified_observing: "justified allowed h \<Longrightarrow> list_all observes cs \<Longrightarrow> justified allowed (h @ cs)"
proof (induction cs rule: rev_induct)
  case (snoc c cs)
  then show ?case using observe_snoc [of "h @ cs" c] by (simp flip: append_assoc)
qed simp

end

end
