(* ===== verification/DockerApi.thy ===== *)
theory DockerApi
  imports BrokerProtocol Visibility Effects "HOL-Library.Word"
begin

text \<open>
  The Docker daemon as the broker sees it (\<^verbatim>\<open>docker-types.ts\<close>): the shapes of its answers, one call
  per method of \<^verbatim>\<open>DockerApi\<close>, and the errors of the broker (\<^verbatim>\<open>errors.ts\<close>).  The daemon is a
  parameter: a record with, for every method that answers, an arbitrary function of the calls made
  before.  A failing method gives the message of its error.
\<close>

section \<open>Errors\<close>

datatype error_code =
    VALIDATION_FAILED | UNAUTHENTICATED | FORBIDDEN | INVALID_CREDENTIALS
  | PASSWORD_CHANGE_REQUIRED | NOT_FOUND | CONFLICT | RATE_LIMITED | UPSTREAM_UNAVAILABLE
  | CAPABILITY_UNSUPPORTED | INTERNAL

fun DEFAULT_HTTP_STATUS :: "error_code \<Rightarrow> nat option" where
  "DEFAULT_HTTP_STATUS VALIDATION_FAILED = Some 400"
| "DEFAULT_HTTP_STATUS UNAUTHENTICATED = Some 401"
| "DEFAULT_HTTP_STATUS FORBIDDEN = Some 403"
| "DEFAULT_HTTP_STATUS NOT_FOUND = Some 404"
| "DEFAULT_HTTP_STATUS UPSTREAM_UNAVAILABLE = Some 502"
| "DEFAULT_HTTP_STATUS INTERNAL = Some 500"
| "DEFAULT_HTTP_STATUS _ = None"

datatype resolution_reason = NotFound | Ambiguous

datatype exn =
    BrokerError error_code string nat
  | ContainerResolutionError resolution_reason string
  | RawError string

text \<open>\<^verbatim>\<open>new BrokerError(code, message, httpStatus?)\<close>.\<close>

definition new_BrokerError :: "error_code \<Rightarrow> string \<Rightarrow> nat option \<Rightarrow> exn" where
  "new_BrokerError ec message httpStatus =
     BrokerError ec message
       (case httpStatus of
          Some s \<Rightarrow> s
        | None \<Rightarrow> (case DEFAULT_HTTP_STATUS ec of Some s \<Rightarrow> s | None \<Rightarrow> 500))"

abbreviation broker_error :: "error_code \<Rightarrow> string \<Rightarrow> exn" where
  "broker_error ec message \<equiv> new_BrokerError ec message None"

section \<open>Answers\<close>

type_synonym dict = "(string \<times> string) list"

record raw_container = identifiable +
  rc_id :: string
  rc_image :: string
  rc_state :: string
  rc_status :: string
  rc_createdAt :: int
  rc_mountVolumeNames :: "string list"
  rc_networkNames :: "string list"

record container_state =
  cs_status :: string
  cs_running :: bool
  cs_paused :: bool
  cs_restarting :: bool
  cs_startedAt :: string
  cs_finishedAt :: string
  cs_exitCode :: int
  cs_health :: "string option"

record raw_inspect =
  ri_id :: string
  ri_name :: string
  ri_image :: string
  ri_createdAt :: string
  ri_tty :: bool
  ri_restartCount :: int
  ri_labels :: dict
  ri_state :: container_state
  ri_mounts :: "container_mount list"

record raw_version =
  rv_version :: string
  rv_apiVersion :: string
  rv_minApiVersion :: string
  rv_os :: string
  rv_arch :: string
  rv_kernelVersion :: string

record raw_system_info =
  rsi_containers :: int
  rsi_containersRunning :: int
  rsi_containersPaused :: int
  rsi_containersStopped :: int
  rsi_images :: int
  rsi_serverVersion :: string
  rsi_driver :: string
  rsi_ncpu :: int
  rsi_memTotal :: int

record raw_system_df =
  rdf_layersSizeBytes :: int
  rdf_imagesCount :: int
  rdf_containersCount :: int
  rdf_volumesCount :: int
  rdf_buildCacheBytes :: int

record raw_image = image_tags +
  rim_sizeBytes :: int
  rim_createdAt :: int
  rim_labels :: dict

record raw_volume =
  rvo_name :: string
  rvo_driver :: string
  rvo_mountpoint :: string
  rvo_labels :: dict

record raw_network =
  rn_id :: string
  rn_name :: string
  rn_driver :: string
  rn_scope :: string

record raw_cpu_stats =
  cpu_total_usage :: int
  cpu_percpu_usage :: "int list option"
  cpu_system_cpu_usage :: "int option"
  cpu_online_cpus :: "nat option"

record raw_memory_stats =
  mem_usage :: int
  mem_limit :: int
  mem_cache :: "int option"
  mem_inactive_file :: "int option"

record raw_container_stats =
  st_cpu_stats :: raw_cpu_stats
  st_precpu_stats :: raw_cpu_stats
  st_memory_stats :: raw_memory_stats
  st_pids_current :: "int option"
  st_networks :: "(string \<times> (int \<times> int)) list option"

record raw_logs_options =
  lo_tail :: int
  lo_since :: "int option"
  lo_timestamps :: bool

record raw_exec_result =
  ex_stdout :: string
  ex_stderr :: string
  ex_exitCode :: int

record raw_image_prune =
  pr_imagesDeleted :: "string list"
  pr_spaceReclaimedBytes :: int

record recreate_spec =
  sp_name :: string
  sp_image :: string
  sp_env :: "string list"
  sp_labels :: dict
  sp_cmd :: "string list option"
  sp_hostConfig :: json_object
  sp_networkingConfig :: json_object

record raw_image_config =
  ic_id :: string
  ic_env :: "string list"
  ic_labels :: dict
  ic_cmd :: "string list option"

section \<open>Calls\<close>

type_synonym byte = "8 word"

datatype docker_call =
    CPing
  | CVersion
  | CInfo
  | CDf
  | CListContainers bool
  | CInspectContainer string
  | CStartContainer string
  | CStopContainer string
  | CRestartContainer string
  | CStatsContainer string
  | CLogsContainer string raw_logs_options
  | CListImages
  | CListVolumes
  | CListNetworks
  | CRemoveVolume string
  | CPruneImages
  | CExecContainer string "string list" "string option"
  | CGetContainerArchive string string
  | CPutContainerArchive string string
  | CPullImage string
  | CInspectContainerForRecreate string
  | CInspectImageConfig string
  | CCreateContainer recreate_spec
  | CRemoveContainer string bool
  | CRemoveImage string

type_synonym 'a answer = "docker_call list \<Rightarrow> string + 'a"

record daemon =
  dk_ping :: "unit answer"
  dk_version :: "raw_version answer"
  dk_info :: "raw_system_info answer"
  dk_df :: "raw_system_df answer"
  dk_listContainers :: "bool \<Rightarrow> raw_container list answer"
  dk_inspectContainer :: "string \<Rightarrow> raw_inspect answer"
  dk_startContainer :: "string \<Rightarrow> unit answer"
  dk_stopContainer :: "string \<Rightarrow> unit answer"
  dk_restartContainer :: "string \<Rightarrow> unit answer"
  dk_statsContainer :: "string \<Rightarrow> raw_container_stats answer"
  dk_logsContainer :: "string \<Rightarrow> raw_logs_options \<Rightarrow> byte list answer"
  dk_listImages :: "raw_image list answer"
  dk_listVolumes :: "raw_volume list answer"
  dk_listNetworks :: "raw_network list answer"
  dk_removeVolume :: "string \<Rightarrow> unit answer"
  dk_pruneImages :: "raw_image_prune answer"
  dk_execContainer :: "string \<Rightarrow> string list \<Rightarrow> string option \<Rightarrow> raw_exec_result answer"
  dk_getContainerArchive :: "string \<Rightarrow> string \<Rightarrow> byte list answer"
  dk_putContainerArchive :: "string \<Rightarrow> string \<Rightarrow> byte list \<Rightarrow> unit answer"
  dk_pullImage :: "string \<Rightarrow> unit answer"
  dk_inspectContainerForRecreate :: "string \<Rightarrow> recreate_spec answer"
  dk_inspectImageConfig :: "string \<Rightarrow> raw_image_config answer"
  dk_createContainer :: "recreate_spec \<Rightarrow> string answer"
  dk_removeContainer :: "string \<Rightarrow> bool \<Rightarrow> unit answer"
  dk_removeImage :: "string \<Rightarrow> unit answer"

type_synonym 'a broker_io = "(docker_call, exn, 'a) io"

text \<open>A rejected promise of the client is an ordinary error, never a \<^verbatim>\<open>BrokerError\<close>.\<close>

definition answered :: "'a answer \<Rightarrow> docker_call list \<Rightarrow> exn + 'a" where
  "answered a h = (case a h of Inl e \<Rightarrow> Inl (RawError e) | Inr x \<Rightarrow> Inr x)"

definition docker :: "docker_call \<Rightarrow> 'a answer \<Rightarrow> 'a broker_io" where
  "docker call a = perform call (answered a)"

lemma answered_Inr [simp]: "answered a h = Inr x \<longleftrightarrow> a h = Inr x"
  by (auto simp: answered_def split: sum.split)

lemma wp_docker [wp_simps]:
  "wp (docker c a) Q E h =
     (case a h of Inl e \<Rightarrow> E (RawError e) (h @ [c]) | Inr x \<Rightarrow> Q x (h @ [c]))"
  by (simp add: docker_def wp_simps answered_def split: sum.split)

section \<open>The error handler\<close>

text \<open>
  What the client of the broker is told.  \<open>framework_status\<close> is the \<^verbatim>\<open>statusCode\<close> that the HTTP
  framework put on an error that is not a \<^verbatim>\<open>BrokerError\<close> (a malformed body, an oversized one).
\<close>

definition error_response :: "exn \<Rightarrow> nat option \<Rightarrow> nat \<times> error_code \<times> string" where
  "error_response e framework_status =
     (case e of
        BrokerError ec message status \<Rightarrow> (status, ec, message)
      | _ \<Rightarrow>
          (case framework_status of
             Some s \<Rightarrow>
               (if s < 500 then (s, VALIDATION_FAILED, ''The request could not be processed.'')
                else (500, INTERNAL, ''Internal broker error.''))
           | None \<Rightarrow> (500, INTERNAL, ''Internal broker error.'')))"

section \<open>A concrete daemon\<close>

text \<open>A daemon that answers nothing; instances for evaluation override the methods they need.\<close>

definition offline_daemon :: daemon where
  "offline_daemon =
     \<lparr>dk_ping = \<lambda>_. Inl ''down'', dk_version = \<lambda>_. Inl ''down'', dk_info = \<lambda>_. Inl ''down'',
      dk_df = \<lambda>_. Inl ''down'', dk_listContainers = \<lambda>_ _. Inl ''down'',
      dk_inspectContainer = \<lambda>_ _. Inl ''down'', dk_startContainer = \<lambda>_ _. Inl ''down'',
      dk_stopContainer = \<lambda>_ _. Inl ''down'', dk_restartContainer = \<lambda>_ _. Inl ''down'',
      dk_statsContainer = \<lambda>_ _. Inl ''down'', dk_logsContainer = \<lambda>_ _ _. Inl ''down'',
      dk_listImages = \<lambda>_. Inl ''down'', dk_listVolumes = \<lambda>_. Inl ''down'',
      dk_listNetworks = \<lambda>_. Inl ''down'', dk_removeVolume = \<lambda>_ _. Inl ''down'',
      dk_pruneImages = \<lambda>_. Inl ''down'', dk_execContainer = \<lambda>_ _ _ _. Inl ''down'',
      dk_getContainerArchive = \<lambda>_ _ _. Inl ''down'', dk_putContainerArchive = \<lambda>_ _ _ _. Inl ''down'',
      dk_pullImage = \<lambda>_ _. Inl ''down'', dk_inspectContainerForRecreate = \<lambda>_ _. Inl ''down'',
      dk_inspectImageConfig = \<lambda>_ _. Inl ''down'', dk_createContainer = \<lambda>_ _. Inl ''down'',
      dk_removeContainer = \<lambda>_ _ _. Inl ''down'', dk_removeImage = \<lambda>_ _. Inl ''down''\<rparr>"

definition sample_container :: "string \<Rightarrow> string \<Rightarrow> raw_container" where
  "sample_container cid name =
     \<lparr>ct_names = [name], ct_labels = [], rc_id = cid, rc_image = ''sha256:0'', rc_state = ''running'',
      rc_status = ''Up'', rc_createdAt = 0, rc_mountVolumeNames = [], rc_networkNames = []\<rparr>"

end
