(* ===== verification/ContainerResolver.thy ===== *)
theory ContainerResolver
  imports DockerApi
begin

text \<open>
  Resolving a configured identity to exactly one container (\<^verbatim>\<open>container-resolver.ts\<close>).  No request
  names a container; every handler that targets one goes through these functions.
\<close>

record managed_container_ref =
  mr_id :: string
  mr_name :: string

definition describeIdentity :: "service_identity \<Rightarrow> string" where
  "describeIdentity identity =
     (case si_containerLabel identity of
        Some label \<Rightarrow> ''label='' @ in_quotes label
      | None \<Rightarrow> ''name='' @ in_quotes (si_containerName identity))"

definition selectSingleMatch ::
  "raw_container list \<Rightarrow> service_identity \<Rightarrow> string \<Rightarrow> exn + managed_container_ref" where
  "selectSingleMatch candidates identity describe =
     (let matches = filter (\<lambda>candidate. matchesServiceIdentity candidate identity) candidates
      in if length matches = 0 then
           Inl (ContainerResolutionError NotFound
             (''No container matches the configured '' @ describe @ '' identity ('' @
              describeIdentity identity @ '').''))
         else if length matches > 1 then
           Inl (ContainerResolutionError Ambiguous
             (show_nat (length matches) @ '' containers match the configured '' @ describe @
              '' identity ('' @ describeIdentity identity @ ''); refusing to guess which one is '' @
              in_quotes ''the'' @ '' '' @ describe @ ''.''))
         else
           (case matches of
              [] \<Rightarrow> Inl (ContainerResolutionError NotFound ''No container matches the configured identity.'')
            | match # _ \<Rightarrow>
                Inr \<lparr>mr_id = rc_id match,
                     mr_name = (case ct_names match of [] \<Rightarrow> si_containerName identity | n # _ \<Rightarrow> n)\<rparr>))"

definition resolveContainerByIdentity ::
  "daemon \<Rightarrow> service_identity \<Rightarrow> string \<Rightarrow> managed_container_ref broker_io" where
  "resolveContainerByIdentity d identity describe =
     and_then (docker (CListContainers True) (dk_listContainers d True))
       (\<lambda>listed. lift_sum (selectSingleMatch listed identity describe))"

definition resolveManagedContainer :: "daemon \<Rightarrow> service_identity \<Rightarrow> managed_container_ref broker_io" where
  "resolveManagedContainer d dms = resolveContainerByIdentity d dms ''mail container''"

section \<open>Lemmas\<close>

lemma selectSingleMatch_Inr:
  "selectSingleMatch cs i descr = Inr ref \<longleftrightarrow>
     (\<exists>c. filter (\<lambda>c. matchesServiceIdentity c i) cs = [c] \<and> mr_id ref = rc_id c \<and>
        mr_name ref = (case ct_names c of [] \<Rightarrow> si_containerName i | n # _ \<Rightarrow> n))"
  by (cases "filter (\<lambda>c. matchesServiceIdentity c i) cs" rule: remdups_adj.cases)
    (auto simp: selectSingleMatch_def Let_def)

lemma selectSingleMatch_Inl:
  "selectSingleMatch cs i descr = Inl e \<Longrightarrow> \<exists>reason message. e = ContainerResolutionError reason message"
  by (cases "filter (\<lambda>c. matchesServiceIdentity c i) cs" rule: remdups_adj.cases)
    (auto simp: selectSingleMatch_def Let_def)

text \<open>A container id is the resolution of an identity in a listing.\<close>

definition resolves_to :: "raw_container list \<Rightarrow> service_identity \<Rightarrow> string \<Rightarrow> bool" where
  "resolves_to cs i cid \<longleftrightarrow>
     (case filter (\<lambda>c. matchesServiceIdentity c i) cs of [c] \<Rightarrow> rc_id c = cid | _ \<Rightarrow> False)"

lemma resolves_to_iff:
  "resolves_to cs i cid \<longleftrightarrow> (\<exists>c. filter (\<lambda>c. matchesServiceIdentity c i) cs = [c] \<and> rc_id c = cid)"
  by (auto simp: resolves_to_def split: list.splits)

lemma selectSingleMatch_resolves:
  "selectSingleMatch cs i descr = Inr ref \<Longrightarrow> resolves_to cs i (mr_id ref)"
  by (auto simp: selectSingleMatch_Inr resolves_to_iff)

lemma resolves_to_selected:
  "selectSingleMatch cs i descr = Inr ref \<Longrightarrow> resolves_to cs i cid \<longleftrightarrow> cid = mr_id ref"
  by (auto simp: selectSingleMatch_Inr resolves_to_iff)

lemma not_resolved:
  "selectSingleMatch cs i descr = Inl e \<Longrightarrow> \<not> resolves_to cs i cid"
  by (auto simp: selectSingleMatch_def resolves_to_iff Let_def)

lemma resolves_to_unique:
  "resolves_to cs i cid \<Longrightarrow> c \<in> set cs \<Longrightarrow> matchesServiceIdentity c i \<Longrightarrow> rc_id c = cid"
  by (auto simp: resolves_to_iff dest: filter_singleton_unique)

text \<open>
  Resolution never guesses: it yields a container if and only if that container matches the
  configured identity and no other container of the listing does.
\<close>

theorem selectSingleMatch_unique:
  "(\<exists>ref. selectSingleMatch cs i descr = Inr ref \<and> mr_id ref = cid) \<longleftrightarrow>
     (\<exists>before c after. cs = before @ c # after \<and> rc_id c = cid \<and> matchesServiceIdentity c i \<and>
        \<not> list_ex (\<lambda>x. matchesServiceIdentity x i) (before @ after))"
proof -
  have "(\<exists>ref. selectSingleMatch cs i descr = Inr ref \<and> mr_id ref = cid) \<longleftrightarrow>
      (\<exists>c. filter (\<lambda>c. matchesServiceIdentity c i) cs = [c] \<and> rc_id c = cid)"
    unfolding selectSingleMatch_Inr
    by (metis managed_container_ref.select_convs)
  also have "\<dots> \<longleftrightarrow> (\<exists>before c after. cs = before @ c # after \<and> rc_id c = cid \<and>
      matchesServiceIdentity c i \<and> \<not> list_ex (\<lambda>x. matchesServiceIdentity x i) (before @ after))"
    unfolding filter_eq_singleton by blast
  finally show ?thesis .
qed

end
