(* ===== verification/Utf8.thy ===== *)
theory Utf8
  imports DockerApi
begin

text \<open>
  \<^verbatim>\<open>Buffer.toString('utf8')\<close>: the decoder of the WHATWG Encoding standard, which Node implements.
  Text that comes from bytes is a list of code points.  A sequence that is not well-formed gives one
  replacement character for its longest valid start, and decoding resumes at the offending byte.
\<close>

type_synonym text_points = "nat list"

definition REPLACEMENT :: nat where
  "REPLACEMENT = 0xFFFD"

text \<open>
  What a leading byte announces: the number of continuation bytes, the bits it contributes, and the
  bounds of the first continuation byte (which exclude overlong forms, surrogates and values beyond
  \<^verbatim>\<open>0x10FFFF\<close>).
\<close>

definition utf8_lead :: "nat \<Rightarrow> (nat \<times> nat \<times> nat \<times> nat) option" where
  "utf8_lead b =
     (if 0xC2 \<le> b \<and> b \<le> 0xDF then Some (1, b - 0xC0, 0x80, 0xBF)
      else if 0xE0 \<le> b \<and> b \<le> 0xEF then
        Some (2, b - 0xE0, if b = 0xE0 then 0xA0 else 0x80, if b = 0xED then 0x9F else 0xBF)
      else if 0xF0 \<le> b \<and> b \<le> 0xF4 then
        Some (3, b - 0xF0, if b = 0xF0 then 0x90 else 0x80, if b = 0xF4 then 0x8F else 0xBF)
      else None)"

text \<open>
  \<open>utf8_go needed lo hi acc bytes\<close>: \<open>needed\<close> continuation bytes are outstanding, the next of them
  must lie between \<open>lo\<close> and \<open>hi\<close>, and \<open>acc\<close> holds the bits read.  The second clause of the size
  argument counts a rejected byte once more, as a fresh start.
\<close>

function utf8_go :: "nat \<Rightarrow> nat \<Rightarrow> nat \<Rightarrow> nat \<Rightarrow> nat list \<Rightarrow> text_points" where
  "utf8_go needed lo hi acc [] = (if needed = 0 then [] else [REPLACEMENT])"
| "utf8_go needed lo hi acc (b # bs) =
     (if needed = 0 then
        (if b < 0x80 then b # utf8_go 0 0x80 0xBF 0 bs
         else (case utf8_lead b of
                 None \<Rightarrow> REPLACEMENT # utf8_go 0 0x80 0xBF 0 bs
               | Some (n, bits, l, u) \<Rightarrow> utf8_go n l u bits bs))
      else if b < lo \<or> hi < b then REPLACEMENT # utf8_go 0 0x80 0xBF 0 (b # bs)
      else if needed = 1 then (acc * 64 + (b - 0x80)) # utf8_go 0 0x80 0xBF 0 bs
      else utf8_go (needed - 1) 0x80 0xBF (acc * 64 + (b - 0x80)) bs)"
  by pat_completeness auto
termination
  by (relation "measure (\<lambda>(needed, _, _, _, bs). 2 * length bs + (if needed = 0 then 0 else 1))")
    (auto split: if_splits)

declare utf8_go.simps [simp del]

definition utf8_decode :: "byte list \<Rightarrow> text_points" where
  "utf8_decode bs = utf8_go 0 0x80 0xBF 0 (map unat bs)"

text \<open>Latin-1 text as code points; \<^verbatim>\<open>toString('latin1')\<close> maps every byte to its code.\<close>

definition points :: "string \<Rightarrow> text_points" where
  "points s = map of_char s"

definition latin1_decode :: "byte list \<Rightarrow> text_points" where
  "latin1_decode bs = map unat bs"

lemma utf8_go_ascii:
  "list_all (\<lambda>b. b < 0x80) bs \<Longrightarrow> utf8_go 0 0x80 0xBF 0 (bs @ rest) = bs @ utf8_go 0 0x80 0xBF 0 rest"
  by (induction bs) (simp_all add: utf8_go.simps(2))

lemma utf8_decode_ascii: "list_all (\<lambda>b. unat b < 0x80) bs \<Longrightarrow> utf8_decode bs = map unat bs"
  using utf8_go_ascii [of "map unat bs" "[]"] by (simp add: utf8_decode_def list_all_iff utf8_go.simps(1))

end
