(* ===== verification/StreamDemux.thy ===== *)
theory StreamDemux
  imports Utf8
begin

text \<open>
  Docker's multiplexed stream (\<^verbatim>\<open>stream-demux.ts\<close>): frames of an eight-byte header (the stream's
  number, three zero bytes, the payload's size in network order) and a payload.  The interface
  \<open>chunked_decoder\<close> is what every incremental decoder of the broker owes its caller: how the bytes are
  cut into chunks does not change what comes out.  The guard of a restored archive meets it too
  (theory \<open>TarGuard\<close>).
\<close>

section \<open>Incremental decoders\<close>

fun feed :: "('s \<Rightarrow> 'b list \<Rightarrow> 'out list \<times> 's) \<Rightarrow> 's \<Rightarrow> 'b list list \<Rightarrow> 'out list \<times> 's" where
  "feed step s [] = ([], s)"
| "feed step s (chunk # chunks) =
     (let (emitted, s') = step s chunk; (more, s'') = feed step s' chunks in (emitted @ more, s''))"

locale chunked_decoder =
  fixes step :: "'s \<Rightarrow> 'b list \<Rightarrow> 'out list \<times> 's" and settled :: "'s \<Rightarrow> bool"
  assumes step_settled: "settled s \<Longrightarrow> settled (snd (step s chunk))"
    and step_Nil: "settled s \<Longrightarrow> step s [] = ([], s)"
    and step_append: "settled s \<Longrightarrow>
      step s (a @ b) = (let (xs, s') = step s a; (ys, s'') = step s' b in (xs @ ys, s''))"
begin

lemma feed_concat: "settled s \<Longrightarrow> feed step s chunks = step s (concat chunks)"
proof (induction chunks arbitrary: s)
  case Nil
  then show ?case by (simp add: step_Nil)
next
  case (Cons chunk chunks)
  have "settled (snd (step s chunk))" using Cons.prems by (rule step_settled)
  then have "feed step (snd (step s chunk)) chunks = step (snd (step s chunk)) (concat chunks)"
    by (rule Cons.IH)
  then show ?case
    by (simp add: step_append [OF Cons.prems] Let_def case_prod_beta)
qed

lemma chunking_irrelevant:
  "settled s \<Longrightarrow> concat chunks = concat chunks' \<Longrightarrow> feed step s chunks = feed step s chunks'"
  by (simp add: feed_concat)

lemma feed_settled: "settled s \<Longrightarrow> settled (snd (feed step s chunks))"
  by (simp add: feed_concat step_settled)

end

section \<open>The demultiplexer\<close>

datatype docker_stream_kind = Stdout | Stderr

record demuxed_frame =
  df_stream :: docker_stream_kind
  df_data :: "byte list"

definition HEADER_LENGTH :: nat where "HEADER_LENGTH = 8"
definition SIZE_OFFSET :: nat where "SIZE_OFFSET = 4"
definition STREAM_TYPE_STDERR :: byte where "STREAM_TYPE_STDERR = 2"

definition streamKindFromType :: "byte \<Rightarrow> docker_stream_kind" where
  "streamKindFromType type = (if type = STREAM_TYPE_STDERR then Stderr else Stdout)"

text \<open>\<^verbatim>\<open>readUInt32BE(offset)\<close>.\<close>

definition readUInt32BE :: "byte list \<Rightarrow> nat \<Rightarrow> nat" where
  "readUInt32BE buffer offset =
     foldl (\<lambda>acc b. acc * 256 + unat b) 0 (take 4 (drop offset buffer))"

text \<open>The \<^verbatim>\<open>for (;;)\<close> loop of \<^verbatim>\<open>push\<close>: the complete frames at the front, and what is left.\<close>

function drain :: "byte list \<Rightarrow> demuxed_frame list \<times> byte list" where
  "drain buffer =
     (if length buffer < HEADER_LENGTH then ([], buffer)
      else
        (let size = readUInt32BE buffer SIZE_OFFSET;
             frameEnd = HEADER_LENGTH + size
         in if length buffer < frameEnd then ([], buffer)
            else
              (let streamType = buffer ! 0;
                   data = take size (drop HEADER_LENGTH buffer);
                   (frames, rest) = drain (drop frameEnd buffer)
               in (\<lparr>df_stream = streamKindFromType streamType, df_data = data\<rparr> # frames, rest))))"
  by pat_completeness auto
termination by (relation "measure length") (auto simp: HEADER_LENGTH_def)

declare drain.simps [simp del]

text \<open>\<^verbatim>\<open>DockerStreamDemuxer.push\<close>; the state is the buffered tail.\<close>

definition push :: "byte list \<Rightarrow> byte list \<Rightarrow> demuxed_frame list \<times> byte list" where
  "push buffer chunk = drain (if length buffer = 0 then chunk else buffer @ chunk)"

definition hasPendingPartialFrame :: "byte list \<Rightarrow> bool" where
  "hasPendingPartialFrame buffer = (0 < length buffer)"

definition demuxNonTtyBuffer :: "byte list \<Rightarrow> demuxed_frame list" where
  "demuxNonTtyBuffer buffer = fst (push [] buffer)"

definition decodeTtyBuffer :: "byte list \<Rightarrow> demuxed_frame list" where
  "decodeTtyBuffer buffer =
     (if length buffer = 0 then [] else [\<lparr>df_stream = Stdout, df_data = buffer\<rparr>])"

definition joinStreamText :: "demuxed_frame list \<Rightarrow> docker_stream_kind \<Rightarrow> text_points" where
  "joinStreamText frames kind =
     utf8_decode (concat (map df_data (filter (\<lambda>frame. df_stream frame = kind) frames)))"

definition demuxDockerStream :: "byte list \<Rightarrow> bool \<Rightarrow> demuxed_frame list" where
  "demuxDockerStream buffer tty = (if tty then decodeTtyBuffer buffer else demuxNonTtyBuffer buffer)"

section \<open>Lemmas\<close>

lemma push_eq: "push buffer chunk = drain (buffer @ chunk)"
  by (simp add: push_def)

lemma readUInt32BE_append: "length a \<ge> off + 4 \<Longrightarrow> readUInt32BE (a @ b) off = readUInt32BE a off"
  by (simp add: readUInt32BE_def)

text \<open>A buffer is settled when it holds no complete frame.\<close>

definition no_complete_frame :: "byte list \<Rightarrow> bool" where
  "no_complete_frame buffer \<longleftrightarrow>
     length buffer < HEADER_LENGTH \<or>
     length buffer < HEADER_LENGTH + readUInt32BE buffer SIZE_OFFSET"

lemma drain_settled: "no_complete_frame buffer \<Longrightarrow> drain buffer = ([], buffer)"
  by (subst drain.simps) (auto simp: no_complete_frame_def Let_def)

lemma drain_frame:
  assumes "\<not> no_complete_frame buffer"
  shows "drain buffer =
    (let n = HEADER_LENGTH + readUInt32BE buffer SIZE_OFFSET; (frames, rest) = drain (drop n buffer)
     in (\<lparr>df_stream = streamKindFromType (buffer ! 0),
          df_data = take (readUInt32BE buffer SIZE_OFFSET) (drop HEADER_LENGTH buffer)\<rparr> # frames, rest))"
  using assms by (subst drain.simps) (simp add: no_complete_frame_def Let_def)

lemma drain_rest_settled: "no_complete_frame (snd (drain buffer))"
proof (induction buffer rule: drain.induct)
  case (1 buffer)
  show ?case
  proof (cases "no_complete_frame buffer")
    case True
    then show ?thesis by (simp add: drain_settled)
  next
    case False
    then have "no_complete_frame (snd (drain (drop (HEADER_LENGTH + readUInt32BE buffer SIZE_OFFSET) buffer)))"
      by (intro "1.IH") (auto simp: no_complete_frame_def)
    with False show ?thesis by (simp add: drain_frame Let_def case_prod_beta)
  qed
qed

lemma drain_append:
  "drain (a @ b) = (let (xs, r) = drain a; (ys, r') = drain (r @ b) in (xs @ ys, r'))"
proof (induction a rule: drain.induct)
  case (1 a)
  show ?case
  proof (cases "no_complete_frame a")
    case True
    then show ?thesis by (simp add: drain_settled)
  next
    case False
    let ?s = "readUInt32BE a SIZE_OFFSET"
    let ?n = "HEADER_LENGTH + ?s"
    have len: "?n \<le> length a" using False by (simp add: no_complete_frame_def)
    then have size: "readUInt32BE (a @ b) SIZE_OFFSET = ?s"
      by (intro readUInt32BE_append) (simp add: HEADER_LENGTH_def SIZE_OFFSET_def)
    have more: "\<not> no_complete_frame (a @ b)"
      using len by (simp add: no_complete_frame_def size)
    have IH: "drain (drop ?n a @ b) =
        (let (xs, r) = drain (drop ?n a); (ys, r') = drain (r @ b) in (xs @ ys, r'))"
      using False by (intro "1.IH") (auto simp: no_complete_frame_def)
    have "a \<noteq> []" using len by (auto simp: HEADER_LENGTH_def)
    with False more len IH show ?thesis
      by (simp add: drain_frame size Let_def nth_append take_append case_prod_beta)
  qed
qed

interpretation demuxer: chunked_decoder push no_complete_frame
  by unfold_locales
    (auto simp: push_eq drain_rest_settled drain_settled drain_append [of "s @ a" b for s a b, simplified]
      split: prod.splits)

section \<open>The framing as a code\<close>

text \<open>The sender's side of the format, for the round trip; a payload's size must fit 32 bits.\<close>

definition be32 :: "nat \<Rightarrow> byte list" where
  "be32 n = [word_of_nat (n div 2 ^ 24), word_of_nat (n div 2 ^ 16), word_of_nat (n div 2 ^ 8), word_of_nat n]"

definition encode_frame :: "demuxed_frame \<Rightarrow> byte list" where
  "encode_frame f =
     [case df_stream f of Stdout \<Rightarrow> 1 | Stderr \<Rightarrow> 2, 0, 0, 0] @ be32 (length (df_data f)) @ df_data f"

lemma read_be32:
  assumes "n < 2 ^ 32"
  shows "readUInt32BE ([a, b, c, d] @ be32 n @ rest) SIZE_OFFSET = n"
proof -
  have d: "n div 2 ^ 24 = n div 2 ^ 16 div 256" "n div 2 ^ 16 = n div 2 ^ 8 div 256"
    "n div 2 ^ 8 = n div 256"
    by (simp_all flip: div_mult2_eq)
  have top: "n div 2 ^ 24 mod 256 = n div 2 ^ 24"
    using assms by (intro mod_less) (simp add: less_mult_imp_div_less)
  have "((n div 2 ^ 24 * 256 + n div 2 ^ 16 mod 256) * 256 + n div 2 ^ 8 mod 256) * 256 + n mod 256 = n"
    by (simp only: d div_mult_mod_eq)
  then show ?thesis
    using top by (simp add: readUInt32BE_def be32_def SIZE_OFFSET_def unsigned_of_nat take_bit_eq_mod)
qed

lemma encode_frame_length: "length (encode_frame f) = HEADER_LENGTH + length (df_data f)"
  by (simp add: encode_frame_def be32_def HEADER_LENGTH_def)

lemma drain_encode:
  assumes "length (df_data f) < 2 ^ 32"
  shows "drain (encode_frame f @ rest) = (let (fs, r) = drain rest in (f # fs, r))"
proof -
  have size: "readUInt32BE (encode_frame f @ rest) SIZE_OFFSET = length (df_data f)"
    using read_be32 [OF assms] by (simp add: encode_frame_def)
  have "\<not> no_complete_frame (encode_frame f @ rest)"
    by (simp add: no_complete_frame_def size encode_frame_length)
  moreover have "drop HEADER_LENGTH (encode_frame f @ rest) = df_data f @ rest"
    by (simp add: encode_frame_def be32_def HEADER_LENGTH_def)
  moreover have "streamKindFromType ((encode_frame f @ rest) ! 0) = df_stream f"
    by (cases "df_stream f") (simp_all add: encode_frame_def streamKindFromType_def STREAM_TYPE_STDERR_def)
  ultimately show ?thesis
    by (simp add: drain_frame size Let_def encode_frame_length case_prod_beta)
qed

lemma drain_frames:
  "list_all (\<lambda>f. length (df_data f) < 2 ^ 32) fs \<Longrightarrow> drain (concat (map encode_frame fs)) = (fs, [])"
  by (induction fs) (simp_all add: drain_encode drain_settled no_complete_frame_def HEADER_LENGTH_def)

text \<open>
  C29 The demultiplexer is a left inverse of Docker's framing however the stream is cut into chunks:
  feeding the encoded frames chunk by chunk gives the frames, in order, and leaves nothing buffered.
\<close>

theorem demux_roundtrip:
  assumes "list_all (\<lambda>f. length (df_data f) < 2 ^ 32) fs"
    and "concat chunks = concat (map encode_frame fs)"
  shows "feed push [] chunks = (fs, [])"
  using demuxer.feed_concat [of "[]" chunks] assms
  by (simp add: push_eq drain_frames no_complete_frame_def HEADER_LENGTH_def)

theorem demux_roundtrip_witness:
  "feed push [] [[1, 0, 0], [0, 0, 0, 0, 2, 104], [105, 2, 0, 0, 0, 0, 0, 0, 0]] =
     ([\<lparr>df_stream = Stdout, df_data = [104, 105]\<rparr>, \<lparr>df_stream = Stderr, df_data = []\<rparr>], [])"
  by (rule demux_roundtrip) (simp_all add: encode_frame_def be32_def)

text \<open>
  Chunk boundaries are invisible on arbitrary bytes too, malformed or incomplete ones included:
  the frames and the pending tail depend only on the bytes received.
\<close>

theorem demux_chunking:
  assumes "concat chunks = concat chunks'"
  shows "feed push [] chunks = feed push [] chunks'"
  using assms by (intro demuxer.chunking_irrelevant) (simp_all add: no_complete_frame_def HEADER_LENGTH_def)

theorem demux_chunking_witness:
  "feed push [] [[1, 0], [0, 0, 0, 0, 0, 9, 7]] = feed push [] [[1, 0, 0, 0, 0, 0, 0], [9], [7]]"
  by (rule demux_chunking) simp

end
