(* ===== verification/Stats.thy ===== *)
theory Stats
  imports DockerApi
begin

text \<open>
  The container statistics (\<^verbatim>\<open>stats.ts\<close>).  Docker's counters are integers; the quotients are exact
  rationals where the source computes in double precision.
\<close>

datatype cgroup_version = CgroupV1 | CgroupV2

definition detectCgroupVersion :: "raw_memory_stats \<Rightarrow> cgroup_version" where
  "detectCgroupVersion memoryStats = (if mem_cache memoryStats \<noteq> None then CgroupV1 else CgroupV2)"

definition or_else :: "'a option \<Rightarrow> 'a \<Rightarrow> 'a" where
  "or_else v fallback = (case v of None \<Rightarrow> fallback | Some x \<Rightarrow> x)"

definition computeCpuPercent :: "raw_cpu_stats \<Rightarrow> raw_cpu_stats \<Rightarrow> rat" where
  "computeCpuPercent cpu precpu =
     (let cpuDelta = cpu_total_usage cpu - cpu_total_usage precpu;
          systemDelta = or_else (cpu_system_cpu_usage cpu) 0 - or_else (cpu_system_cpu_usage precpu) 0
      in if systemDelta \<le> 0 \<or> cpuDelta < 0 then 0
         else
           (let numberOfCpus =
                  (case cpu_percpu_usage cpu of
                     Some percpu \<Rightarrow>
                       (if length percpu > 0 then length percpu else or_else (cpu_online_cpus cpu) 1)
                   | None \<Rightarrow> or_else (cpu_online_cpus cpu) 1)
            in of_int cpuDelta / of_int systemDelta * of_nat numberOfCpus * 100))"

definition computeMemoryUsedBytes :: "raw_memory_stats \<Rightarrow> int" where
  "computeMemoryUsedBytes memoryStats =
     (let reclaimable =
            (case detectCgroupVersion memoryStats of
               CgroupV1 \<Rightarrow> or_else (mem_cache memoryStats) 0
             | CgroupV2 \<Rightarrow> or_else (mem_inactive_file memoryStats) 0)
      in max 0 (mem_usage memoryStats - reclaimable))"

definition computeMemoryPercent :: "raw_memory_stats \<Rightarrow> rat" where
  "computeMemoryPercent memoryStats =
     (if mem_limit memoryStats \<le> 0 then 0
      else of_int (computeMemoryUsedBytes memoryStats) / of_int (mem_limit memoryStats) * 100)"

record computed_stats =
  cst_cpuPercent :: rat
  cst_usageBytes :: int
  cst_limitBytes :: int
  cst_memoryPercent :: rat
  cst_pids :: "int option"
  cst_network :: "(int \<times> int) option"

text \<open>The running totals of received and sent bytes over the interfaces.\<close>

fun sum_interfaces :: "(string \<times> (int \<times> int)) list \<Rightarrow> int \<times> int \<Rightarrow> int \<times> int" where
  "sum_interfaces [] totals = totals"
| "sum_interfaces ((_, (rx, tx)) # rest) (rxBytes, txBytes) = sum_interfaces rest (rxBytes + rx, txBytes + tx)"

definition sumNetworks :: "(string \<times> (int \<times> int)) list option \<Rightarrow> (int \<times> int) option" where
  "sumNetworks networks =
     (case networks of None \<Rightarrow> None | Some ifaces \<Rightarrow> Some (sum_interfaces ifaces (0, 0)))"

definition computeContainerStats :: "raw_container_stats \<Rightarrow> computed_stats" where
  "computeContainerStats stats =
     \<lparr>cst_cpuPercent = computeCpuPercent (st_cpu_stats stats) (st_precpu_stats stats),
      cst_usageBytes = computeMemoryUsedBytes (st_memory_stats stats),
      cst_limitBytes = mem_limit (st_memory_stats stats),
      cst_memoryPercent = computeMemoryPercent (st_memory_stats stats),
      cst_pids = st_pids_current stats,
      cst_network = sumNetworks (st_networks stats)\<rparr>"

text \<open>\<^verbatim>\<open>ContainerStatsResponseSchema\<close>: every number must be non-negative, or the route answers 500.\<close>

definition ContainerStatsResponseSchema :: "computed_stats \<Rightarrow> bool" where
  "ContainerStatsResponseSchema s \<longleftrightarrow>
     0 \<le> cst_cpuPercent s \<and> 0 \<le> cst_usageBytes s \<and> 0 \<le> cst_limitBytes s \<and>
     0 \<le> cst_memoryPercent s \<and>
     (case cst_pids s of None \<Rightarrow> True | Some p \<Rightarrow> 0 \<le> p) \<and>
     (case cst_network s of None \<Rightarrow> True | Some (rx, tx) \<Rightarrow> 0 \<le> rx \<and> 0 \<le> tx)"

section \<open>Lemmas\<close>

lemma computeCpuPercent_nonneg: "0 \<le> computeCpuPercent cpu precpu"
  by (auto simp: computeCpuPercent_def Let_def split: option.split)

lemma computeMemoryUsedBytes_bounds:
  "0 \<le> computeMemoryUsedBytes m"
  "0 \<le> mem_usage m \<Longrightarrow> (\<And>c. mem_cache m = Some c \<Longrightarrow> 0 \<le> c) \<Longrightarrow>
     (\<And>c. mem_inactive_file m = Some c \<Longrightarrow> 0 \<le> c) \<Longrightarrow> computeMemoryUsedBytes m \<le> mem_usage m"
  by (auto simp: computeMemoryUsedBytes_def detectCgroupVersion_def or_else_def Let_def
      split: option.split)

lemma computeMemoryPercent_nonneg: "0 \<le> computeMemoryPercent m"
  by (simp add: computeMemoryPercent_def computeMemoryUsedBytes_bounds)

lemma sum_interfaces_sums:
  "sum_interfaces ifaces (a, b) =
     (a + (\<Sum>(_, rx, _) \<leftarrow> ifaces. rx), b + (\<Sum>(_, _, tx) \<leftarrow> ifaces. tx))"
  by (induction ifaces "(a, b)" arbitrary: a b rule: sum_interfaces.induct) auto

lemma sum_interfaces_nonneg:
  "list_all (\<lambda>(_, rx, tx). 0 \<le> rx \<and> 0 \<le> tx) ifaces \<Longrightarrow>
     0 \<le> fst (sum_interfaces ifaces (0, 0)) \<and> 0 \<le> snd (sum_interfaces ifaces (0, 0))"
  by (auto simp: sum_interfaces_sums list_all_iff intro!: sum_list_nonneg)

lemma computeMemoryPercent_le_100:
  assumes "computeMemoryUsedBytes m \<le> mem_limit m"
  shows "computeMemoryPercent m \<le> 100"
proof (cases "mem_limit m \<le> 0")
  case False
  moreover have "(of_int (computeMemoryUsedBytes m) :: rat) \<le> of_int (mem_limit m)"
    using assms by simp
  ultimately show ?thesis by (simp add: computeMemoryPercent_def divide_le_eq)
qed (simp add: computeMemoryPercent_def)

text \<open>
  Whatever the two CPU samples and the memory counters are (a restarted container's counters run
  backwards, a cache may exceed the usage), the computed statistics pass the response schema as soon
  as the daemon's own totals are not negative, and memory usage within the limit is at most 100 per
  cent.
\<close>

theorem container_stats_valid:
  assumes "0 \<le> mem_limit (st_memory_stats raw)"
    and "case st_pids_current raw of None \<Rightarrow> True | Some p \<Rightarrow> 0 \<le> p"
    and "case st_networks raw of None \<Rightarrow> True
         | Some ifaces \<Rightarrow> list_all (\<lambda>(_, rx, tx). 0 \<le> rx \<and> 0 \<le> tx) ifaces"
  shows "ContainerStatsResponseSchema (computeContainerStats raw) \<and>
    (cst_usageBytes (computeContainerStats raw) \<le> cst_limitBytes (computeContainerStats raw) \<longrightarrow>
       cst_memoryPercent (computeContainerStats raw) \<le> 100)"
proof -
  have "case sumNetworks (st_networks raw) of None \<Rightarrow> True | Some (rx, tx) \<Rightarrow> 0 \<le> rx \<and> 0 \<le> tx"
    using assms(3) by (auto simp: sumNetworks_def split: option.splits prod.splits dest!: sum_interfaces_nonneg)
  with assms(1,2) show ?thesis
    by (simp add: ContainerStatsResponseSchema_def computeContainerStats_def
        computeCpuPercent_nonneg computeMemoryUsedBytes_bounds computeMemoryPercent_nonneg
        computeMemoryPercent_le_100)
qed

theorem container_stats_valid_witness:
  "ContainerStatsResponseSchema (computeContainerStats
     \<lparr>st_cpu_stats = \<lparr>cpu_total_usage = 5, cpu_percpu_usage = None, cpu_system_cpu_usage = Some 20,
        cpu_online_cpus = Some 2\<rparr>,
      st_precpu_stats = \<lparr>cpu_total_usage = 9, cpu_percpu_usage = None, cpu_system_cpu_usage = None,
        cpu_online_cpus = None\<rparr>,
      st_memory_stats = \<lparr>mem_usage = 10, mem_limit = 40, mem_cache = Some 15, mem_inactive_file = None\<rparr>,
      st_pids_current = Some 3, st_networks = Some [(''eth0'', (7, 8))]\<rparr>)"
  by (rule container_stats_valid [THEN conjunct1]) simp_all

end
