(* ===== verification/ImageRefs.thy ===== *)
theory ImageRefs
  imports DockerApi
begin

text \<open>
  The panel's image references and the facts baked into its images (\<^verbatim>\<open>self-update/image-refs.ts\<close>),
  and the specification of a container recreated on a new image (\<^verbatim>\<open>self-update/image-swap-spec.ts\<close>).
\<close>

section \<open>References\<close>

definition PANEL_SERVER_REPOSITORY :: string where
  "PANEL_SERVER_REPOSITORY = ''ghcr.io/arvinrahnama/docker-webmail-gui-server''"

definition PANEL_BROKER_REPOSITORY :: string where
  "PANEL_BROKER_REPOSITORY = ''ghcr.io/arvinrahnama/docker-webmail-gui-broker''"

text \<open>\<^verbatim>\<open>s.slice(s.lastIndexOf(c) + 1)\<close>.\<close>

definition after_last :: "char \<Rightarrow> string \<Rightarrow> string" where
  "after_last c s = (case last_index_of c s of None \<Rightarrow> s | Some i \<Rightarrow> drop (Suc i) s)"

definition resolvePanelRepository :: "string \<Rightarrow> string option \<Rightarrow> string" where
  "resolvePanelRepository defaultRepository registryOverride =
     (case registryOverride of
        None \<Rightarrow> defaultRepository
      | Some registry \<Rightarrow> registry @ ''/'' @ after_last CHR ''/'' defaultRepository)"

definition panelImageReference :: "string \<Rightarrow> string \<Rightarrow> string" where
  "panelImageReference repository version = repository @ '':'' @ version"

fun extractPanelVersion :: "string list \<Rightarrow> string \<Rightarrow> string option" where
  "extractPanelVersion [] repository = None"
| "extractPanelVersion (tag # repoTags) repository =
     (let prefix = repository @ '':''
      in if \<not> starts_with prefix tag then extractPanelVersion repoTags repository
         else (let version = drop (length prefix) tag
               in if semver_pattern version then Some version
                  else extractPanelVersion repoTags repository))"

definition versionFromReference :: "string \<Rightarrow> string" where
  "versionFromReference reference = after_last CHR '':'' reference"

section \<open>Baked facts\<close>

datatype image_origin = OriginRegistry | OriginSource

definition DWG_IMAGE_ORIGINS :: "(string \<times> image_origin) list" where
  "DWG_IMAGE_ORIGINS = [(''registry'', OriginRegistry), (''source'', OriginSource)]"

record baked_facts =
  bf_version :: "string option"
  bf_origin :: "image_origin option"

text \<open>One turn of the loop over the environment; a later entry replaces an earlier one.\<close>

definition read_baked_entry :: "string \<Rightarrow> baked_facts \<Rightarrow> baked_facts" where
  "read_baked_entry entry facts =
     (case index_of CHR ''='' entry of
        None \<Rightarrow> facts
      | Some separatorIndex \<Rightarrow>
          (let key = take separatorIndex entry; value = drop (Suc separatorIndex) entry
           in if key = ''DWG_VERSION'' \<and> semver_pattern value then facts\<lparr>bf_version := Some value\<rparr>
              else if key = ''DWG_IMAGE_ORIGIN'' \<and> map_of DWG_IMAGE_ORIGINS value \<noteq> None
                then facts\<lparr>bf_origin := map_of DWG_IMAGE_ORIGINS value\<rparr>
              else facts))"

definition extractBakedImageFacts :: "string list \<Rightarrow> baked_facts" where
  "extractBakedImageFacts env = fold read_baked_entry env \<lparr>bf_version = None, bf_origin = None\<rparr>"

section \<open>Recreating a container on another image\<close>

definition IMAGE_PROVENANCE_ENV_KEYS :: "string list" where
  "IMAGE_PROVENANCE_ENV_KEYS = [''DWG_VERSION'', ''DWG_IMAGE_ORIGIN'', ''NODE_VERSION'', ''YARN_VERSION'']"

definition IMAGE_PROVENANCE_LABEL_PREFIX :: string where
  "IMAGE_PROVENANCE_LABEL_PREFIX = ''org.opencontainers.image.''"

definition envKey :: "string \<Rightarrow> string" where
  "envKey entry = (case index_of CHR ''='' entry of None \<Rightarrow> entry | Some i \<Rightarrow> take i entry)"

definition withoutImageInheritedEnv :: "string list \<Rightarrow> raw_image_config option \<Rightarrow> string list" where
  "withoutImageInheritedEnv containerEnv oldImage =
     (let inherited = (case oldImage of None \<Rightarrow> [] | Some img \<Rightarrow> ic_env img)
      in filter (\<lambda>entry. envKey entry \<notin> set IMAGE_PROVENANCE_ENV_KEYS \<and> entry \<notin> set inherited)
           containerEnv)"

definition withoutImageInheritedLabels :: "dict \<Rightarrow> raw_image_config option \<Rightarrow> dict" where
  "withoutImageInheritedLabels containerLabels oldImage =
     (let imageLabels = (case oldImage of None \<Rightarrow> [] | Some img \<Rightarrow> ic_labels img)
      in filter (\<lambda>(key, value). \<not> starts_with IMAGE_PROVENANCE_LABEL_PREFIX key \<and>
             map_of imageLabels key \<noteq> Some value) containerLabels)"

definition sameArgv :: "string list \<Rightarrow> string list \<Rightarrow> bool" where
  "sameArgv a b \<longleftrightarrow> length a = length b \<and> list_all (\<lambda>(x, y). x = y) (zip a b)"

definition withoutImageInheritedCmd ::
  "string list option \<Rightarrow> raw_image_config option \<Rightarrow> string list option" where
  "withoutImageInheritedCmd containerCmd oldImage =
     (case (containerCmd, oldImage) of
        (Some cmd, Some img) \<Rightarrow>
          (case ic_cmd img of
             None \<Rightarrow> containerCmd
           | Some imageCmd \<Rightarrow> (if sameArgv cmd imageCmd then None else containerCmd))
      | _ \<Rightarrow> containerCmd)"

definition buildImageSwapSpec ::
  "recreate_spec \<Rightarrow> raw_image_config option \<Rightarrow> string \<Rightarrow> recreate_spec" where
  "buildImageSwapSpec captured oldImage targetImage =
     captured\<lparr>sp_image := targetImage,
              sp_env := withoutImageInheritedEnv (sp_env captured) oldImage,
              sp_labels := withoutImageInheritedLabels (sp_labels captured) oldImage,
              sp_cmd := withoutImageInheritedCmd (sp_cmd captured) oldImage\<rparr>"

section \<open>Lemmas\<close>

lemma after_last_append: "c \<notin> set w \<Longrightarrow> after_last c (s @ c # w) = w"
  by (simp add: after_last_def last_index_of_append)

lemma semver_pattern_chars:
  assumes "semver_pattern v" and "c \<in> set v"
  shows "is_digit c \<or> c = CHR ''.''"
proof -
  have "c \<in> set (join [CHR ''.''] (split_on CHR ''.'' v))" using assms(2) by (simp add: join_split_on)
  then have "c = CHR ''.'' \<or> (\<exists>w \<in> set (split_on CHR ''.'' v). c \<in> set w)"
    using set_join [of "[CHR ''.'']" "split_on CHR ''.'' v"] by auto
  with assms(1) show ?thesis by (auto simp: semver_pattern_def Let_def list_all_iff)
qed

lemma semver_no_colon: "semver_pattern v \<Longrightarrow> CHR '':'' \<notin> set v"
  by (auto dest: semver_pattern_chars simp: is_digit_def)

lemma sameArgv_iff: "sameArgv a b \<longleftrightarrow> a = b"
  by (auto simp: sameArgv_def list_all_iff list_eq_iff_zip_eq zip_same)

text \<open>
  A reference built for a version gives that version back, whatever registry override is in force,
  and the tag of a pulled image is recognised under its repository.
\<close>

theorem image_reference_roundtrip:
  assumes "semver_pattern version"
  shows "versionFromReference (panelImageReference repository version) = version \<and>
    extractPanelVersion (panelImageReference repository version # tags) repository = Some version"
  using assms
  by (simp add: versionFromReference_def panelImageReference_def after_last_append semver_no_colon
      starts_with_iff Let_def)

theorem image_reference_roundtrip_witness:
  "versionFromReference (panelImageReference ''registry:5000/server'' ''0.4.10'') = ''0.4.10''"
proof -
  have "semver_pattern ''0.4.10''" by code_simp
  from image_reference_roundtrip [OF this] show ?thesis by blast
qed

lemma read_baked_entry_other_key:
  "envKey entry \<notin> set IMAGE_PROVENANCE_ENV_KEYS \<Longrightarrow> read_baked_entry entry facts = facts"
  by (auto simp: read_baked_entry_def envKey_def IMAGE_PROVENANCE_ENV_KEYS_def Let_def
      split: option.splits)

lemma fold_read_baked_none:
  "\<forall>entry \<in> set env. envKey entry \<notin> set IMAGE_PROVENANCE_ENV_KEYS \<Longrightarrow>
     fold read_baked_entry env facts = facts"
  by (induction env arbitrary: facts) (auto simp: read_baked_entry_other_key)

text \<open>
  Recreating a container on a new image carries over exactly the operator's own settings: an
  environment entry survives if and only if its key is no provenance key and the old image did not
  bake in the same entry; name, mounts and networks are untouched; and what remains can no longer
  claim a version or an origin, so the facts of the new image are the ones that count.
\<close>

theorem image_swap_spec:
  "sp_image (buildImageSwapSpec captured oldImage target) = target \<and>
   sp_name (buildImageSwapSpec captured oldImage target) = sp_name captured \<and>
   sp_hostConfig (buildImageSwapSpec captured oldImage target) = sp_hostConfig captured \<and>
   sp_networkingConfig (buildImageSwapSpec captured oldImage target) = sp_networkingConfig captured \<and>
   set (sp_env (buildImageSwapSpec captured oldImage target)) =
     {entry \<in> set (sp_env captured). envKey entry \<notin> set IMAGE_PROVENANCE_ENV_KEYS \<and>
        (case oldImage of None \<Rightarrow> True | Some img \<Rightarrow> entry \<notin> set (ic_env img))} \<and>
   extractBakedImageFacts (sp_env (buildImageSwapSpec captured oldImage target)) =
     \<lparr>bf_version = None, bf_origin = None\<rparr>"
proof -
  have "set (sp_env (buildImageSwapSpec captured oldImage target)) =
      {entry \<in> set (sp_env captured). envKey entry \<notin> set IMAGE_PROVENANCE_ENV_KEYS \<and>
        (case oldImage of None \<Rightarrow> True | Some img \<Rightarrow> entry \<notin> set (ic_env img))}"
    by (auto simp: buildImageSwapSpec_def withoutImageInheritedEnv_def Let_def split: option.splits)
  moreover from this have "extractBakedImageFacts (sp_env (buildImageSwapSpec captured oldImage target)) =
      \<lparr>bf_version = None, bf_origin = None\<rparr>"
    unfolding extractBakedImageFacts_def by (intro fold_read_baked_none) blast
  ultimately show ?thesis by (simp add: buildImageSwapSpec_def)
qed

end
