(* ===== verification/LaunchUpdater.thy ===== *)
theory LaunchUpdater
  imports ImageRefs
begin

text \<open>
  Starting the one-shot updater container (\<^verbatim>\<open>self-update/launch-updater.ts\<close>): it runs the broker's
  own image, so that it inherits the broker's access to the daemon.
\<close>

definition SELF_UPDATE_UPDATER_CONTAINER_NAME :: string where
  "SELF_UPDATE_UPDATER_CONTAINER_NAME = ''dwg-self-update-updater''"

definition UPDATER_ENTRYPOINT_COMMAND :: "string list" where
  "UPDATER_ENTRYPOINT_COMMAND = [''node'', ''apps/broker/dist/self-update/updater-entrypoint.js'']"

definition SERVER_DATA_VOLUME_BIND :: string where
  "SERVER_DATA_VOLUME_BIND = ''dwg-server-data:/app/data''"

definition NO_RESTART_POLICY :: json where
  "NO_RESTART_POLICY = JObj [(''Name'', JStr ''no''), (''MaximumRetryCount'', JNum 0)]"

text \<open>Setting a member of an object: replaced in place when it exists, appended otherwise.\<close>

fun obj_set :: "string \<Rightarrow> json \<Rightarrow> json_object \<Rightarrow> json_object" where
  "obj_set k v [] = [(k, v)]"
| "obj_set k v ((k', v') # obj) = (if k' = k then (k, v) # obj else (k', v') # obj_set k v obj)"

definition withUpdaterHostConfig :: "json_object \<Rightarrow> json_object" where
  "withUpdaterHostConfig brokerHostConfig =
     (let existingBinds = (case map_of brokerHostConfig ''Binds'' of Some (JArr js) \<Rightarrow> js | _ \<Rightarrow> [])
      in obj_set ''RestartPolicy'' NO_RESTART_POLICY
           (obj_set ''AutoRemove'' (JBool True)
             (obj_set ''Binds'' (JArr (existingBinds @ [JStr SERVER_DATA_VOLUME_BIND])) brokerHostConfig)))"

record updater_launch_target =
  ul_brokerOwnImage :: string
  ul_brokerHostConfig :: json_object
  ul_brokerNetworkingConfig :: json_object
  ul_serverContainerName :: string
  ul_brokerContainerName :: string
  ul_serverImageRef :: string
  ul_brokerImageRef :: string

definition updater_spec :: "updater_launch_target \<Rightarrow> recreate_spec" where
  "updater_spec target =
     \<lparr>sp_name = SELF_UPDATE_UPDATER_CONTAINER_NAME,
      sp_image = ul_brokerOwnImage target,
      sp_env =
        [''DWG_SELF_UPDATE_SERVER_CONTAINER_NAME='' @ ul_serverContainerName target,
         ''DWG_SELF_UPDATE_BROKER_CONTAINER_NAME='' @ ul_brokerContainerName target,
         ''DWG_SELF_UPDATE_SERVER_IMAGE_REF='' @ ul_serverImageRef target,
         ''DWG_SELF_UPDATE_BROKER_IMAGE_REF='' @ ul_brokerImageRef target],
      sp_labels = [],
      sp_cmd = Some UPDATER_ENTRYPOINT_COMMAND,
      sp_hostConfig = withUpdaterHostConfig (ul_brokerHostConfig target),
      sp_networkingConfig = ul_brokerNetworkingConfig target\<rparr>"

text \<open>The last two calls of \<^verbatim>\<open>launchUpdater\<close>: the container is created, then started.\<close>

definition start_updater :: "daemon \<Rightarrow> recreate_spec \<Rightarrow> unit broker_io" where
  "start_updater d spec =
     and_then (docker (CCreateContainer spec) (dk_createContainer d spec)) (\<lambda>cid.
       docker (CStartContainer cid) (dk_startContainer d cid))"

text \<open>A failure to remove a stale updater is swallowed; the creation then reports the conflict.\<close>

definition launchUpdater :: "daemon \<Rightarrow> updater_launch_target \<Rightarrow> unit broker_io" where
  "launchUpdater d target =
     and_then (docker (CListContainers True) (dk_listContainers d True)) (\<lambda>listed.
     and_then
       (case find (\<lambda>c. SELF_UPDATE_UPDATER_CONTAINER_NAME \<in> set (ct_names c)) listed of
          None \<Rightarrow> ret ()
        | Some stale \<Rightarrow>
            try_catch (docker (CRemoveContainer (rc_id stale) True) (dk_removeContainer d (rc_id stale) True))
              (\<lambda>_. ret ())) (\<lambda>_.
     start_updater d (updater_spec target)))"

section \<open>Lemmas\<close>

lemma map_of_obj_set [simp]: "map_of (obj_set k v obj) = (map_of obj)(k \<mapsto> v)"
  by (induction k v obj rule: obj_set.induct) auto

lemma updater_host_config:
  "map_of (withUpdaterHostConfig hc) ''RestartPolicy'' = Some NO_RESTART_POLICY"
  "map_of (withUpdaterHostConfig hc) ''AutoRemove'' = Some (JBool True)"
  "k \<notin> {''RestartPolicy'', ''AutoRemove'', ''Binds''} \<Longrightarrow> map_of (withUpdaterHostConfig hc) k = map_of hc k"
  "map_of hc ''Binds'' = Some (JArr bs) \<Longrightarrow>
     map_of (withUpdaterHostConfig hc) ''Binds'' = Some (JArr (bs @ [JStr SERVER_DATA_VOLUME_BIND]))"
  by (simp_all add: withUpdaterHostConfig_def Let_def)

end
