(* ===== verification/DmsHandlers.thy ===== *)
theory DmsHandlers
  imports ContainerResolver StreamDemux Stats LaunchUpdater
begin

text \<open>
  What every handler shares (the dependencies, resolution of the mail container and the wrapper around
  Docker calls of \<^verbatim>\<open>operations.ts\<close>) and the docker-mailserver handlers (\<^verbatim>\<open>dms/handlers.ts\<close>).  The
  calls to the logger have no effect on a result and are left out.
\<close>

section \<open>Dependencies\<close>

text \<open>\<open>od_nowIso\<close> and \<open>od_elapsedMs\<close> stand for the readings of the clock in two handlers.\<close>

record operation_deps =
  od_docker :: daemon
  od_dms :: service_identity
  od_panelServer :: service_identity
  od_panelBroker :: service_identity
  od_visibleServicePatterns :: "string list"
  od_registryOverride :: "string option"
  od_nowIso :: string
  od_elapsedMs :: int

definition containerVisibility :: "operation_deps \<Rightarrow> container_visibility" where
  "containerVisibility deps =
     \<lparr>cv_identities = [od_dms deps, od_panelServer deps, od_panelBroker deps],
      cv_patterns = od_visibleServicePatterns deps\<rparr>"

definition resolveOrForbid :: "operation_deps \<Rightarrow> managed_container_ref broker_io" where
  "resolveOrForbid deps =
     try_catch (resolveManagedContainer (od_docker deps) (od_dms deps))
       (\<lambda>err. case err of
          ContainerResolutionError _ _ \<Rightarrow>
            throw (broker_error FORBIDDEN
              ''The managed container could not be resolved to a single allowlisted match.'')
        | _ \<Rightarrow> throw err)"

definition callDocker :: "'a broker_io \<Rightarrow> 'a broker_io" where
  "callDocker fn =
     try_catch fn (\<lambda>_. throw (broker_error UPSTREAM_UNAVAILABLE ''The Docker daemon call failed.''))"

definition listVisibleContainers :: "operation_deps \<Rightarrow> raw_container list broker_io" where
  "listVisibleContainers deps =
     and_then (callDocker (docker (CListContainers True) (dk_listContainers (od_docker deps) True)))
       (\<lambda>listed. ret (filter (\<lambda>c. isContainerVisible c (containerVisibility deps)) listed))"

section \<open>Docker-mailserver handlers\<close>

definition DMS_CONFIG_DIR :: string where
  "DMS_CONFIG_DIR = ''/tmp/docker-mailserver''"

fun DMS_CONFIG_FILE_PATHS :: "dms_config_file_key \<Rightarrow> string" where
  "DMS_CONFIG_FILE_PATHS PostfixAccounts = DMS_CONFIG_DIR @ ''/postfix-accounts.cf''"
| "DMS_CONFIG_FILE_PATHS PostfixVirtual = DMS_CONFIG_DIR @ ''/postfix-virtual.cf''"
| "DMS_CONFIG_FILE_PATHS DovecotQuotas = DMS_CONFIG_DIR @ ''/dovecot-quotas.cf''"
| "DMS_CONFIG_FILE_PATHS PostfixSendAccess = DMS_CONFIG_DIR @ ''/postfix-send-access.cf''"
| "DMS_CONFIG_FILE_PATHS PostfixReceiveAccess = DMS_CONFIG_DIR @ ''/postfix-receive-access.cf''"

definition exec :: "operation_deps \<Rightarrow> string \<Rightarrow> string list \<Rightarrow> string option \<Rightarrow> raw_exec_result broker_io" where
  "exec deps cid argv stdin =
     docker (CExecContainer cid argv stdin) (dk_execContainer (od_docker deps) cid argv stdin)"

definition handleDmsCommand :: "dms_command_request \<Rightarrow> operation_deps \<Rightarrow> raw_exec_result broker_io" where
  "handleDmsCommand body deps =
     and_then (resolveOrForbid deps) (\<lambda>ref.
       case DMS_COMMAND_BUILDERS body of
         Inl e \<Rightarrow> throw (broker_error VALIDATION_FAILED e)
       | Inr command \<Rightarrow> exec deps (mr_id ref) (cmd_argv command) (cmd_stdin command))"

definition handleDmsFileRead :: "dms_config_file_key \<Rightarrow> operation_deps \<Rightarrow> string option broker_io" where
  "handleDmsFileRead file deps =
     and_then (resolveOrForbid deps) (\<lambda>ref.
     and_then (exec deps (mr_id ref) [''cat'', DMS_CONFIG_FILE_PATHS file] None) (\<lambda>result.
       ret (if ex_exitCode result = 0 then Some (ex_stdout result) else None)))"

definition openDkimPath :: "string \<Rightarrow> string \<Rightarrow> string" where
  "openDkimPath domain selector =
     DMS_CONFIG_DIR @ ''/opendkim/keys/'' @ domain @ ''/'' @ selector @ ''.txt''"

definition rspamd_find :: "string \<Rightarrow> string \<Rightarrow> string list" where
  "rspamd_find domain selector =
     [''find'', DMS_CONFIG_DIR @ ''/rspamd/dkim'', ''-maxdepth'', ''1'', ''-type'', ''f'', ''-name'',
      ''*-'' @ selector @ ''-'' @ domain @ ''.public.dns.txt'', ''-exec'', ''cat'', ''{}'', ''+'']"

definition handleDmsDkimRecordRead ::
  "string \<Rightarrow> string \<Rightarrow> operation_deps \<Rightarrow> string option broker_io" where
  "handleDmsDkimRecordRead domain selector deps =
     and_then (resolveOrForbid deps) (\<lambda>ref.
     and_then (exec deps (mr_id ref) [''cat'', openDkimPath domain selector] None) (\<lambda>openDkim.
       if ex_exitCode openDkim = 0 then ret (Some (ex_stdout openDkim))
       else
         and_then (exec deps (mr_id ref) (rspamd_find domain selector) None) (\<lambda>rspamd.
           let found = (if ex_exitCode rspamd = 0 then trim (ex_stdout rspamd) else [])
           in ret (if length found > 0 then Some (ex_stdout rspamd) else None))))"

text \<open>The loop over the lines of \<^verbatim>\<open>printenv\<close>: only allowed keys are kept, the last value wins.\<close>

definition read_env_line :: "string \<Rightarrow> dict \<Rightarrow> dict" where
  "read_env_line line env =
     (case index_of CHR ''='' line of
        None \<Rightarrow> env
      | Some separator \<Rightarrow>
          (if separator = 0 then env
           else
             (let key = take separator line
              in if key \<in> set DMS_ENV_KEYS
                 then (key, drop (Suc separator) line) # filter (\<lambda>(k, _). k \<noteq> key) env
                 else env)))"

definition handleDmsEnvRead :: "operation_deps \<Rightarrow> dict broker_io" where
  "handleDmsEnvRead deps =
     and_then (resolveOrForbid deps) (\<lambda>ref.
     and_then (exec deps (mr_id ref) [''printenv''] None) (\<lambda>result.
       if ex_exitCode result \<noteq> 0
       then throw (broker_error UPSTREAM_UNAVAILABLE ''Could not read the mail container's environment.'')
       else ret (fold read_env_line (split_on newline (ex_stdout result)) [])))"

section \<open>Lemmas\<close>

lemma wp_callDocker [wp_simps]:
  "wp (callDocker fn) Q E =
     wp fn Q (\<lambda>_. E (broker_error UPSTREAM_UNAVAILABLE ''The Docker daemon call failed.''))"
  by (simp add: callDocker_def wp_simps)

lemma wp_listVisibleContainers [wp_simps]:
  "wp (listVisibleContainers deps) Q E h =
     (case dk_listContainers (od_docker deps) True h of
        Inl _ \<Rightarrow> E (broker_error UPSTREAM_UNAVAILABLE ''The Docker daemon call failed.'') (h @ [CListContainers True])
      | Inr listed \<Rightarrow>
          Q (filter (\<lambda>c. isContainerVisible c (containerVisibility deps)) listed) (h @ [CListContainers True]))"
  by (simp add: listVisibleContainers_def wp_simps split: sum.split)

text \<open>
  What resolution means for the code after it: it has listed the containers, and the reference it
  continues with is the only container that matches the configured identity.
\<close>

lemma wp_resolveOrForbid:
  assumes "\<And>cs ref. dk_listContainers (od_docker deps) True h = Inr cs \<Longrightarrow>
      resolves_to cs (od_dms deps) (mr_id ref) \<Longrightarrow> Q ref (h @ [CListContainers True])"
    and "\<And>e. E e (h @ [CListContainers True])"
  shows "wp (resolveOrForbid deps) Q E h"
  using assms
  by (auto simp: resolveOrForbid_def resolveManagedContainer_def resolveContainerByIdentity_def wp_simps
      dest: selectSingleMatch_resolves split: sum.split exn.split)

lemma wp_exec [wp_simps]:
  "wp (exec deps cid argv stdin) Q E h =
     (case dk_execContainer (od_docker deps) cid argv stdin h of
        Inl e \<Rightarrow> E (RawError e) (h @ [CExecContainer cid argv stdin])
      | Inr x \<Rightarrow> Q x (h @ [CExecContainer cid argv stdin]))"
  by (simp add: exec_def wp_simps)

lemma read_env_line_keys:
  "fst ` set env \<subseteq> set DMS_ENV_KEYS \<Longrightarrow> fst ` set (read_env_line line env) \<subseteq> set DMS_ENV_KEYS"
  by (auto simp: read_env_line_def Let_def split: option.split)

lemma fold_read_env_keys:
  "fst ` set env \<subseteq> set DMS_ENV_KEYS \<Longrightarrow> fst ` set (fold read_env_line lines env) \<subseteq> set DMS_ENV_KEYS"
  by (induction lines arbitrary: env) (auto simp: read_env_line_keys)

end
