(* ===== verification/Operations.thy ===== *)
theory Operations
  imports DmsHandlers
begin

text \<open>
  The handler of every broker operation and their dispatch (\<^verbatim>\<open>apps/broker/src/operations.ts\<close>).  A
  handler is the sequence of Docker calls the source makes, with its early returns and refusals.
\<close>

section \<open>Responses\<close>

record container_summary = identifiable +
  sum_id :: string
  sum_image :: string
  sum_state :: string
  sum_status :: string
  sum_createdAt :: int

record inspect_response =
  irs_id :: string
  irs_name :: string
  irs_image :: string
  irs_createdAt :: string
  irs_state :: container_state
  irs_restartCount :: int
  irs_labels :: dict
  irs_mounts :: "container_mount list"

record console_result =
  cr_command :: console_command
  cr_argv :: "string list"
  cr_stdout :: string
  cr_stderr :: string
  cr_exitCode :: int
  cr_durationMs :: int

record self_update_check =
  suc_serverVersion :: "string option"
  suc_brokerVersion :: "string option"
  suc_updatePossible :: bool
  suc_reason :: "string option"

datatype broker_response =
    RContainerList "container_summary list"
  | RContainerInspect inspect_response
  | RAck
  | RContainerStats computed_stats string
  | RContainerLogs "(docker_stream_kind \<times> text_points) list"
  | RSystemPing string
  | RSystemVersion raw_version
  | RSystemInfo raw_system_info
  | RSystemDf raw_system_df
  | RImageList "raw_image list"
  | RVolumeList "raw_volume list"
  | RNetworkList "raw_network list"
  | RImagePrune raw_image_prune
  | RLogsFile "string list"
  | RConsoleExec console_result
  | RSelfUpdateCheck self_update_check
  | RSelfUpdateApply
  | RDmsExec raw_exec_result
  | RDmsContent "string option"
  | RDmsEnv dict

section \<open>Containers\<close>

definition toContainerSummary :: "raw_container \<Rightarrow> container_summary" where
  "toContainerSummary raw =
     \<lparr>ct_names = ct_names raw, ct_labels = ct_labels raw, sum_id = rc_id raw, sum_image = rc_image raw,
      sum_state = rc_state raw, sum_status = rc_status raw, sum_createdAt = rc_createdAt raw\<rparr>"

definition handleContainerList :: "bool option \<Rightarrow> operation_deps \<Rightarrow> broker_response broker_io" where
  "handleContainerList listAll deps =
     (let includeStopped = or_else listAll False
      in and_then
           (callDocker (docker (CListContainers includeStopped)
              (dk_listContainers (od_docker deps) includeStopped)))
           (\<lambda>raw.
              let visible = filter (\<lambda>c. isContainerVisible c (containerVisibility deps)) raw
              in ret (RContainerList (map toContainerSummary visible))))"

definition inspectCall :: "operation_deps \<Rightarrow> string \<Rightarrow> raw_inspect broker_io" where
  "inspectCall deps cid = docker (CInspectContainer cid) (dk_inspectContainer (od_docker deps) cid)"

definition handleContainerInspect :: "operation_deps \<Rightarrow> broker_response broker_io" where
  "handleContainerInspect deps =
     and_then (resolveOrForbid deps) (\<lambda>ref.
     and_then (callDocker (inspectCall deps (mr_id ref))) (\<lambda>raw.
       ret (RContainerInspect
         \<lparr>irs_id = ri_id raw, irs_name = ri_name raw, irs_image = ri_image raw,
          irs_createdAt = ri_createdAt raw, irs_state = ri_state raw,
          irs_restartCount = ri_restartCount raw, irs_labels = ri_labels raw,
          irs_mounts = ri_mounts raw\<rparr>)))"

definition handleContainerStart :: "operation_deps \<Rightarrow> broker_response broker_io" where
  "handleContainerStart deps =
     and_then (resolveOrForbid deps) (\<lambda>ref.
     and_then (callDocker (docker (CStartContainer (mr_id ref))
        (dk_startContainer (od_docker deps) (mr_id ref)))) (\<lambda>_. ret RAck))"

definition handleContainerStop :: "operation_deps \<Rightarrow> broker_response broker_io" where
  "handleContainerStop deps =
     and_then (resolveOrForbid deps) (\<lambda>ref.
     and_then (callDocker (docker (CStopContainer (mr_id ref))
        (dk_stopContainer (od_docker deps) (mr_id ref)))) (\<lambda>_. ret RAck))"

definition restartCall :: "operation_deps \<Rightarrow> string \<Rightarrow> unit broker_io" where
  "restartCall deps cid = docker (CRestartContainer cid) (dk_restartContainer (od_docker deps) cid)"

definition handleContainerRestart :: "operation_deps \<Rightarrow> broker_response broker_io" where
  "handleContainerRestart deps =
     and_then (resolveOrForbid deps) (\<lambda>ref.
     and_then (callDocker (restartCall deps (mr_id ref))) (\<lambda>_. ret RAck))"

definition handleContainerStats :: "operation_deps \<Rightarrow> broker_response broker_io" where
  "handleContainerStats deps =
     and_then (resolveOrForbid deps) (\<lambda>ref.
     and_then (callDocker (docker (CStatsContainer (mr_id ref))
        (dk_statsContainer (od_docker deps) (mr_id ref)))) (\<lambda>raw.
       ret (RContainerStats (computeContainerStats raw) (od_nowIso deps))))"

definition handleContainerLogs ::
  "int option \<Rightarrow> int option \<Rightarrow> bool option \<Rightarrow> operation_deps \<Rightarrow> broker_response broker_io" where
  "handleContainerLogs tail since timestamps deps =
     and_then (resolveOrForbid deps) (\<lambda>ref.
     and_then (callDocker (inspectCall deps (mr_id ref))) (\<lambda>inspection.
       let options = \<lparr>lo_tail = or_else tail LOGS_TAIL_DEFAULT, lo_since = since,
                      lo_timestamps = or_else timestamps False\<rparr>
       in and_then (callDocker (docker (CLogsContainer (mr_id ref) options)
            (dk_logsContainer (od_docker deps) (mr_id ref) options))) (\<lambda>buffer.
          ret (RContainerLogs
            (map (\<lambda>frame. (df_stream frame, utf8_decode (df_data frame)))
              (demuxDockerStream buffer (ri_tty inspection)))))))"

section \<open>The system and its lists\<close>

definition versionCall :: "operation_deps \<Rightarrow> raw_version broker_io" where
  "versionCall deps = callDocker (docker CVersion (dk_version (od_docker deps)))"

definition handleSystemPing :: "operation_deps \<Rightarrow> broker_response broker_io" where
  "handleSystemPing deps =
     and_then (callDocker (docker CPing (dk_ping (od_docker deps)))) (\<lambda>_.
     and_then (versionCall deps) (\<lambda>version. ret (RSystemPing (rv_apiVersion version))))"

definition handleSystemVersion :: "operation_deps \<Rightarrow> broker_response broker_io" where
  "handleSystemVersion deps = and_then (versionCall deps) (\<lambda>version. ret (RSystemVersion version))"

definition handleSystemInfo :: "operation_deps \<Rightarrow> broker_response broker_io" where
  "handleSystemInfo deps =
     and_then (callDocker (docker CInfo (dk_info (od_docker deps)))) (\<lambda>info. ret (RSystemInfo info))"

definition handleSystemDf :: "operation_deps \<Rightarrow> broker_response broker_io" where
  "handleSystemDf deps =
     and_then (callDocker (docker CDf (dk_df (od_docker deps)))) (\<lambda>df. ret (RSystemDf df))"

definition handleImageList :: "operation_deps \<Rightarrow> broker_response broker_io" where
  "handleImageList deps =
     and_then
       (both (callDocker (docker CListImages (dk_listImages (od_docker deps))))
          (listVisibleContainers deps))
       (\<lambda>(raw, visibleContainers).
          let referencedImageRefs = set (map rc_image visibleContainers);
              visible = filter (\<lambda>img.
                isImageVisible img (od_visibleServicePatterns deps) referencedImageRefs) raw
          in ret (RImageList visible))"

definition handleVolumeList :: "operation_deps \<Rightarrow> broker_response broker_io" where
  "handleVolumeList deps =
     and_then
       (both (callDocker (docker CListVolumes (dk_listVolumes (od_docker deps))))
          (listVisibleContainers deps))
       (\<lambda>(raw, visibleContainers).
          let visibleVolumeNames = set (concat (map rc_mountVolumeNames visibleContainers))
          in ret (RVolumeList (filter (\<lambda>volume. rvo_name volume \<in> visibleVolumeNames) raw)))"

definition handleNetworkList :: "operation_deps \<Rightarrow> broker_response broker_io" where
  "handleNetworkList deps =
     and_then
       (both (callDocker (docker CListNetworks (dk_listNetworks (od_docker deps))))
          (listVisibleContainers deps))
       (\<lambda>(raw, visibleContainers).
          let visibleNetworkNames = set (concat (map rc_networkNames visibleContainers))
          in ret (RNetworkList (filter (\<lambda>network. rn_name network \<in> visibleNetworkNames) raw)))"

section \<open>Maintenance\<close>

definition handleVolumeRemove :: "string \<Rightarrow> operation_deps \<Rightarrow> broker_response broker_io" where
  "handleVolumeRemove name deps =
     and_then (resolveOrForbid deps) (\<lambda>ref.
     and_then (callDocker (inspectCall deps (mr_id ref))) (\<lambda>inspection.
       let protectedNames = computeProtectedVolumeNames (ri_mounts inspection)
       in if name \<in> protectedNames then
            throw (broker_error FORBIDDEN
              ''This volume backs a protected mail-data mount and cannot be removed.'')
          else
            and_then (callDocker (docker (CRemoveVolume name) (dk_removeVolume (od_docker deps) name)))
              (\<lambda>_. ret RAck)))"

definition handleImagePrune :: "operation_deps \<Rightarrow> broker_response broker_io" where
  "handleImagePrune deps =
     and_then (callDocker (docker CPruneImages (dk_pruneImages (od_docker deps)))) (\<lambda>result.
       ret (RImagePrune result))"

fun LOG_FILE_PATHS :: "log_file_source \<Rightarrow> string" where
  "LOG_FILE_PATHS SourceMail = ''/var/log/mail/mail.log''"
| "LOG_FILE_PATHS SourceFail2ban = ''/var/log/mail/fail2ban.log''"

definition splitTrimmedLines :: "string \<Rightarrow> string list" where
  "splitTrimmedLines s =
     (if length s = 0 then []
      else
        (let withoutTrailingNewline = (if ends_with [newline] s then butlast s else s)
         in if length withoutTrailingNewline = 0 then [] else split_on newline withoutTrailingNewline))"

text \<open>\<^verbatim>\<open>String(n)\<close> for an integer.\<close>

definition show_int :: "int \<Rightarrow> string" where
  "show_int i = (if i < 0 then ''-'' @ show_nat (nat (- i)) else show_nat (nat i))"

definition handleLogsFile ::
  "log_file_source \<Rightarrow> int option \<Rightarrow> operation_deps \<Rightarrow> broker_response broker_io" where
  "handleLogsFile source tailOption deps =
     and_then (resolveOrForbid deps) (\<lambda>ref.
       let path = LOG_FILE_PATHS source; tail = or_else tailOption LOGS_TAIL_DEFAULT
       in and_then (callDocker (exec deps (mr_id ref) [''tail'', ''-n'', show_int tail, path] None))
            (\<lambda>result.
               if ex_exitCode result \<noteq> 0
               then throw (broker_error UPSTREAM_UNAVAILABLE ''Could not read the requested log file.'')
               else ret (RLogsFile (splitTrimmedLines (ex_stdout result)))))"

fun CONSOLE_COMMAND_ARGV :: "console_command \<Rightarrow> string list" where
  "CONSOLE_COMMAND_ARGV PostqueueP = [''postqueue'', ''-p'']"
| "CONSOLE_COMMAND_ARGV PostconfN = [''postconf'', ''-n'']"
| "CONSOLE_COMMAND_ARGV DoveconfN = [''doveconf'', ''-n'']"
| "CONSOLE_COMMAND_ARGV DoveadmWho = [''doveadm'', ''who'']"

definition handleConsoleExec :: "console_command \<Rightarrow> operation_deps \<Rightarrow> broker_response broker_io" where
  "handleConsoleExec command deps =
     and_then (resolveOrForbid deps) (\<lambda>ref.
       let argv = CONSOLE_COMMAND_ARGV command
       in and_then (callDocker (exec deps (mr_id ref) argv None)) (\<lambda>result.
            ret (RConsoleExec
              \<lparr>cr_command = command, cr_argv = argv, cr_stdout = ex_stdout result,
               cr_stderr = ex_stderr result, cr_exitCode = ex_exitCode result,
               cr_durationMs = od_elapsedMs deps\<rparr>)))"

section \<open>The panel's own containers\<close>

text \<open>A resolution failure becomes a refusal with the given message; other errors pass through.\<close>

definition forbid_unresolved :: "string \<Rightarrow> exn + 'a \<Rightarrow> exn + 'a" where
  "forbid_unresolved message r =
     (case r of
        Inl (ContainerResolutionError _ _) \<Rightarrow> Inl (broker_error FORBIDDEN message)
      | _ \<Rightarrow> r)"

definition handlePanelRestart :: "operation_deps \<Rightarrow> broker_response broker_io" where
  "handlePanelRestart deps =
     and_then (callDocker (docker (CListContainers True) (dk_listContainers (od_docker deps) True))) (\<lambda>listed.
     and_then
       (lift_sum (forbid_unresolved
          ''The panel server container could not be resolved to a single allowlisted match.''
          (selectSingleMatch listed (od_panelServer deps) ''panel server''))) (\<lambda>server.
       let resolvesToBroker =
             list_ex (\<lambda>c. rc_id c = mr_id server \<and> matchesServiceIdentity c (od_panelBroker deps)) listed
       in if resolvesToBroker then
            throw (broker_error FORBIDDEN ''Refusing to restart the broker container.'')
          else and_then (callDocker (restartCall deps (mr_id server))) (\<lambda>_. ret RAck)))"

record panel_identities =
  pi_server :: managed_container_ref
  pi_broker :: managed_container_ref

definition resolvePanelIdentities :: "operation_deps \<Rightarrow> raw_container list \<Rightarrow> exn + panel_identities" where
  "resolvePanelIdentities deps listed =
     sum_bind
       (forbid_unresolved
          ''The panel's own containers could not be resolved to a single allowlisted match each.''
          (sum_bind (selectSingleMatch listed (od_panelServer deps) ''panel server'') (\<lambda>server.
           sum_bind (selectSingleMatch listed (od_panelBroker deps) ''panel broker'') (\<lambda>broker.
             Inr \<lparr>pi_server = server, pi_broker = broker\<rparr>))))
       (\<lambda>ids.
          if mr_id (pi_server ids) = mr_id (pi_broker ids) then
            Inl (broker_error FORBIDDEN
              ''The panel server and panel broker identities must not resolve to the same container.'')
          else
            (let resolvesToDms = (\<lambda>ref.
                   list_ex (\<lambda>c. rc_id c = mr_id ref \<and> matchesServiceIdentity c (od_dms deps)) listed)
             in if resolvesToDms (pi_server ids) \<or> resolvesToDms (pi_broker ids)
                then Inl (broker_error FORBIDDEN ''Refusing to target the mail container.'')
                else Inr ids))"

definition inspectForRecreateCall :: "operation_deps \<Rightarrow> string \<Rightarrow> recreate_spec broker_io" where
  "inspectForRecreateCall deps cid =
     docker (CInspectContainerForRecreate cid) (dk_inspectContainerForRecreate (od_docker deps) cid)"

definition readBakedImageFacts :: "operation_deps \<Rightarrow> string \<Rightarrow> baked_facts broker_io" where
  "readBakedImageFacts deps containerId =
     and_then (callDocker (inspectForRecreateCall deps containerId)) (\<lambda>spec.
       try_catch
         (and_then (docker (CInspectImageConfig (sp_image spec))
            (dk_inspectImageConfig (od_docker deps) (sp_image spec))) (\<lambda>img.
            ret (extractBakedImageFacts (ic_env img))))
         (\<lambda>_. ret (extractBakedImageFacts (sp_env spec))))"

definition NO_VERSION_REASON :: string where
  "NO_VERSION_REASON = ''Could not determine the currently running version from the baked version marker. This install may predate self-update support ... rebuild or redeploy to pick it up (docs/design/self-update.md 9.8).''"

definition SOURCE_BUILT_REASON :: string where
  "SOURCE_BUILT_REASON = ''Self-update is only available for registry-image installs; source-built installs update by rebuilding/redeploying.''"

text \<open>The verdict on two sets of baked facts; the first message is the source's in ASCII.\<close>

definition self_update_verdict :: "baked_facts \<Rightarrow> baked_facts \<Rightarrow> self_update_check" where
  "self_update_verdict serverFacts brokerFacts =
     (let sv = bf_version serverFacts; bv = bf_version brokerFacts
      in if sv = None \<or> bv = None then
           \<lparr>suc_serverVersion = sv, suc_brokerVersion = bv, suc_updatePossible = False,
            suc_reason = Some NO_VERSION_REASON\<rparr>
         else if bf_origin serverFacts \<noteq> Some OriginRegistry \<or> bf_origin brokerFacts \<noteq> Some OriginRegistry then
           \<lparr>suc_serverVersion = sv, suc_brokerVersion = bv, suc_updatePossible = False,
            suc_reason = Some SOURCE_BUILT_REASON\<rparr>
         else
           \<lparr>suc_serverVersion = sv, suc_brokerVersion = bv, suc_updatePossible = True, suc_reason = None\<rparr>)"

definition handlePanelSelfUpdateCheck :: "operation_deps \<Rightarrow> broker_response broker_io" where
  "handlePanelSelfUpdateCheck deps =
     and_then (callDocker (docker (CListContainers True) (dk_listContainers (od_docker deps) True))) (\<lambda>listed.
     and_then (lift_sum (resolvePanelIdentities deps listed)) (\<lambda>ids.
     and_then (readBakedImageFacts deps (mr_id (pi_server ids))) (\<lambda>serverFacts.
     and_then (readBakedImageFacts deps (mr_id (pi_broker ids))) (\<lambda>brokerFacts.
       ret (RSelfUpdateCheck (self_update_verdict serverFacts brokerFacts))))))"

definition updater_target_for ::
  "operation_deps \<Rightarrow> panel_identities \<Rightarrow> recreate_spec \<Rightarrow> string \<Rightarrow> updater_launch_target" where
  "updater_target_for deps ids brokerSpec targetVersion =
     (let serverRepository = resolvePanelRepository PANEL_SERVER_REPOSITORY (od_registryOverride deps);
          brokerRepository = resolvePanelRepository PANEL_BROKER_REPOSITORY (od_registryOverride deps)
      in \<lparr>ul_brokerOwnImage = sp_image brokerSpec,
          ul_brokerHostConfig = sp_hostConfig brokerSpec,
          ul_brokerNetworkingConfig = sp_networkingConfig brokerSpec,
          ul_serverContainerName = mr_name (pi_server ids),
          ul_brokerContainerName = mr_name (pi_broker ids),
          ul_serverImageRef = panelImageReference serverRepository targetVersion,
          ul_brokerImageRef = panelImageReference brokerRepository targetVersion\<rparr>)"

definition handlePanelSelfUpdateApply :: "string \<Rightarrow> operation_deps \<Rightarrow> broker_response broker_io" where
  "handlePanelSelfUpdateApply targetVersion deps =
     and_then (callDocker (docker (CListContainers True) (dk_listContainers (od_docker deps) True))) (\<lambda>listed.
     and_then (lift_sum (resolvePanelIdentities deps listed)) (\<lambda>ids.
     and_then (callDocker (inspectForRecreateCall deps (mr_id (pi_broker ids)))) (\<lambda>brokerSpec.
     and_then (callDocker (launchUpdater (od_docker deps)
        (updater_target_for deps ids brokerSpec targetVersion))) (\<lambda>_.
       ret RSelfUpdateApply))))"

section \<open>Dispatch\<close>

fun handleOperation :: "broker_request \<Rightarrow> operation_deps \<Rightarrow> broker_response broker_io" where
  "handleOperation (ContainerList listAll) deps = handleContainerList listAll deps"
| "handleOperation ContainerInspect deps = handleContainerInspect deps"
| "handleOperation ContainerStart deps = handleContainerStart deps"
| "handleOperation ContainerStop deps = handleContainerStop deps"
| "handleOperation ContainerRestart deps = handleContainerRestart deps"
| "handleOperation ContainerStats deps = handleContainerStats deps"
| "handleOperation (ContainerLogs tail since timestamps) deps = handleContainerLogs tail since timestamps deps"
| "handleOperation SystemPing deps = handleSystemPing deps"
| "handleOperation SystemVersion deps = handleSystemVersion deps"
| "handleOperation SystemInfo deps = handleSystemInfo deps"
| "handleOperation SystemDf deps = handleSystemDf deps"
| "handleOperation ImageList deps = handleImageList deps"
| "handleOperation VolumeList deps = handleVolumeList deps"
| "handleOperation NetworkList deps = handleNetworkList deps"
| "handleOperation (VolumeRemove name) deps = handleVolumeRemove name deps"
| "handleOperation ImagePrune deps = handleImagePrune deps"
| "handleOperation (LogsFile source tail) deps = handleLogsFile source tail deps"
| "handleOperation (ConsoleExec command) deps = handleConsoleExec command deps"
| "handleOperation PanelRestart deps = handlePanelRestart deps"
| "handleOperation PanelSelfUpdateCheck deps = handlePanelSelfUpdateCheck deps"
| "handleOperation (PanelSelfUpdateApply targetVersion) deps = handlePanelSelfUpdateApply targetVersion deps"
| "handleOperation (Dms (DmsFileRead file)) deps =
     and_then (handleDmsFileRead file deps) (\<lambda>content. ret (RDmsContent content))"
| "handleOperation (Dms DmsEnvRead) deps = and_then (handleDmsEnvRead deps) (\<lambda>env. ret (RDmsEnv env))"
| "handleOperation (Dms (DmsDkimRecordRead domain selector)) deps =
     and_then (handleDmsDkimRecordRead domain selector deps) (\<lambda>content. ret (RDmsContent content))"
| "handleOperation (Dms (DmsCommand command)) deps =
     and_then (handleDmsCommand command deps) (\<lambda>result. ret (RDmsExec result))"

end
