(* ===== verification/BrokerPolicy.thy ===== *)
theory BrokerPolicy
  imports Operations
begin

text \<open>
  What the broker may do with the daemon on behalf of a caller.  \<open>broker_allowed\<close> is the policy: for
  each request, which Docker call is allowed, given the calls made and the answers received before it.
  The theorems show that every call of every handler obeys it.
\<close>

section \<open>Evidence in a history\<close>

text \<open>A call was made earlier and the daemon answered it with \<open>x\<close>.\<close>

definition answered_earlier :: "docker_call list \<Rightarrow> docker_call \<Rightarrow> 'a answer \<Rightarrow> 'a \<Rightarrow> bool" where
  "answered_earlier before call a x \<longleftrightarrow>
     (\<exists>n < length before. before ! n = call \<and> a (take n before) = Inr x)"

abbreviation listed :: "operation_deps \<Rightarrow> docker_call list \<Rightarrow> raw_container list \<Rightarrow> bool" where
  "listed deps before cs \<equiv>
     answered_earlier before (CListContainers True) (dk_listContainers (od_docker deps) True) cs"

text \<open>An earlier listing resolved the identity to this container, as the only match.\<close>

definition resolved :: "operation_deps \<Rightarrow> service_identity \<Rightarrow> docker_call list \<Rightarrow> string \<Rightarrow> bool" where
  "resolved deps i before cid \<longleftrightarrow> (\<exists>cs. listed deps before cs \<and> resolves_to cs i cid)"

lemma answered_here [intro]: "a h = Inr x \<Longrightarrow> answered_earlier (h @ [c]) c a x"
  unfolding answered_earlier_def by (rule exI [of _ "length h"]) simp

lemma answered_later [intro]: "answered_earlier h c a x \<Longrightarrow> answered_earlier (h @ cs) c a x"
proof -
  assume "answered_earlier h c a x"
  then obtain n where "n < length h" "h ! n = c" "a (take n h) = Inr x"
    by (auto simp: answered_earlier_def)
  then have "n < length (h @ cs) \<and> (h @ cs) ! n = c \<and> a (take n (h @ cs)) = Inr x"
    by (simp add: nth_append)
  then show ?thesis unfolding answered_earlier_def by blast
qed

lemma resolved_here: "dk_listContainers (od_docker deps) True h = Inr cs \<Longrightarrow> resolves_to cs i cid \<Longrightarrow>
    resolved deps i (h @ [CListContainers True]) cid"
  unfolding resolved_def by blast

lemma resolved_later: "resolved deps i h cid \<Longrightarrow> resolved deps i (h @ cs) cid"
  unfolding resolved_def by blast

section \<open>The policy\<close>

fun observes :: "docker_call \<Rightarrow> bool" where
  "observes CPing = True"
| "observes CVersion = True"
| "observes CInfo = True"
| "observes CDf = True"
| "observes (CListContainers _) = True"
| "observes CListImages = True"
| "observes CListVolumes = True"
| "observes CListNetworks = True"
| "observes _ = False"

text \<open>The commands that a request may run inside the mail container.\<close>

fun exec_allowed :: "broker_request \<Rightarrow> string list \<Rightarrow> bool" where
  "exec_allowed (LogsFile _ _) argv \<longleftrightarrow>
     (\<exists>n path. argv = [''tail'', ''-n'', n, path] \<and>
        path \<in> {''/var/log/mail/mail.log'', ''/var/log/mail/fail2ban.log''})"
| "exec_allowed (ConsoleExec _) argv \<longleftrightarrow>
     argv \<in> {[''postqueue'', ''-p''], [''postconf'', ''-n''], [''doveconf'', ''-n''], [''doveadm'', ''who'']}"
| "exec_allowed (Dms (DmsFileRead _)) argv \<longleftrightarrow>
     (\<exists>name. argv = [''cat'', ''/tmp/docker-mailserver/'' @ name] \<and> CHR ''/'' \<notin> set name \<and>
        ends_with ''.cf'' name)"
| "exec_allowed (Dms DmsEnvRead) argv \<longleftrightarrow> argv = [''printenv'']"
| "exec_allowed (Dms (DmsDkimRecordRead domain selector)) argv \<longleftrightarrow>
     argv = [''cat'', ''/tmp/docker-mailserver/opendkim/keys/'' @ domain @ ''/'' @ selector @ ''.txt''] \<or>
     argv = rspamd_find domain selector"
| "exec_allowed (Dms (DmsCommand _)) argv \<longleftrightarrow> safe_argv argv"
| "exec_allowed _ argv \<longleftrightarrow> False"

text \<open>
  The updater that an update may create: named as the code names it, running the image of the
  resolved broker, told to move to the requested version of the two panel repositories.
\<close>

definition updater_allowed ::
  "operation_deps \<Rightarrow> string \<Rightarrow> docker_call list \<Rightarrow> recreate_spec \<Rightarrow> bool" where
  "updater_allowed deps v before spec \<longleftrightarrow>
     sp_name spec = SELF_UPDATE_UPDATER_CONTAINER_NAME \<and>
     sp_cmd spec = Some UPDATER_ENTRYPOINT_COMMAND \<and>
     (''DWG_SELF_UPDATE_SERVER_IMAGE_REF='' @
        panelImageReference (resolvePanelRepository PANEL_SERVER_REPOSITORY (od_registryOverride deps)) v)
       \<in> set (sp_env spec) \<and>
     (''DWG_SELF_UPDATE_BROKER_IMAGE_REF='' @
        panelImageReference (resolvePanelRepository PANEL_BROKER_REPOSITORY (od_registryOverride deps)) v)
       \<in> set (sp_env spec) \<and>
     (\<exists>bid bspec. resolved deps (od_panelBroker deps) before bid \<and>
        answered_earlier before (CInspectContainerForRecreate bid)
          (dk_inspectContainerForRecreate (od_docker deps) bid) bspec \<and>
        sp_image spec = sp_image bspec)"

fun broker_allowed :: "operation_deps \<Rightarrow> broker_request \<Rightarrow> docker_call list \<Rightarrow> docker_call \<Rightarrow> bool" where
  "broker_allowed deps req before (CInspectContainer cid) \<longleftrightarrow> resolved deps (od_dms deps) before cid"
| "broker_allowed deps req before (CStartContainer cid) \<longleftrightarrow>
     req = ContainerStart \<and> resolved deps (od_dms deps) before cid \<or>
     (\<exists>v spec. req = PanelSelfUpdateApply v \<and>
        answered_earlier before (CCreateContainer spec) (dk_createContainer (od_docker deps) spec) cid)"
| "broker_allowed deps req before (CStopContainer cid) \<longleftrightarrow>
     req = ContainerStop \<and> resolved deps (od_dms deps) before cid"
| "broker_allowed deps req before (CRestartContainer cid) \<longleftrightarrow>
     req = ContainerRestart \<and> resolved deps (od_dms deps) before cid \<or>
     req = PanelRestart \<and>
       (\<exists>cs. listed deps before cs \<and> resolves_to cs (od_panelServer deps) cid \<and>
          (\<nexists>c. c \<in> set cs \<and> rc_id c = cid \<and> matchesServiceIdentity c (od_panelBroker deps)))"
| "broker_allowed deps req before (CStatsContainer cid) \<longleftrightarrow>
     req = ContainerStats \<and> resolved deps (od_dms deps) before cid"
| "broker_allowed deps req before (CLogsContainer cid options) \<longleftrightarrow> resolved deps (od_dms deps) before cid"
| "broker_allowed deps req before (CRemoveVolume name) \<longleftrightarrow>
     req = VolumeRemove name \<and>
     (\<exists>cid inspection. resolved deps (od_dms deps) before cid \<and>
        answered_earlier before (CInspectContainer cid) (dk_inspectContainer (od_docker deps) cid) inspection \<and>
        (\<nexists>m. m \<in> set (ri_mounts inspection) \<and> mnt_type m = ''volume'' \<and> mnt_name m = Some name \<and>
           mnt_destination m \<in> set DMS_PROTECTED_MOUNT_DESTINATIONS))"
| "broker_allowed deps req before CPruneImages \<longleftrightarrow> req = ImagePrune"
| "broker_allowed deps req before (CExecContainer cid argv stdin) \<longleftrightarrow>
     resolved deps (od_dms deps) before cid \<and> exec_allowed req argv"
| "broker_allowed deps req before (CInspectContainerForRecreate cid) \<longleftrightarrow>
     resolved deps (od_panelServer deps) before cid \<or> resolved deps (od_panelBroker deps) before cid"
| "broker_allowed deps req before (CInspectImageConfig img) \<longleftrightarrow> req = PanelSelfUpdateCheck"
| "broker_allowed deps req before (CCreateContainer spec) \<longleftrightarrow>
     (\<exists>v. req = PanelSelfUpdateApply v \<and> updater_allowed deps v before spec)"
| "broker_allowed deps req before (CRemoveContainer cid force) \<longleftrightarrow>
     (\<exists>v cs c. req = PanelSelfUpdateApply v \<and> listed deps before cs \<and> c \<in> set cs \<and> rc_id c = cid \<and>
        SELF_UPDATE_UPDATER_CONTAINER_NAME \<in> set (ct_names c))"
| "broker_allowed deps req before (CGetContainerArchive cid path) \<longleftrightarrow> False"
| "broker_allowed deps req before (CPutContainerArchive cid path) \<longleftrightarrow> False"
| "broker_allowed deps req before (CPullImage reference) \<longleftrightarrow> False"
| "broker_allowed deps req before (CRemoveImage reference) \<longleftrightarrow> False"
| "broker_allowed deps req before _ \<longleftrightarrow> True"

interpretation broker: observing_policy "broker_allowed deps req" observes for deps req
proof unfold_locales
  show "broker_allowed deps req h c" if "observes c" for h c
    using that by (cases c) auto
qed

section \<open>Every handler obeys it\<close>

abbreviation obeys :: "operation_deps \<Rightarrow> broker_request \<Rightarrow> 'a broker_io \<Rightarrow> docker_call list \<Rightarrow> bool" where
  "obeys deps req m h \<equiv>
     wp m (\<lambda>_. justified (broker_allowed deps req)) (\<lambda>_. justified (broker_allowed deps req)) h"

text \<open>After resolution the history is justified and the reference is resolved in it.\<close>

lemma wp_resolved:
  assumes "justified (broker_allowed deps req) h"
    and "\<And>ref h'. justified (broker_allowed deps req) h' \<Longrightarrow> resolved deps (od_dms deps) h' (mr_id ref) \<Longrightarrow> Q ref h'"
    and "\<And>e h'. justified (broker_allowed deps req) h' \<Longrightarrow> E e h'"
  shows "wp (resolveOrForbid deps) Q E h"
proof (rule wp_resolveOrForbid)
  fix cs and ref :: managed_container_ref
  assume "dk_listContainers (od_docker deps) True h = Inr cs" "resolves_to cs (od_dms deps) (mr_id ref)"
  then have "resolved deps (od_dms deps) (h @ [CListContainers True]) (mr_id ref)" by (rule resolved_here)
  then show "Q ref (h @ [CListContainers True])" by (rule assms(2) [rotated]) (simp add: assms(1))
qed (simp add: assms)

lemmas handler_defs =
  handleContainerList_def handleContainerInspect_def handleContainerStart_def handleContainerStop_def
  handleContainerRestart_def handleContainerStats_def handleContainerLogs_def versionCall_def
  handleSystemPing_def handleSystemVersion_def handleSystemInfo_def handleSystemDf_def
  handleImageList_def handleVolumeList_def handleNetworkList_def handleImagePrune_def
  handleLogsFile_def handleConsoleExec_def handleDmsFileRead_def handleDmsEnvRead_def
  handleDmsDkimRecordRead_def inspectCall_def restartCall_def

lemma obeys_lists:
  assumes "justified (broker_allowed deps req) h"
  shows "obeys deps req (handleContainerList a deps) h"
    "obeys deps req (handleSystemPing deps) h"
    "obeys deps req (handleSystemVersion deps) h"
    "obeys deps req (handleSystemInfo deps) h"
    "obeys deps req (handleSystemDf deps) h"
    "obeys deps req (handleImageList deps) h"
    "obeys deps req (handleVolumeList deps) h"
    "obeys deps req (handleNetworkList deps) h"
    "req = ImagePrune \<Longrightarrow> obeys deps req (handleImagePrune deps) h"
  using assms by (simp_all add: handler_defs Let_def wp_simps split: sum.split)

lemma obeys_lifecycle:
  assumes "justified (broker_allowed deps req) h"
  shows "req = ContainerInspect \<Longrightarrow> obeys deps req (handleContainerInspect deps) h"
    and "req = ContainerStart \<Longrightarrow> obeys deps req (handleContainerStart deps) h"
    and "req = ContainerStop \<Longrightarrow> obeys deps req (handleContainerStop deps) h"
    and "req = ContainerRestart \<Longrightarrow> obeys deps req (handleContainerRestart deps) h"
    and "req = ContainerStats \<Longrightarrow> obeys deps req (handleContainerStats deps) h"
    and "req = ContainerLogs t s ts \<Longrightarrow> obeys deps req (handleContainerLogs t s ts deps) h"
  using assms
  by (simp_all add: handler_defs Let_def wp_simps)
    (rule wp_resolved, assumption; simp add: wp_simps resolved_later split: sum.split)+

lemma obeys_execs:
  assumes "justified (broker_allowed deps req) h"
  shows "req = LogsFile src t \<Longrightarrow> obeys deps req (handleLogsFile src t deps) h"
    and "req = ConsoleExec c \<Longrightarrow> obeys deps req (handleConsoleExec c deps) h"
    and "req = Dms (DmsFileRead f) \<Longrightarrow> obeys deps req (handleDmsFileRead f deps) h"
    and "req = Dms DmsEnvRead \<Longrightarrow> obeys deps req (handleDmsEnvRead deps) h"
    and "req = Dms (DmsDkimRecordRead d s) \<Longrightarrow> obeys deps req (handleDmsDkimRecordRead d s deps) h"
proof -
  have path: "LOG_FILE_PATHS src \<in> {''/var/log/mail/mail.log'', ''/var/log/mail/fail2ban.log''}"
    by (cases src) auto
  have console: "CONSOLE_COMMAND_ARGV c \<in>
      {[''postqueue'', ''-p''], [''postconf'', ''-n''], [''doveconf'', ''-n''], [''doveadm'', ''who'']}"
    by (cases c) auto
  have cf: "\<exists>name. DMS_CONFIG_FILE_PATHS f = ''/tmp/docker-mailserver/'' @ name \<and>
      CHR ''/'' \<notin> set name \<and> ends_with ''.cf'' name"
    by (cases f) (auto simp: DMS_CONFIG_DIR_def ends_with_def)
  show "req = LogsFile src t \<Longrightarrow> obeys deps req (handleLogsFile src t deps) h"
    using assms path
    by (simp add: handler_defs Let_def wp_simps)
      (rule wp_resolved, assumption; auto simp: wp_simps split: sum.split)
  show "req = ConsoleExec c \<Longrightarrow> obeys deps req (handleConsoleExec c deps) h"
    using assms console
    by (simp add: handler_defs Let_def wp_simps)
      (rule wp_resolved, assumption; auto simp: wp_simps split: sum.split)
  show "req = Dms (DmsFileRead f) \<Longrightarrow> obeys deps req (handleDmsFileRead f deps) h"
    using assms cf
    by (simp add: handler_defs Let_def wp_simps)
      (rule wp_resolved, assumption; auto simp: wp_simps split: sum.split)
  show "req = Dms DmsEnvRead \<Longrightarrow> obeys deps req (handleDmsEnvRead deps) h"
    using assms
    by (simp add: handler_defs Let_def wp_simps)
      (rule wp_resolved, assumption; auto simp: wp_simps split: sum.split)
  show "req = Dms (DmsDkimRecordRead d s) \<Longrightarrow> obeys deps req (handleDmsDkimRecordRead d s deps) h"
    using assms
    by (simp add: handler_defs Let_def wp_simps)
      (rule wp_resolved, assumption;
        auto simp: wp_simps resolved_later openDkimPath_def DMS_CONFIG_DIR_def split: sum.split)
qed

lemma obeys_dms_command:
  assumes "justified (broker_allowed deps (Dms (DmsCommand c))) h"
  shows "obeys deps (Dms (DmsCommand c)) (handleDmsCommand c deps) h"
  unfolding handleDmsCommand_def wp_simps
  using assms
  by (rule wp_resolved)
    (auto simp: wp_simps builder_argv_safe split: sum.split)

lemma remove_allowed:
  assumes "dk_inspectContainer (od_docker deps) cid h = Inr ins"
    and "name \<notin> computeProtectedVolumeNames (ri_mounts ins)" and "resolved deps (od_dms deps) h cid"
  shows "broker_allowed deps (VolumeRemove name) (h @ [CInspectContainer cid]) (CRemoveVolume name)"
proof -
  have "resolved deps (od_dms deps) (h @ [CInspectContainer cid]) cid"
    using assms(3) by (rule resolved_later)
  moreover have "answered_earlier (h @ [CInspectContainer cid]) (CInspectContainer cid)
      (dk_inspectContainer (od_docker deps) cid) ins"
    using assms(1) by (rule answered_here)
  ultimately show ?thesis using assms(2) by (auto simp: computeProtectedVolumeNames_iff)
qed

lemma obeys_volume_remove:
  assumes "justified (broker_allowed deps (VolumeRemove name)) h"
  shows "obeys deps (VolumeRemove name) (handleVolumeRemove name deps) h"
  unfolding handleVolumeRemove_def Let_def inspectCall_def wp_simps
  using assms
  by (rule wp_resolved)
    (auto simp: wp_simps remove_allowed simp del: broker_allowed.simps(7) split: sum.split)

lemma forbid_unresolved_Inr [simp]: "forbid_unresolved m r = Inr x \<longleftrightarrow> r = Inr x"
  by (auto simp: forbid_unresolved_def split: sum.split exn.split)

lemma obeys_panel_restart:
  assumes "justified (broker_allowed deps PanelRestart) h"
  shows "obeys deps PanelRestart (handlePanelRestart deps) h"
proof -
  have "broker_allowed deps PanelRestart (h @ [CListContainers True]) (CRestartContainer (mr_id server))"
    if "dk_listContainers (od_docker deps) True h = Inr cs"
      "selectSingleMatch cs (od_panelServer deps) ''panel server'' = Inr server"
      "\<not> list_ex (\<lambda>c. rc_id c = mr_id server \<and> matchesServiceIdentity c (od_panelBroker deps)) cs"
    for cs server
    using that by (auto simp: list_ex_iff dest: selectSingleMatch_resolves)
  with assms show ?thesis
    by (auto simp: handlePanelRestart_def restartCall_def Let_def wp_simps split: sum.split)
qed

lemma resolvePanelIdentities_Inr:
  assumes "resolvePanelIdentities deps cs = Inr ids"
  shows "resolves_to cs (od_panelServer deps) (mr_id (pi_server ids))"
    and "resolves_to cs (od_panelBroker deps) (mr_id (pi_broker ids))"
    and "mr_id (pi_server ids) \<noteq> mr_id (pi_broker ids)"
    and "\<not> list_ex (\<lambda>c. rc_id c \<in> {mr_id (pi_server ids), mr_id (pi_broker ids)} \<and>
            matchesServiceIdentity c (od_dms deps)) cs"
  using assms
  by (auto simp: resolvePanelIdentities_def Let_def list_ex_iff dest: selectSingleMatch_resolves
      split: if_splits)

lemma wp_read_facts:
  assumes "justified (broker_allowed deps PanelSelfUpdateCheck) h"
    and "resolved deps (od_panelServer deps) h cid \<or> resolved deps (od_panelBroker deps) h cid"
  shows "wp (readBakedImageFacts deps cid)
    (\<lambda>_ h'. justified (broker_allowed deps PanelSelfUpdateCheck) h' \<and> prefix h h')
    (\<lambda>_. justified (broker_allowed deps PanelSelfUpdateCheck)) h"
  using assms
  by (auto simp: readBakedImageFacts_def inspectForRecreateCall_def wp_simps split: sum.split)

lemma resolved_prefix: "resolved deps i h cid \<Longrightarrow> prefix h h' \<Longrightarrow> resolved deps i h' cid"
  by (auto simp: prefix_def resolved_later)

lemma obeys_self_update_check:
  assumes "justified (broker_allowed deps PanelSelfUpdateCheck) h"
  shows "obeys deps PanelSelfUpdateCheck (handlePanelSelfUpdateCheck deps) h"
proof -
  let ?J = "justified (broker_allowed deps PanelSelfUpdateCheck)"
  let ?h = "h @ [CListContainers True]"
  have facts: "wp (readBakedImageFacts deps (mr_id (pi_server ids)))
      (\<lambda>f. wp (readBakedImageFacts deps (mr_id (pi_broker ids))) (\<lambda>g. ?J) (\<lambda>_. ?J)) (\<lambda>_. ?J) ?h"
    if l: "dk_listContainers (od_docker deps) True h = Inr cs"
      and ids: "resolvePanelIdentities deps cs = Inr ids" for cs ids
  proof -
    have s: "resolved deps (od_panelServer deps) ?h (mr_id (pi_server ids))"
      and b: "resolved deps (od_panelBroker deps) ?h (mr_id (pi_broker ids))"
      using l resolvePanelIdentities_Inr [OF ids] by (auto intro: resolved_here)
    have "?J ?h" using assms by simp
    then have "wp (readBakedImageFacts deps (mr_id (pi_server ids))) (\<lambda>_ h'. ?J h' \<and> prefix ?h h') (\<lambda>_. ?J) ?h"
      using s by (intro wp_read_facts) auto
    then show ?thesis
    proof (rule wp_mono)
      fix x h' assume "?J h' \<and> prefix ?h h'"
      then have "wp (readBakedImageFacts deps (mr_id (pi_broker ids))) (\<lambda>_ h''. ?J h'' \<and> prefix h' h'') (\<lambda>_. ?J) h'"
        using resolved_prefix [OF b] by (intro wp_read_facts) auto
      then show "wp (readBakedImageFacts deps (mr_id (pi_broker ids))) (\<lambda>g. ?J) (\<lambda>_. ?J) h'"
        by (rule wp_mono) auto
    qed
  qed
  with assms show ?thesis
    by (auto simp: handlePanelSelfUpdateCheck_def wp_simps split: sum.split)
qed

text \<open>The updater's launch, from a history in which the broker was resolved and inspected.\<close>

lemma updater_spec_allowed:
  assumes "resolved deps (od_panelBroker deps) h bid"
    and "answered_earlier h (CInspectContainerForRecreate bid)
          (dk_inspectContainerForRecreate (od_docker deps) bid) bspec"
  shows "updater_allowed deps v h (updater_spec (updater_target_for deps ids bspec v))"
  using assms by (auto simp: updater_allowed_def updater_spec_def updater_target_for_def Let_def)

lemma obeys_launch:
  assumes "justified (broker_allowed deps (PanelSelfUpdateApply v)) h"
    and r: "resolved deps (od_panelBroker deps) h bid"
    and a: "answered_earlier h (CInspectContainerForRecreate bid)
          (dk_inspectContainerForRecreate (od_docker deps) bid) bspec"
  shows "obeys deps (PanelSelfUpdateApply v)
    (launchUpdater (od_docker deps) (updater_target_for deps ids bspec v)) h"
proof -
  let ?req = "PanelSelfUpdateApply v"
  let ?J = "justified (broker_allowed deps ?req)"
  let ?spec = "updater_spec (updater_target_for deps ids bspec v)"
  have create: "wp (start_updater (od_docker deps) ?spec) (\<lambda>_. ?J) (\<lambda>_. ?J) h'"
    if "?J h'" "prefix h h'" for h'
  proof -
    from that(2) obtain cs where h': "h' = h @ cs" by (auto simp: prefix_def)
    have "updater_allowed deps v h' ?spec"
      unfolding h' by (rule updater_spec_allowed) (use r a in \<open>auto intro: resolved_later\<close>)
    moreover have "answered_earlier (h' @ [CCreateContainer ?spec]) (CCreateContainer ?spec)
        (dk_createContainer (od_docker deps) ?spec) cid"
      if "dk_createContainer (od_docker deps) ?spec h' = Inr cid" for cid
      using that by (rule answered_here)
    ultimately show ?thesis using that(1) by (auto simp: start_updater_def wp_simps split: sum.split)
  qed
  have remove: "broker_allowed deps ?req (h @ [CListContainers True]) (CRemoveContainer (rc_id c) True)"
    if "dk_listContainers (od_docker deps) True h = Inr cs"
      "find (\<lambda>c. SELF_UPDATE_UPDATER_CONTAINER_NAME \<in> set (ct_names c)) cs = Some c" for cs c
    using that by (auto simp: find_Some_iff in_set_conv_nth intro!: answered_here)
  show ?thesis
    using assms(1) create [of "h @ [CListContainers True]"] remove
      create [of "h @ [CListContainers True, CRemoveContainer (rc_id c) True]" for c]
    by (auto simp: launchUpdater_def wp_simps simp del: broker_allowed.simps(13)
        split: sum.split option.split)
qed

lemma obeys_self_update_apply:
  assumes "justified (broker_allowed deps (PanelSelfUpdateApply v)) h"
  shows "obeys deps (PanelSelfUpdateApply v) (handlePanelSelfUpdateApply v deps) h"
proof -
  let ?J = "justified (broker_allowed deps (PanelSelfUpdateApply v))"
  have launch: "obeys deps (PanelSelfUpdateApply v)
      (launchUpdater (od_docker deps) (updater_target_for deps ids bspec v))
      (h @ [CListContainers True, CInspectContainerForRecreate (mr_id (pi_broker ids))])"
    if l: "dk_listContainers (od_docker deps) True h = Inr cs"
      and ids: "resolvePanelIdentities deps cs = Inr ids"
      and b: "dk_inspectContainerForRecreate (od_docker deps) (mr_id (pi_broker ids))
            (h @ [CListContainers True]) = Inr bspec" for cs ids bspec
  proof (rule obeys_launch)
    let ?h = "h @ [CListContainers True]"
    let ?c = "CInspectContainerForRecreate (mr_id (pi_broker ids))"
    have r: "resolved deps (od_panelBroker deps) ?h (mr_id (pi_broker ids))"
      using l resolvePanelIdentities_Inr [OF ids] by (auto intro: resolved_here)
    then show "?J (h @ [CListContainers True, ?c])" using assms by simp
    show "resolved deps (od_panelBroker deps) (h @ [CListContainers True, ?c]) (mr_id (pi_broker ids))"
      using resolved_later [OF r, of "[?c]"] by simp
    show "answered_earlier (h @ [CListContainers True, ?c]) ?c
        (dk_inspectContainerForRecreate (od_docker deps) (mr_id (pi_broker ids))) bspec"
      using answered_here [of "dk_inspectContainerForRecreate (od_docker deps) (mr_id (pi_broker ids))",
          OF b, of ?c] by simp
  qed
  have inspect: "resolved deps (od_panelBroker deps) (h @ [CListContainers True]) (mr_id (pi_broker ids))"
    if "dk_listContainers (od_docker deps) True h = Inr cs"
      "resolvePanelIdentities deps cs = Inr ids" for cs ids
    using that resolvePanelIdentities_Inr [OF that(2)] by (auto intro: resolved_here)
  from assms launch inspect show ?thesis
    by (auto simp: handlePanelSelfUpdateApply_def inspectForRecreateCall_def wp_simps split: sum.split)
qed

lemma obeys_handleOperation:
  assumes "justified (broker_allowed deps req) h"
  shows "obeys deps req (handleOperation req deps) h"
proof (cases req)
  case (Dms r)
  with assms show ?thesis
    by (cases r) (auto simp: wp_simps intro: obeys_execs obeys_dms_command)
qed (use assms in \<open>auto intro: obeys_lists obeys_lifecycle obeys_execs obeys_volume_remove
       obeys_panel_restart obeys_self_update_check obeys_self_update_apply\<close>)

text \<open>
  C1 The broker's authority is bounded whatever the daemon answers and whoever asks: every Docker call
  that the handler of a request makes is one its policy allows at that moment.  Containers are
  touched only after a listing resolved them as the unique match of a configured identity; commands
  run only in the mail container and are the fixed ones of the request; a volume is removed only when
  an inspection showed that it backs no protected mount; only the panel server is restarted by the
  panel, never a container that is also the broker; only the updater is created, from the broker's own
  image; and no handler pulls or removes an image or reads or writes an archive.
\<close>

theorem handler_calls_justified:
  "justified (broker_allowed deps req) (snd (handleOperation req deps []))"
  using obeys_handleOperation [of deps req "[]"] by (simp add: wp_trace)

section \<open>Single operations\<close>

text \<open>Unfolding a program into its result and its calls.\<close>

lemmas run_simps =
  and_then_def callDocker_def try_catch_def docker_def perform_def answered_def lift_sum_def throw_def
  ret_def

text \<open>The outcome of resolution, case by case.\<close>

lemma resolveOrForbid_cases:
  "resolveOrForbid deps h =
     (case dk_listContainers (od_docker deps) True h of
        Inl e \<Rightarrow> (Inl (RawError e), h @ [CListContainers True])
      | Inr cs \<Rightarrow>
          ((case selectSingleMatch cs (od_dms deps) ''mail container'' of
              Inl _ \<Rightarrow> Inl (broker_error FORBIDDEN
                ''The managed container could not be resolved to a single allowlisted match.'')
            | Inr ref \<Rightarrow> Inr ref), h @ [CListContainers True]))"
  by (auto simp: resolveOrForbid_def resolveManagedContainer_def resolveContainerByIdentity_def
      try_catch_def and_then_def docker_def perform_def answered_def lift_sum_def throw_def
      split: sum.split exn.split dest: selectSingleMatch_Inl)

text \<open>The requests whose target is the mail container.\<close>

fun targets_mail_container :: "broker_request \<Rightarrow> bool" where
  "targets_mail_container ContainerInspect = True"
| "targets_mail_container ContainerStart = True"
| "targets_mail_container ContainerStop = True"
| "targets_mail_container ContainerRestart = True"
| "targets_mail_container ContainerStats = True"
| "targets_mail_container (ContainerLogs _ _ _) = True"
| "targets_mail_container (VolumeRemove _) = True"
| "targets_mail_container (LogsFile _ _) = True"
| "targets_mail_container (ConsoleExec _) = True"
| "targets_mail_container (Dms _) = True"
| "targets_mail_container _ = False"

lemma targets_begin_with_resolution:
  "targets_mail_container req \<Longrightarrow> \<exists>k. handleOperation req deps = and_then (resolveOrForbid deps) k"
proof -
  have assoc: "and_then (and_then m f) g = and_then m (\<lambda>x. and_then (f x) g)"
    for m :: "managed_container_ref broker_io" and f :: "managed_container_ref \<Rightarrow> 'b broker_io"
      and g :: "'b \<Rightarrow> broker_response broker_io"
    by (rule ext) (simp add: and_then_def split: prod.split sum.split)
  assume "targets_mail_container req"
  then show ?thesis
  proof (cases req)
    case (Dms r)
    then show ?thesis
      by (cases r) (auto simp: handler_defs handleDmsCommand_def assoc)
  qed (auto simp: handler_defs handleVolumeRemove_def)
qed

text \<open>
  C27 When the configured mail container cannot be told apart (no container matches, or several do),
  every request that targets it is refused with 403 after the listing and before any other call.
\<close>

theorem unresolved_refused:
  assumes "targets_mail_container req"
    and "dk_listContainers (od_docker deps) True [] = Inr cs"
    and "\<nexists>cid. resolves_to cs (od_dms deps) cid"
  shows "handleOperation req deps [] =
    (Inl (BrokerError FORBIDDEN
       ''The managed container could not be resolved to a single allowlisted match.'' 403),
     [CListContainers True])"
proof -
  obtain k where k: "handleOperation req deps = and_then (resolveOrForbid deps) k"
    using targets_begin_with_resolution [OF assms(1)] by blast
  obtain e where "selectSingleMatch cs (od_dms deps) ''mail container'' = Inl e"
    using assms(3) selectSingleMatch_resolves
    by (cases "selectSingleMatch cs (od_dms deps) ''mail container''") blast+
  with assms(2) show ?thesis
    by (simp add: k and_then_def resolveOrForbid_cases new_BrokerError_def)
qed

text \<open>A deployment with the default container names, over a daemon that lists the given containers.\<close>

definition sample_deps :: "raw_container list \<Rightarrow> operation_deps" where
  "sample_deps cs =
     \<lparr>od_docker = offline_daemon\<lparr>dk_listContainers := \<lambda>_ _. Inr cs\<rparr>,
      od_dms = \<lparr>si_containerName = ''mailserver'', si_containerLabel = None\<rparr>,
      od_panelServer = \<lparr>si_containerName = ''dwg-server'', si_containerLabel = None\<rparr>,
      od_panelBroker = \<lparr>si_containerName = ''dwg-broker'', si_containerLabel = None\<rparr>,
      od_visibleServicePatterns = DEFAULT_VISIBLE_SERVICE_PATTERNS, od_registryOverride = None,
      od_nowIso = ''2026-01-01T00:00:00.000Z'', od_elapsedMs = 0\<rparr>"

lemma sample_deps_list [simp]: "dk_listContainers (od_docker (sample_deps cs)) b h = Inr cs"
  by (simp add: sample_deps_def)

lemma sample_deps_dms [simp]:
  "od_dms (sample_deps cs) = \<lparr>si_containerName = ''mailserver'', si_containerLabel = None\<rparr>"
  by (simp add: sample_deps_def)

theorem unresolved_refused_witness:
  "handleOperation ContainerStop (sample_deps [sample_container ''a'' ''mailserver'',
     sample_container ''b'' ''/mailserver'']) [] =
    (Inl (BrokerError FORBIDDEN
       ''The managed container could not be resolved to a single allowlisted match.'' 403),
     [CListContainers True])"
proof (rule unresolved_refused)
  show "\<nexists>cid. resolves_to [sample_container ''a'' ''mailserver'', sample_container ''b'' ''/mailserver'']
      (od_dms (sample_deps [sample_container ''a'' ''mailserver'', sample_container ''b'' ''/mailserver''])) cid"
    by (simp add: resolves_to_def matchesServiceIdentity_def sample_container_def stripLeadingSlash_def
        starts_with_def)
qed simp_all

text \<open>
  \<^verbatim>\<open>panel.restart\<close> restarts a container exactly when that container is the unique match of the panel
  server's identity and no container with its id matches the broker's identity.
\<close>

theorem panel_restart_target:
  "CRestartContainer cid \<in> set (snd (handleOperation PanelRestart deps [])) \<longleftrightarrow>
     (\<exists>cs. dk_listContainers (od_docker deps) True [] = Inr cs \<and>
        resolves_to cs (od_panelServer deps) cid \<and>
        \<not> list_ex (\<lambda>c. rc_id c = cid \<and> matchesServiceIdentity c (od_panelBroker deps)) cs)"
proof (cases "dk_listContainers (od_docker deps) True []")
  case (Inl e)
  then show ?thesis by (simp add: handlePanelRestart_def run_simps)
next
  case list: (Inr cs)
  show ?thesis
  proof (cases "selectSingleMatch cs (od_panelServer deps) ''panel server''")
    case (Inl e)
    moreover from this obtain r m where "e = ContainerResolutionError r m"
      using selectSingleMatch_Inl by blast
    ultimately show ?thesis
      using list by (simp add: handlePanelRestart_def run_simps forbid_unresolved_def not_resolved)
  next
    case (Inr server)
    with list show ?thesis
      by (auto simp: handlePanelRestart_def restartCall_def run_simps forbid_unresolved_def Let_def
          resolves_to_selected split: sum.split)
  qed
qed

text \<open>
  C26 \<^verbatim>\<open>volume.remove\<close> asks the daemon to remove exactly the requested volume, and does so if and only if
  the mail container resolved, could be inspected, and mounts that volume at none of the four
  protected destinations.
\<close>

theorem volume_remove_target:
  "CRemoveVolume v \<in> set (snd (handleOperation (VolumeRemove name) deps [])) \<longleftrightarrow>
     v = name \<and>
     (\<exists>cs cid inspection. dk_listContainers (od_docker deps) True [] = Inr cs \<and>
        resolves_to cs (od_dms deps) cid \<and>
        dk_inspectContainer (od_docker deps) cid [CListContainers True] = Inr inspection \<and>
        \<not> list_ex (\<lambda>m. mnt_type m = ''volume'' \<and> mnt_name m = Some name \<and>
           mnt_destination m \<in> set DMS_PROTECTED_MOUNT_DESTINATIONS) (ri_mounts inspection))"
proof (cases "dk_listContainers (od_docker deps) True []")
  case (Inl e)
  then show ?thesis by (simp add: handleVolumeRemove_def and_then_def resolveOrForbid_cases)
next
  case list: (Inr cs)
  show ?thesis
  proof (cases "selectSingleMatch cs (od_dms deps) ''mail container''")
    case (Inl e)
    with list show ?thesis
      by (simp add: handleVolumeRemove_def and_then_def resolveOrForbid_cases not_resolved)
  next
    case (Inr ref)
    with list show ?thesis
      by (auto simp: handleVolumeRemove_def inspectCall_def resolveOrForbid_cases run_simps Let_def
          resolves_to_selected computeProtectedVolumeNames_iff list_ex_iff split: sum.splits)
  qed
qed

text \<open>
  The lists show the visible webmail set and nothing else: a container is listed if and only if it is
  visible, and images, volumes and networks are exactly those that match a pattern or that a visible
  container uses.
\<close>

theorem lists_show_visible_set:
  assumes "dk_listContainers (od_docker deps) True [CListImages] = Inr cs"
    and "dk_listContainers (od_docker deps) True [CListVolumes] = Inr cs"
    and "dk_listContainers (od_docker deps) True [CListNetworks] = Inr cs"
    and "dk_listContainers (od_docker deps) True [] = Inr cs"
    and "dk_listImages (od_docker deps) [] = Inr imgs"
    and "dk_listVolumes (od_docker deps) [] = Inr vols"
    and "dk_listNetworks (od_docker deps) [] = Inr nets"
    and visible: "visible = filter (\<lambda>c. isContainerVisible c (containerVisibility deps)) cs"
  shows "fst (handleOperation (ContainerList (Some True)) deps []) =
      Inr (RContainerList (map toContainerSummary visible)) \<and>
    fst (handleOperation ImageList deps []) =
      Inr (RImageList (filter (\<lambda>img. list_ex (\<lambda>t. matchesAnyPattern t (od_visibleServicePatterns deps)) (im_repoTags img) \<or>
        list_ex (\<lambda>c. rc_image c = im_id img \<or> rc_image c \<in> set (im_repoTags img)) visible) imgs)) \<and>
    fst (handleOperation VolumeList deps []) =
      Inr (RVolumeList (filter (\<lambda>v. list_ex (\<lambda>c. rvo_name v \<in> set (rc_mountVolumeNames c)) visible) vols)) \<and>
    fst (handleOperation NetworkList deps []) =
      Inr (RNetworkList (filter (\<lambda>n. list_ex (\<lambda>c. rn_name n \<in> set (rc_networkNames c)) visible) nets))"
proof -
  have "isImageVisible img (od_visibleServicePatterns deps) (rc_image ` set visible) \<longleftrightarrow>
      list_ex (\<lambda>t. matchesAnyPattern t (od_visibleServicePatterns deps)) (im_repoTags img) \<or>
      list_ex (\<lambda>c. rc_image c = im_id img \<or> rc_image c \<in> set (im_repoTags img)) visible" for img :: raw_image
    unfolding isImageVisible_def list_ex_iff image_iff by (simp; metis)
  moreover have "(rvo_name v \<in> (\<Union>c \<in> set visible. set (rc_mountVolumeNames c))) \<longleftrightarrow>
      list_ex (\<lambda>c. rvo_name v \<in> set (rc_mountVolumeNames c)) visible" for v :: raw_volume
    by (auto simp: list_ex_iff)
  moreover have "(rn_name n \<in> (\<Union>c \<in> set visible. set (rc_networkNames c))) \<longleftrightarrow>
      list_ex (\<lambda>c. rn_name n \<in> set (rc_networkNames c)) visible" for n :: raw_network
    by (auto simp: list_ex_iff)
  ultimately show ?thesis
    using assms
    by (simp add: handleContainerList_def handleImageList_def handleVolumeList_def handleNetworkList_def
        listVisibleContainers_def both_def run_simps or_else_def Let_def)
qed

text \<open>
  The file that a DKIM record is read from lies in the key directory of its domain: with the values
  that the schema accepts, the path has exactly these components and no \<^verbatim>\<open>..\<close> among them.
\<close>

theorem dkim_path_contained:
  assumes "request_values_ok (Dms (DmsDkimRecordRead domain selector))"
  shows "split_on CHR ''/'' (openDkimPath domain selector) =
    ['''', ''tmp'', ''docker-mailserver'', ''opendkim'', ''keys'', domain, selector @ ''.txt''] \<and>
    ''..'' \<notin> set (split_on CHR ''/'' (openDkimPath domain selector))"
proof -
  from assms have d: "CHR ''/'' \<notin> set domain" "domain \<noteq> ''..''" and s: "CHR ''/'' \<notin> set selector"
    by (auto simp: path_component_def)
  have "split_on CHR ''/'' (openDkimPath domain selector) =
      ['''', ''tmp'', ''docker-mailserver'', ''opendkim'', ''keys''] @
        split_on CHR ''/'' (domain @ CHR ''/'' # selector @ ''.txt'')"
    by (simp add: openDkimPath_def DMS_CONFIG_DIR_def)
  also have "split_on CHR ''/'' (domain @ CHR ''/'' # selector @ ''.txt'') = [domain, selector @ ''.txt'']"
    using d s by (simp add: split_on_append_sep split_on_fresh)
  finally have eq: "split_on CHR ''/'' (openDkimPath domain selector) =
    ['''', ''tmp'', ''docker-mailserver'', ''opendkim'', ''keys'', domain, selector @ ''.txt'']" by simp
  have "selector @ ''.txt'' \<noteq> ''..''"
    by (cases selector rule: remdups_adj.cases) auto
  with eq d show ?thesis by auto
qed

theorem dkim_path_contained_witness:
  "''..'' \<notin> set (split_on CHR ''/'' (openDkimPath ''a.example'' ''mail''))"
  by (rule dkim_path_contained [THEN conjunct2]) code_simp

definition sample_lists :: operation_deps where
  "sample_lists =
     (sample_deps [])\<lparr>od_docker := offline_daemon
        \<lparr>dk_listContainers := \<lambda>_ _. Inr [(sample_container ''a'' ''mailserver'')\<lparr>rc_networkNames := [''mail'']\<rparr>,
            (sample_container ''b'' ''website'')\<lparr>rc_networkNames := [''web'']\<rparr>],
         dk_listImages := \<lambda>_. Inr [], dk_listVolumes := \<lambda>_. Inr [],
         dk_listNetworks := \<lambda>_. Inr [\<lparr>rn_id = ''1'', rn_name = ''mail'', rn_driver = '''', rn_scope = ''''\<rparr>,
            \<lparr>rn_id = ''2'', rn_name = ''web'', rn_driver = '''', rn_scope = ''''\<rparr>]\<rparr>\<rparr>"

theorem lists_show_visible_set_witness:
  "fst (handleOperation NetworkList sample_lists []) =
     Inr (RNetworkList [\<lparr>rn_id = ''1'', rn_name = ''mail'', rn_driver = '''', rn_scope = ''''\<rparr>])"
proof -
  let ?cs = "[(sample_container ''a'' ''mailserver'')\<lparr>rc_networkNames := [''mail'']\<rparr>,
            (sample_container ''b'' ''website'')\<lparr>rc_networkNames := [''web'']\<rparr>]"
  let ?nets = "[\<lparr>rn_id = ''1'', rn_name = ''mail'', rn_driver = '''', rn_scope = ''''\<rparr>,
            \<lparr>rn_id = ''2'', rn_name = ''web'', rn_driver = '''', rn_scope = ''''\<rparr>]"
  have visible: "filter (\<lambda>c. isContainerVisible c (containerVisibility sample_lists)) ?cs = [hd ?cs]"
    by code_simp
  have "fst (handleOperation NetworkList sample_lists []) =
      Inr (RNetworkList (filter (\<lambda>n. list_ex (\<lambda>c. rn_name n \<in> set (rc_networkNames c)) [hd ?cs]) ?nets))"
    by (rule lists_show_visible_set [where imgs = "[]" and vols = "[]",
          OF _ _ _ _ _ _ _ visible [symmetric], THEN conjunct2, THEN conjunct2, THEN conjunct2])
      (simp_all add: sample_lists_def)
  then show ?thesis by simp
qed

text \<open>
  An update is offered exactly when both panel containers report a version and both come from the
  registry; otherwise a reason is given.
\<close>

theorem self_update_offered:
  "(suc_updatePossible (self_update_verdict s b) \<longleftrightarrow>
      bf_version s \<noteq> None \<and> bf_version b \<noteq> None \<and>
      bf_origin s = Some OriginRegistry \<and> bf_origin b = Some OriginRegistry) \<and>
   (suc_updatePossible (self_update_verdict s b) \<longleftrightarrow> suc_reason (self_update_verdict s b) = None)"
  by (auto simp: self_update_verdict_def Let_def)

end
