(* ===== verification/TarGuard.thy ===== *)
theory TarGuard
  imports StreamDemux
begin

text \<open>
  The guard that every restored archive streams through (\<^verbatim>\<open>restore-tar-guard.ts\<close>): it reads the tar
  headers that pass, refuses what would leave the volume's own directory, and ends its output at the
  last entry boundary.  Bytes are 8-bit words, names are the code points that \<^verbatim>\<open>toString('utf8')\<close>
  decodes.  The state of the stream is the record \<open>guard\<close>, one iteration of the loop of \<^verbatim>\<open>walk\<close> is
  \<open>walk_step\<close>; what is pushed downstream is the emitted bytes.  Sizes are naturals: the source's doubles
  are exact below \<^verbatim>\<open>2^53\<close>, and it refuses a size beyond.
\<close>

unbundle bit_operations_syntax

section \<open>Reading a header\<close>

definition BLOCK_SIZE :: nat where "BLOCK_SIZE = 512"

definition MAX_META_BODY_BYTES :: nat where "MAX_META_BODY_BYTES = 1024 * 1024"

definition MAX_SAFE_INTEGER :: nat where "MAX_SAFE_INTEGER = 2 ^ 53 - 1"

text \<open>The type flags, by their character codes.\<close>

definition HEADER_ONLY_TYPES :: "byte list" where
  "HEADER_ONLY_TYPES = [49, 50, 51, 52, 53, 54]"

definition ACCEPTED_ENTRY_TYPES :: "byte list" where
  "ACCEPTED_ENTRY_TYPES = [48, 0, 55] @ HEADER_ONLY_TYPES"

definition subarray :: "'a list \<Rightarrow> nat \<Rightarrow> nat \<Rightarrow> 'a list" where
  "subarray block from until = drop from (take until block)"

definition until_nul :: "byte list \<Rightarrow> byte list" where
  "until_nul field = (case index_of 0 field of None \<Rightarrow> field | Some nul \<Rightarrow> take nul field)"

definition readString :: "byte list \<Rightarrow> nat \<Rightarrow> nat \<Rightarrow> text_points" where
  "readString block offset len = utf8_decode (until_nul (subarray block offset (offset + len)))"

text \<open>The code points that \<^verbatim>\<open>String.prototype.trim\<close> removes.\<close>

definition space_point :: "nat \<Rightarrow> bool" where
  "space_point n \<longleftrightarrow> (9 \<le> n \<and> n \<le> 13) \<or> (0x2000 \<le> n \<and> n \<le> 0x200A) \<or>
     n \<in> set [32, 160, 0x1680, 0x2028, 0x2029, 0x202F, 0x205F, 0x3000, 0xFEFF]"

definition safe_integer :: "nat \<Rightarrow> nat option" where
  "safe_integer n = (if n \<le> MAX_SAFE_INTEGER then Some n else None)"

definition digits_value :: "nat \<Rightarrow> nat list \<Rightarrow> nat" where
  "digits_value base ds = foldl (\<lambda>v d. v * base + (d - 48)) 0 ds"

definition readNumber :: "byte list \<Rightarrow> nat \<Rightarrow> nat \<Rightarrow> nat option" where
  "readNumber block offset len =
     (let first = block ! offset in
      if first AND 0x80 \<noteq> 0 then
        if first AND 0x40 \<noteq> 0 then None
        else safe_integer
          (foldl (\<lambda>v b. v * 256 + unat b) (unat (first AND 0x3f)) (subarray block (offset + 1) (offset + len)))
      else
        (let text = trim_by space_point (readString block offset len) in
         if text = [] then Some 0
         else if list_all (\<lambda>d. 48 \<le> d \<and> d \<le> 55) text then Some (digits_value 8 text)
         else None))"

text \<open>The two sums, over the block with its checksum field read as spaces.\<close>

definition checksum_bytes :: "byte list \<Rightarrow> byte list" where
  "checksum_bytes block = take 148 block @ replicate 8 0x20 @ subarray block 156 BLOCK_SIZE"

definition checksumMatches :: "byte list \<Rightarrow> bool" where
  "checksumMatches block =
     (case readNumber block 148 8 of
        None \<Rightarrow> False
      | Some recorded \<Rightarrow>
          (let unsigned = sum_list (map (\<lambda>b. int (unat b)) (checksum_bytes block));
               signed = sum_list (map (\<lambda>b. if unat b > 127 then int (unat b) - 256 else int (unat b))
                 (checksum_bytes block))
           in int recorded = unsigned \<or> int recorded = signed))"

definition slash :: nat where "slash = 47"

definition headerName :: "byte list \<Rightarrow> text_points" where
  "headerName block =
     (let name = readString block 0 100;
          magic = latin1_decode (subarray block 257 263)
      in if magic \<noteq> points ''ustar'' @ [0] then name
         else
           (let isStar = latin1_decode (subarray block 508 512) = points ''tar'' @ [0];
                prefix = readString block 345 (if isStar then 131 else 155)
            in if prefix = [] then name else prefix @ [slash] @ name))"

text \<open>
  \<^verbatim>\<open>parsePaxRecords\<close>; the list is what is left from \<^verbatim>\<open>offset\<close> on, so \<^verbatim>\<open>space - offset\<close> is \<open>space\<close> and
  \<^verbatim>\<open>end - offset\<close> is \<open>len\<close>.  Setting a key again replaces its value.
\<close>

type_synonym pax_records = "text_points \<rightharpoonup> text_points"

function pax_from :: "pax_records \<Rightarrow> byte list \<Rightarrow> pax_records option" where
  "pax_from records rest =
     (if rest = [] then Some records
      else
        (case index_of 0x20 rest of
           None \<Rightarrow> None
         | Some space \<Rightarrow>
             (let lengthText = latin1_decode (take space rest) in
              if \<not> (lengthText \<noteq> [] \<and> list_all (\<lambda>d. 48 \<le> d \<and> d \<le> 57) lengthText) then None
              else
                (let len = digits_value 10 lengthText in
                 if len \<le> space + 1 \<or> len > length rest \<or> rest ! (len - 1) \<noteq> 0x0a then None
                 else
                   (let record = utf8_decode (subarray rest (space + 1) (len - 1)) in
                    (case index_of 61 record of
                       None \<Rightarrow> None
                     | Some equals \<Rightarrow>
                         if equals = 0 then None
                         else pax_from (records(take equals record \<mapsto> drop (equals + 1) record))
                                (drop len rest)))))))"
  by pat_completeness auto
termination
  by (relation "measure (\<lambda>(_, rest). length rest)") auto

declare pax_from.simps [simp del]

definition parsePaxRecords :: "byte list \<Rightarrow> pax_records option" where
  "parsePaxRecords body = pax_from Map.empty body"

definition roundUpToBlock :: "nat \<Rightarrow> nat" where
  "roundUpToBlock sz = ((sz + (BLOCK_SIZE - 1)) div BLOCK_SIZE) * BLOCK_SIZE"

text \<open>The components of a relative path, or \<^const>\<open>None\<close> if it is absolute or goes up.\<close>

definition components :: "text_points \<Rightarrow> text_points list option" where
  "components path =
     (if starts_with [slash] path then None
      else
        (let parts = filter (\<lambda>part. part \<noteq> [] \<and> part \<noteq> points ''.'') (split_on slash path)
         in if points ''..'' \<in> set parts then None else Some parts))"

section \<open>The guard\<close>

text \<open>The reasons of a refusal, with what their messages quote.\<close>

datatype rejection =
    EndsPartway
  | DanglingExtendedHeader
  | BadChecksum
  | BadSize
  | OversizedExtendedHeader
  | MalformedPax
  | BadPaxSize
  | UnsupportedType byte
  | EntryOutside text_points
  | BeneathSymlink text_points
  | HardLinkOutside text_points

record guard =
  g_rejection :: "rejection option"
  g_buffered :: "byte list"
  g_dataRemaining :: nat
  g_held :: "byte list list"
  g_paxRecords :: "pax_records option"
  g_gnuLongName :: "text_points option"
  g_gnuLongLink :: "text_points option"
  g_symlinks :: "text_points list"
  g_ended :: bool
  g_rootName :: text_points

definition new_guard :: "text_points \<Rightarrow> guard" where
  "new_guard rootName =
     \<lparr>g_rejection = None, g_buffered = [], g_dataRemaining = 0, g_held = [], g_paxRecords = None,
      g_gnuLongName = None, g_gnuLongLink = None, g_symlinks = [], g_ended = False,
      g_rootName = rootName\<rparr>"

definition reject :: "rejection \<Rightarrow> guard \<Rightarrow> guard" where
  "reject reason g = g\<lparr>g_rejection := Some reason, g_buffered := [], g_held := []\<rparr>"

text \<open>\<^verbatim>\<open>consume\<close>: what is taken off the buffer, and the guard without it.\<close>

definition consume :: "nat \<Rightarrow> guard \<Rightarrow> byte list \<times> guard" where
  "consume len g = (take len (g_buffered g), g\<lparr>g_buffered := drop len (g_buffered g)\<rparr>)"

text \<open>\<^verbatim>\<open>readMetaHeader\<close>; the flag is its result.\<close>

definition readMetaHeader :: "byte \<Rightarrow> byte list \<Rightarrow> guard \<Rightarrow> bool \<times> guard" where
  "readMetaHeader type body g =
     (if type = 76 \<or> type = 75 then
        (let v = utf8_decode (until_nul body);
             v' = (if v = [] then None else Some v)
         in (True, if type = 76 then g\<lparr>g_gnuLongName := v'\<rparr> else g\<lparr>g_gnuLongLink := v'\<rparr>))
      else
        (case parsePaxRecords body of
           None \<Rightarrow> (False, reject MalformedPax g)
         | Some records \<Rightarrow>
             (True, if type = 120 then g\<lparr>g_paxRecords := Some records\<rparr> else g)))"

text \<open>The proper ancestors of an entry, as \<^verbatim>\<open>parts.slice(0, depth).join('/')\<close> builds them.\<close>

definition ancestors :: "text_points list \<Rightarrow> text_points list" where
  "ancestors parts = map (\<lambda>depth. join [slash] (take depth parts)) [1..<length parts]"

definition problemWith :: "byte \<Rightarrow> text_points \<Rightarrow> text_points \<Rightarrow> guard \<Rightarrow> rejection option \<times> guard" where
  "problemWith type name linkName g =
     (case components name of
        None \<Rightarrow> (Some (EntryOutside name), g)
      | Some parts \<Rightarrow>
          if parts = [] \<or> hd parts \<noteq> g_rootName g then (Some (EntryOutside name), g)
          else if list_ex (\<lambda>p. p \<in> set (g_symlinks g)) (ancestors parts) then (Some (BeneathSymlink name), g)
          else if type = 49 \<and>
              (case components linkName of
                 None \<Rightarrow> True
               | Some target \<Rightarrow> target = [] \<or> hd target \<noteq> g_rootName g)
            then (Some (HardLinkOutside name), g)
          else (None,
            if type = 50 then g\<lparr>g_symlinks := join [slash] parts # g_symlinks g\<rparr> else g))"

text \<open>The name, link name, size and type that an entry has once its extended headers are applied.\<close>

definition pax_get :: "guard \<Rightarrow> string \<Rightarrow> text_points option" where
  "pax_get g key = (case g_paxRecords g of None \<Rightarrow> None | Some records \<Rightarrow> records (points key))"

definition coalesce :: "'a option \<Rightarrow> 'a option \<Rightarrow> 'a \<Rightarrow> 'a" where
  "coalesce a b c = (case a of Some x \<Rightarrow> x | None \<Rightarrow> (case b of Some x \<Rightarrow> x | None \<Rightarrow> c))"

definition entry_name :: "guard \<Rightarrow> byte list \<Rightarrow> text_points" where
  "entry_name g header = coalesce (g_gnuLongName g) (pax_get g ''path'') (headerName header)"

definition entry_link :: "guard \<Rightarrow> byte list \<Rightarrow> text_points" where
  "entry_link g header = coalesce (g_gnuLongLink g) (pax_get g ''linkpath'') (readString header 157 100)"

definition entry_size :: "guard \<Rightarrow> nat \<Rightarrow> nat option" where
  "entry_size g ownSize =
     (case pax_get g ''size'' of
        None \<Rightarrow> Some ownSize
      | Some text \<Rightarrow>
          if text \<noteq> [] \<and> list_all (\<lambda>d. 48 \<le> d \<and> d \<le> 57) text then safe_integer (digits_value 10 text)
          else None)"

definition entry_type :: "byte \<Rightarrow> text_points \<Rightarrow> byte" where
  "entry_type rawType name = (if rawType = 0 \<and> ends_with [slash] name then 53 else rawType)"

definition admitEntry :: "byte list \<Rightarrow> byte \<Rightarrow> nat \<Rightarrow> guard \<Rightarrow> bool \<times> byte list \<times> guard" where
  "admitEntry header rawType ownSize g =
     (let name = entry_name g header;
          linkName = entry_link g header
      in case entry_size g ownSize of
           None \<Rightarrow> (False, [], reject BadPaxSize g)
         | Some sz \<Rightarrow>
             (let g = g\<lparr>g_paxRecords := None, g_gnuLongName := None, g_gnuLongLink := None\<rparr>;
                  type = entry_type rawType name
              in case problemWith type name linkName g of
                   (Some problem, g) \<Rightarrow> (False, [], reject problem g)
                 | (None, g) \<Rightarrow>
                     (let blocks = concat (g_held g);
                          (header', g) = consume BLOCK_SIZE (g\<lparr>g_held := []\<rparr>)
                      in (True, blocks @ header',
                          g\<lparr>g_dataRemaining :=
                              if type \<in> set HEADER_ONLY_TYPES then 0 else roundUpToBlock sz\<rparr>))))"

text \<open>An extended header is read once its whole body is there.\<close>

definition meta_type :: "byte \<Rightarrow> bool" where
  "meta_type t \<longleftrightarrow> t = 120 \<or> t = 103 \<or> t = 76 \<or> t = 75"

definition read_meta :: "byte \<Rightarrow> nat \<Rightarrow> guard \<Rightarrow> bool \<times> byte list \<times> guard" where
  "read_meta type ownSize g =
     (let total = BLOCK_SIZE + roundUpToBlock ownSize in
      if length (g_buffered g) < total then (False, [], g)
      else
        (case readMetaHeader type (subarray (g_buffered g) BLOCK_SIZE (BLOCK_SIZE + ownSize)) g of
           (False, g) \<Rightarrow> (False, [], g)
         | (True, g) \<Rightarrow>
             (let (taken, g) = consume total g in (True, [], g\<lparr>g_held := g_held g @ [taken]\<rparr>))))"

text \<open>
  One iteration of the loop of \<^verbatim>\<open>walk\<close>: whether it goes on, what it pushes, and the guard after it.
\<close>

definition walk_header :: "guard \<Rightarrow> bool \<times> byte list \<times> guard" where
  "walk_header g =
     (let header = take BLOCK_SIZE (g_buffered g) in
      if list_all (\<lambda>b. b = 0) header then
        if g_held g \<noteq> [] then (False, [], reject DanglingExtendedHeader g)
        else (True, [], g\<lparr>g_ended := True\<rparr>)
      else if \<not> checksumMatches header then (False, [], reject BadChecksum g)
      else
        (case readNumber header 124 12 of
           None \<Rightarrow> (False, [], reject BadSize g)
         | Some ownSize \<Rightarrow>
             (let type = header ! 156 in
              if meta_type type then
                if ownSize > MAX_META_BODY_BYTES then (False, [], reject OversizedExtendedHeader g)
                else read_meta type ownSize g
              else if type \<notin> set ACCEPTED_ENTRY_TYPES then (False, [], reject (UnsupportedType type) g)
              else admitEntry header type ownSize g)))"

definition walk_step :: "guard \<Rightarrow> bool \<times> byte list \<times> guard" where
  "walk_step g =
     (if g_ended g then
        (let (bytes, g) = consume (length (g_buffered g)) g in (False, bytes, g))
      else if g_dataRemaining g > 0 then
        if g_buffered g = [] then (False, [], g)
        else
          (let len = min (g_dataRemaining g) (length (g_buffered g));
               (bytes, g) = consume len g
           in (True, bytes, g\<lparr>g_dataRemaining := g_dataRemaining g - len\<rparr>))
      else if length (g_buffered g) < BLOCK_SIZE then (False, [], g)
      else walk_header g)"

text \<open>Facts about one iteration, first of all that an iteration that goes on makes progress.\<close>

definition progress :: "guard \<Rightarrow> nat" where
  "progress g = 2 * length (g_buffered g) + (if g_ended g then 0 else 1)"

lemma reject_simps [simp]:
  "g_rejection (reject r g) = Some r" "g_buffered (reject r g) = []" "g_held (reject r g) = []"
  "g_symlinks (reject r g) = g_symlinks g" "g_rootName (reject r g) = g_rootName g"
  "g_ended (reject r g) = g_ended g"
  by (simp_all add: reject_def)

lemma consume_eq: "consume n g = (take n (g_buffered g), g\<lparr>g_buffered := drop n (g_buffered g)\<rparr>)"
  by (simp add: consume_def)

lemma problemWith_frame:
  "problemWith type name link g = (r, g') \<Longrightarrow> \<exists>links. g' = g\<lparr>g_symlinks := links\<rparr>"
  by (auto simp: problemWith_def split: option.splits if_splits intro: exI [of _ "g_symlinks g"])

lemma readMetaHeader_forms:
  "(\<exists>v. \<forall>g. readMetaHeader type body g = (True, g\<lparr>g_gnuLongName := v\<rparr>)) \<or>
   (\<exists>v. \<forall>g. readMetaHeader type body g = (True, g\<lparr>g_gnuLongLink := v\<rparr>)) \<or>
   (\<exists>records. \<forall>g. readMetaHeader type body g = (True, g\<lparr>g_paxRecords := Some records\<rparr>)) \<or>
   (\<forall>g. readMetaHeader type body g = (True, g)) \<or>
   (\<forall>g. readMetaHeader type body g = (False, reject MalformedPax g))"
proof (cases "type = 76 \<or> type = 75")
  case True
  then show ?thesis by (cases "type = 76") (simp_all add: readMetaHeader_def Let_def del: not_ex, blast+)
next
  case False
  then show ?thesis
    by (cases "parsePaxRecords body"; cases "type = 120") (simp_all add: readMetaHeader_def, blast+)
qed

lemma readMetaHeader_keeps:
  assumes "readMetaHeader type body g = (True, g')"
  shows "g_buffered g' = g_buffered g" "g_ended g' = g_ended g" "g_rejection g' = g_rejection g"
    "g_held g' = g_held g" "g_symlinks g' = g_symlinks g" "g_rootName g' = g_rootName g"
    "g_dataRemaining g' = g_dataRemaining g"
  using readMetaHeader_forms [of type body] assms by (elim disjE exE; force)+

lemma readMetaHeader_fails:
  "readMetaHeader type body g = (False, g') \<Longrightarrow> g' = reject MalformedPax g"
  using readMetaHeader_forms [of type body] by (elim disjE exE; force)

lemma problemWith_forms:
  "\<exists>r links. (\<forall>b. problemWith type name link (g\<lparr>g_buffered := b\<rparr>) =
     (r, g\<lparr>g_buffered := b, g_symlinks := links\<rparr>)) \<and> (links = g_symlinks g \<or>
       r = None \<and> type = 50 \<and> (\<exists>parts. components name = Some parts \<and> links = join [slash] parts # g_symlinks g))"
proof (cases "components name")
  case None
  then show ?thesis
    by (intro exI [of _ "Some (EntryOutside name)"] exI [of _ "g_symlinks g"])
      (simp add: problemWith_def)
next
  case (Some parts)
  let ?badlink = "case components link of None \<Rightarrow> True
                 | Some target \<Rightarrow> target = [] \<or> hd target \<noteq> g_rootName g"
  let ?outside = "parts = [] \<or> hd parts \<noteq> g_rootName g"
  let ?beneath = "list_ex (\<lambda>p. p \<in> set (g_symlinks g)) (ancestors parts)"
  let ?r = "if ?outside then Some (EntryOutside name) else if ?beneath then Some (BeneathSymlink name)
     else if type = 49 \<and> ?badlink then Some (HardLinkOutside name) else None"
  let ?links = "if ?r = None \<and> type = 50 then join [slash] parts # g_symlinks g else g_symlinks g"
  have "problemWith type name link (g\<lparr>g_buffered := b\<rparr>) =
     (?r, g\<lparr>g_buffered := b, g_symlinks := ?links\<rparr>)" for b
    by (cases ?outside; cases ?beneath; cases "type = 49 \<and> ?badlink")
      (simp_all add: problemWith_def Some cong: option.case_cong)
  then show ?thesis using Some by (intro exI [of _ ?r] exI [of _ ?links]) auto
qed

lemma problemWith_keeps:
  assumes "problemWith type name link g = (r, g')"
  shows "g_buffered g' = g_buffered g" "g_ended g' = g_ended g" "g_rejection g' = g_rejection g"
    "g_held g' = g_held g" "g_rootName g' = g_rootName g" "g_dataRemaining g' = g_dataRemaining g"
proof -
  have "g = g\<lparr>g_buffered := g_buffered g\<rparr>" by simp
  with problemWith_forms [of type name link g] assms have
    "\<exists>links. g' = g\<lparr>g_symlinks := links\<rparr>" by (metis guard.surjective guard.update_convs(2,8) Pair_inject)
  then show "g_buffered g' = g_buffered g" "g_ended g' = g_ended g" "g_rejection g' = g_rejection g"
    "g_held g' = g_held g" "g_rootName g' = g_rootName g" "g_dataRemaining g' = g_dataRemaining g"
    by (elim exE; simp)+
qed

text \<open>The guard with more bytes in its buffer; every decision commutes with it.\<close>

definition plus_bytes :: "guard \<Rightarrow> byte list \<Rightarrow> guard" where
  "plus_bytes g b = g\<lparr>g_buffered := g_buffered g @ b\<rparr>"

lemma plus_bytes_simps [simp]:
  "g_rejection (plus_bytes g b) = g_rejection g" "g_buffered (plus_bytes g b) = g_buffered g @ b"
  "g_held (plus_bytes g b) = g_held g" "g_symlinks (plus_bytes g b) = g_symlinks g"
  "g_rootName (plus_bytes g b) = g_rootName g" "g_ended (plus_bytes g b) = g_ended g"
  "g_dataRemaining (plus_bytes g b) = g_dataRemaining g" "g_paxRecords (plus_bytes g b) = g_paxRecords g"
  "g_gnuLongName (plus_bytes g b) = g_gnuLongName g" "g_gnuLongLink (plus_bytes g b) = g_gnuLongLink g"
  by (simp_all add: plus_bytes_def)

lemma plus_bytes_Nil [simp]: "plus_bytes g [] = g"
  by (simp add: plus_bytes_def)

lemma plus_bytes_plus: "plus_bytes (plus_bytes g a) b = plus_bytes g (a @ b)"
  by (simp add: plus_bytes_def)

lemma reject_more [simp]: "reject r (plus_bytes g b) = reject r g"
  by (simp add: reject_def plus_bytes_def)

lemma readMetaHeader_more:
  "readMetaHeader type body (plus_bytes g b) =
     (case readMetaHeader type body g of (c, g') \<Rightarrow> (c, if c then plus_bytes g' b else g'))"
  using readMetaHeader_forms [of type body] by (elim disjE exE) (simp_all add: plus_bytes_def reject_def)

lemma problemWith_more:
  "problemWith type name link (plus_bytes g b) = (case problemWith type name link g of (r, g') \<Rightarrow> (r, plus_bytes g' b))"
proof -
  obtain r links where *: "\<And>b. problemWith type name link (g\<lparr>g_buffered := b\<rparr>) =
     (r, g\<lparr>g_buffered := b, g_symlinks := links\<rparr>)" using problemWith_forms [of type name link g] by blast
  from * [of "g_buffered g"] have "problemWith type name link g = (r, g\<lparr>g_symlinks := links\<rparr>)" by simp
  with * [of "g_buffered g @ b"] show ?thesis by (simp add: plus_bytes_def)
qed

lemma pax_get_more [simp]: "pax_get (plus_bytes g b) key = pax_get g key"
  by (simp add: pax_get_def)

lemma entry_more [simp]:
  "entry_name (plus_bytes g b) header = entry_name g header"
  "entry_link (plus_bytes g b) header = entry_link g header"
  "entry_size (plus_bytes g b) n = entry_size g n"
  by (simp_all add: entry_name_def entry_link_def entry_size_def)

text \<open>An entry is admitted or refused; the decision does not depend on the bytes after its header.\<close>

definition forget_meta :: "guard \<Rightarrow> guard" where
  "forget_meta g = g\<lparr>g_paxRecords := None, g_gnuLongName := None, g_gnuLongLink := None\<rparr>"

lemma forget_meta_simps [simp]:
  "g_rejection (forget_meta g) = g_rejection g" "g_buffered (forget_meta g) = g_buffered g"
  "g_held (forget_meta g) = g_held g" "g_symlinks (forget_meta g) = g_symlinks g"
  "g_rootName (forget_meta g) = g_rootName g" "g_ended (forget_meta g) = g_ended g"
  "g_dataRemaining (forget_meta g) = g_dataRemaining g"
  "forget_meta (plus_bytes g b) = plus_bytes (forget_meta g) b"
  by (simp_all add: forget_meta_def plus_bytes_def)

definition pass_header :: "byte \<Rightarrow> nat \<Rightarrow> guard \<Rightarrow> guard" where
  "pass_header type sz g = g\<lparr>g_held := [], g_buffered := drop BLOCK_SIZE (g_buffered g),
     g_dataRemaining := if type \<in> set HEADER_ONLY_TYPES then 0 else roundUpToBlock sz\<rparr>"

lemma pass_header_simps [simp]:
  "g_rejection (pass_header t n g) = g_rejection g"
  "g_buffered (pass_header t n g) = drop BLOCK_SIZE (g_buffered g)"
  "g_held (pass_header t n g) = []" "g_symlinks (pass_header t n g) = g_symlinks g"
  "g_rootName (pass_header t n g) = g_rootName g" "g_ended (pass_header t n g) = g_ended g"
  by (simp_all add: pass_header_def)

lemma pass_header_more:
  "BLOCK_SIZE \<le> length (g_buffered g) \<Longrightarrow> pass_header t n (plus_bytes g b) = plus_bytes (pass_header t n g) b"
  by (simp add: pass_header_def plus_bytes_def)

lemma admitEntry_eq:
  "admitEntry header rawType ownSize g =
     (case entry_size g ownSize of
        None \<Rightarrow> (False, [], reject BadPaxSize g)
      | Some sz \<Rightarrow>
          (case problemWith (entry_type rawType (entry_name g header)) (entry_name g header)
                  (entry_link g header) (forget_meta g) of
             (Some problem, g') \<Rightarrow> (False, [], reject problem g')
           | (None, g') \<Rightarrow>
               (True, concat (g_held g) @ take BLOCK_SIZE (g_buffered g),
                pass_header (entry_type rawType (entry_name g header)) sz g')))"
proof (cases "entry_size g ownSize")
  case None
  then show ?thesis by (simp add: admitEntry_def)
next
  case (Some sz)
  obtain r g' where p: "problemWith (entry_type rawType (entry_name g header)) (entry_name g header)
                  (entry_link g header) (forget_meta g) = (r, g')" by force
  from problemWith_keeps [OF p] show ?thesis using Some p
    by (cases r) (simp_all add: admitEntry_def Let_def consume_eq pass_header_def flip: forget_meta_def)
qed

lemma admitEntry_more:
  assumes "BLOCK_SIZE \<le> length (g_buffered g)"
  shows "admitEntry header t n (plus_bytes g b) =
    (case admitEntry header t n g of (c, out, g') \<Rightarrow> (c, out, if c then plus_bytes g' b else g'))"
proof -
  obtain r g' where p: "problemWith (entry_type t (entry_name g header)) (entry_name g header)
                  (entry_link g header) (forget_meta g) = (r, g')" by force
  from problemWith_keeps [OF p] assms show ?thesis
    by (cases "entry_size g n"; cases r)
      (simp_all add: admitEntry_eq problemWith_more p pass_header_more)
qed

lemma read_meta_eq:
  "read_meta type ownSize g =
     (let total = BLOCK_SIZE + roundUpToBlock ownSize in
      if length (g_buffered g) < total then (False, [], g)
      else
        (case readMetaHeader type (subarray (g_buffered g) BLOCK_SIZE (BLOCK_SIZE + ownSize)) g of
           (False, g) \<Rightarrow> (False, [], g)
         | (True, g) \<Rightarrow>
             (True, [], g\<lparr>g_buffered := drop total (g_buffered g),
                          g_held := g_held g @ [take total (g_buffered g)]\<rparr>)))"
  using readMetaHeader_forms [of type "subarray (g_buffered g) BLOCK_SIZE (BLOCK_SIZE + ownSize)"]
  by (elim disjE exE) (simp_all add: consume_eq read_meta_def Let_def)

lemma roundUpToBlock_ge: "n \<le> roundUpToBlock n"
proof -
  have "n + (BLOCK_SIZE - 1) = (n + (BLOCK_SIZE - 1)) div BLOCK_SIZE * BLOCK_SIZE + (n + (BLOCK_SIZE - 1)) mod BLOCK_SIZE"
    by simp
  moreover have "(n + (BLOCK_SIZE - 1)) mod BLOCK_SIZE < BLOCK_SIZE" by (simp add: BLOCK_SIZE_def)
  ultimately show ?thesis unfolding roundUpToBlock_def by linarith
qed

lemma read_meta_more:
  assumes "read_meta t n g = (c, out, g')" and "c \<or> g_rejection g' \<noteq> None" and "g_rejection g = None"
  shows "read_meta t n (plus_bytes g b) = (c, out, if c then plus_bytes g' b else g')"
proof -
  let ?total = "BLOCK_SIZE + roundUpToBlock n"
  from assms have l: "?total \<le> length (g_buffered g)"
    by (auto simp: read_meta_eq Let_def not_le [symmetric] split: if_splits)
  then have "subarray (g_buffered g @ b) BLOCK_SIZE (BLOCK_SIZE + n) =
      subarray (g_buffered g) BLOCK_SIZE (BLOCK_SIZE + n)"
    using roundUpToBlock_ge [of n] by (simp add: subarray_def)
  with l readMetaHeader_forms [of t "subarray (g_buffered g) BLOCK_SIZE (BLOCK_SIZE + n)"] assms(1)
  show ?thesis
    by (elim disjE exE) (auto simp: read_meta_eq Let_def plus_bytes_def reject_def)
qed

lemma walk_header_more:
  assumes l: "BLOCK_SIZE \<le> length (g_buffered g)" and w: "walk_header g = (c, out, g')"
    and c: "c \<or> g_rejection g' \<noteq> None" and r: "g_rejection g = None"
  shows "walk_header (plus_bytes g b) = (c, out, if c then plus_bytes g' b else g')"
proof -
  let ?h = "take BLOCK_SIZE (g_buffered g)"
  have h: "take BLOCK_SIZE (g_buffered (plus_bytes g b)) = ?h" using l by simp
  consider (zero) "list_all (\<lambda>b. b = 0) ?h" | (bad) "\<not> list_all (\<lambda>b. b = 0) ?h" "\<not> checksumMatches ?h \<or> readNumber ?h 124 12 = None"
    | (some) n where "\<not> list_all (\<lambda>b. b = 0) ?h" "checksumMatches ?h" "readNumber ?h 124 12 = Some n"
    by (cases "readNumber ?h 124 12") auto
  then show ?thesis
  proof cases
    case zero
    with w show ?thesis unfolding walk_header_def Let_def h
      by (auto simp: plus_bytes_def reject_def split: if_splits)
  next
    case bad
    then show ?thesis using w unfolding walk_header_def Let_def h
      by (cases "checksumMatches ?h") auto
  next
    case some
    note eq = some walk_header_def Let_def h
    show ?thesis
    proof (cases "meta_type (?h ! 156)")
      case True
      then show ?thesis using w unfolding walk_header_def Let_def h some
        by (cases "MAX_META_BODY_BYTES < n") (use c r in \<open>auto simp: some read_meta_more\<close>)
    next
      case False
      then show ?thesis using w unfolding walk_header_def Let_def h
        by (cases "?h ! 156 \<in> set ACCEPTED_ENTRY_TYPES") (auto simp: some admitEntry_more [OF l])
    qed
  qed
qed

lemma admitEntry_continues:
  assumes "admitEntry header t n g = (True, out, g')"
  obtains g1 sz where "problemWith (entry_type t (entry_name g header)) (entry_name g header)
      (entry_link g header) (forget_meta g) = (None, g1)"
    and "out = concat (g_held g) @ take BLOCK_SIZE (g_buffered g)"
    and "g' = pass_header (entry_type t (entry_name g header)) sz g1"
  using assms by (auto simp: admitEntry_eq split: option.splits prod.splits)

lemma read_meta_continues:
  assumes "read_meta t n g = (True, out, g')"
  obtains g1 where "readMetaHeader t (subarray (g_buffered g) BLOCK_SIZE (BLOCK_SIZE + n)) g = (True, g1)"
    and "out = []" and "BLOCK_SIZE + roundUpToBlock n \<le> length (g_buffered g)"
    and "g' = g1\<lparr>g_buffered := drop (BLOCK_SIZE + roundUpToBlock n) (g_buffered g),
              g_held := g_held g @ [take (BLOCK_SIZE + roundUpToBlock n) (g_buffered g)]\<rparr>"
proof -
  let ?body = "subarray (g_buffered g) BLOCK_SIZE (BLOCK_SIZE + n)"
  obtain c g1 where r: "readMetaHeader t ?body g = (c, g1)" by force
  with assms have "c" and l: "\<not> length (g_buffered g) < BLOCK_SIZE + roundUpToBlock n"
    by (auto simp: read_meta_eq Let_def split: if_splits bool.splits)
  with r have r: "readMetaHeader t ?body g = (True, g1)" by simp
  with l assms show thesis
    by (intro that [OF r]) (auto simp: read_meta_eq Let_def readMetaHeader_keeps [OF r])
qed

text \<open>How an iteration that goes on can look, with what it leaves in the buffer and in hand.\<close>

lemma walk_header_continues:
  assumes "walk_header g = (True, out, g')"
  obtains (finish) "list_all (\<lambda>b. b = 0) (take BLOCK_SIZE (g_buffered g))" "g_held g = []"
      "out = []" "g' = g\<lparr>g_ended := True\<rparr>"
  | (meta) n where "meta_type (g_buffered g ! 156)"
      "read_meta (take BLOCK_SIZE (g_buffered g) ! 156) n g = (True, out, g')"
  | (entry) n where
      "admitEntry (take BLOCK_SIZE (g_buffered g)) (take BLOCK_SIZE (g_buffered g) ! 156) n g = (True, out, g')"
proof -
  let ?h = "take BLOCK_SIZE (g_buffered g)"
  have nth: "?h ! 156 = g_buffered g ! 156" by (simp add: BLOCK_SIZE_def)
  show thesis
  proof (cases "list_all (\<lambda>b. b = 0) ?h")
    case True
    with assms finish show thesis by (auto simp: walk_header_def Let_def split: if_splits)
  next
    case False
    with assms obtain n where n: "readNumber ?h 124 12 = Some n" and c: "checksumMatches ?h"
      by (auto simp: walk_header_def Let_def split: if_splits option.splits)
    show thesis
    proof (cases "meta_type (?h ! 156)")
      case True
      with False n c assms meta [of n] nth show thesis
        by (auto simp: walk_header_def Let_def split: if_splits)
    next
      case meta: False
      with False n c assms entry [of n] show thesis
        by (auto simp: walk_header_def Let_def split: if_splits)
    qed
  qed
qed

lemma walk_step_progress:
  assumes "walk_step g = (True, out, g')"
  shows "progress g' < progress g"
proof (cases "g_ended g \<or> 0 < g_dataRemaining g")
  case True
  with assms show ?thesis
    by (auto simp: walk_step_def consume_eq progress_def Let_def split: if_splits)
next
  case False
  with assms have l: "BLOCK_SIZE \<le> length (g_buffered g)" and w: "walk_header g = (True, out, g')"
    by (auto simp: walk_step_def split: if_splits)
  from False have e: "\<not> g_ended g" by simp
  from w show ?thesis
  proof (cases rule: walk_header_continues)
    case finish
    with e show ?thesis by (simp add: progress_def)
  next
    case (meta n)
    from meta(2) show ?thesis
    proof (rule read_meta_continues)
      fix g1
      assume r: "readMetaHeader (take BLOCK_SIZE (g_buffered g) ! 156)
          (subarray (g_buffered g) BLOCK_SIZE (BLOCK_SIZE + n)) g = (True, g1)"
        and "g' = g1\<lparr>g_buffered := drop (BLOCK_SIZE + roundUpToBlock n) (g_buffered g),
              g_held := g_held g @ [take (BLOCK_SIZE + roundUpToBlock n) (g_buffered g)]\<rparr>"
      then show ?thesis using l e readMetaHeader_keeps [OF r]
        by (simp add: progress_def BLOCK_SIZE_def)
    qed
  next
    case (entry n)
    then show ?thesis
    proof (rule admitEntry_continues)
      fix g1 sz
      assume p: "problemWith (entry_type (take BLOCK_SIZE (g_buffered g) ! 156)
           (entry_name g (take BLOCK_SIZE (g_buffered g)))) (entry_name g (take BLOCK_SIZE (g_buffered g)))
           (entry_link g (take BLOCK_SIZE (g_buffered g))) (forget_meta g) = (None, g1)"
        and "g' = pass_header (entry_type (take BLOCK_SIZE (g_buffered g) ! 156)
           (entry_name g (take BLOCK_SIZE (g_buffered g)))) sz g1"
      then show ?thesis using l e problemWith_keeps [OF p]
        by (simp add: progress_def BLOCK_SIZE_def)
    qed
  qed
qed

lemma walk_step_keeps:
  assumes "walk_step g = (True, out, g')"
  shows "g_rejection g' = g_rejection g"
proof (cases "g_ended g \<or> 0 < g_dataRemaining g")
  case True
  with assms show ?thesis by (auto simp: walk_step_def consume_eq Let_def split: if_splits)
next
  case False
  with assms have "walk_header g = (True, out, g')" by (auto simp: walk_step_def split: if_splits)
  then show ?thesis
    by (cases rule: walk_header_continues)
      (auto elim!: read_meta_continues admitEntry_continues
        dest!: readMetaHeader_keeps(3) problemWith_keeps(3))
qed

section \<open>The stream\<close>

function walk :: "guard \<Rightarrow> byte list \<times> guard" where
  "walk g =
     (if g_rejection g \<noteq> None then ([], g)
      else
        (case walk_step g of
           (True, out, g') \<Rightarrow> (let (rest, g'') = walk g' in (out @ rest, g''))
         | (False, out, g') \<Rightarrow> (out, g')))"
  by pat_completeness auto
termination
  by (relation "measure progress") (simp, metis walk_step_progress in_measure)

declare walk.simps [simp del]

text \<open>
  \<^verbatim>\<open>_transform\<close> and \<^verbatim>\<open>_flush\<close>.  After a refusal the rest of the upload is dropped; after the end of the
  archive it is passed on as it is.
\<close>

definition transform_chunk :: "guard \<Rightarrow> byte list \<Rightarrow> byte list \<times> guard" where
  "transform_chunk g chunk =
     (if g_rejection g \<noteq> None then ([], g)
      else if g_ended g then (chunk, g)
      else walk (g\<lparr>g_buffered := if length (g_buffered g) = 0 then chunk else g_buffered g @ chunk\<rparr>))"

definition flush_guard :: "guard \<Rightarrow> guard" where
  "flush_guard g =
     (if g_rejection g = None \<and> \<not> g_ended g \<and>
         (length (g_buffered g) > 0 \<or> length (g_held g) > 0 \<or> g_dataRemaining g > 0)
      then g\<lparr>g_rejection := Some EndsPartway\<rparr> else g)"

text \<open>The whole stream: every chunk, then the end of the input.\<close>

definition guard_stream :: "text_points \<Rightarrow> byte list list \<Rightarrow> byte list \<times> guard" where
  "guard_stream rootName chunks =
     (let (out, g) = feed transform_chunk (new_guard rootName) chunks in (out, flush_guard g))"

lemma walk_stop: "g_rejection g = None \<Longrightarrow> walk_step g = (False, out, g') \<Longrightarrow> walk g = (out, g')"
  by (simp add: walk.simps)

lemma walk_go:
  "g_rejection g = None \<Longrightarrow> walk_step g = (True, out, g') \<Longrightarrow>
     walk g = (out @ fst (walk g'), snd (walk g'))"
  by (subst walk.simps) (simp add: Let_def case_prod_beta)

lemma transform_chunk_eq:
  "transform_chunk g chunk =
     (if g_rejection g \<noteq> None then ([], g) else if g_ended g then (chunk, g) else walk (plus_bytes g chunk))"
  by (simp add: transform_chunk_def plus_bytes_def)

section \<open>Chunks do not matter\<close>

lemma admitEntry_stops:
  "admitEntry header t n g = (False, out, g') \<Longrightarrow> out = [] \<and> g_rejection g' \<noteq> None"
  by (auto simp: admitEntry_eq split: option.splits prod.splits)

lemma read_meta_stops:
  "read_meta t n g = (False, out, g') \<Longrightarrow> out = [] \<and> (g' = g \<or> g_rejection g' \<noteq> None)"
  using readMetaHeader_forms [of t "subarray (g_buffered g) BLOCK_SIZE (BLOCK_SIZE + n)"]
  by (elim disjE exE) (auto simp: read_meta_eq Let_def split: if_splits)

lemma walk_header_stops:
  assumes "walk_header g = (False, out, g')"
  shows "out = [] \<and> (g' = g \<or> g_rejection g' \<noteq> None)"
proof -
  let ?h = "take BLOCK_SIZE (g_buffered g)"
  show ?thesis
  proof (cases "list_all (\<lambda>b. b = 0) ?h \<or> \<not> checksumMatches ?h \<or> readNumber ?h 124 12 = None")
    case True
    with assms show ?thesis by (auto simp: walk_header_def Let_def split: if_splits)
  next
    case False
    then obtain n where "readNumber ?h 124 12 = Some n" by blast
    with False assms show ?thesis
      by (cases "meta_type (?h ! 156)")
        (auto simp: walk_header_def Let_def split: if_splits dest: admitEntry_stops read_meta_stops)
  qed
qed

definition settled :: "guard \<Rightarrow> bool" where
  "settled g \<longleftrightarrow> g_rejection g \<noteq> None \<or> g_ended g \<and> g_buffered g = [] \<or>
     \<not> g_ended g \<and> walk_step g = (False, [], g)"

lemma walk_settled: "g_rejection g = None \<Longrightarrow> settled (snd (walk g))"
proof (induction g rule: walk.induct)
  case (1 g)
  obtain c out g' where w: "walk_step g = (c, out, g')" by (cases "walk_step g") auto
  show ?case
  proof (cases c)
    case True
    with w 1(1) [OF _ w [symmetric], simplified] 1(2) show ?thesis
      by (cases "g_rejection g' = None") (auto simp: walk_go, simp add: walk.simps settled_def)
  next
    case False
    with w 1(2) have walk: "walk g = (out, g')" by (simp add: walk_stop)
    show ?thesis
    proof (cases "g_ended g")
      case True
      with w False walk show ?thesis by (auto simp: walk_step_def consume_eq settled_def)
    next
      case e: False
      with w False have "out = [] \<and> (g' = g \<or> g_rejection g' \<noteq> None)"
        by (auto simp: walk_step_def Let_def consume_eq split: if_splits dest: walk_header_stops)
      with w False walk e show ?thesis by (auto simp: settled_def)
    qed
  qed
qed

lemma transform_settled: "settled g \<Longrightarrow> settled (snd (transform_chunk g chunk))"
  by (auto simp: transform_chunk_eq walk_settled)

lemma transform_Nil: "settled g \<Longrightarrow> transform_chunk g [] = ([], g)"
  by (auto simp: settled_def transform_chunk_eq walk_stop)

text \<open>Data that arrives in two pieces is passed on as if it had come at once.\<close>

lemma walk_data:
  assumes "g_rejection g = None" "\<not> g_ended g" "0 < g_dataRemaining g" "g_buffered g \<noteq> []"
  shows "walk g =
    (let n = min (g_dataRemaining g) (length (g_buffered g));
         (out, g') = walk (g\<lparr>g_buffered := drop n (g_buffered g), g_dataRemaining := g_dataRemaining g - n\<rparr>)
     in (take n (g_buffered g) @ out, g'))"
proof -
  have "walk_step g =
    (let n = min (g_dataRemaining g) (length (g_buffered g)) in
     (True, take n (g_buffered g), g\<lparr>g_buffered := drop n (g_buffered g), g_dataRemaining := g_dataRemaining g - n\<rparr>))"
    using assms by (simp add: walk_step_def consume_eq Let_def)
  with assms(1) show ?thesis by (simp add: walk_go Let_def case_prod_beta)
qed

lemma walk_split_data:
  assumes g: "g_rejection g = None" "\<not> g_ended g" and l: "g_buffered g \<noteq> []" "length (g_buffered g) < g_dataRemaining g"
  defines "g1 \<equiv> g\<lparr>g_buffered := [], g_dataRemaining := g_dataRemaining g - length (g_buffered g)\<rparr>"
  shows "walk (plus_bytes g b) = (g_buffered g @ fst (walk (plus_bytes g1 b)), snd (walk (plus_bytes g1 b)))"
proof -
  let ?a = "g_buffered g" and ?r = "g_dataRemaining g"
  have g1: "g_rejection g1 = None" "\<not> g_ended g1" "0 < g_dataRemaining g1" using g l by (simp_all add: g1_def)
  show ?thesis
  proof (cases "b = []")
    case True
    have "walk g = (?a @ fst (walk g1), snd (walk g1))"
      using walk_data [OF g] l by (simp add: g1_def min_def Let_def case_prod_beta)
    with True show ?thesis by simp
  next
    case False
    let ?m = "min (?r - length ?a) (length b)"
    let ?g2 = "g\<lparr>g_buffered := drop ?m b, g_dataRemaining := ?r - length ?a - ?m\<rparr>"
    have n: "min ?r (length (?a @ b)) = length ?a + ?m" using l by simp
    have "walk (plus_bytes g b) = (?a @ take ?m b @ fst (walk ?g2), snd (walk ?g2))"
      using walk_data [of "plus_bytes g b"] g l n by (simp add: Let_def case_prod_beta) (simp add: plus_bytes_def)
    moreover have "walk (plus_bytes g1 b) = (take ?m b @ fst (walk ?g2), snd (walk ?g2))"
      using walk_data [of "plus_bytes g1 b"] g1 False
      by (simp add: Let_def case_prod_beta) (simp add: plus_bytes_def g1_def)
    ultimately show ?thesis by simp
  qed
qed

lemma walk_step_more:
  assumes w: "walk_step g = (c, out, g')" and r: "g_rejection g = None" "\<not> g_ended g"
    and c: "c \<or> g_rejection g' \<noteq> None"
    and d: "g_dataRemaining g = 0 \<or> g_dataRemaining g \<le> length (g_buffered g)"
  shows "walk_step (plus_bytes g b) = (c, out, if c then plus_bytes g' b else g')"
proof (cases "0 < g_dataRemaining g")
  case True
  with w r c have "g_buffered g \<noteq> []" by (auto simp: walk_step_def)
  with True w r d show ?thesis
    by (auto simp: walk_step_def consume_eq Let_def plus_bytes_def)
next
  case False
  with w r c have l: "BLOCK_SIZE \<le> length (g_buffered g)" and h: "walk_header g = (c, out, g')"
    by (auto simp: walk_step_def split: if_splits)
  from walk_header_more [OF l h c r(1)] False r l show ?thesis by (simp add: walk_step_def)
qed

lemma walk_append:
  "g_rejection g = None \<Longrightarrow> walk (plus_bytes g b) =
     (let (xs, g') = walk g; (ys, g'') = transform_chunk g' b in (xs @ ys, g''))"
proof (induction g rule: walk.induct)
  case (1 g)
  note r = 1(2)
  obtain c out g' where w: "walk_step g = (c, out, g')" by (cases "walk_step g") auto
  consider (ended) "g_ended g"
    | (data) "\<not> g_ended g" "g_buffered g \<noteq> []" "length (g_buffered g) < g_dataRemaining g"
    | (wait) "\<not> g_ended g" "\<not> c" "g_rejection g' = None"
    | (steps) "\<not> g_ended g" "c \<or> g_rejection g' \<noteq> None"
        "g_dataRemaining g = 0 \<or> g_dataRemaining g \<le> length (g_buffered g)"
  proof -
    have "\<not> c \<and> g' = g" if "\<not> g_ended g" "0 < g_dataRemaining g" "g_buffered g = []"
      using w that by (simp add: walk_step_def)
    with r that show thesis by (cases "g_buffered g = []") (metis leI neq0_conv)+
  qed
  then show ?case
  proof cases
    case ended
    then have "walk (plus_bytes g x) = (g_buffered g @ x, g\<lparr>g_buffered := []\<rparr>)" for x
      using r by (intro walk_stop) (simp_all add: walk_step_def consume_eq plus_bytes_def)
    from this [of b] this [of "[]"] show ?thesis using ended r by (simp add: transform_chunk_eq)
  next
    case data
    let ?g1 = "g\<lparr>g_buffered := [], g_dataRemaining := g_dataRemaining g - length (g_buffered g)\<rparr>"
    have w1: "walk_step ?g1 = (False, [], ?g1)" using data by (simp add: walk_step_def)
    with r have "walk ?g1 = ([], ?g1)" by (intro walk_stop) simp_all
    with walk_split_data [OF r data, of "[]"] have "walk g = (g_buffered g, ?g1)" by simp
    moreover have "transform_chunk ?g1 b = walk (plus_bytes ?g1 b)" using r data by (simp add: transform_chunk_eq)
    ultimately show ?thesis using walk_split_data [OF r data, of b] by (simp add: case_prod_beta Let_def)
  next
    case wait
    with w r have "out = [] \<and> g' = g"
      by (auto simp: walk_step_def Let_def consume_eq split: if_splits dest: walk_header_stops)
    with w wait r have "walk g = ([], g)" by (simp add: walk_stop)
    with wait r show ?thesis by (simp add: transform_chunk_eq case_prod_beta)
  next
    case steps
    note step = steps
    have more: "walk_step (plus_bytes g b) = (c, out, if c then plus_bytes g' b else g')"
      using walk_step_more [OF w r step] .
    show ?thesis
    proof (cases c)
      case False
      with step have "g_rejection g' \<noteq> None" by simp
      with False w r more show ?thesis by (simp add: walk_stop transform_chunk_eq)
    next
      case True
      have go: "walk g = (out @ fst (walk g'), snd (walk g'))"
        "walk (plus_bytes g b) = (out @ fst (walk (plus_bytes g' b)), snd (walk (plus_bytes g' b)))"
        using True w more r by (simp_all add: walk_go)
      have None: "g_rejection g' = None" using w True r walk_step_keeps [of g out g'] by simp
      have "walk (plus_bytes g' b) =
          (let (xs, g') = walk g'; (ys, g'') = transform_chunk g' b in (xs @ ys, g''))"
        using 1(1) [of c "(out, g')" out g'] w r True None by simp
      with go show ?thesis by (simp add: case_prod_beta Let_def)
    qed
  qed
qed

lemma transform_append:
  assumes "settled g"
  shows "transform_chunk g (a @ b) =
    (let (xs, g') = transform_chunk g a; (ys, g'') = transform_chunk g' b in (xs @ ys, g''))"
proof (cases "g_rejection g = None \<and> \<not> g_ended g")
  case True
  then have "transform_chunk g (a @ b) = walk (plus_bytes (plus_bytes g a) b)"
    by (simp add: transform_chunk_eq plus_bytes_plus)
  with True show ?thesis using walk_append [of "plus_bytes g a" b] by (simp add: transform_chunk_eq)
next
  case False
  then show ?thesis by (auto simp: transform_chunk_eq Let_def)
qed

interpretation guarded: chunked_decoder transform_chunk settled
  by unfold_locales (simp_all add: transform_settled transform_Nil transform_append)

lemma new_guard_settled: "settled (new_guard rootName)"
  by (simp add: settled_def new_guard_def walk_step_def BLOCK_SIZE_def)

text \<open>C35 How an upload is cut into chunks changes neither what the guard passes on nor its verdict.\<close>

theorem guard_chunking:
  assumes "concat chunks = concat chunks'"
  shows "guard_stream rootName chunks = guard_stream rootName chunks'"
  using guarded.chunking_irrelevant [OF new_guard_settled assms] by (simp add: guard_stream_def)

theorem guard_chunking_witness:
  "guard_stream (points ''mail'') [[1, 2], [3]] = guard_stream (points ''mail'') [[1], [], [2, 3]]"
  by (rule guard_chunking) simp

section \<open>Bytes pass through untouched\<close>

text \<open>What the guard has in hand: the extended headers it holds back, then its buffer.\<close>

definition in_hand :: "guard \<Rightarrow> byte list" where
  "in_hand g = concat (g_held g) @ g_buffered g"

lemma walk_step_bytes:
  assumes w: "walk_step g = (True, out, g')" and r: "g_held g = [] \<or> g_dataRemaining g = 0 \<and> \<not> g_ended g"
  shows "out @ in_hand g' = in_hand g \<and> (g_held g' = [] \<or> g_dataRemaining g' = 0 \<and> \<not> g_ended g')"
proof (cases "g_ended g \<or> 0 < g_dataRemaining g")
  case True
  with assms show ?thesis
    by (auto simp: walk_step_def consume_eq Let_def in_hand_def split: if_splits)
next
  case False
  with w have "walk_header g = (True, out, g')" by (auto simp: walk_step_def split: if_splits)
  then show ?thesis
  proof (cases rule: walk_header_continues)
    case finish
    then show ?thesis by (simp add: in_hand_def)
  next
    case (meta n)
    from meta(2) show ?thesis
    proof (rule read_meta_continues)
      fix g1
      assume r: "readMetaHeader (take BLOCK_SIZE (g_buffered g) ! 156)
          (subarray (g_buffered g) BLOCK_SIZE (BLOCK_SIZE + n)) g = (True, g1)"
        and "out = []" "g' = g1\<lparr>g_buffered := drop (BLOCK_SIZE + roundUpToBlock n) (g_buffered g),
              g_held := g_held g @ [take (BLOCK_SIZE + roundUpToBlock n) (g_buffered g)]\<rparr>"
      then show ?thesis using readMetaHeader_keeps [OF r] False by (simp add: in_hand_def)
    qed
  next
    case (entry n)
    then show ?thesis
    proof (rule admitEntry_continues)
      fix g1 sz
      assume p: "problemWith (entry_type (take BLOCK_SIZE (g_buffered g) ! 156)
           (entry_name g (take BLOCK_SIZE (g_buffered g)))) (entry_name g (take BLOCK_SIZE (g_buffered g)))
           (entry_link g (take BLOCK_SIZE (g_buffered g))) (forget_meta g) = (None, g1)"
        and "out = concat (g_held g) @ take BLOCK_SIZE (g_buffered g)"
          "g' = pass_header (entry_type (take BLOCK_SIZE (g_buffered g) ! 156)
           (entry_name g (take BLOCK_SIZE (g_buffered g)))) sz g1"
      then show ?thesis using problemWith_keeps [OF p] by (simp add: in_hand_def)
    qed
  qed
qed

text \<open>The invariant of the stream: a guard in this state has passed on all but what it has in hand.\<close>

definition orderly :: "guard \<Rightarrow> bool" where
  "orderly g \<longleftrightarrow> (g_held g = [] \<or> g_dataRemaining g = 0 \<and> \<not> g_ended g)"

definition passed_on :: "byte list \<Rightarrow> byte list \<Rightarrow> guard \<Rightarrow> bool" where
  "passed_on input out g \<longleftrightarrow>
     (if g_rejection g = None then input = out @ in_hand g \<and> orderly g else prefix out input)"

lemma walk_bytes:
  "g_rejection g = None \<Longrightarrow> orderly g \<Longrightarrow> passed_on (in_hand g) (fst (walk g)) (snd (walk g))"
proof (induction g rule: walk.induct)
  case (1 g)
  obtain c out g' where w: "walk_step g = (c, out, g')" by (cases "walk_step g") auto
  show ?case
  proof (cases c)
    case True
    with w have w: "walk_step g = (True, out, g')" by simp
    from walk_step_bytes [OF w] 1(3) have b: "in_hand g = out @ in_hand g'" "orderly g'"
      by (auto simp: orderly_def)
    have "g_rejection g' = None" using walk_step_keeps [OF w] 1(2) by simp
    then have "passed_on (in_hand g') (fst (walk g')) (snd (walk g'))"
      using 1(1) [of True "(out, g')" out g'] w 1(2) b(2) by simp
    then show ?thesis
      using b(1) by (auto simp: walk_go [OF 1(2) w] passed_on_def)
  next
    case False
    with w 1(2) have walk: "walk g = (out, g')" by (simp add: walk_stop)
    show ?thesis
    proof (cases "g_ended g")
      case True
      with w False walk 1 show ?thesis by (auto simp: walk_step_def consume_eq passed_on_def in_hand_def orderly_def)
    next
      case e: False
      with w False have "out = [] \<and> (g' = g \<or> g_rejection g' \<noteq> None)"
        by (auto simp: walk_step_def Let_def consume_eq split: if_splits dest: walk_header_stops)
      with walk 1 show ?thesis by (auto simp: passed_on_def)
    qed
  qed
qed

lemma transform_bytes:
  assumes "passed_on input out g" and "settled g"
  shows "passed_on (input @ chunk) (out @ fst (transform_chunk g chunk)) (snd (transform_chunk g chunk))"
proof (cases "g_rejection g = None \<and> \<not> g_ended g")
  case True
  with assms(1) have "input = out @ in_hand g" "orderly (plus_bytes g chunk)"
    by (simp_all add: passed_on_def orderly_def)
  moreover have "in_hand (plus_bytes g chunk) = in_hand g @ chunk" by (simp add: in_hand_def)
  ultimately show ?thesis using walk_bytes [of "plus_bytes g chunk"] True
    by (auto simp: passed_on_def transform_chunk_eq)
next
  case False
  with assms show ?thesis
    by (auto simp: passed_on_def transform_chunk_eq settled_def in_hand_def orderly_def)
qed

lemma guard_stream_bytes:
  "case guard_stream rootName chunks of (out, g) \<Rightarrow>
     if g_rejection g = None then out = concat chunks else prefix out (concat chunks)"
proof -
  let ?g = "new_guard rootName" and ?in = "concat chunks"
  obtain out g where t: "transform_chunk ?g ?in = (out, g)" by force
  have "passed_on [] [] ?g" by (simp add: passed_on_def new_guard_def in_hand_def orderly_def)
  from transform_bytes [OF this new_guard_settled, of ?in] t have p: "passed_on ?in out g" by simp
  have "settled g" using transform_settled [OF new_guard_settled, of rootName ?in] t by simp
  with p have "if g_rejection (flush_guard g) = None then out = ?in else prefix out ?in"
    by (cases "g_rejection g")
      (auto simp: passed_on_def flush_guard_def in_hand_def settled_def orderly_def)
  then show ?thesis using t by (simp add: guard_stream_def guarded.feed_concat [OF new_guard_settled])
qed

text \<open>
  What reaches Docker is always a prefix of the upload, and all of it unless the guard reports a
  rejection: no byte is changed, reordered or lost on the way.
\<close>

theorem guard_passes_bytes:
  "case guard_stream rootName chunks of (out, g) \<Rightarrow>
     if g_rejection g = None then out = concat chunks else prefix out (concat chunks)"
  by (rule guard_stream_bytes)

section \<open>What is admitted\<close>

text \<open>
  The entry that an iteration admits, if it does, and the sequence of them over the stream: its type,
  name and link name as the extended headers leave them.
\<close>

record tar_entry =
  te_type :: byte
  te_name :: text_points
  te_link :: text_points

definition header_entry :: "guard \<Rightarrow> tar_entry" where
  "header_entry g =
     (let header = take BLOCK_SIZE (g_buffered g); name = entry_name g header in
      \<lparr>te_type = entry_type (header ! 156) name, te_name = name, te_link = entry_link g header\<rparr>)"

definition step_entries :: "guard \<Rightarrow> tar_entry list" where
  "step_entries g =
     (if g_ended g \<or> 0 < g_dataRemaining g \<or> length (g_buffered g) < BLOCK_SIZE \<or>
         list_all (\<lambda>b. b = 0) (take BLOCK_SIZE (g_buffered g)) \<or>
         meta_type (take BLOCK_SIZE (g_buffered g) ! 156) \<or> \<not> fst (walk_step g)
      then [] else [header_entry g])"

function walk_entries :: "guard \<Rightarrow> tar_entry list" where
  "walk_entries g =
     (if g_rejection g \<noteq> None then []
      else
        (case walk_step g of
           (True, _, g') \<Rightarrow> step_entries g @ walk_entries g'
         | (False, _, _) \<Rightarrow> []))"
  by pat_completeness auto
termination
  by (relation "measure progress") (simp, metis walk_step_progress in_measure)

declare walk_entries.simps [simp del]

text \<open>By the theorems above the cut into chunks is immaterial; the entries are those of the whole upload.\<close>

definition admitted_entries :: "text_points \<Rightarrow> byte list \<Rightarrow> tar_entry list" where
  "admitted_entries rootName upload = walk_entries (plus_bytes (new_guard rootName) upload)"

text \<open>
  The boundary, stated on paths: an entry lies under the root, none of the earlier symlinks (given by
  their components) is a proper ancestor of it, and a hard link names something under the root.
\<close>

definition under_root :: "text_points \<Rightarrow> text_points \<Rightarrow> bool" where
  "under_root rootName path =
     (case components path of Some (r # _) \<Rightarrow> r = rootName | _ \<Rightarrow> False)"

definition within_boundary :: "text_points \<Rightarrow> text_points list list \<Rightarrow> tar_entry \<Rightarrow> bool" where
  "within_boundary rootName links e \<longleftrightarrow>
     under_root rootName (te_name e) \<and>
     list_all (\<lambda>l. \<not> strict_prefix l (the (components (te_name e)))) links \<and>
     (te_type e = 49 \<longrightarrow> under_root rootName (te_link e))"

fun all_within :: "text_points \<Rightarrow> text_points list list \<Rightarrow> tar_entry list \<Rightarrow> bool" where
  "all_within rootName links [] = True"
| "all_within rootName links (e # es) =
     (within_boundary rootName links e \<and>
      all_within rootName (if te_type e = 50 then the (components (te_name e)) # links else links) es)"

text \<open>The symlinks that the guard remembers stand for the paths of the symlinks it has admitted.\<close>

definition clean_path :: "text_points list \<Rightarrow> bool" where
  "clean_path parts \<longleftrightarrow> parts \<noteq> [] \<and> list_all (\<lambda>p. slash \<notin> set p) parts"

definition remembers :: "guard \<Rightarrow> text_points list list \<Rightarrow> bool" where
  "remembers g links \<longleftrightarrow> set (g_symlinks g) = join [slash] ` set links \<and> list_all clean_path links"

lemma clean_join_inj: "clean_path a \<Longrightarrow> clean_path b \<Longrightarrow> join [slash] a = join [slash] b \<Longrightarrow> a = b"
  by (metis clean_path_def split_on_join)

lemma components_clean: "components path = Some parts \<Longrightarrow> parts \<noteq> [] \<Longrightarrow> clean_path parts"
  by (auto simp: components_def clean_path_def list_all_iff Let_def split: if_splits dest: split_on_no_sep)

lemma ancestor_iff:
  assumes "remembers g links" and "clean_path parts"
  shows "list_ex (\<lambda>p. p \<in> set (g_symlinks g)) (ancestors parts) \<longleftrightarrow> list_ex (\<lambda>l. strict_prefix l parts) links"
proof -
  have clean: "clean_path (take n parts)" if "1 \<le> n" for n
    using assms(2) that by (auto simp: clean_path_def list_all_iff dest: in_set_takeD)
  have "(\<exists>n\<in>{1..<length parts}. \<exists>l\<in>set links. join [slash] (take n parts) = join [slash] l) \<longleftrightarrow>
    (\<exists>n\<in>{1..<length parts}. \<exists>l\<in>set links. take n parts = l)"
  proof (intro bex_cong refl)
    fix n l
    assume "n \<in> {1..<length parts}" and "l \<in> set links"
    with clean [of n] assms(1) have "clean_path (take n parts)" "clean_path l"
      by (auto simp: remembers_def list_all_iff)
    then show "join [slash] (take n parts) = join [slash] l \<longleftrightarrow> take n parts = l"
      using clean_join_inj by blast
  qed
  also have "\<dots> \<longleftrightarrow> (\<exists>l\<in>set links. strict_prefix l parts)"
  proof
    assume "\<exists>n\<in>{1..<length parts}. \<exists>l\<in>set links. take n parts = l"
    then obtain n where n: "n < length parts" "take n parts \<in> set links" by auto
    then have "length (take n parts) \<noteq> length parts" by simp
    then have "strict_prefix (take n parts) parts" by (auto simp: strict_prefix_def take_is_prefix)
    with n show "\<exists>l\<in>set links. strict_prefix l parts" by blast
  next
    assume "\<exists>l\<in>set links. strict_prefix l parts"
    then obtain l where l: "l \<in> set links" "strict_prefix l parts" by blast
    then have "take (length l) parts = l" "length l < length parts" "l \<noteq> []"
      using assms(1) by (auto simp: remembers_def list_all_iff clean_path_def strict_prefix_def prefix_def)
    with l show "\<exists>n\<in>{1..<length parts}. \<exists>l\<in>set links. take n parts = l"
      by (intro bexI [of _ "length l"]) (auto simp: Suc_le_eq)
  qed
  finally show ?thesis
    using assms(1) by (auto simp: remembers_def ancestors_def list_ex_iff image_iff)
qed

text \<open>The decision of \<^const>\<open>problemWith\<close> is the boundary.\<close>

lemma under_root_components:
  "under_root r path \<longleftrightarrow> (\<exists>parts. components path = Some parts \<and> parts \<noteq> [] \<and> hd parts = r)"
  by (auto simp: under_root_def neq_Nil_conv split: option.splits list.splits)

lemma bad_link_iff:
  "(case components link of None \<Rightarrow> True | Some target \<Rightarrow> target = [] \<or> hd target \<noteq> r) \<longleftrightarrow> \<not> under_root r link"
  by (auto simp: under_root_components split: option.splits)

lemma problemWith_iff:
  assumes "remembers g links"
  shows "fst (problemWith type name link g) = None \<longleftrightarrow>
    within_boundary (g_rootName g) links \<lparr>te_type = type, te_name = name, te_link = link\<rparr>"
proof (cases "components name")
  case None
  then show ?thesis by (simp add: problemWith_def within_boundary_def under_root_def)
next
  case (Some parts)
  show ?thesis
  proof (cases "parts = [] \<or> hd parts \<noteq> g_rootName g")
    case True
    with Some show ?thesis by (auto simp: problemWith_def within_boundary_def under_root_components)
  next
    case False
    then have "clean_path parts" using components_clean [OF Some] by simp
    from ancestor_iff [OF assms this] False Some show ?thesis
      unfolding problemWith_def bad_link_iff within_boundary_def
      by (auto simp: under_root_components list_all_iff list_ex_iff)
  qed
qed

lemma problemWith_remembers:
  assumes "remembers g links" and "problemWith type name link g = (None, g')"
  shows "remembers g' (if type = 50 then the (components name) # links else links)"
proof -
  obtain parts where c: "components name = Some parts" "parts \<noteq> []"
    using assms(2) by (auto simp: problemWith_def split: option.splits if_splits)
  then have "g_symlinks g' = (if type = 50 then join [slash] parts # g_symlinks g else g_symlinks g)"
    using assms(2) by (auto simp: problemWith_def split: if_splits)
  with assms(1) c components_clean [OF c] show ?thesis by (auto simp: remembers_def)
qed

text \<open>One iteration keeps the boundary, and remembers the symlink it admits.\<close>

definition remember_entries :: "tar_entry list \<Rightarrow> text_points list list \<Rightarrow> text_points list list" where
  "remember_entries es links =
     foldl (\<lambda>ls e. if te_type e = 50 then the (components (te_name e)) # ls else ls) links es"

lemma forget_remembers: "remembers (forget_meta g) links \<longleftrightarrow> remembers g links"
  by (simp add: remembers_def)

lemma step_entries_within:
  assumes w: "walk_step g = (True, out, g')" and m: "remembers g links"
  shows "all_within (g_rootName g) links (step_entries g)"
    and "remembers g' (remember_entries (step_entries g) links)" and "g_rootName g' = g_rootName g"
proof -
  have "all_within (g_rootName g) links (step_entries g) \<and>
      remembers g' (remember_entries (step_entries g) links) \<and> g_rootName g' = g_rootName g"
  proof (cases "g_ended g \<or> 0 < g_dataRemaining g")
    case True
    with w m show ?thesis
      by (auto simp: walk_step_def consume_eq Let_def step_entries_def remember_entries_def remembers_def
          split: if_splits)
  next
    case False
    let ?h = "take BLOCK_SIZE (g_buffered g)"
    from False w have h: "walk_header g = (True, out, g')" and l: "\<not> length (g_buffered g) < BLOCK_SIZE"
      by (auto simp: walk_step_def split: if_splits)
    show ?thesis
    proof (cases "list_all (\<lambda>b. b = 0) ?h \<or> meta_type (?h ! 156)")
      case True
      then have e: "step_entries g = []" by (auto simp: step_entries_def)
      have "remembers g' links \<and> g_rootName g' = g_rootName g"
      proof (cases "list_all (\<lambda>b. b = 0) ?h")
        case zero: True
        with h m show ?thesis by (auto simp: walk_header_def Let_def remembers_def split: if_splits)
      next
        case False
        with True h obtain n where "read_meta (?h ! 156) n g = (True, out, g')"
          by (auto simp: walk_header_def Let_def split: if_splits option.splits)
        then show ?thesis
          by (rule read_meta_continues)
            (use m in \<open>auto simp: remembers_def dest: readMetaHeader_keeps(5,6)\<close>)
      qed
      with e show ?thesis by (simp add: remember_entries_def)
    next
      case entry: False
      with h obtain n where "admitEntry ?h (?h ! 156) n g = (True, out, g')"
        by (auto simp: walk_header_def Let_def split: if_splits option.splits)
      then show ?thesis
      proof (rule admitEntry_continues)
        fix g1 sz
        let ?name = "entry_name g ?h" and ?link = "entry_link g ?h"
        let ?type = "entry_type (?h ! 156) ?name"
        assume p: "problemWith ?type ?name ?link (forget_meta g) = (None, g1)"
          and g': "g' = pass_header ?type sz g1"
        have e: "step_entries g = [\<lparr>te_type = ?type, te_name = ?name, te_link = ?link\<rparr>]"
          using entry False l w by (simp add: step_entries_def header_entry_def Let_def)
        have r: "remembers (forget_meta g) links" using m by (simp add: forget_remembers)
        have "remembers g' (remember_entries (step_entries g) links)"
          using problemWith_remembers [OF r p] by (auto simp: remembers_def g' e remember_entries_def split: if_splits)
        moreover have "all_within (g_rootName g) links (step_entries g)"
          using problemWith_iff [OF r, of ?type ?name ?link] by (simp add: p e)
        ultimately show ?thesis using problemWith_keeps(5) [OF p] by (simp add: g')
      qed
    qed
  qed
  then show "all_within (g_rootName g) links (step_entries g)"
    and "remembers g' (remember_entries (step_entries g) links)" and "g_rootName g' = g_rootName g" by auto
qed

lemma all_within_append:
  "all_within r links (es @ fs) \<longleftrightarrow> all_within r links es \<and> all_within r (remember_entries es links) fs"
  by (induction es arbitrary: links) (simp_all add: remember_entries_def)

lemma walk_entries_within:
  "g_rejection g = None \<Longrightarrow> remembers g links \<Longrightarrow> all_within (g_rootName g) links (walk_entries g)"
proof (induction g arbitrary: links rule: walk_entries.induct)
  case (1 g)
  obtain c out g' where w: "walk_step g = (c, out, g')" by (cases "walk_step g") auto
  show ?case
  proof (cases c)
    case True
    with w have w: "walk_step g = (True, out, g')" by simp
    note s = step_entries_within [OF w 1(3)]
    have "g_rejection g' = None" using walk_step_keeps [OF w] 1(2) by simp
    with 1(1) [of True "(out, g')" out g' "remember_entries (step_entries g) links"] w 1(2) s
    have "all_within (g_rootName g) (remember_entries (step_entries g) links) (walk_entries g')" by simp
    with s w 1(2) show ?thesis by (subst walk_entries.simps) (simp add: all_within_append)
  next
    case False
    with w show ?thesis by (subst walk_entries.simps) simp
  qed
qed

lemma admitted_entries_within: "all_within rootName [] (admitted_entries rootName upload)"
  using walk_entries_within [of "plus_bytes (new_guard rootName) upload" "[]"]
  by (simp add: admitted_entries_def remembers_def new_guard_def)

text \<open>
  C34 Every entry that the guard lets through to Docker lies under the volume's own directory, none of
  them beneath a symlink that an earlier entry of the same upload created, and every hard link names a
  path under that directory.
\<close>

theorem guard_admits_within:
  "all_within rootName [] (admitted_entries rootName upload)"
  by (rule admitted_entries_within)

section \<open>Restore targets\<close>

text \<open>\<^verbatim>\<open>restoreTargetFor\<close>: the parent directory that Docker extracts into, and the root name.\<close>

definition restoreTargetFor :: "string \<Rightarrow> string \<times> string" where
  "restoreTargetFor volumePath =
     (case last_index_of CHR ''/'' volumePath of
        None \<Rightarrow> (''/'', volumePath)
      | Some i \<Rightarrow> (if i = 0 then ''/'' else take i volumePath, drop (Suc i) volumePath))"

text \<open>
  Restoring is the inverse of reading: for a directory below a parent that is not the root, extracting
  into the target's parent an entry under the target's root name lands on the path that was read.
\<close>

theorem restore_target_inverse:
  assumes "CHR ''/'' \<notin> set name" and "parent \<noteq> []"
  shows "restoreTargetFor (parent @ ''/'' @ name) = (parent, name)"
  using last_index_of_append [of "CHR ''/''" name parent] assms
  by (simp add: restoreTargetFor_def)

theorem restore_target_inverse_witness: "restoreTargetFor ''/var/mail'' = (''/var'', ''mail'')"
  using restore_target_inverse [of "''mail''" "''/var''"] by simp

section \<open>Hard links through symlinks\<close>

text \<open>
  The check of a hard link looks at its components only.  Once an upload has created the symlink
  \<^verbatim>\<open>mail/x\<close>, an entry beneath it is refused, but a hard link to a path beneath it is admitted.
\<close>

lemma hard_link_beneath_symlink:
  "fst (problemWith 49 (points ''mail/y'') (points ''mail/x/passwd'')
       ((new_guard (points ''mail''))\<lparr>g_symlinks := [points ''mail/x'']\<rparr>)) = None"
  "fst (problemWith 48 (points ''mail/x/passwd'') []
       ((new_guard (points ''mail''))\<lparr>g_symlinks := [points ''mail/x'']\<rparr>)) =
     Some (BeneathSymlink (points ''mail/x/passwd''))"
  by code_simp+

end
