(* ===== verification/BrokerConfig.thy ===== *)
theory BrokerConfig
  imports Json Visibility
begin

text \<open>
  The broker's environment (\<^verbatim>\<open>apps/broker/src/config.ts\<close>): every variable's reading, the defaults, and
  \<open>loadBrokerConfig\<close>, which reports every problem at once.  A problem is the name of its variable; the
  wording of the messages is not modelled.  \<open>js_number\<close> is \<^verbatim>\<open>Number(raw)\<close> on strings, with exact
  rationals: it differs from the source only on decimals whose double is rounded (more than fifteen
  significant digits).
\<close>

section \<open>Numbers in text\<close>

definition js_sign :: "string \<Rightarrow> rat \<times> string" where
  "js_sign s =
     (case s of
        c # rest \<Rightarrow> if c = CHR ''-'' then (-1, rest) else if c = CHR ''+'' then (1, rest) else (1, s)
      | [] \<Rightarrow> (1, []))"

definition hex_digit :: "char \<Rightarrow> nat option" where
  "hex_digit c =
     (if is_digit c then Some (code c - 48)
      else if is_ascii_upper c then Some (code c - 55)
      else if is_ascii_lower c then Some (code c - 87)
      else None)"

text \<open>One or more digits below the base; letters count from ten, as in hexadecimal.\<close>

definition js_digits :: "nat \<Rightarrow> string \<Rightarrow> nat option" where
  "js_digits base s =
     (if s \<noteq> [] \<and> list_all (\<lambda>c. case hex_digit c of Some d \<Rightarrow> d < base | None \<Rightarrow> False) s
      then Some (foldl (\<lambda>v c. v * base + the (hex_digit c)) 0 s) else None)"

definition js_exponent :: "string \<Rightarrow> rat option" where
  "js_exponent s =
     (case js_sign s of (sign, ds) \<Rightarrow>
        map_option (\<lambda>n. if sign = 1 then 10 ^ n else 1 / 10 ^ n) (js_digits 10 ds))"

definition js_mantissa :: "string \<Rightarrow> rat option" where
  "js_mantissa s =
     (let (ip, fp) = (case index_of CHR ''.'' s of None \<Rightarrow> (s, []) | Some i \<Rightarrow> (take i s, drop (Suc i) s))
      in if ip = [] \<and> fp = [] then None
         else map_option (\<lambda>n. of_nat n / 10 ^ length fp) (js_digits 10 (ip @ fp)))"

definition js_decimal :: "string \<Rightarrow> rat option" where
  "js_decimal s =
     (case js_sign s of (sign, u) \<Rightarrow>
        (case index_of CHR ''e'' (map to_lower_char u) of
           None \<Rightarrow> map_option (\<lambda>m. sign * m) (js_mantissa u)
         | Some i \<Rightarrow>
             (case (js_mantissa (take i u), js_exponent (drop (Suc i) u)) of
                (Some m, Some e) \<Rightarrow> Some (sign * m * e)
              | _ \<Rightarrow> None)))"

text \<open>\<^const>\<open>None\<close> is \<^verbatim>\<open>NaN\<close> or an infinity; the schemas refuse both.\<close>

definition js_number :: "string \<Rightarrow> rat option" where
  "js_number raw =
     (let s = trim raw; prefix = map to_lower_char (take 2 s); digits = drop 2 s
      in if s = [] then Some 0
         else if prefix = ''0x'' then map_option of_nat (js_digits 16 digits)
         else if prefix = ''0o'' then map_option of_nat (js_digits 8 digits)
         else if prefix = ''0b'' then map_option of_nat (js_digits 2 digits)
         else js_decimal s)"

section \<open>Variables\<close>

type_synonym environment = "string \<Rightarrow> string option"

definition given :: "string option \<Rightarrow> string option" where
  "given raw = (case raw of Some s \<Rightarrow> if s = [] then None else Some s | None \<Rightarrow> None)"

definition portVar :: "nat \<Rightarrow> string option \<Rightarrow> nat option" where
  "portVar defaultValue raw =
     (case (case given raw of None \<Rightarrow> Some (of_nat defaultValue) | Some s \<Rightarrow> js_number s) of
        None \<Rightarrow> None
      | Some q \<Rightarrow> if json_int q \<and> 1 \<le> q \<and> q \<le> 65535 then Some (nat \<lfloor>q\<rfloor>) else None)"

definition stringVar :: "string \<Rightarrow> string option \<Rightarrow> string" where
  "stringVar defaultValue raw = (case given raw of None \<Rightarrow> defaultValue | Some s \<Rightarrow> s)"

definition optionalStringVar :: "string option \<Rightarrow> string option" where
  "optionalStringVar raw = given raw"

definition LOG_LEVELS :: "string list" where
  "LOG_LEVELS = [''fatal'', ''error'', ''warn'', ''info'', ''debug'', ''trace'']"

definition MIN_SECRET_LENGTH :: nat where "MIN_SECRET_LENGTH = 32"

definition logLevelVar :: "string option \<Rightarrow> string option" where
  "logLevelVar raw =
     (case map_option trim raw of
        None \<Rightarrow> Some ''info''
      | Some level \<Rightarrow> if level \<in> set LOG_LEVELS then Some level else None)"

definition secretVar :: "string option \<Rightarrow> string option" where
  "secretVar raw =
     (case raw of
        None \<Rightarrow> None
      | Some s \<Rightarrow> if MIN_SECRET_LENGTH \<le> length s then Some s else None)"

section \<open>The configuration\<close>

record broker_config =
  bc_port :: nat
  bc_host :: string
  bc_logLevel :: string
  bc_sharedSecret :: string
  bc_dockerSocketPath :: string
  bc_dms :: service_identity
  bc_panelServer :: service_identity
  bc_panelBroker :: service_identity
  bc_visibleServicePatterns :: "string list"
  bc_registryOverride :: "string option"

definition identityVar :: "environment \<Rightarrow> string \<Rightarrow> string \<Rightarrow> string \<Rightarrow> service_identity" where
  "identityVar env nameVar defaultName labelVar =
     \<lparr>si_containerName = stringVar defaultName (env nameVar),
      si_containerLabel = optionalStringVar (env labelVar)\<rparr>"

text \<open>The variables that did not parse, in the schema's order.\<close>

definition config_problems :: "environment \<Rightarrow> string list" where
  "config_problems env =
     (if portVar 4000 (env ''BROKER_PORT'') = None then [''BROKER_PORT''] else []) @
     (if logLevelVar (env ''LOG_LEVEL'') = None then [''LOG_LEVEL''] else []) @
     (if secretVar (env ''BROKER_SHARED_SECRET'') = None then [''BROKER_SHARED_SECRET''] else [])"

definition loadBrokerConfig :: "environment \<Rightarrow> string list + broker_config" where
  "loadBrokerConfig env =
     (case (portVar 4000 (env ''BROKER_PORT''), logLevelVar (env ''LOG_LEVEL''),
            secretVar (env ''BROKER_SHARED_SECRET'')) of
        (Some port, Some level, Some secret) \<Rightarrow>
          Inr \<lparr>bc_port = port,
               bc_host = stringVar ''0.0.0.0'' (env ''BROKER_HOST''),
               bc_logLevel = level,
               bc_sharedSecret = secret,
               bc_dockerSocketPath = stringVar ''/var/run/docker.sock'' (env ''DOCKER_SOCKET_PATH''),
               bc_dms = identityVar env ''DMS_CONTAINER_NAME'' ''mailserver'' ''DMS_CONTAINER_LABEL'',
               bc_panelServer = identityVar env ''PANEL_SERVER_CONTAINER_NAME'' ''dwg-server''
                 ''PANEL_SERVER_CONTAINER_LABEL'',
               bc_panelBroker = identityVar env ''PANEL_BROKER_CONTAINER_NAME'' ''dwg-broker''
                 ''PANEL_BROKER_CONTAINER_LABEL'',
               bc_visibleServicePatterns = parseVisiblePatterns (env ''VISIBLE_SERVICE_PATTERNS''),
               bc_registryOverride = optionalStringVar (env ''DANGEROUSLY_OVERRIDE_SELF_UPDATE_REGISTRY'')\<rparr>
      | _ \<Rightarrow> Inl (config_problems env))"

section \<open>What a configuration satisfies\<close>

definition sound_config :: "broker_config \<Rightarrow> bool" where
  "sound_config c \<longleftrightarrow>
     1 \<le> bc_port c \<and> bc_port c \<le> 65535 \<and>
     bc_logLevel c \<in> set LOG_LEVELS \<and>
     32 \<le> length (bc_sharedSecret c) \<and>
     bc_host c \<noteq> [] \<and> bc_dockerSocketPath c \<noteq> [] \<and>
     list_all (\<lambda>i. si_containerName i \<noteq> [] \<and> si_containerLabel i \<noteq> Some [])
       [bc_dms c, bc_panelServer c, bc_panelBroker c] \<and>
     bc_visibleServicePatterns c \<noteq> [] \<and> list_all (\<lambda>p. p \<noteq> []) (bc_visibleServicePatterns c) \<and>
     bc_registryOverride c \<noteq> Some []"

lemma given_nonempty: "given raw \<noteq> Some []"
  by (auto simp: given_def split: option.split)

lemma stringVar_nonempty: "d \<noteq> [] \<Longrightarrow> stringVar d raw \<noteq> []"
  by (auto simp: stringVar_def given_def split: option.split)

lemma portVar_range: "portVar d raw = Some p \<Longrightarrow> 1 \<le> p \<and> p \<le> 65535"
proof -
  assume "portVar d raw = Some p"
  then obtain q :: rat where q: "1 \<le> q" "q \<le> 65535" and p: "p = nat \<lfloor>q\<rfloor>"
    by (auto simp: portVar_def split: option.splits if_splits)
  obtain i where i: "i = \<lfloor>q\<rfloor>" by blast
  have "1 \<le> i" using q(1) by (simp add: i le_floor_iff)
  moreover have "i \<le> 65535" using floor_mono [OF q(2)] by (simp add: i)
  ultimately show ?thesis using p by (simp add: i [symmetric] nat_le_iff le_nat_iff)
qed

lemma identity_sound:
  "d \<noteq> [] \<Longrightarrow> si_containerName (identityVar env n d l) \<noteq> [] \<and> si_containerLabel (identityVar env n d l) \<noteq> Some []"
  by (simp add: identityVar_def stringVar_nonempty optionalStringVar_def given_nonempty)

text \<open>
  Loading either reports at least one problem, always of a variable that has one, or yields a
  configuration in bounds: a port, a known log level, a secret of at least 32 characters, and no
  identity, label, pattern or override that is the empty string.
\<close>

theorem loadBrokerConfig_sound:
  "case loadBrokerConfig env of
     Inl problems \<Rightarrow> problems \<noteq> [] \<and> problems = config_problems env
   | Inr c \<Rightarrow> config_problems env = [] \<and> sound_config c"
proof (cases "config_problems env = []")
  case True
  then obtain p l s where v: "portVar 4000 (env ''BROKER_PORT'') = Some p"
      "logLevelVar (env ''LOG_LEVEL'') = Some l" "secretVar (env ''BROKER_SHARED_SECRET'') = Some s"
    by (auto simp: config_problems_def split: if_splits)
  have "32 \<le> length s" using v(3) by (auto simp: secretVar_def MIN_SECRET_LENGTH_def split: option.splits if_splits)
  moreover have "l \<in> set LOG_LEVELS" using v(2)
    by (auto simp: logLevelVar_def LOG_LEVELS_def split: option.splits if_splits)
  ultimately show ?thesis
    using v portVar_range [OF v(1)] True
    by (simp add: loadBrokerConfig_def sound_config_def stringVar_nonempty identity_sound
        optionalStringVar_def given_nonempty parseVisiblePatterns_nonempty list_all_iff parseVisiblePatterns_items)
next
  case False
  then have "loadBrokerConfig env = Inl (config_problems env)"
    by (auto simp: loadBrokerConfig_def config_problems_def split: option.splits if_splits)
  with False show ?thesis by simp
qed

end
