(* ===== verification/BrokerApp.thy ===== *)
theory BrokerApp
  imports BrokerPolicy TarGuard BrokerConfig
begin

text \<open>
  The broker's HTTP surface: the shared-secret guard (\<^verbatim>\<open>auth.ts\<close>), the operations route and the error
  handler around it (\<^verbatim>\<open>app.ts\<close>), and the two streaming routes of backup and restore
  (\<^verbatim>\<open>archive-routes.ts\<close>).  A request is what the framework hands over: its route, the secret header,
  and its body, which the framework reads only after the guard has passed and may itself refuse with a
  status (\<open>Inl\<close>).  SHA-256 is a parameter, \<open>digest\<close>.
\<close>

section \<open>The shared secret\<close>

datatype header_value = Single string | Several "string list"

text \<open>\<^verbatim>\<open>timingSafeEqual\<close> on two digests is their equality.\<close>

definition secretsMatch :: "(string \<Rightarrow> byte list) \<Rightarrow> string \<Rightarrow> string \<Rightarrow> bool" where
  "secretsMatch digest provided expected =
     (let providedDigest = digest provided; expectedDigest = digest expected
      in providedDigest = expectedDigest)"

definition createSecretGuard :: "(string \<Rightarrow> byte list) \<Rightarrow> string \<Rightarrow> header_value option \<Rightarrow> exn + unit" where
  "createSecretGuard digest sharedSecret header =
     (let provided = (case header of Some (Single s) \<Rightarrow> s | _ \<Rightarrow> [])
      in if length provided = 0 \<or> \<not> secretsMatch digest provided sharedSecret
         then Inl (broker_error UNAUTHENTICATED ''Missing or invalid broker secret.'')
         else Inr ())"

section \<open>Backup volumes\<close>

datatype backup_volume_key = VolMail | VolMailState | VolMailLog | VolDmsConfig

definition BACKUP_VOLUME_KEYS :: "(string \<times> backup_volume_key) list" where
  "BACKUP_VOLUME_KEYS =
     [(''mail'', VolMail), (''mailState'', VolMailState), (''mailLog'', VolMailLog),
      (''dmsConfig'', VolDmsConfig)]"

fun BACKUP_VOLUME_CONTAINER_PATHS :: "backup_volume_key \<Rightarrow> string" where
  "BACKUP_VOLUME_CONTAINER_PATHS VolMail = ''/var/mail''"
| "BACKUP_VOLUME_CONTAINER_PATHS VolMailState = ''/var/mail-state''"
| "BACKUP_VOLUME_CONTAINER_PATHS VolMailLog = ''/var/log/mail''"
| "BACKUP_VOLUME_CONTAINER_PATHS VolDmsConfig = ''/tmp/docker-mailserver''"

fun BACKUP_VOLUME_ARCHIVE_ROOTS :: "backup_volume_key \<Rightarrow> string" where
  "BACKUP_VOLUME_ARCHIVE_ROOTS VolMail = ''mail''"
| "BACKUP_VOLUME_ARCHIVE_ROOTS VolMailState = ''mail-state''"
| "BACKUP_VOLUME_ARCHIVE_ROOTS VolMailLog = ''mail''"
| "BACKUP_VOLUME_ARCHIVE_ROOTS VolDmsConfig = ''docker-mailserver''"

definition ARCHIVE_VOLUME_PATHS :: "backup_volume_key \<Rightarrow> string" where
  "ARCHIVE_VOLUME_PATHS = BACKUP_VOLUME_CONTAINER_PATHS"

definition parseVolumeKey :: "string \<Rightarrow> exn + backup_volume_key" where
  "parseVolumeKey raw =
     (case map_of BACKUP_VOLUME_KEYS raw of
        Some k \<Rightarrow> Inr k
      | None \<Rightarrow> Inl (broker_error VALIDATION_FAILED (''Unknown volume key: '' @ raw)))"

section \<open>Replies\<close>

text \<open>What the response schemas require beyond the types of \<^typ>\<open>broker_response\<close>.\<close>

fun response_valid :: "broker_response \<Rightarrow> bool" where
  "response_valid (RContainerStats stats _) = ContainerStatsResponseSchema stats"
| "response_valid (RSystemDf df) =
     (0 \<le> rdf_layersSizeBytes df \<and> 0 \<le> rdf_imagesCount df \<and> 0 \<le> rdf_containersCount df \<and>
      0 \<le> rdf_volumesCount df \<and> 0 \<le> rdf_buildCacheBytes df)"
| "response_valid (RImageList images) = list_all (\<lambda>i. 0 \<le> rim_sizeBytes i) images"
| "response_valid (RImagePrune p) = (0 \<le> pr_spaceReclaimedBytes p)"
| "response_valid (RConsoleExec c) = (json_int (of_int (cr_exitCode c)) \<and> 0 \<le> cr_durationMs c)"
| "response_valid (RDmsExec r) = json_int (of_int (ex_exitCode r))"
| "response_valid _ = True"

datatype reply =
    Sent broker_response
  | Streamed "byte list"
  | NoContent
  | Failed nat error_code string

fun reply_status :: "reply \<Rightarrow> nat" where
  "reply_status (Sent _) = 200"
| "reply_status (Streamed _) = 200"
| "reply_status NoContent = 204"
| "reply_status (Failed status _ _) = status"

text \<open>The error handler, as the last thing that happens to a request.\<close>

definition failed_reply :: "exn \<Rightarrow> nat option \<Rightarrow> reply" where
  "failed_reply e framework_status =
     (case error_response e framework_status of (status, ec, message) \<Rightarrow> Failed status ec message)"

definition handle_errors :: "reply broker_io \<Rightarrow> reply broker_io" where
  "handle_errors m = try_catch m (\<lambda>e. ret (failed_reply e None))"

section \<open>The routes\<close>

definition app_deps :: "broker_config \<Rightarrow> daemon \<Rightarrow> string \<Rightarrow> int \<Rightarrow> operation_deps" where
  "app_deps config d now elapsed =
     \<lparr>od_docker = d, od_dms = bc_dms config, od_panelServer = bc_panelServer config,
      od_panelBroker = bc_panelBroker config, od_visibleServicePatterns = bc_visibleServicePatterns config,
      od_registryOverride = bc_registryOverride config, od_nowIso = now, od_elapsedMs = elapsed\<rparr>"

text \<open>The handler of \<^verbatim>\<open>POST /v1/ops\<close>; an invalid response is an error that is not the broker's own.\<close>

definition ops_handler :: "operation_deps \<Rightarrow> json \<Rightarrow> reply broker_io" where
  "ops_handler deps body =
     (case BrokerRequestSchema body of
        None \<Rightarrow> throw (broker_error VALIDATION_FAILED ''Unknown operation or malformed request body.'')
      | Some request \<Rightarrow>
          and_then (handleOperation request deps) (\<lambda>result.
            if response_valid result then ret (Sent result) else throw (RawError ''invalid response'')))"

definition archive_get_handler :: "operation_deps \<Rightarrow> string \<Rightarrow> reply broker_io" where
  "archive_get_handler deps rawKey =
     and_then (lift_sum (parseVolumeKey rawKey)) (\<lambda>volumeKey.
     and_then (resolveOrForbid deps) (\<lambda>ref.
       let path = ARCHIVE_VOLUME_PATHS volumeKey
       in and_then
            (try_catch
              (docker (CGetContainerArchive (mr_id ref) path)
                (dk_getContainerArchive (od_docker deps) (mr_id ref) path))
              (\<lambda>_. throw (broker_error UPSTREAM_UNAVAILABLE ''Could not read the requested volume.'')))
            (\<lambda>tar. ret (Streamed tar))))"

text \<open>
  The messages that a rejection ends with; their quoted paths are left to the constructor.
\<close>

definition rejection_error :: "rejection \<Rightarrow> exn" where
  "rejection_error reason =
     broker_error VALIDATION_FAILED (''Restore of this volume stopped: '' @
       (case reason of
          EndsPartway \<Rightarrow> ''The archive ends partway through an entry.''
        | DanglingExtendedHeader \<Rightarrow> ''The archive has an extended header with no entry after it.''
        | BadChecksum \<Rightarrow> ''The archive has a header with an invalid checksum.''
        | BadSize \<Rightarrow> ''The archive has a header with an invalid size.''
        | OversizedExtendedHeader \<Rightarrow> ''The archive has an oversized extended header.''
        | MalformedPax \<Rightarrow> ''The archive has a malformed PAX header.''
        | BadPaxSize \<Rightarrow> ''The archive has a PAX header with an invalid size.''
        | UnsupportedType _ \<Rightarrow> ''The archive has an entry of unsupported type.''
        | EntryOutside _ \<Rightarrow> ''The archive entry is outside the volume.''
        | BeneathSymlink _ \<Rightarrow> ''The archive entry is beneath a symlink it created.''
        | HardLinkOutside _ \<Rightarrow> ''The archive hard link points outside the volume.''))"

text \<open>
  \<^verbatim>\<open>PUT /v1/archive/:volumeKey\<close>: the upload is piped through the guard, and Docker reads what comes
  out of it to its end.
\<close>

definition archive_put_handler :: "operation_deps \<Rightarrow> string \<Rightarrow> byte list list \<Rightarrow> reply broker_io" where
  "archive_put_handler deps rawKey chunks =
     and_then (lift_sum (parseVolumeKey rawKey)) (\<lambda>volumeKey.
     and_then (resolveOrForbid deps) (\<lambda>ref.
       let (parentPath, rootName) = restoreTargetFor (ARCHIVE_VOLUME_PATHS volumeKey);
           (passed, guard) = guard_stream (points rootName) chunks
       in and_then
            (try_catch
              (docker (CPutContainerArchive (mr_id ref) parentPath)
                (dk_putContainerArchive (od_docker deps) (mr_id ref) parentPath passed))
              (\<lambda>_. throw (broker_error UPSTREAM_UNAVAILABLE ''Could not write the requested volume.'')))
            (\<lambda>_. case g_rejection guard of
                     Some reason \<Rightarrow> throw (rejection_error reason)
                   | None \<Rightarrow> ret NoContent)))"

datatype http_request =
    PostOps "nat + json"
  | GetArchive string
  | PutArchive string "nat + byte list list"
  | OtherRoute

definition with_body :: "nat + 'a \<Rightarrow> ('a \<Rightarrow> reply broker_io) \<Rightarrow> reply broker_io" where
  "with_body body handler =
     (case body of
        Inl status \<Rightarrow> ret (failed_reply (RawError ''framework'') (Some status))
      | Inr b \<Rightarrow> handle_errors (handler b))"

fun route_handler :: "operation_deps \<Rightarrow> http_request \<Rightarrow> reply broker_io" where
  "route_handler deps (PostOps body) = with_body body (ops_handler deps)"
| "route_handler deps (GetArchive rawKey) = handle_errors (archive_get_handler deps rawKey)"
| "route_handler deps (PutArchive rawKey upload) = with_body upload (archive_put_handler deps rawKey)"
| "route_handler deps OtherRoute = ret (failed_reply (broker_error NOT_FOUND ''That route does not exist.'') None)"

text \<open>\<^verbatim>\<open>buildBrokerApp\<close>: the guard is an \<^verbatim>\<open>onRequest\<close> hook, so it runs before the body is read.\<close>

definition buildBrokerApp ::
  "(string \<Rightarrow> byte list) \<Rightarrow> broker_config \<Rightarrow> daemon \<Rightarrow> string \<Rightarrow> int \<Rightarrow>
   header_value option \<Rightarrow> http_request \<Rightarrow> reply broker_io" where
  "buildBrokerApp digest config d now elapsed header request =
     (let deps = app_deps config d now elapsed in
      if request = OtherRoute then route_handler deps request
      else
        (case createSecretGuard digest (bc_sharedSecret config) header of
           Inl e \<Rightarrow> ret (failed_reply e None)
         | Inr _ \<Rightarrow> route_handler deps request))"

section \<open>Nothing happens without the secret\<close>

lemma failed_reply_broker_error:
  "failed_reply (broker_error ec message) s =
     Failed (case DEFAULT_HTTP_STATUS ec of Some n \<Rightarrow> n | None \<Rightarrow> 500) ec message"
  by (simp add: failed_reply_def error_response_def new_BrokerError_def)

text \<open>
  C31 A request whose header is not one string with the digest of the shared secret is answered 401 (404
  off the routes) whatever its body, and no Docker call is made for it.
\<close>

theorem no_secret_no_call:
  assumes "case header of Some (Single s) \<Rightarrow> s = [] \<or> digest s \<noteq> digest (bc_sharedSecret config) | _ \<Rightarrow> True"
  shows "\<exists>ec message. buildBrokerApp digest config d now elapsed header request history =
     (Inr (Failed (if request = OtherRoute then 404 else 401) ec message), history)"
proof -
  have "createSecretGuard digest (bc_sharedSecret config) header =
      Inl (broker_error UNAUTHENTICATED ''Missing or invalid broker secret.'')"
    using assms by (auto simp: createSecretGuard_def secretsMatch_def Let_def
        split: option.splits header_value.splits)
  then show ?thesis by (simp add: buildBrokerApp_def ret_def failed_reply_broker_error)
qed

definition sample_config :: broker_config where
  "sample_config =
     \<lparr>bc_port = 4000, bc_host = ''0.0.0.0'', bc_logLevel = ''info'', bc_sharedSecret = replicate 32 CHR ''k'',
      bc_dockerSocketPath = ''/var/run/docker.sock'',
      bc_dms = \<lparr>si_containerName = ''mailserver'', si_containerLabel = None\<rparr>,
      bc_panelServer = \<lparr>si_containerName = ''dwg-server'', si_containerLabel = None\<rparr>,
      bc_panelBroker = \<lparr>si_containerName = ''dwg-broker'', si_containerLabel = None\<rparr>,
      bc_visibleServicePatterns = DEFAULT_VISIBLE_SERVICE_PATTERNS, bc_registryOverride = None\<rparr>"

theorem no_secret_no_call_witness:
  "\<exists>ec message. buildBrokerApp (map (\<lambda>c. word_of_nat (of_char c))) sample_config offline_daemon [] 0
      (Some (Several [''a'', ''b''])) (PostOps (Inr JNull)) [] = (Inr (Failed 401 ec message), [])"
  using no_secret_no_call [where header = "Some (Several [''a'', ''b''])" and config = sample_config
      and digest = "map (\<lambda>c. word_of_nat (of_char c))" and d = offline_daemon and now = "[]" and elapsed = 0
      and request = "PostOps (Inr JNull)" and history = "[]"]
  by simp

section \<open>Every request is answered\<close>

lemma handle_errors_total: "\<exists>r. fst (handle_errors m h) = Inr r"
  by (auto simp: handle_errors_def try_catch_def ret_def split: prod.split sum.split)

lemma broker_request_refused:
  "BrokerRequestSchema body = None \<Longrightarrow>
     handle_errors (ops_handler deps body) h =
       (Inr (Failed 400 VALIDATION_FAILED ''Unknown operation or malformed request body.''), h)"
  by (simp add: handle_errors_def ops_handler_def try_catch_def throw_def ret_def failed_reply_broker_error)

lemma sent_only_valid:
  "wp (handle_errors (ops_handler deps body))
     (\<lambda>r _. case r of Sent x \<Rightarrow> response_valid x | _ \<Rightarrow> True) (\<lambda>_ _. False) h"
proof -
  have "wp (handle_errors (ops_handler deps body)) Q (\<lambda>_ _. False) h \<longleftrightarrow>
      wp (ops_handler deps body) Q (\<lambda>e. Q (failed_reply e None)) h" for Q
    by (simp add: handle_errors_def wp_simps)
  moreover have "wp (ops_handler deps body) (\<lambda>r _. case r of Sent x \<Rightarrow> response_valid x | _ \<Rightarrow> True)
      (\<lambda>e _. case failed_reply e None of Sent x \<Rightarrow> response_valid x | _ \<Rightarrow> True) h"
    by (auto simp: ops_handler_def wp_def and_then_def throw_def ret_def failed_reply_def
        split: option.splits sum.splits prod.splits)
  ultimately show ?thesis by simp
qed



section \<open>The authority of a request\<close>

text \<open>
  What a request may call: an operation what its policy allows; the archive routes one listing and then
  one archive call, in the resolved mail container, at the path of the requested key or its parent.
\<close>

definition archive_allowed ::
  "operation_deps \<Rightarrow> (string \<Rightarrow> docker_call) option \<Rightarrow> docker_call list \<Rightarrow> docker_call \<Rightarrow> bool" where
  "archive_allowed deps archive_call before c \<longleftrightarrow>
     (case archive_call of
        None \<Rightarrow> False
      | Some mk \<Rightarrow>
          before = [] \<and> c = CListContainers True \<or>
          before = [CListContainers True] \<and> (\<exists>cid. resolved deps (od_dms deps) before cid \<and> c = mk cid))"

fun app_allowed :: "operation_deps \<Rightarrow> http_request \<Rightarrow> docker_call list \<Rightarrow> docker_call \<Rightarrow> bool" where
  "app_allowed deps (PostOps body) before c =
     (case body of
        Inr b \<Rightarrow> (case BrokerRequestSchema b of Some req \<Rightarrow> broker_allowed deps req before c | None \<Rightarrow> False)
      | Inl _ \<Rightarrow> False)"
| "app_allowed deps (GetArchive rawKey) before c =
     archive_allowed deps
       (map_option (\<lambda>k cid. CGetContainerArchive cid (ARCHIVE_VOLUME_PATHS k)) (map_of BACKUP_VOLUME_KEYS rawKey))
       before c"
| "app_allowed deps (PutArchive rawKey _) before c =
     archive_allowed deps
       (map_option (\<lambda>k cid. CPutContainerArchive cid (fst (restoreTargetFor (ARCHIVE_VOLUME_PATHS k))))
          (map_of BACKUP_VOLUME_KEYS rawKey))
       before c"
| "app_allowed deps OtherRoute before c = False"

abbreviation entitled :: "operation_deps \<Rightarrow> http_request \<Rightarrow> reply broker_io \<Rightarrow> bool" where
  "entitled deps request m \<equiv>
     wp m (\<lambda>_. justified (app_allowed deps request)) (\<lambda>_. justified (app_allowed deps request)) []"

lemma within_handle_errors: "entitled deps request m \<Longrightarrow> entitled deps request (handle_errors m)"
  by (simp add: handle_errors_def wp_simps)

lemma within_ops: "entitled deps (PostOps (Inr body)) (ops_handler deps body)"
proof (cases "BrokerRequestSchema body")
  case None
  then show ?thesis by (simp add: ops_handler_def wp_simps)
next
  case (Some req)
  have policy: "app_allowed deps (PostOps (Inr body)) = broker_allowed deps req"
    by (intro ext) (simp add: Some)
  have "obeys deps req (handleOperation req deps) []" by (simp add: obeys_handleOperation)
  then show ?thesis
    unfolding policy ops_handler_def Some option.case wp_and_then
    by (rule wp_mono) (simp_all add: wp_simps)
qed

lemma wp_resolveOrForbid_Nil:
  assumes "\<And>ref e. resolved deps (od_dms deps) [CListContainers True] (mr_id ref) \<Longrightarrow> Q ref [CListContainers True]"
    and "\<And>e. E e [CListContainers True]"
  shows "wp (resolveOrForbid deps) Q E []"
  by (rule wp_resolveOrForbid) (use resolved_here [of deps "[]"] assms in auto)

lemma within_archive:
  assumes key: "map_of BACKUP_VOLUME_KEYS rawKey = Some k"
    and policy: "\<And>before c. app_allowed deps request before c = archive_allowed deps (Some mk) before c"
  shows "resolved deps (od_dms deps) [CListContainers True] cid \<Longrightarrow>
      justified (app_allowed deps request) [CListContainers True, mk cid]"
    and "justified (app_allowed deps request) [CListContainers True]"
proof -
  show listing: "justified (app_allowed deps request) [CListContainers True]"
    using justified_append [of "app_allowed deps request" "[]" "[CListContainers True]"]
    by (simp add: policy archive_allowed_def)
  assume "resolved deps (od_dms deps) [CListContainers True] cid"
  with listing justified_append [of "app_allowed deps request" "[CListContainers True]" "[mk cid]"]
  show "justified (app_allowed deps request) [CListContainers True, mk cid]"
    by (auto simp: policy archive_allowed_def)
qed

lemma parseVolumeKey_eq:
  "parseVolumeKey rawKey =
     (case map_of BACKUP_VOLUME_KEYS rawKey of
        Some k \<Rightarrow> Inr k | None \<Rightarrow> Inl (broker_error VALIDATION_FAILED (''Unknown volume key: '' @ rawKey)))"
  by (simp add: parseVolumeKey_def)

lemma within_get: "entitled deps (GetArchive rawKey) (archive_get_handler deps rawKey)"
proof (cases "map_of BACKUP_VOLUME_KEYS rawKey")
  case None
  then show ?thesis by (simp add: archive_get_handler_def parseVolumeKey_eq wp_simps)
next
  case (Some k)
  note j = within_archive [OF Some, of deps "GetArchive rawKey"
      "\<lambda>cid. CGetContainerArchive cid (ARCHIVE_VOLUME_PATHS k)", simplified Some app_allowed.simps, simplified]
  show ?thesis
    unfolding archive_get_handler_def parseVolumeKey_eq Some
    by (auto simp: wp_simps Some Let_def intro!: wp_resolveOrForbid_Nil j split: sum.split)
qed

lemma within_put: "entitled deps (PutArchive rawKey upload) (archive_put_handler deps rawKey chunks)"
proof (cases "map_of BACKUP_VOLUME_KEYS rawKey")
  case None
  then show ?thesis by (simp add: archive_put_handler_def parseVolumeKey_eq wp_simps)
next
  case (Some k)
  note j = within_archive [OF Some, of deps "PutArchive rawKey upload"
      "\<lambda>cid. CPutContainerArchive cid (fst (restoreTargetFor (ARCHIVE_VOLUME_PATHS k)))",
      simplified Some app_allowed.simps, simplified]
  show ?thesis
    unfolding archive_put_handler_def parseVolumeKey_eq Some
    by (auto simp: wp_simps Some case_prod_beta intro!: wp_resolveOrForbid_Nil j split: sum.split option.split)
qed

text \<open>
  C30 Whatever the header, the request and the daemon's answers, the broker makes only the calls that the
  request entitles it to: those of one validated operation, or one archive call on the resolved mail
  container at a path fixed by the volume key.
\<close>

theorem app_calls_justified:
  "justified (app_allowed (app_deps config d now elapsed) request)
     (snd (buildBrokerApp digest config d now elapsed header request []))"
proof -
  let ?deps = "app_deps config d now elapsed"
  have "entitled ?deps request (route_handler ?deps request)"
    by (cases request)
      (auto simp: with_body_def wp_simps split: sum.split
        intro: within_handle_errors within_ops within_get within_put)
  then have "entitled ?deps request (buildBrokerApp digest config d now elapsed header request)"
    by (auto simp: buildBrokerApp_def Let_def wp_simps split: sum.split)
  then show ?thesis by (simp add: wp_trace)
qed

section \<open>Restoring a volume\<close>

text \<open>
  C33 A restore that succeeds wrote the whole upload, unchanged, and each of its entries lands inside the
  requested volume: extraction happens in the parent of the volume's path, and every entry lies under
  the path's last component.
\<close>

theorem restore_contained:
  assumes "parseVolumeKey rawKey = Inr k"
    and "archive_put_handler deps rawKey chunks history = (Inr NoContent, calls)"
  shows "\<exists>cid parent root.
    calls = history @ [CListContainers True, CPutContainerArchive cid parent] \<and>
    parent @ ''/'' @ root = ARCHIVE_VOLUME_PATHS k \<and> root = BACKUP_VOLUME_ARCHIVE_ROOTS k \<and>
    dk_putContainerArchive (od_docker deps) cid parent (concat chunks) (history @ [CListContainers True]) = Inr () \<and>
    all_within (points root) [] (admitted_entries (points root) (concat chunks))"
proof -
  obtain parent root where target: "restoreTargetFor (ARCHIVE_VOLUME_PATHS k) = (parent, root)" by force
  have path: "parent @ ''/'' @ root = ARCHIVE_VOLUME_PATHS k" and root: "root = BACKUP_VOLUME_ARCHIVE_ROOTS k"
    using target by (cases k; simp add: ARCHIVE_VOLUME_PATHS_def restoreTargetFor_def last_index_of_def)+
  obtain passed g where stream: "guard_stream (points root) chunks = (passed, g)" by force
  let ?done = "\<lambda>calls. \<exists>cid. calls = history @ [CListContainers True, CPutContainerArchive cid parent] \<and>
      dk_putContainerArchive (od_docker deps) cid parent passed (history @ [CListContainers True]) = Inr () \<and>
      g_rejection g = None"
  have "wp (archive_put_handler deps rawKey chunks) (\<lambda>r calls. r = NoContent \<longrightarrow> ?done calls) (\<lambda>_ _. True) history"
    unfolding archive_put_handler_def wp_and_then wp_lift_sum assms(1) sum.case target Let_def prod.case stream
    by (rule wp_resolveOrForbid) (auto simp: wp_simps split: sum.split option.split)
  from wp_result [OF this assms(2)] obtain cid where
    put: "dk_putContainerArchive (od_docker deps) cid parent passed (history @ [CListContainers True]) = Inr ()"
    and calls: "calls = history @ [CListContainers True, CPutContainerArchive cid parent]"
    and none: "g_rejection g = None" by auto
  have "passed = concat chunks"
    using guard_stream_bytes [where rootName = "points root" and chunks = chunks] stream none by simp
  with put calls path root admitted_entries_within show ?thesis by blast
qed

definition restoring_deps :: operation_deps where
  "restoring_deps =
     (sample_deps [sample_container ''c1'' ''mailserver''])\<lparr>od_docker :=
        offline_daemon\<lparr>dk_listContainers := \<lambda>_ _. Inr [sample_container ''c1'' ''mailserver''],
                       dk_putContainerArchive := \<lambda>_ _ _ _. Inr ()\<rparr>\<rparr>"

lemma empty_upload: "guard_stream rootName [] = ([], new_guard rootName)"
  by (simp add: guard_stream_def flush_guard_def new_guard_def)

theorem restore_contained_witness:
  "\<exists>cid parent root.
    [CListContainers True, CPutContainerArchive ''c1'' ''/var''] =
      [] @ [CListContainers True, CPutContainerArchive cid parent] \<and>
    parent @ ''/'' @ root = ARCHIVE_VOLUME_PATHS VolMail \<and> root = BACKUP_VOLUME_ARCHIVE_ROOTS VolMail \<and>
    dk_putContainerArchive (od_docker restoring_deps) cid parent (concat []) ([] @ [CListContainers True]) = Inr () \<and>
    all_within (points root) [] (admitted_entries (points root) (concat []))"
proof (rule restore_contained)
  show "parseVolumeKey ''mail'' = Inr VolMail" by (simp add: parseVolumeKey_def BACKUP_VOLUME_KEYS_def)
  have t: "restoreTargetFor (ARCHIVE_VOLUME_PATHS VolMail) = (''/var'', ''mail'')" by code_simp
  have s: "selectSingleMatch [sample_container ''c1'' ''mailserver'']
      \<lparr>si_containerName = ''mailserver'', si_containerLabel = None\<rparr> ''mail container'' =
      Inr \<lparr>mr_id = ''c1'', mr_name = ''mailserver''\<rparr>" by code_simp
  have r: "resolveOrForbid restoring_deps [] =
      (Inr \<lparr>mr_id = ''c1'', mr_name = ''mailserver''\<rparr>, [CListContainers True])"
    by (simp add: resolveOrForbid_cases restoring_deps_def sample_deps_def s)
  show "archive_put_handler restoring_deps ''mail'' [] [] =
      (Inr NoContent, [CListContainers True, CPutContainerArchive ''c1'' ''/var''])"
    using r by (simp add: archive_put_handler_def parseVolumeKey_def BACKUP_VOLUME_KEYS_def and_then_def
        lift_sum_def t empty_upload try_catch_def docker_def perform_def answered_def ret_def
        new_guard_def restoring_deps_def)
qed

end
