(* ===== verification/Updater.thy ===== *)
theory Updater
  imports LaunchUpdater
begin

text \<open>
  The one-shot updater (\<^verbatim>\<open>self-update/updater.ts\<close>): pull both images, capture both containers, record
  the plan to roll back to, then recreate the server and the broker in turn, each time waiting for
  the new container's health check, and put both back when either fails.  Its effects are Docker
  calls, writes of the result file and sleeps.  The clock is a function of the effects so far; the
  polling loop has no bound of its own in the source, so the model gives it fuel, and
  \<open>self_update_terminates\<close> shows that 46 polls are enough for a clock that runs.
\<close>

section \<open>Effects\<close>

datatype outcome_kind = OutcomeSuccess | OutcomeRolledBack | OutcomeFailed
datatype failed_at = PreFlight | ServerHealth | BrokerHealth

datatype self_update_result =
    InProgress string recreate_spec recreate_spec
  | Done outcome_kind "string option" string "failed_at option" "string option"

datatype updater_event = UDocker docker_call | UWrite self_update_result | USleep int
datatype updater_error = DockerFailed string | WriteFailed string | OutOfFuel

type_synonym 'a updater_io = "(updater_event, updater_error, 'a) io"

record updater_target =
  ut_serverContainerName :: string
  ut_brokerContainerName :: string
  ut_serverImageRef :: string
  ut_brokerImageRef :: string

record updater_deps =
  up_docker :: daemon
  up_target :: updater_target
  up_now :: "updater_event list \<Rightarrow> int"
  up_write :: "self_update_result \<Rightarrow> updater_event list \<Rightarrow> string + unit"

datatype updater_outcome = Success | RolledBack string | Failed string

fun docker_calls :: "updater_event list \<Rightarrow> docker_call list" where
  "docker_calls [] = []"
| "docker_calls (UDocker c # es) = c # docker_calls es"
| "docker_calls (_ # es) = docker_calls es"

definition docker_answer :: "'a answer \<Rightarrow> updater_event list \<Rightarrow> updater_error + 'a" where
  "docker_answer a h = (case a (docker_calls h) of Inl e \<Rightarrow> Inl (DockerFailed e) | Inr x \<Rightarrow> Inr x)"

definition udocker :: "docker_call \<Rightarrow> 'a answer \<Rightarrow> 'a updater_io" where
  "udocker c a = perform (UDocker c) (docker_answer a)"

definition writeResultFile :: "updater_deps \<Rightarrow> self_update_result \<Rightarrow> unit updater_io" where
  "writeResultFile deps content = perform (UWrite content)
     (\<lambda>h. case up_write deps content h of Inl e \<Rightarrow> Inl (WriteFailed e) | Inr u \<Rightarrow> Inr u)"

definition read_now :: "updater_deps \<Rightarrow> int updater_io" where
  "read_now deps = (\<lambda>h. (Inr (up_now deps h), h))"

definition delay :: "int \<Rightarrow> unit updater_io" where
  "delay ms = perform (USleep ms) (\<lambda>_. Inr ())"

fun describeError :: "updater_error \<Rightarrow> string" where
  "describeError (DockerFailed message) = message"
| "describeError (WriteFailed message) = message"
| "describeError OutOfFuel = ''''"

section \<open>Steps\<close>

definition HEALTH_POLL_TIMEOUT_MS :: int where "HEALTH_POLL_TIMEOUT_MS = 90000"
definition HEALTH_POLL_INTERVAL_MS :: int where "HEALTH_POLL_INTERVAL_MS = 2000"

definition resolveFromVersion :: "daemon \<Rightarrow> string \<Rightarrow> string option updater_io" where
  "resolveFromVersion d serverImage =
     and_then (udocker CListImages (dk_listImages d)) (\<lambda>images.
       ret (case find (\<lambda>img. im_id img = serverImage) images of
              None \<Rightarrow> None
            | Some match \<Rightarrow> extractPanelVersion (im_repoTags match) PANEL_SERVER_REPOSITORY))"

definition inspectOldImageConfig :: "daemon \<Rightarrow> string \<Rightarrow> raw_image_config option updater_io" where
  "inspectOldImageConfig d imageId =
     try_catch
       (and_then (udocker (CInspectImageConfig imageId) (dk_inspectImageConfig d imageId)) (\<lambda>img. ret (Some img)))
       (\<lambda>_. ret None)"

definition resolveIdByName :: "daemon \<Rightarrow> string \<Rightarrow> string option updater_io" where
  "resolveIdByName d name =
     and_then (udocker (CListContainers True) (dk_listContainers d True)) (\<lambda>listed.
       ret (map_option rc_id (find (\<lambda>c. name \<in> set (ct_names c)) listed)))"

definition stopAndRemove :: "daemon \<Rightarrow> string \<Rightarrow> unit updater_io" where
  "stopAndRemove d cid =
     and_then (try_catch (udocker (CStopContainer cid) (dk_stopContainer d cid)) (\<lambda>_. ret ())) (\<lambda>_.
       udocker (CRemoveContainer cid True) (dk_removeContainer d cid True))"

definition createAndStart :: "daemon \<Rightarrow> recreate_spec \<Rightarrow> string updater_io" where
  "createAndStart d spec =
     and_then (udocker (CCreateContainer spec) (dk_createContainer d spec)) (\<lambda>cid.
     and_then (udocker (CStartContainer cid) (dk_startContainer d cid)) (\<lambda>_. ret cid))"

text \<open>The \<^verbatim>\<open>for (;;)\<close> loop of \<^verbatim>\<open>waitForHealthy\<close>, one unit of fuel per inspection.\<close>

fun poll :: "nat \<Rightarrow> updater_deps \<Rightarrow> string \<Rightarrow> int \<Rightarrow> bool updater_io" where
  "poll 0 deps containerId deadline = throw OutOfFuel"
| "poll (Suc fuel) deps containerId deadline =
     and_then (udocker (CInspectContainer containerId) (dk_inspectContainer (up_docker deps) containerId))
       (\<lambda>inspection.
          if cs_health (ri_state inspection) = Some ''healthy'' then ret True
          else and_then (read_now deps) (\<lambda>now.
            if deadline \<le> now then ret False
            else and_then (delay HEALTH_POLL_INTERVAL_MS) (\<lambda>_. poll fuel deps containerId deadline)))"

definition waitForHealthy :: "nat \<Rightarrow> updater_deps \<Rightarrow> string \<Rightarrow> bool updater_io" where
  "waitForHealthy fuel deps containerId =
     and_then (read_now deps) (\<lambda>now. poll fuel deps containerId (now + HEALTH_POLL_TIMEOUT_MS))"

definition recreateAndWaitHealthy ::
  "nat \<Rightarrow> updater_deps \<Rightarrow> string \<Rightarrow> recreate_spec \<Rightarrow> (string \<times> bool) updater_io" where
  "recreateAndWaitHealthy fuel deps currentId targetSpec =
     and_then (stopAndRemove (up_docker deps) currentId) (\<lambda>_.
     and_then (createAndStart (up_docker deps) targetSpec) (\<lambda>newId.
     and_then (waitForHealthy fuel deps newId) (\<lambda>healthy. ret (newId, healthy))))"

section \<open>The run\<close>

definition pullBoth :: "updater_deps \<Rightarrow> string option updater_io" where
  "pullBoth deps =
     (let d = up_docker deps; target = up_target deps
      in try_catch
           (and_then (udocker (CPullImage (ut_serverImageRef target)) (dk_pullImage d (ut_serverImageRef target))) (\<lambda>_.
            and_then (udocker (CPullImage (ut_brokerImageRef target)) (dk_pullImage d (ut_brokerImageRef target))) (\<lambda>_.
              ret None)))
           (\<lambda>err. ret (Some (''Could not pull one or both target images: '' @ describeError err))))"

definition fail_preflight :: "updater_deps \<Rightarrow> string \<Rightarrow> string \<Rightarrow> updater_outcome updater_io" where
  "fail_preflight deps toVersion reason =
     and_then (writeResultFile deps (Done OutcomeFailed None toVersion (Some PreFlight) (Some reason)))
       (\<lambda>_. ret (Failed reason))"

definition roll_back_server ::
  "updater_deps \<Rightarrow> string option \<Rightarrow> string \<Rightarrow> string \<Rightarrow> recreate_spec \<Rightarrow> updater_outcome updater_io" where
  "roll_back_server deps fromVersion toVersion newServerId serverPlan =
     (let reason = ''The recreated server container did not become healthy in time.''
      in and_then (stopAndRemove (up_docker deps) newServerId) (\<lambda>_.
         and_then (createAndStart (up_docker deps) serverPlan) (\<lambda>_.
         and_then (writeResultFile deps
           (Done OutcomeRolledBack fromVersion toVersion (Some ServerHealth) (Some reason))) (\<lambda>_.
         ret (RolledBack reason)))))"

definition roll_back_both ::
  "updater_deps \<Rightarrow> string option \<Rightarrow> string \<Rightarrow> string \<Rightarrow> recreate_spec \<Rightarrow> string \<Rightarrow> recreate_spec \<Rightarrow>
     updater_outcome updater_io" where
  "roll_back_both deps fromVersion toVersion newServerId serverPlan newBrokerId brokerPlan =
     (let reason = ''The recreated broker container did not become healthy in time.''
      in and_then (stopAndRemove (up_docker deps) newServerId) (\<lambda>_.
         and_then (createAndStart (up_docker deps) serverPlan) (\<lambda>_.
         and_then (stopAndRemove (up_docker deps) newBrokerId) (\<lambda>_.
         and_then (createAndStart (up_docker deps) brokerPlan) (\<lambda>_.
         and_then (writeResultFile deps
           (Done OutcomeRolledBack fromVersion toVersion (Some BrokerHealth) (Some reason))) (\<lambda>_.
         ret (RolledBack reason)))))))"

text \<open>From the moment both plans are recorded.\<close>

definition swap_containers ::
  "nat \<Rightarrow> updater_deps \<Rightarrow> string option \<Rightarrow> string \<Rightarrow> string \<Rightarrow> recreate_spec \<Rightarrow> raw_image_config option \<Rightarrow>
     string \<Rightarrow> recreate_spec \<Rightarrow> raw_image_config option \<Rightarrow> updater_outcome updater_io" where
  "swap_containers fuel deps fromVersion toVersion serverId serverPlan serverOldImage
     brokerId brokerPlan brokerOldImage =
     and_then (recreateAndWaitHealthy fuel deps serverId
       (buildImageSwapSpec serverPlan serverOldImage (ut_serverImageRef (up_target deps))))
     (\<lambda>(newServerId, serverHealthy).
       if \<not> serverHealthy then roll_back_server deps fromVersion toVersion newServerId serverPlan
       else
         and_then (recreateAndWaitHealthy fuel deps brokerId
           (buildImageSwapSpec brokerPlan brokerOldImage (ut_brokerImageRef (up_target deps))))
         (\<lambda>(newBrokerId, brokerHealthy).
           if \<not> brokerHealthy
           then roll_back_both deps fromVersion toVersion newServerId serverPlan newBrokerId brokerPlan
           else and_then (writeResultFile deps (Done OutcomeSuccess fromVersion toVersion None None))
             (\<lambda>_. ret Success)))"

text \<open>From the moment both containers are found: capture, record the plan, swap.\<close>

definition capture_and_swap :: "nat \<Rightarrow> updater_deps \<Rightarrow> string \<Rightarrow> string \<Rightarrow> string \<Rightarrow> updater_outcome updater_io" where
  "capture_and_swap fuel deps toVersion serverId brokerId =
     (let d = up_docker deps
      in and_then (udocker (CInspectContainerForRecreate serverId) (dk_inspectContainerForRecreate d serverId)) (\<lambda>serverPlan.
         and_then (udocker (CInspectContainerForRecreate brokerId) (dk_inspectContainerForRecreate d brokerId)) (\<lambda>brokerPlan.
         and_then (inspectOldImageConfig d (sp_image serverPlan)) (\<lambda>serverOldImage.
         and_then (inspectOldImageConfig d (sp_image brokerPlan)) (\<lambda>brokerOldImage.
         and_then (resolveFromVersion d (sp_image serverPlan)) (\<lambda>fromVersion.
         and_then (writeResultFile deps (InProgress toVersion serverPlan brokerPlan)) (\<lambda>_.
           swap_containers fuel deps fromVersion toVersion serverId serverPlan serverOldImage
             brokerId brokerPlan brokerOldImage)))))))"

definition runSelfUpdate :: "nat \<Rightarrow> updater_deps \<Rightarrow> updater_outcome updater_io" where
  "runSelfUpdate fuel deps =
     (let d = up_docker deps; target = up_target deps;
          toVersion = versionFromReference (ut_serverImageRef target)
      in and_then (pullBoth deps) (\<lambda>failure.
         case failure of
           Some reason \<Rightarrow> fail_preflight deps toVersion reason
         | None \<Rightarrow>
             and_then (resolveIdByName d (ut_serverContainerName target)) (\<lambda>foundServer.
             and_then (resolveIdByName d (ut_brokerContainerName target)) (\<lambda>foundBroker.
             case (foundServer, foundBroker) of
               (Some serverId, Some brokerId) \<Rightarrow> capture_and_swap fuel deps toVersion serverId brokerId
             | _ \<Rightarrow> fail_preflight deps toVersion
                     ''Could not find the panel's own containers by their configured names.''))))"

section \<open>Rules\<close>

lemma docker_calls_append [simp]: "docker_calls (xs @ ys) = docker_calls xs @ docker_calls ys"
  by (induction xs rule: docker_calls.induct) auto

lemma wp_udocker [wp_simps]:
  "wp (udocker c a) Q E h =
     (case a (docker_calls h) of
        Inl e \<Rightarrow> E (DockerFailed e) (h @ [UDocker c])
      | Inr x \<Rightarrow> Q x (h @ [UDocker c]))"
  by (simp add: udocker_def docker_answer_def wp_simps split: sum.split)

lemma wp_writeResultFile [wp_simps]:
  "wp (writeResultFile deps r) Q E h =
     (case up_write deps r h of
        Inl e \<Rightarrow> E (WriteFailed e) (h @ [UWrite r])
      | Inr u \<Rightarrow> Q u (h @ [UWrite r]))"
  by (simp add: writeResultFile_def wp_simps split: sum.split)

lemma wp_read_now [wp_simps]: "wp (read_now deps) Q E h = Q (up_now deps h) h"
  by (simp add: wp_def read_now_def)

lemma wp_delay [wp_simps]: "wp (delay ms) Q E h = Q () (h @ [USleep ms])"
  by (simp add: delay_def wp_simps)

subsection \<open>Fuel\<close>

text \<open>A clock that runs: it never goes back, and a sleep takes at least its time.\<close>

definition clock_runs :: "updater_deps \<Rightarrow> bool" where
  "clock_runs deps \<longleftrightarrow>
     (\<forall>h e. up_now deps h \<le> up_now deps (h @ [e])) \<and>
     (\<forall>h ms. up_now deps h + ms \<le> up_now deps (h @ [USleep ms]))"

abbreviation ends :: "'a updater_io \<Rightarrow> updater_event list \<Rightarrow> bool" where
  "ends m h \<equiv> wp m (\<lambda>_ _. True) (\<lambda>e _. e \<noteq> OutOfFuel) h"

lemma ends_poll:
  assumes "clock_runs deps" and "1 \<le> fuel"
    and "deadline - up_now deps h \<le> HEALTH_POLL_INTERVAL_MS * (int fuel - 1)"
  shows "ends (poll fuel deps cid deadline) h"
  using assms(2,3)
proof (induction fuel arbitrary: h)
  case (Suc n)
  let ?h1 = "h @ [UDocker (CInspectContainer cid)]"
  let ?h2 = "?h1 @ [USleep HEALTH_POLL_INTERVAL_MS]"
  have t1: "up_now deps h \<le> up_now deps ?h1" and t2: "up_now deps ?h1 + HEALTH_POLL_INTERVAL_MS \<le> up_now deps ?h2"
    using assms(1) unfolding clock_runs_def by blast+
  have "ends (poll n deps cid deadline) ?h2" if late: "\<not> deadline \<le> up_now deps ?h1"
  proof (rule Suc.IH)
    show "1 \<le> n" using late t1 Suc.prems by (cases n) auto
    show "deadline - up_now deps ?h2 \<le> HEALTH_POLL_INTERVAL_MS * (int n - 1)"
      using t1 t2 Suc.prems by (simp add: HEALTH_POLL_INTERVAL_MS_def)
  qed
  then show ?case by (auto simp: wp_simps split: sum.split)
qed simp

lemma ends_bind: "(\<And>x h'. ends (f x) h') \<Longrightarrow> ends m h \<Longrightarrow> ends (and_then m f) h"
  by (auto simp: wp_and_then elim: wp_mono)

lemma ends_wait: "clock_runs deps \<Longrightarrow> 46 \<le> fuel \<Longrightarrow> ends (waitForHealthy fuel deps cid) h"
  by (auto simp: waitForHealthy_def wp_simps HEALTH_POLL_TIMEOUT_MS_def HEALTH_POLL_INTERVAL_MS_def
      intro!: ends_poll)

lemma ends_basic:
  "ends (ret x) h" "ends (udocker c a) h" "ends (writeResultFile deps r) h" "ends (stopAndRemove d i) h"
  "ends (createAndStart d spec) h" "ends (inspectOldImageConfig d i) h" "ends (resolveIdByName d n) h"
  "ends (resolveFromVersion d i) h" "ends (pullBoth deps) h"
  by (simp_all add: stopAndRemove_def createAndStart_def inspectOldImageConfig_def resolveIdByName_def
      resolveFromVersion_def pullBoth_def Let_def wp_simps split: sum.split)

lemma ends_recreate:
  "clock_runs deps \<Longrightarrow> 46 \<le> fuel \<Longrightarrow> ends (recreateAndWaitHealthy fuel deps cid spec) h"
  unfolding recreateAndWaitHealthy_def by (intro ends_bind ends_basic ends_wait)

lemma ends_swap:
  assumes "clock_runs deps" and "46 \<le> fuel"
  shows "ends (swap_containers fuel deps fv tv sid sp so bid bp bo) h"
proof -
  have undo: "ends (roll_back_server deps fv tv n sp) h'" "ends (roll_back_both deps fv tv n sp m bp) h'"
    for n m h'
    unfolding roll_back_server_def roll_back_both_def Let_def by (intro ends_bind ends_basic)+
  show ?thesis
    unfolding swap_containers_def
    by (intro ends_bind ends_recreate assms)
      (auto intro!: undo ends_bind ends_basic ends_recreate assms split: prod.split)
qed

text \<open>
  C24 The updater returns. If the clock runs, 46 polls per container are enough: the ninety seconds of
  the health check are over after at most 45 sleeps of two seconds, so the run ends with an outcome or
  with the error of a Docker call or of a write, whatever the daemon answers.
\<close>

theorem self_update_terminates:
  assumes "clock_runs deps" and "46 \<le> fuel"
  shows "fst (runSelfUpdate fuel deps []) \<noteq> Inl OutOfFuel"
proof -
  have fail: "ends (fail_preflight deps tv r) h" for tv r h
    unfolding fail_preflight_def by (intro ends_bind ends_basic)
  have capture: "ends (capture_and_swap fuel deps tv sid bid) h" for tv sid bid h
    unfolding capture_and_swap_def Let_def by (intro ends_bind ends_basic ends_swap assms)
  have "ends (runSelfUpdate fuel deps) []"
    unfolding runSelfUpdate_def Let_def
    by (intro ends_bind ends_basic)
      (auto intro!: fail capture ends_bind ends_basic split: option.split)
  then show ?thesis by (auto simp: wp_def split: prod.splits sum.splits)
qed

text \<open>A clock that only sleeping moves.\<close>

fun slept :: "updater_event list \<Rightarrow> int" where
  "slept [] = 0"
| "slept (USleep ms # es) = max 0 ms + slept es"
| "slept (_ # es) = slept es"

lemma slept_append: "slept (xs @ ys) = slept xs + slept ys"
  by (induction xs rule: slept.induct) auto

lemma slept_one: "0 \<le> slept [e]"
  by (cases e) auto

definition sample_updater :: "daemon \<Rightarrow> updater_deps" where
  "sample_updater d =
     \<lparr>up_docker = d,
      up_target = \<lparr>ut_serverContainerName = ''dwg-server'', ut_brokerContainerName = ''dwg-broker'',
                   ut_serverImageRef = ''server:0.5.0'', ut_brokerImageRef = ''broker:0.5.0''\<rparr>,
      up_now = slept, up_write = \<lambda>_ _. Inr ()\<rparr>"

lemma sample_updater_clock: "clock_runs (sample_updater d)"
  by (simp add: clock_runs_def sample_updater_def slept_append slept_one)

theorem self_update_terminates_witness:
  "fst (runSelfUpdate 46 (sample_updater offline_daemon) []) \<noteq> Inl OutOfFuel"
  using self_update_terminates [OF sample_updater_clock] by simp

section \<open>Order of the steps\<close>

text \<open>Evidence in the history of effects, as for the broker's handlers.\<close>

definition docker_answered :: "updater_event list \<Rightarrow> docker_call \<Rightarrow> 'a answer \<Rightarrow> 'a \<Rightarrow> bool" where
  "docker_answered before c a x \<longleftrightarrow>
     (\<exists>n < length before. before ! n = UDocker c \<and> a (docker_calls (take n before)) = Inr x)"

definition plan_recorded :: "updater_deps \<Rightarrow> updater_event list \<Rightarrow> recreate_spec \<Rightarrow> recreate_spec \<Rightarrow> bool" where
  "plan_recorded deps before sp bp \<longleftrightarrow>
     (\<exists>n < length before. \<exists>v. before ! n = UWrite (InProgress v sp bp) \<and>
        up_write deps (InProgress v sp bp) (take n before) = Inr ())"

text \<open>
  Everything the run must have done before it may touch a container: both images pulled, both
  containers captured, and the two captured specifications written to the result file.
\<close>

definition prepared :: "updater_deps \<Rightarrow> updater_event list \<Rightarrow> recreate_spec \<Rightarrow> recreate_spec \<Rightarrow> bool" where
  "prepared deps before sp bp \<longleftrightarrow>
     (let d = up_docker deps; t = up_target deps
      in docker_answered before (CPullImage (ut_serverImageRef t)) (dk_pullImage d (ut_serverImageRef t)) () \<and>
         docker_answered before (CPullImage (ut_brokerImageRef t)) (dk_pullImage d (ut_brokerImageRef t)) () \<and>
         (\<exists>sid. docker_answered before (CInspectContainerForRecreate sid) (dk_inspectContainerForRecreate d sid) sp) \<and>
         (\<exists>bid. docker_answered before (CInspectContainerForRecreate bid) (dk_inspectContainerForRecreate d bid) bp) \<and>
         plan_recorded deps before sp bp)"

text \<open>Some container was seen healthy.\<close>

definition healthy_seen :: "updater_deps \<Rightarrow> updater_event list \<Rightarrow> bool" where
  "healthy_seen deps before \<longleftrightarrow>
     (\<exists>cid ins. docker_answered before (CInspectContainer cid) (dk_inspectContainer (up_docker deps) cid) ins \<and>
        cs_health (ri_state ins) = Some ''healthy'')"

text \<open>
  What may be created: the new server, either captured container again, or the new broker once
  a recreated container has been seen healthy.
\<close>

definition creation_allowed ::
  "updater_deps \<Rightarrow> updater_event list \<Rightarrow> recreate_spec \<Rightarrow> recreate_spec \<Rightarrow> recreate_spec \<Rightarrow> bool" where
  "creation_allowed deps before sp bp spec \<longleftrightarrow>
     spec = sp \<or> spec = bp \<or>
     (\<exists>old. spec = buildImageSwapSpec sp old (ut_serverImageRef (up_target deps))) \<or>
     (\<exists>old. spec = buildImageSwapSpec bp old (ut_brokerImageRef (up_target deps))) \<and> healthy_seen deps before"

fun update_allowed :: "updater_deps \<Rightarrow> updater_event list \<Rightarrow> updater_event \<Rightarrow> bool" where
  "update_allowed deps before (UWrite r) = True"
| "update_allowed deps before (USleep ms) = True"
| "update_allowed deps before (UDocker c) =
     (case c of
        CPullImage r \<Rightarrow> r \<in> {ut_serverImageRef (up_target deps), ut_brokerImageRef (up_target deps)}
      | CListContainers _ \<Rightarrow> True
      | CListImages \<Rightarrow> True
      | CInspectContainer _ \<Rightarrow> True
      | CInspectContainerForRecreate _ \<Rightarrow> True
      | CInspectImageConfig _ \<Rightarrow> True
      | CStopContainer _ \<Rightarrow> (\<exists>sp bp. prepared deps before sp bp)
      | CRemoveContainer _ _ \<Rightarrow> (\<exists>sp bp. prepared deps before sp bp)
      | CStartContainer _ \<Rightarrow> (\<exists>sp bp. prepared deps before sp bp)
      | CCreateContainer spec \<Rightarrow> (\<exists>sp bp. prepared deps before sp bp \<and> creation_allowed deps before sp bp spec)
      | _ \<Rightarrow> False)"

fun update_observes :: "updater_event \<Rightarrow> bool" where
  "update_observes (UDocker (CListContainers _)) = True"
| "update_observes (UDocker CListImages) = True"
| "update_observes (UDocker (CInspectContainer _)) = True"
| "update_observes (UDocker (CInspectContainerForRecreate _)) = True"
| "update_observes (UDocker (CInspectImageConfig _)) = True"
| "update_observes (UDocker _) = False"
| "update_observes (UWrite _) = True"
| "update_observes (USleep _) = True"

interpretation updater: observing_policy "update_allowed deps" update_observes for deps
proof unfold_locales
  show "update_allowed deps h e" if "update_observes e" for h e
    using that by (cases e rule: update_observes.cases) auto
qed

lemma docker_answered_here: "a (docker_calls h) = Inr x \<Longrightarrow> docker_answered (h @ [UDocker c]) c a x"
  unfolding docker_answered_def by (rule exI [of _ "length h"]) simp

lemma docker_answered_later: "docker_answered h c a x \<Longrightarrow> docker_answered (h @ es) c a x"
proof -
  assume "docker_answered h c a x"
  then obtain n where "n < length h" "h ! n = UDocker c" "a (docker_calls (take n h)) = Inr x"
    by (auto simp: docker_answered_def)
  then have "n < length (h @ es) \<and> (h @ es) ! n = UDocker c \<and> a (docker_calls (take n (h @ es))) = Inr x"
    by (simp add: nth_append)
  then show ?thesis unfolding docker_answered_def by blast
qed

lemma plan_recorded_here:
  "up_write deps (InProgress v sp bp) h = Inr () \<Longrightarrow> plan_recorded deps (h @ [UWrite (InProgress v sp bp)]) sp bp"
  unfolding plan_recorded_def by (rule exI [of _ "length h"]) simp

lemma plan_recorded_later: "plan_recorded deps h sp bp \<Longrightarrow> plan_recorded deps (h @ es) sp bp"
proof -
  assume "plan_recorded deps h sp bp"
  then obtain n v where "n < length h" "h ! n = UWrite (InProgress v sp bp)"
      "up_write deps (InProgress v sp bp) (take n h) = Inr ()"
    by (auto simp: plan_recorded_def)
  then have "n < length (h @ es) \<and> (h @ es) ! n = UWrite (InProgress v sp bp) \<and>
      up_write deps (InProgress v sp bp) (take n (h @ es)) = Inr ()"
    by (simp add: nth_append)
  then show ?thesis unfolding plan_recorded_def by blast
qed

lemma prepared_later: "prepared deps h sp bp \<Longrightarrow> prepared deps (h @ es) sp bp"
  unfolding prepared_def Let_def by (blast intro: docker_answered_later plan_recorded_later)

lemma healthy_later: "healthy_seen deps h \<Longrightarrow> healthy_seen deps (h @ es)"
  unfolding healthy_seen_def by (blast intro: docker_answered_later)

subsection \<open>What is deployed\<close>

text \<open>
  The specification that the last creation under each container name used, and the last content of
  the result file.
\<close>

fun deploy :: "updater_event \<Rightarrow> (string \<rightharpoonup> recreate_spec) \<Rightarrow> (string \<rightharpoonup> recreate_spec)" where
  "deploy (UDocker (CCreateContainer spec)) m = m(sp_name spec \<mapsto> spec)"
| "deploy _ m = m"

definition deployed :: "updater_event list \<Rightarrow> string \<Rightarrow> recreate_spec option" where
  "deployed h = fold deploy h Map.empty"

fun note_write :: "updater_event \<Rightarrow> self_update_result option \<Rightarrow> self_update_result option" where
  "note_write (UWrite r) _ = Some r"
| "note_write _ w = w"

definition last_write :: "updater_event list \<Rightarrow> self_update_result option" where
  "last_write h = fold note_write h None"

lemma deployed_append [simp]: "deployed (h @ es) = fold deploy es (deployed h)"
  by (simp add: deployed_def)

lemma last_write_append [simp]: "last_write (h @ es) = fold note_write es (last_write h)"
  by (simp add: last_write_def)

lemma swap_name [simp]: "sp_name (buildImageSwapSpec c old img) = sp_name c"
  by (simp add: buildImageSwapSpec_def)

lemma swap_image [simp]: "sp_image (buildImageSwapSpec c old img) = img"
  by (simp add: buildImageSwapSpec_def)

subsection \<open>The steps obey it\<close>

text \<open>
  A step is \<open>good\<close> when it keeps the history justified and only extends it; \<open>R\<close> is what its result
  says.
\<close>

abbreviation good ::
  "updater_deps \<Rightarrow> updater_event list \<Rightarrow> 'a updater_io \<Rightarrow> ('a \<Rightarrow> updater_event list \<Rightarrow> bool) \<Rightarrow> bool" where
  "good deps h m R \<equiv>
     wp m (\<lambda>x h'. justified (update_allowed deps) h' \<and> prefix h h' \<and> R x h')
       (\<lambda>_. justified (update_allowed deps)) h"

lemma good_poll:
  assumes "justified (update_allowed deps) h"
  shows "good deps h (poll fuel deps cid deadline) (\<lambda>b h'. deployed h' = deployed h \<and> (b \<longrightarrow> healthy_seen deps h'))"
  using assms
proof (induction fuel arbitrary: h)
  case (Suc n)
  let ?h1 = "h @ [UDocker (CInspectContainer cid)]"
  let ?h2 = "?h1 @ [USleep HEALTH_POLL_INTERVAL_MS]"
  have "good deps ?h2 (poll n deps cid deadline) (\<lambda>b h'. deployed h' = deployed ?h2 \<and> (b \<longrightarrow> healthy_seen deps h'))"
    using Suc.prems by (intro Suc.IH) simp
  then have later: "wp (poll n deps cid deadline) (\<lambda>b h'. justified (update_allowed deps) h' \<and> prefix h h' \<and>
        deployed h' = deployed h \<and> (b \<longrightarrow> healthy_seen deps h')) (\<lambda>_. justified (update_allowed deps)) ?h2"
    by (rule wp_mono) (auto simp: prefix_def)
  have seen: "healthy_seen deps ?h1"
    if "dk_inspectContainer (up_docker deps) cid (docker_calls h) = Inr ins"
      "cs_health (ri_state ins) = Some ''healthy''" for ins
    using that docker_answered_here [of "dk_inspectContainer (up_docker deps) cid" h ins]
    by (auto simp: healthy_seen_def)
  show ?case
    using Suc.prems later seen by (auto simp: wp_simps split: sum.split)
qed (simp add: wp_simps)

lemma good_bind:
  assumes "good deps h m R"
    and "\<And>x h'. justified (update_allowed deps) h' \<Longrightarrow> prefix h h' \<Longrightarrow> R x h' \<Longrightarrow> good deps h' (f x) S"
  shows "good deps h (and_then m f) S"
  unfolding wp_and_then using assms(1)
proof (rule wp_mono)
  fix x h' assume "justified (update_allowed deps) h' \<and> prefix h h' \<and> R x h'"
  then have p: "prefix h h'" and "good deps h' (f x) S" using assms(2) by auto
  from this(2) show "wp (f x) (\<lambda>x h'. justified (update_allowed deps) h' \<and> prefix h h' \<and> S x h')
       (\<lambda>_. justified (update_allowed deps)) h'"
    by (rule wp_mono) (use p in \<open>auto simp: prefix_def\<close>)
qed

lemma good_ret: "justified (update_allowed deps) h \<Longrightarrow> R x h \<Longrightarrow> good deps h (ret x) R"
  by (simp add: wp_simps)

lemma prepared_prefix: "prepared deps h sp bp \<Longrightarrow> prefix h h' \<Longrightarrow> prepared deps h' sp bp"
  by (auto simp: prefix_def prepared_later)

lemma healthy_prefix: "healthy_seen deps h \<Longrightarrow> prefix h h' \<Longrightarrow> healthy_seen deps h'"
  by (auto simp: prefix_def healthy_later)

lemma good_stopAndRemove:
  assumes "justified (update_allowed deps) h" and "prepared deps h sp bp"
  shows "good deps h (stopAndRemove (up_docker deps) cid) (\<lambda>_ h'. deployed h' = deployed h)"
  using assms prepared_later [OF assms(2)]
  by (auto simp: stopAndRemove_def wp_simps split: sum.split)

lemma good_createAndStart:
  assumes "justified (update_allowed deps) h" and "prepared deps h sp bp"
    and "creation_allowed deps h sp bp spec"
  shows "good deps h (createAndStart (up_docker deps) spec)
    (\<lambda>_ h'. deployed h' = (deployed h)(sp_name spec \<mapsto> spec))"
  using assms prepared_later [OF assms(2)]
  by (auto simp: createAndStart_def wp_simps split: sum.split)

lemma good_wait:
  "justified (update_allowed deps) h \<Longrightarrow>
     good deps h (waitForHealthy fuel deps cid) (\<lambda>b h'. deployed h' = deployed h \<and> (b \<longrightarrow> healthy_seen deps h'))"
  by (simp add: waitForHealthy_def wp_simps good_poll)

lemma good_recreate:
  assumes "justified (update_allowed deps) h" and "prepared deps h sp bp"
    and "\<And>h'. prefix h h' \<Longrightarrow> creation_allowed deps h' sp bp spec"
  shows "good deps h (recreateAndWaitHealthy fuel deps cid spec)
    (\<lambda>x h'. deployed h' = (deployed h)(sp_name spec \<mapsto> spec) \<and> (snd x \<longrightarrow> healthy_seen deps h'))"
  unfolding recreateAndWaitHealthy_def
proof (rule good_bind [OF good_stopAndRemove [OF assms(1,2)]])
  fix u h1 assume h1: "justified (update_allowed deps) h1" "prefix h h1" "deployed h1 = deployed h"
  show "good deps h1 (and_then (createAndStart (up_docker deps) spec) (\<lambda>newId.
      and_then (waitForHealthy fuel deps newId) (\<lambda>healthy. ret (newId, healthy))))
      (\<lambda>x h'. deployed h' = (deployed h)(sp_name spec \<mapsto> spec) \<and> (snd x \<longrightarrow> healthy_seen deps h'))"
    by (rule good_bind [OF good_createAndStart [OF h1(1) prepared_prefix [OF assms(2) h1(2)] assms(3) [OF h1(2)]]])
      (use h1(3) in \<open>auto intro!: good_bind [OF good_wait] good_ret\<close>)
qed

subsection \<open>Outcomes\<close>

text \<open>The result file's last content tells the outcome.\<close>

fun outcome_recorded :: "updater_outcome \<Rightarrow> self_update_result option \<Rightarrow> bool" where
  "outcome_recorded Success (Some (Done OutcomeSuccess _ _ None None)) = True"
| "outcome_recorded (RolledBack r) (Some (Done OutcomeRolledBack _ _ (Some stage) (Some r'))) =
     (r = r' \<and> stage \<noteq> PreFlight)"
| "outcome_recorded (Failed r) (Some (Done OutcomeFailed None _ (Some PreFlight) (Some r'))) = (r = r')"
| "outcome_recorded _ _ = False"

text \<open>
  What stands under the two container names afterwards, when the captured names differ: the two new
  specifications after a success; the captured ones after a rollback (the broker may never have
  been recreated).
\<close>

definition containers_after ::
  "updater_deps \<Rightarrow> recreate_spec \<Rightarrow> recreate_spec \<Rightarrow> updater_outcome \<Rightarrow> (string \<rightharpoonup> recreate_spec) \<Rightarrow> bool" where
  "containers_after deps sp bp out m \<longleftrightarrow>
     (case out of
        Success \<Rightarrow> sp_name sp = sp_name bp \<or>
          (\<exists>so. m (sp_name sp) = Some (buildImageSwapSpec sp so (ut_serverImageRef (up_target deps)))) \<and>
          (\<exists>bo. m (sp_name bp) = Some (buildImageSwapSpec bp bo (ut_brokerImageRef (up_target deps))))
      | RolledBack _ \<Rightarrow> sp_name sp = sp_name bp \<or>
          m (sp_name sp) = Some sp \<and> (m (sp_name bp) = None \<or> m (sp_name bp) = Some bp)
      | Failed _ \<Rightarrow> False)"

lemma good_write:
  "justified (update_allowed deps) h \<Longrightarrow>
     good deps h (writeResultFile deps r) (\<lambda>_ h'. last_write h' = Some r \<and> deployed h' = deployed h)"
  by (auto simp: wp_simps split: sum.split)

lemma creation_plan:
  "creation_allowed deps h sp bp sp" "creation_allowed deps h sp bp bp"
  "creation_allowed deps h sp bp (buildImageSwapSpec sp old (ut_serverImageRef (up_target deps)))"
  by (auto simp: creation_allowed_def)

lemma good_roll_back_server:
  assumes "justified (update_allowed deps) h" and "prepared deps h sp bp"
    and "sp_name sp = sp_name bp \<or> deployed h (sp_name bp) = None"
  shows "good deps h (roll_back_server deps fv tv cid sp)
    (\<lambda>out h'. outcome_recorded out (last_write h') \<and> containers_after deps sp bp out (deployed h'))"
  unfolding roll_back_server_def Let_def
  by (rule good_bind [OF good_stopAndRemove [OF assms(1,2)]],
      rule good_bind [OF good_createAndStart [OF _ prepared_prefix [OF assms(2)] creation_plan(1)]],
      assumption, assumption, rule good_bind [OF good_write], assumption)
    (use assms(3) in \<open>auto simp: containers_after_def intro!: good_ret split: if_splits\<close>)

lemma good_roll_back_both:
  assumes "justified (update_allowed deps) h" and "prepared deps h sp bp"
  shows "good deps h (roll_back_both deps fv tv cid sp cid' bp)
    (\<lambda>out h'. outcome_recorded out (last_write h') \<and> containers_after deps sp bp out (deployed h'))"
  unfolding roll_back_both_def Let_def
proof (rule good_bind [OF good_stopAndRemove [OF assms]], rule good_bind
    [OF good_createAndStart [OF _ prepared_prefix [OF assms(2)] creation_plan(1)]], assumption, assumption)
  fix u h1 and i :: string and h2
  assume h2: "justified (update_allowed deps) h2" "prefix h h1" "prefix h1 h2"
    "deployed h2 = (deployed h1)(sp_name sp \<mapsto> sp)"
  have p2: "prepared deps h2 sp bp"
    using assms(2) h2(2,3) prepared_prefix prefix_order.trans by blast
  show "good deps h2 (and_then (stopAndRemove (up_docker deps) cid') (\<lambda>_.
      and_then (createAndStart (up_docker deps) bp) (\<lambda>_.
      and_then (writeResultFile deps (Done OutcomeRolledBack fv tv (Some BrokerHealth)
        (Some ''The recreated broker container did not become healthy in time.''))) (\<lambda>_.
      ret (RolledBack ''The recreated broker container did not become healthy in time.'')))))
    (\<lambda>out h'. outcome_recorded out (last_write h') \<and> containers_after deps sp bp out (deployed h'))"
    by (rule good_bind [OF good_stopAndRemove [OF h2(1) p2]],
        rule good_bind [OF good_createAndStart [OF _ prepared_prefix [OF p2] creation_plan(2)]],
        assumption, assumption, rule good_bind [OF good_write], assumption)
      (use h2(4) in \<open>auto simp: containers_after_def intro!: good_ret split: if_splits\<close>)
qed

lemma containers_success:
  assumes "m (sp_name sp) = Some (buildImageSwapSpec sp so (ut_serverImageRef (up_target deps)))"
    and "m' = m(sp_name bp \<mapsto> buildImageSwapSpec bp bo (ut_brokerImageRef (up_target deps)))"
  shows "containers_after deps sp bp Success m'"
proof (cases "sp_name sp = sp_name bp")
  case False
  with assms have "m' (sp_name sp) = Some (buildImageSwapSpec sp so (ut_serverImageRef (up_target deps)))"
    "m' (sp_name bp) = Some (buildImageSwapSpec bp bo (ut_brokerImageRef (up_target deps)))" by auto
  then show ?thesis unfolding containers_after_def updater_outcome.case by blast
qed (simp add: containers_after_def)

lemma good_swap_broker:
  assumes "justified (update_allowed deps) h" and p: "prepared deps h sp bp" and "healthy_seen deps h"
    and d: "deployed h (sp_name sp) = Some (buildImageSwapSpec sp so (ut_serverImageRef (up_target deps)))"
  shows "good deps h
    (and_then (recreateAndWaitHealthy fuel deps bid
        (buildImageSwapSpec bp bo (ut_brokerImageRef (up_target deps)))) (\<lambda>(newBrokerId, brokerHealthy).
      if \<not> brokerHealthy then roll_back_both deps fv tv newServerId sp newBrokerId bp
      else and_then (writeResultFile deps (Done OutcomeSuccess fv tv None None)) (\<lambda>_. ret Success)))
    (\<lambda>out h'. outcome_recorded out (last_write h') \<and> containers_after deps sp bp out (deployed h'))"
proof (rule good_bind [OF good_recreate [OF assms(1) p]])
  fix h' assume "prefix h h'"
  then show "creation_allowed deps h' sp bp (buildImageSwapSpec bp bo (ut_brokerImageRef (up_target deps)))"
    using healthy_prefix [OF assms(3)] by (auto simp: creation_allowed_def)
next
  fix x :: "string \<times> bool" and h1
  let ?broker = "buildImageSwapSpec bp bo (ut_brokerImageRef (up_target deps))"
  assume j1: "justified (update_allowed deps) h1" and e1: "prefix h h1"
    and d1: "deployed h1 = (deployed h)(sp_name ?broker \<mapsto> ?broker) \<and> (snd x \<longrightarrow> healthy_seen deps h1)"
  have success: "containers_after deps sp bp Success m"
    if "m = (deployed h)(sp_name bp \<mapsto> ?broker)" for m
    using d that by (rule containers_success)
  have "good deps h1 (roll_back_both deps fv tv newServerId sp (fst x) bp)
      (\<lambda>out h'. outcome_recorded out (last_write h') \<and> containers_after deps sp bp out (deployed h'))"
    by (rule good_roll_back_both [OF j1 prepared_prefix [OF p e1]])
  moreover have "good deps h1
      (and_then (writeResultFile deps (Done OutcomeSuccess fv tv None None)) (\<lambda>_. ret Success))
      (\<lambda>out h'. outcome_recorded out (last_write h') \<and> containers_after deps sp bp out (deployed h'))"
    by (rule good_bind [OF good_write [OF j1]]) (use d1 in \<open>auto intro!: good_ret success\<close>)
  ultimately show "good deps h1 (case x of (newBrokerId, brokerHealthy) \<Rightarrow>
      if \<not> brokerHealthy then roll_back_both deps fv tv newServerId sp newBrokerId bp
      else and_then (writeResultFile deps (Done OutcomeSuccess fv tv None None)) (\<lambda>_. ret Success))
    (\<lambda>out h'. outcome_recorded out (last_write h') \<and> containers_after deps sp bp out (deployed h'))"
    by (cases x) simp
qed

lemma good_swap:
  assumes "justified (update_allowed deps) h" and p: "prepared deps h sp bp"
    and "deployed h = Map.empty"
  shows "good deps h (swap_containers fuel deps fv tv sid sp so bid bp bo)
    (\<lambda>out h'. outcome_recorded out (last_write h') \<and> containers_after deps sp bp out (deployed h'))"
  unfolding swap_containers_def
proof (rule good_bind [OF good_recreate [OF assms(1) p creation_plan(3)]])
  fix x :: "string \<times> bool" and h1
  let ?server = "buildImageSwapSpec sp so (ut_serverImageRef (up_target deps))"
  let ?R = "\<lambda>out h'. outcome_recorded out (last_write h') \<and> containers_after deps sp bp out (deployed h')"
  assume j1: "justified (update_allowed deps) h1" and e1: "prefix h h1"
    and d1: "deployed h1 = (deployed h)(sp_name ?server \<mapsto> ?server) \<and> (snd x \<longrightarrow> healthy_seen deps h1)"
  have p1: "prepared deps h1 sp bp" using p e1 by (rule prepared_prefix)
  have "good deps h1 (roll_back_server deps fv tv n sp) ?R" for n
    by (rule good_roll_back_server [OF j1 p1]) (use d1 assms(3) in auto)
  moreover have "good deps h1 (and_then (recreateAndWaitHealthy fuel deps bid
        (buildImageSwapSpec bp bo (ut_brokerImageRef (up_target deps)))) (\<lambda>(newBrokerId, brokerHealthy).
      if \<not> brokerHealthy then roll_back_both deps fv tv n sp newBrokerId bp
      else and_then (writeResultFile deps (Done OutcomeSuccess fv tv None None)) (\<lambda>_. ret Success))) ?R"
    if "snd x" for n
    by (rule good_swap_broker [OF j1 p1, where so = so]) (use d1 that in auto)
  ultimately show "good deps h1 (case x of (newServerId, serverHealthy) \<Rightarrow>
      if \<not> serverHealthy then roll_back_server deps fv tv newServerId sp
      else and_then (recreateAndWaitHealthy fuel deps bid
        (buildImageSwapSpec bp bo (ut_brokerImageRef (up_target deps)))) (\<lambda>(newBrokerId, brokerHealthy).
        if \<not> brokerHealthy then roll_back_both deps fv tv newServerId sp newBrokerId bp
        else and_then (writeResultFile deps (Done OutcomeSuccess fv tv None None)) (\<lambda>_. ret Success))) ?R"
    by (cases x) simp
qed

subsection \<open>The whole run\<close>

text \<open>What a finished run promises, from an empty history.\<close>

definition run_promise :: "updater_deps \<Rightarrow> updater_outcome \<Rightarrow> updater_event list \<Rightarrow> bool" where
  "run_promise deps out h \<longleftrightarrow>
     outcome_recorded out (last_write h) \<and>
     (case out of
        Failed _ \<Rightarrow> deployed h = Map.empty
      | _ \<Rightarrow> (\<exists>sp bp. prepared deps h sp bp \<and> containers_after deps sp bp out (deployed h)))"

lemma good_fail:
  "justified (update_allowed deps) h \<Longrightarrow> deployed h = Map.empty \<Longrightarrow>
     good deps h (fail_preflight deps tv r) (run_promise deps)"
  unfolding fail_preflight_def
  by (rule good_bind [OF good_write]) (auto simp: run_promise_def intro!: good_ret)

lemma good_reads:
  assumes "justified (update_allowed deps) h"
  shows "good deps h (udocker (CInspectContainerForRecreate i) (dk_inspectContainerForRecreate d i))
      (\<lambda>x h'. docker_answered h' (CInspectContainerForRecreate i) (dk_inspectContainerForRecreate d i) x \<and>
         deployed h' = deployed h)"
    and "good deps h (inspectOldImageConfig d i) (\<lambda>_ h'. deployed h' = deployed h)"
    and "good deps h (resolveFromVersion d i) (\<lambda>_ h'. deployed h' = deployed h)"
    and "good deps h (resolveIdByName d n) (\<lambda>_ h'. deployed h' = deployed h)"
  using assms docker_answered_here [of "dk_inspectContainerForRecreate d i" h]
  by (auto simp: inspectOldImageConfig_def resolveFromVersion_def resolveIdByName_def wp_simps
      split: sum.split)

lemma good_pull:
  fixes deps
  defines "d \<equiv> up_docker deps" and "t \<equiv> up_target deps"
  assumes "justified (update_allowed deps) h"
  shows "good deps h (pullBoth deps)
    (\<lambda>failure h'. deployed h' = deployed h \<and> (failure = None \<longrightarrow>
       docker_answered h' (CPullImage (ut_serverImageRef t)) (dk_pullImage d (ut_serverImageRef t)) () \<and>
       docker_answered h' (CPullImage (ut_brokerImageRef t)) (dk_pullImage d (ut_brokerImageRef t)) ()))"
proof -
  let ?s = "CPullImage (ut_serverImageRef t)" and ?b = "CPullImage (ut_brokerImageRef t)"
  have "docker_answered ((h @ [UDocker ?s]) @ [UDocker ?b]) ?s (dk_pullImage d (ut_serverImageRef t)) ()"
    if "dk_pullImage d (ut_serverImageRef t) (docker_calls h) = Inr ()"
    by (rule docker_answered_later, rule docker_answered_here, rule that)
  moreover have "docker_answered ((h @ [UDocker ?s]) @ [UDocker ?b]) ?b (dk_pullImage d (ut_brokerImageRef t)) ()"
    if "dk_pullImage d (ut_brokerImageRef t) (docker_calls (h @ [UDocker ?s])) = Inr ()"
    by (rule docker_answered_here, rule that)
  ultimately show ?thesis
    using assms by (auto simp: pullBoth_def Let_def wp_simps split: sum.split)
qed

abbreviation pulled :: "updater_deps \<Rightarrow> updater_event list \<Rightarrow> string \<Rightarrow> bool" where
  "pulled deps h r \<equiv> docker_answered h (CPullImage r) (dk_pullImage (up_docker deps) r) ()"

lemma docker_answered_prefix: "docker_answered h c a x \<Longrightarrow> prefix h h' \<Longrightarrow> docker_answered h' c a x"
  by (auto simp: prefix_def docker_answered_later)

lemma good_swap_promise:
  assumes "justified (update_allowed deps) h" and p: "prepared deps h sp bp"
    and "deployed h = Map.empty"
  shows "good deps h (swap_containers fuel deps fv tv sid sp so bid bp bo) (run_promise deps)"
  using good_swap [OF assms]
proof (rule wp_mono)
  fix out h'
  assume r: "justified (update_allowed deps) h' \<and> prefix h h' \<and> outcome_recorded out (last_write h') \<and>
    containers_after deps sp bp out (deployed h')"
  then have "prepared deps h' sp bp" using p prepared_prefix by blast
  with r show "justified (update_allowed deps) h' \<and> prefix h h' \<and> run_promise deps out h'"
    by (cases out) (auto simp: run_promise_def containers_after_def)
qed

lemma good_plan_write:
  assumes "justified (update_allowed deps) h"
  shows "good deps h (writeResultFile deps (InProgress v sp bp))
    (\<lambda>_ h'. plan_recorded deps h' sp bp \<and> deployed h' = deployed h)"
  using assms plan_recorded_here [of deps v sp bp h]
  by (auto simp: wp_simps split: sum.split)

lemma good_capture:
  assumes "justified (update_allowed deps) h" and "deployed h = Map.empty"
    and "pulled deps h (ut_serverImageRef (up_target deps))" "pulled deps h (ut_brokerImageRef (up_target deps))"
  shows "good deps h (capture_and_swap fuel deps tv sid bid) (run_promise deps)"
  unfolding capture_and_swap_def Let_def
proof (rule good_bind [OF good_reads(1)], rule assms(1), rule good_bind [OF good_reads(1)], assumption,
    rule good_bind [OF good_reads(2)], assumption, rule good_bind [OF good_reads(2)], assumption,
    rule good_bind [OF good_reads(3)], assumption, rule good_bind [OF good_plan_write], assumption,
    rule good_swap_promise, assumption)
  let ?d = "up_docker deps"
  fix sp h1 bp h2 and so h3 and bo h4 and fv h5 and u :: unit and h6
  assume e: "prefix h h1" "prefix h1 h2" "prefix h2 h3" "prefix h3 h4" "prefix h4 h5" "prefix h5 h6"
    and s: "docker_answered h1 (CInspectContainerForRecreate sid) (dk_inspectContainerForRecreate ?d sid) sp \<and>
        deployed h1 = deployed h"
    and b: "docker_answered h2 (CInspectContainerForRecreate bid) (dk_inspectContainerForRecreate ?d bid) bp \<and>
        deployed h2 = deployed h1"
    and d: "deployed h3 = deployed h2" "deployed h4 = deployed h3" "deployed h5 = deployed h4"
    and w: "plan_recorded deps h6 sp bp \<and> deployed h6 = deployed h5"
  have "prefix h h6" "prefix h1 h6" "prefix h2 h6"
    using e prefix_order.trans by meson+
  then show "prepared deps h6 sp bp"
    using assms(3,4) s b w unfolding prepared_def Let_def by (blast intro: docker_answered_prefix)
  show "deployed h6 = Map.empty" using s b d w assms(2) by simp
qed

lemma good_run: "good deps [] (runSelfUpdate fuel deps) (run_promise deps)"
  unfolding runSelfUpdate_def Let_def
proof (rule good_bind [OF good_pull])
  let ?d = "up_docker deps" and ?t = "up_target deps"
  let ?tv = "versionFromReference (ut_serverImageRef ?t)"
  fix failure :: "string option" and h1
  assume j1: "justified (update_allowed deps) h1"
    and p1: "deployed h1 = deployed [] \<and> (failure = None \<longrightarrow>
       pulled deps h1 (ut_serverImageRef ?t) \<and> pulled deps h1 (ut_brokerImageRef ?t))"
  have d1: "deployed h1 = Map.empty" using p1 by (simp add: deployed_def)
  have found: "good deps h1 (and_then (resolveIdByName ?d (ut_serverContainerName ?t)) (\<lambda>foundServer.
      and_then (resolveIdByName ?d (ut_brokerContainerName ?t)) (\<lambda>foundBroker.
      case (foundServer, foundBroker) of
        (Some serverId, Some brokerId) \<Rightarrow> capture_and_swap fuel deps ?tv serverId brokerId
      | _ \<Rightarrow> fail_preflight deps ?tv ''Could not find the panel's own containers by their configured names.'')))
      (run_promise deps)" if "failure = None"
  proof (rule good_bind [OF good_reads(4) [OF j1]], rule good_bind [OF good_reads(4)], assumption)
    fix fs h2 and fb :: "string option" and h3
    assume j3: "justified (update_allowed deps) h3" and e: "prefix h1 h2" "prefix h2 h3"
      and d: "deployed h2 = deployed h1" "deployed h3 = deployed h2"
    have p: "prefix h1 h3" using e by (rule prefix_order.trans)
    have "pulled deps h3 (ut_serverImageRef ?t)" "pulled deps h3 (ut_brokerImageRef ?t)"
      using p1 that p by (auto intro: docker_answered_prefix)
    with j3 d d1 show "good deps h3 (case (fs, fb) of
          (Some serverId, Some brokerId) \<Rightarrow> capture_and_swap fuel deps ?tv serverId brokerId
        | _ \<Rightarrow> fail_preflight deps ?tv ''Could not find the panel's own containers by their configured names.'')
        (run_promise deps)"
      by (auto intro!: good_fail good_capture split: option.split)
  qed
  show "good deps h1 (case failure of
      Some reason \<Rightarrow> fail_preflight deps ?tv reason
    | None \<Rightarrow> and_then (resolveIdByName ?d (ut_serverContainerName ?t)) (\<lambda>foundServer.
        and_then (resolveIdByName ?d (ut_brokerContainerName ?t)) (\<lambda>foundBroker.
        case (foundServer, foundBroker) of
          (Some serverId, Some brokerId) \<Rightarrow> capture_and_swap fuel deps ?tv serverId brokerId
        | _ \<Rightarrow> fail_preflight deps ?tv ''Could not find the panel's own containers by their configured names.'')))
      (run_promise deps)"
    using found good_fail [OF j1 d1] by (cases failure) auto
qed simp

text \<open>
  C2 The updater touches no container until both images are pulled, both containers are captured and
  their specifications are in the result file; it creates nothing but the two swapped and the two
  captured specifications, and the new broker only after a recreated container was seen healthy; it
  never removes a volume or an image, prunes, or runs a command.
\<close>

theorem self_update_ordered:
  "justified (update_allowed deps) (snd (runSelfUpdate fuel deps []))"
proof -
  have "wp (runSelfUpdate fuel deps) (\<lambda>_. justified (update_allowed deps)) (\<lambda>_. justified (update_allowed deps)) []"
    using good_run by (rule wp_mono) auto
  then show ?thesis by (simp add: wp_trace)
qed

text \<open>
  C23 A run that returns has told the truth: the result file ends with its outcome; after a failure
  nothing was recreated; after a rollback the server stands on its captured specification again, and
  the broker on its own or untouched; after a success both stand on the new images, with their names,
  mounts and networks kept.
\<close>

theorem self_update_outcome:
  assumes "runSelfUpdate fuel deps [] = (Inr out, h)"
  shows "run_promise deps out h"
  using good_run [where deps = deps and fuel = fuel] assms by (simp add: wp_def)

text \<open>A daemon on which an update of the two panel containers succeeds.\<close>

definition update_daemon :: daemon where
  "update_daemon = offline_daemon
     \<lparr>dk_pullImage := \<lambda>_ _. Inr (),
      dk_listContainers := \<lambda>_ _. Inr [sample_container ''s'' ''dwg-server'', sample_container ''b'' ''dwg-broker''],
      dk_inspectContainerForRecreate := \<lambda>cid _. Inr
        \<lparr>sp_name = (if cid = ''s'' then ''dwg-server'' else ''dwg-broker''), sp_image = ''old'',
         sp_env = [''DWG_VERSION=0.4.0'', ''TZ=UTC''], sp_labels = [], sp_cmd = None, sp_hostConfig = [],
         sp_networkingConfig = []\<rparr>,
      dk_listImages := \<lambda>_. Inr [], dk_removeContainer := \<lambda>_ _ _. Inr (),
      dk_createContainer := \<lambda>spec _. Inr (''new-'' @ sp_name spec), dk_startContainer := \<lambda>_ _. Inr (),
      dk_inspectContainer := \<lambda>cid _. Inr
        \<lparr>ri_id = cid, ri_name = cid, ri_image = '''', ri_createdAt = '''', ri_tty = False, ri_restartCount = 0,
         ri_labels = [], ri_state = \<lparr>cs_status = ''running'', cs_running = True, cs_paused = False,
           cs_restarting = False, cs_startedAt = '''', cs_finishedAt = '''', cs_exitCode = 0,
           cs_health = Some ''healthy''\<rparr>, ri_mounts = []\<rparr>\<rparr>"

theorem self_update_outcome_witness:
  "run_promise (sample_updater update_daemon) Success (snd (runSelfUpdate 46 (sample_updater update_daemon) []))"
proof (rule self_update_outcome)
  have "fst (runSelfUpdate 46 (sample_updater update_daemon) []) = Inr Success" by code_simp
  then show "runSelfUpdate 46 (sample_updater update_daemon) [] =
      (Inr Success, snd (runSelfUpdate 46 (sample_updater update_daemon) []))"
    by (metis prod.collapse)
qed

end
