(* ===== verification/StaleImageCleanup.thy ===== *)
theory StaleImageCleanup
  imports ImageRefs
begin

text \<open>
  The sweep that removes images of earlier panel versions (\<^verbatim>\<open>self-update/stale-image-cleanup.ts\<close>).
  Versions are triples of numbers; \<open>semver\<close> with its order is the meaning that the comparison of
  version strings is checked against.  The source reads each number as a double, so the model agrees
  with it for numbers below \<^verbatim>\<open>2^53\<close>.
\<close>

section \<open>Versions\<close>

datatype semver = Semver nat nat nat

instantiation semver :: linorder
begin

fun less_eq_semver :: "semver \<Rightarrow> semver \<Rightarrow> bool" where
  "less_eq_semver (Semver a b c) (Semver x y z) \<longleftrightarrow> a < x \<or> a = x \<and> (b < y \<or> b = y \<and> c \<le> z)"

definition less_semver :: "semver \<Rightarrow> semver \<Rightarrow> bool" where
  "less_semver v w \<longleftrightarrow> v \<le> w \<and> \<not> w \<le> v"

instance
proof
  fix u v w :: semver
  show "v < w \<longleftrightarrow> v \<le> w \<and> \<not> w \<le> v" by (simp add: less_semver_def)
  show "v \<le> v" by (cases v) simp
  show "u \<le> v \<Longrightarrow> v \<le> w \<Longrightarrow> u \<le> w" by (cases u; cases v; cases w) auto
  show "v \<le> w \<Longrightarrow> w \<le> v \<Longrightarrow> v = w" by (cases v; cases w) auto
  show "v \<le> w \<or> w \<le> v" by (cases v; cases w) auto
qed

end

definition parse_version :: "string \<Rightarrow> semver option" where
  "parse_version s =
     (if semver_pattern s
      then (case split_on CHR ''.'' s of
              [a, b, c] \<Rightarrow> Some (Semver (read_digits a) (read_digits b) (read_digits c))
            | _ \<Rightarrow> None)
      else None)"

text \<open>\<^verbatim>\<open>EXACT_VERSION.exec(v)!\<close>: the three captured groups.\<close>

definition version_groups :: "string \<Rightarrow> nat list" where
  "version_groups s = map read_digits (split_on CHR ''.'' s)"

text \<open>The loop over the three positions.\<close>

fun compare_groups :: "nat list \<Rightarrow> nat list \<Rightarrow> int" where
  "compare_groups (l # ls) (r # rs) =
     (let difference = int l - int r
      in if difference \<noteq> 0 then sgn difference else compare_groups ls rs)"
| "compare_groups _ _ = 0"

definition compareVersions :: "string \<Rightarrow> string \<Rightarrow> int" where
  "compareVersions a b = compare_groups (version_groups a) (version_groups b)"

section \<open>Which images are stale\<close>

definition splitTag :: "string \<Rightarrow> string \<times> string" where
  "splitTag reference =
     (case last_index_of CHR '':'' reference of
        None \<Rightarrow> (reference, '''')
      | Some colon \<Rightarrow>
          (if (case last_index_of CHR ''/'' reference of None \<Rightarrow> False | Some slash \<Rightarrow> colon < slash)
           then (reference, '''')
           else (take colon reference, drop (Suc colon) reference)))"

fun scan_tags :: "string list \<Rightarrow> string list \<Rightarrow> string \<Rightarrow> bool \<Rightarrow> bool" where
  "scan_tags [] repositories runningVersion hasVersionTag = hasVersionTag"
| "scan_tags (reference # repoTags) repositories runningVersion hasVersionTag =
     (case splitTag reference of (repository, tag) \<Rightarrow>
        if repository \<notin> set repositories then False
        else if semver_pattern tag then
          (if compareVersions tag runningVersion \<ge> 0 then False
           else scan_tags repoTags repositories runningVersion True)
        else scan_tags repoTags repositories runningVersion hasVersionTag)"

definition isStalePanelImage :: "raw_image \<Rightarrow> string list \<Rightarrow> string \<Rightarrow> bool" where
  "isStalePanelImage img repositories runningVersion =
     (if \<not> semver_pattern runningVersion \<or> length (im_repoTags img) = 0 then False
      else scan_tags (im_repoTags img) repositories runningVersion False)"

section \<open>The sweep\<close>

record cleanup_deps =
  cd_docker :: daemon
  cd_runningVersion :: string
  cd_repositories :: "string list"

text \<open>The inner loop: a failed removal is logged and ends the work on this image.\<close>

fun remove_tags :: "cleanup_deps \<Rightarrow> string list \<Rightarrow> string list \<Rightarrow> string list broker_io" where
  "remove_tags deps [] removed = ret removed"
| "remove_tags deps (reference # refs) removed =
     and_then
       (try_catch
          (and_then (docker (CRemoveImage reference) (dk_removeImage (cd_docker deps) reference)) (\<lambda>_. ret True))
          (\<lambda>_. ret False))
       (\<lambda>done. if done then remove_tags deps refs (removed @ [reference]) else ret removed)"

definition sweeps :: "cleanup_deps \<Rightarrow> string list \<Rightarrow> raw_image \<Rightarrow> bool" where
  "sweeps deps inUse img =
     (isStalePanelImage img (cd_repositories deps) (cd_runningVersion deps) \<and>
      \<not> (im_id img \<in> set inUse \<or> list_ex (\<lambda>reference. reference \<in> set inUse) (im_repoTags img)))"

fun sweep_images :: "cleanup_deps \<Rightarrow> string list \<Rightarrow> raw_image list \<Rightarrow> string list \<Rightarrow> string list broker_io" where
  "sweep_images deps inUse [] removed = ret removed"
| "sweep_images deps inUse (img # images) removed =
     (if sweeps deps inUse img
      then and_then (remove_tags deps (im_repoTags img) removed) (\<lambda>removed'. sweep_images deps inUse images removed')
      else sweep_images deps inUse images removed)"

definition removeStalePanelImages :: "cleanup_deps \<Rightarrow> string list broker_io" where
  "removeStalePanelImages deps =
     and_then
       (both (docker CListImages (dk_listImages (cd_docker deps)))
          (docker (CListContainers True) (dk_listContainers (cd_docker deps) True)))
       (\<lambda>(images, containers). sweep_images deps (map rc_image containers) images [])"

section \<open>Lemmas\<close>

lemma semver_groups:
  "semver_pattern s \<Longrightarrow> \<exists>a b c. split_on CHR ''.'' s = [a, b, c]"
  by (auto simp: semver_pattern_def Let_def length_Suc_conv numeral_3_eq_3)

lemma parse_version_Some: "semver_pattern s \<Longrightarrow> \<exists>v. parse_version s = Some v"
  using semver_groups [of s] by (auto simp: parse_version_def)

text \<open>
  Comparing two exact versions as the source does agrees with the order on version triples: the sign
  is negative, zero or positive as the first version is older, the same or newer.
\<close>

theorem compareVersions_is_order:
  assumes "parse_version a = Some v" and "parse_version b = Some w"
  shows "compareVersions a b = (if v < w then -1 else if v = w then 0 else 1)"
proof -
  obtain a1 a2 a3 b1 b2 b3 where "split_on CHR ''.'' a = [a1, a2, a3]" "split_on CHR ''.'' b = [b1, b2, b3]"
    and "v = Semver (read_digits a1) (read_digits a2) (read_digits a3)"
    and "w = Semver (read_digits b1) (read_digits b2) (read_digits b3)"
    using assms semver_groups [of a] semver_groups [of b]
    by (auto simp: parse_version_def split: if_splits)
  then show ?thesis
    by (auto simp: compareVersions_def version_groups_def Let_def less_semver_def)
qed

theorem compareVersions_is_order_witness: "compareVersions ''0.10.0'' ''0.9.12'' = 1"
proof -
  have "parse_version ''0.10.0'' = Some (Semver 0 10 0)" "parse_version ''0.9.12'' = Some (Semver 0 9 12)"
    by code_simp+
  from compareVersions_is_order [OF this] show ?thesis by (simp add: less_semver_def)
qed

lemma scan_tags_iff:
  "scan_tags tags repos v has \<longleftrightarrow>
     list_all (\<lambda>t. fst (splitTag t) \<in> set repos \<and>
       (semver_pattern (snd (splitTag t)) \<longrightarrow> compareVersions (snd (splitTag t)) v < 0)) tags \<and>
     (has \<or> list_ex (\<lambda>t. semver_pattern (snd (splitTag t))) tags)"
  by (induction tags arbitrary: has) (auto split: prod.splits)

lemma splitTag_reference:
  "CHR '':'' \<notin> set tag \<Longrightarrow> CHR ''/'' \<notin> set tag \<Longrightarrow> splitTag (repository @ CHR '':'' # tag) = (repository, tag)"
proof -
  assume tag: "CHR '':'' \<notin> set tag" "CHR ''/'' \<notin> set tag"
  have "i < length repository" if "last_index_of CHR ''/'' (repository @ CHR '':'' # tag) = Some i" for i
  proof -
    have "CHR ''/'' \<notin> set (rev tag @ [CHR '':''])" using tag by simp
    from that obtain j where j: "index_of CHR ''/'' (rev tag @ CHR '':'' # rev repository) = Some j"
      and i: "i = length (repository @ CHR '':'' # tag) - Suc j"
      by (auto simp: last_index_of_def)
    have "j < length (rev tag @ CHR '':'' # rev repository)"
      and at: "(rev tag @ CHR '':'' # rev repository) ! j = CHR ''/''"
      using index_of_SomeD [OF j] by auto
    have "Suc (length tag) \<le> j"
    proof (rule ccontr)
      assume "\<not> Suc (length tag) \<le> j"
      then have "(rev tag @ CHR '':'' # rev repository) ! j \<in> set (rev tag @ [CHR '':''])"
        using nth_mem [of j "rev tag"] by (auto simp: nth_append nth_Cons' less_Suc_eq)
      with at tag show False by auto
    qed
    then show "i < length repository" using i \<open>j < _\<close> by simp
  qed
  with tag show ?thesis
    by (auto simp: splitTag_def last_index_of_append split: option.split)
qed

lemma parse_version_None: "parse_version s = None \<longleftrightarrow> \<not> semver_pattern s"
  using semver_groups [of s] by (auto simp: parse_version_def)

lemma compareVersions_negative:
  assumes "parse_version a = Some v" and "parse_version b = Some w"
  shows "compareVersions a b < 0 \<longleftrightarrow> v < w"
proof -
  obtain a1 a2 a3 b1 b2 b3 where "split_on CHR ''.'' a = [a1, a2, a3]" "split_on CHR ''.'' b = [b1, b2, b3]"
    and "v = Semver (read_digits a1) (read_digits a2) (read_digits a3)"
    and "w = Semver (read_digits b1) (read_digits b2) (read_digits b3)"
    using assms semver_groups [of a] semver_groups [of b]
    by (auto simp: parse_version_def split: if_splits)
  then show ?thesis
    by (auto simp: compareVersions_def version_groups_def Let_def less_semver_def)
qed

text \<open>
  An image is stale exactly when the running version is exact, every tag of the image belongs to a
  panel repository, at least one tag is an exact version, and every such version is older than the
  running one.
\<close>

theorem stale_image_iff:
  "isStalePanelImage img repositories runningVersion \<longleftrightarrow>
     (\<exists>w. parse_version runningVersion = Some w \<and>
        list_all (\<lambda>t. fst (splitTag t) \<in> set repositories \<and>
          (case parse_version (snd (splitTag t)) of None \<Rightarrow> True | Some v \<Rightarrow> v < w)) (im_repoTags img) \<and>
        list_ex (\<lambda>t. parse_version (snd (splitTag t)) \<noteq> None) (im_repoTags img))"
proof (cases "parse_version runningVersion")
  case None
  then have "\<not> semver_pattern runningVersion" by (simp add: parse_version_None)
  with None show ?thesis by (simp add: isStalePanelImage_def)
next
  case (Some w)
  have "(semver_pattern s \<longrightarrow> compareVersions s runningVersion < 0) \<longleftrightarrow>
      (case parse_version s of None \<Rightarrow> True | Some v \<Rightarrow> v < w)" for s
    using parse_version_None [of s] compareVersions_negative [OF _ Some, of s]
    by (cases "parse_version s") auto
  moreover have "semver_pattern runningVersion"
    using Some parse_version_None [of runningVersion] by auto
  moreover have "semver_pattern s \<longleftrightarrow> parse_version s \<noteq> None" for s
    using parse_version_None [of s] by auto
  ultimately show ?thesis
    using Some by (cases "im_repoTags img") (auto simp: isStalePanelImage_def scan_tags_iff)
qed

lemma remove_tags_calls:
  "set (snd (remove_tags deps refs removed h)) \<subseteq> set h \<union> CRemoveImage ` set refs"
proof (induction deps refs removed arbitrary: h rule: remove_tags.induct)
  case (2 deps r refs removed)
  from "2.IH" [of True "h @ [CRemoveImage r]"] show ?case
    by (auto simp: and_then_def try_catch_def docker_def perform_def ret_def answered_def split: sum.splits)
qed (simp add: ret_def)

lemma sweep_images_calls:
  "set (snd (sweep_images deps inUse images removed h)) \<subseteq>
     set h \<union> CRemoveImage ` {r. \<exists>img \<in> set images. sweeps deps inUse img \<and> r \<in> set (im_repoTags img)}"
proof (induction images arbitrary: removed h)
  case (Cons img images)
  show ?case
  proof (cases "sweeps deps inUse img")
    case True
    obtain r h' where rt: "remove_tags deps (im_repoTags img) removed h = (r, h')" by force
    have h': "set h' \<subseteq> set h \<union> CRemoveImage ` set (im_repoTags img)"
      using remove_tags_calls [of deps "im_repoTags img" removed h] rt by simp
    show ?thesis
    proof (cases r)
      case (Inl e)
      then show ?thesis using True rt h' by (auto simp: and_then_def)
    next
      case (Inr removed')
      then show ?thesis using True rt h' Cons.IH [of removed' h'] by (auto simp: and_then_def)
    qed
  next
    case False
    then show ?thesis using Cons.IH [of removed h] by auto
  qed
qed (simp add: ret_def)

text \<open>
  The sweep makes no call but its two listings and removals of tags of images that are stale and
  that no listed container, running or stopped, uses by id or by tag.
\<close>

theorem sweep_removes_only_stale:
  "set (snd (removeStalePanelImages deps [])) \<subseteq>
     {CListImages, CListContainers True} \<union> CRemoveImage `
       {r. \<exists>images containers img.
          dk_listImages (cd_docker deps) [] = Inr images \<and>
          dk_listContainers (cd_docker deps) True [CListImages] = Inr containers \<and>
          img \<in> set images \<and> r \<in> set (im_repoTags img) \<and>
          isStalePanelImage img (cd_repositories deps) (cd_runningVersion deps) \<and>
          list_all (\<lambda>c. rc_image c \<noteq> im_id img \<and> rc_image c \<notin> set (im_repoTags img)) containers}"
proof (cases "dk_listImages (cd_docker deps) []")
  case (Inl e)
  then show ?thesis
    by (auto simp: removeStalePanelImages_def and_then_def both_def docker_def perform_def answered_def
        split: sum.splits)
next
  case images: (Inr images)
  show ?thesis
  proof (cases "dk_listContainers (cd_docker deps) True [CListImages]")
    case (Inl e)
    with images show ?thesis
      by (auto simp: removeStalePanelImages_def and_then_def both_def docker_def perform_def answered_def)
  next
    case (Inr cs)
    have "sweeps deps (map rc_image cs) img \<longleftrightarrow>
        isStalePanelImage img (cd_repositories deps) (cd_runningVersion deps) \<and>
        list_all (\<lambda>c. rc_image c \<noteq> im_id img \<and> rc_image c \<notin> set (im_repoTags img)) cs" for img
      unfolding sweeps_def list_all_iff list_ex_iff set_map image_iff by metis
    with images Inr sweep_images_calls [of deps "map rc_image cs" images "[]" "[CListImages, CListContainers True]"]
    show ?thesis
      by (simp add: removeStalePanelImages_def and_then_def both_def docker_def perform_def answered_def)
        blast
  qed
qed

end
