(* ===== verification/Transitions.thy ===== *)
theory Transitions
  imports Main
begin

text \<open>
  State machines: an initial condition and a labelled step relation.  The interface
  \<open>guarded_system\<close> is what a machine owes to use its invariant: it holds initially, and every step
  keeps it.  \<open>settled_forever\<close> adds facts that no step undoes.
\<close>

inductive reachable :: "('s \<Rightarrow> bool) \<Rightarrow> ('s \<Rightarrow> 'e \<Rightarrow> 's \<Rightarrow> bool) \<Rightarrow> 's \<Rightarrow> bool"
  for initial and moves where
  start [intro]: "initial s \<Longrightarrow> reachable initial moves s"
| step [intro]: "reachable initial moves s \<Longrightarrow> moves s e s' \<Longrightarrow> reachable initial moves s'"

inductive path :: "('s \<Rightarrow> 'e \<Rightarrow> 's \<Rightarrow> bool) \<Rightarrow> 's \<Rightarrow> 'e list \<Rightarrow> 's \<Rightarrow> bool" for moves where
  here [intro]: "path moves s [] s"
| onward [intro]: "moves s e s' \<Longrightarrow> path moves s' es s'' \<Longrightarrow> path moves s (e # es) s''"

inductive_cases path_NilE [elim!]: "path moves s [] s'"
inductive_cases path_ConsE [elim!]: "path moves s (e # es) s'"

locale guarded_system =
  fixes initial :: "'s \<Rightarrow> bool" and moves :: "'s \<Rightarrow> 'e \<Rightarrow> 's \<Rightarrow> bool" and inv :: "'s \<Rightarrow> bool"
  assumes initial_inv: "initial s \<Longrightarrow> inv s"
    and step_inv: "inv s \<Longrightarrow> moves s e s' \<Longrightarrow> inv s'"
begin

lemma reachable_inv: "reachable initial moves s \<Longrightarrow> inv s"
  by (induction rule: reachable.induct) (auto intro: initial_inv step_inv)

lemma path_inv: "path moves s es s' \<Longrightarrow> inv s \<Longrightarrow> inv s'"
  by (induction rule: path.induct) (auto intro: step_inv)

lemma reachable_path: "path moves s es s' \<Longrightarrow> reachable initial moves s \<Longrightarrow> reachable initial moves s'"
  by (induction rule: path.induct) auto

end

locale settled_forever = guarded_system +
  fixes fact :: "'s \<Rightarrow> 'k \<Rightarrow> bool"
  assumes step_fact: "inv s \<Longrightarrow> moves s e s' \<Longrightarrow> fact s k \<Longrightarrow> fact s' k"
begin

lemma path_fact: "path moves s es s' \<Longrightarrow> inv s \<Longrightarrow> fact s k \<Longrightarrow> fact s' k"
  by (induction rule: path.induct) (auto intro: step_inv step_fact)

end

end
