(* ===== verification/JobRunner.thy ===== *)
theory JobRunner
  imports Transitions DockerApi
begin

text \<open>
  The in-process job runner of the panel server (\<^verbatim>\<open>platform/jobs/job-runner.ts\<close> over
  \<^verbatim>\<open>jobs.repository.ts\<close>) and the service in front of it.  The table of jobs is a list of rows in
  insertion order.  JavaScript runs each piece of code up to its next \<^verbatim>\<open>await\<close> without interruption, so
  the machine's steps are those pieces: enqueueing (with the synchronous part of \<^verbatim>\<open>pump\<close>), cancelling,
  the two operations of a job's context, and the settling of the running job's closure, which starts
  the next one.  A closure is known only by how it settles.  Times are milliseconds; ids are what
  \<^verbatim>\<open>generateId\<close> returned, which the primary key makes fresh.
\<close>

section \<open>Rows\<close>

datatype job_type =
    BackupCreate | BackupVerify | BackupRestore | BackupUpload | BackupImport | PanelSelfUpdate

datatype job_status = Queued | Running | Succeeded | FailedJob | Cancelled

definition isActiveJobStatus :: "job_status \<Rightarrow> bool" where
  "isActiveJobStatus status = (status \<in> {Queued, Running})"

datatype job_log_level = LogInfo | LogWarn | LogError

record job =
  job_id :: string
  job_type :: job_type
  job_status :: job_status
  job_progress :: int
  job_createdByAdminId :: "string option"
  job_createdByLabel :: string
  job_createdAt :: int
  job_startedAt :: "int option"
  job_finishedAt :: "int option"
  job_errorMessage :: "string option"
  job_metadata :: json

record job_log_entry =
  jl_id :: string
  jl_jobId :: string
  jl_loggedAt :: int
  jl_level :: job_log_level
  jl_message :: string

record enqueue_params =
  ep_type :: job_type
  ep_createdByAdminId :: "string option"
  ep_createdByLabel :: string
  ep_metadata :: json

datatype job_stream_event = Snapshot job | LogEvent job_log_entry

section \<open>The repository\<close>

definition insert_job :: "string \<Rightarrow> int \<Rightarrow> enqueue_params \<Rightarrow> job list \<Rightarrow> job list" where
  "insert_job jid now params jobs =
     jobs @ [\<lparr>job_id = jid, job_type = ep_type params, job_status = Queued, job_progress = 0,
       job_createdByAdminId = ep_createdByAdminId params, job_createdByLabel = ep_createdByLabel params,
       job_createdAt = now, job_startedAt = None, job_finishedAt = None, job_errorMessage = None,
       job_metadata = ep_metadata params\<rparr>]"

definition getById :: "string \<Rightarrow> job list \<Rightarrow> job option" where
  "getById jid jobs = find (\<lambda>j. job_id j = jid) jobs"

text \<open>\<^verbatim>\<open>UPDATE jobs SET \<dots> WHERE id = ?\<close>.\<close>

definition update_job :: "string \<Rightarrow> (job \<Rightarrow> job) \<Rightarrow> job list \<Rightarrow> job list" where
  "update_job jid f jobs = map (\<lambda>j. if job_id j = jid then f j else j) jobs"

definition queryActiveRows :: "job list \<Rightarrow> job list" where
  "queryActiveRows jobs = filter (\<lambda>j. isActiveJobStatus (job_status j)) jobs"

definition markRunning :: "int \<Rightarrow> job \<Rightarrow> job" where
  "markRunning now j = j\<lparr>job_status := Running, job_startedAt := Some now\<rparr>"

text \<open>\<^verbatim>\<open>Math.max(0, Math.min(100, Math.round(progress)))\<close>; \<^verbatim>\<open>round\<close> takes halves up.\<close>

definition clamp_progress :: "rat \<Rightarrow> int" where
  "clamp_progress p = max 0 (min 100 \<lfloor>p + 1 / 2\<rfloor>)"

definition updateProgress :: "rat \<Rightarrow> job \<Rightarrow> job" where
  "updateProgress p j = j\<lparr>job_progress := clamp_progress p\<rparr>"

definition markSucceeded :: "int \<Rightarrow> json \<Rightarrow> job \<Rightarrow> job" where
  "markSucceeded now metadata j =
     j\<lparr>job_status := Succeeded, job_progress := 100, job_finishedAt := Some now, job_metadata := metadata\<rparr>"

definition markFailed :: "int \<Rightarrow> string \<Rightarrow> job \<Rightarrow> job" where
  "markFailed now message j =
     j\<lparr>job_status := FailedJob, job_finishedAt := Some now, job_errorMessage := Some message\<rparr>"

definition markCancelled :: "int \<Rightarrow> string \<Rightarrow> job \<Rightarrow> job" where
  "markCancelled now message j =
     j\<lparr>job_status := Cancelled, job_finishedAt := Some now, job_errorMessage := Some message\<rparr>"

definition INTERRUPTED :: string where
  "INTERRUPTED = ''Interrupted by a server restart before this job could finish.''"

text \<open>\<^verbatim>\<open>recoverInterruptedJobs\<close>: the table after it, and the ids it reports.\<close>

definition recoverInterruptedJobs :: "int \<Rightarrow> job list \<Rightarrow> string list \<times> job list" where
  "recoverInterruptedJobs now jobs =
     (let stale = map job_id (queryActiveRows jobs)
      in (stale, foldl (\<lambda>rows jid. update_job jid (markFailed now INTERRUPTED) rows) jobs stale))"

section \<open>The runner\<close>

text \<open>\<open>r_published\<close> is every event handed to \<^verbatim>\<open>publish\<close>, subscribed to or not.\<close>

record runner =
  r_jobs :: "job list"
  r_logs :: "job_log_entry list"
  r_queue :: "string list"
  r_pending :: "string \<Rightarrow> enqueue_params option"
  r_current :: "string option"
  r_published :: "job_stream_event list"

definition publish_row :: "string \<Rightarrow> runner \<Rightarrow> runner" where
  "publish_row jid s =
     (case getById jid (r_jobs s) of
        None \<Rightarrow> s
      | Some j \<Rightarrow> s\<lparr>r_published := r_published s @ [Snapshot j]\<rparr>)"

text \<open>An update of a row, read back and published.\<close>

definition change_row :: "string \<Rightarrow> (job \<Rightarrow> job) \<Rightarrow> runner \<Rightarrow> runner" where
  "change_row jid f s = publish_row jid (s\<lparr>r_jobs := update_job jid f (r_jobs s)\<rparr>)"

text \<open>\<^verbatim>\<open>pump\<close> up to its \<^verbatim>\<open>await\<close>.\<close>

definition pump :: "int \<Rightarrow> runner \<Rightarrow> runner" where
  "pump now s =
     (if r_current s \<noteq> None then s
      else
        (case r_queue s of
           [] \<Rightarrow> s
         | nextId # rest \<Rightarrow>
             (let params = r_pending s nextId;
                  s = s\<lparr>r_queue := rest, r_pending := (r_pending s)(nextId := None)\<rparr>
              in if params = None then s
                 else change_row nextId (markRunning now) (s\<lparr>r_current := Some nextId\<rparr>))))"

definition enqueue :: "string \<Rightarrow> int \<Rightarrow> int \<Rightarrow> enqueue_params \<Rightarrow> runner \<Rightarrow> runner" where
  "enqueue jid now now' params s =
     (let s = s\<lparr>r_jobs := insert_job jid now params (r_jobs s)\<rparr>;
          s = s\<lparr>r_pending := (r_pending s)(jid \<mapsto> params), r_queue := r_queue s @ [jid]\<rparr>
      in pump now' (publish_row jid s))"

datatype job_not_cancellable = UnknownJob string | AlreadyPast string job_status

definition cancel :: "string \<Rightarrow> int \<Rightarrow> runner \<Rightarrow> (job_not_cancellable + unit) \<times> runner" where
  "cancel jid now s =
     (case getById jid (r_jobs s) of
        None \<Rightarrow> (Inl (UnknownJob jid), s)
      | Some j \<Rightarrow>
          if job_status j \<noteq> Queued then (Inl (AlreadyPast jid (job_status j)), s)
          else
            (Inr (), change_row jid (markCancelled now ''Cancelled.'')
              (s\<lparr>r_queue := remove1 jid (r_queue s), r_pending := (r_pending s)(jid := None)\<rparr>)))"

text \<open>The two operations of a job's context; a closure may keep it and call it late.\<close>

definition context_log :: "job_log_entry \<Rightarrow> runner \<Rightarrow> runner" where
  "context_log entry s =
     s\<lparr>r_logs := r_logs s @ [entry], r_published := r_published s @ [LogEvent entry]\<rparr>"

definition context_setProgress :: "string \<Rightarrow> rat \<Rightarrow> runner \<Rightarrow> runner" where
  "context_setProgress jid percent s = change_row jid (updateProgress percent) s"

text \<open>How the running job's closure settles: an error's message, or the final metadata.\<close>

definition settle :: "string + json \<Rightarrow> int \<Rightarrow> int \<Rightarrow> runner \<Rightarrow> runner" where
  "settle outcome now now' s =
     (case r_current s of
        None \<Rightarrow> s
      | Some jid \<Rightarrow>
          (let s = change_row jid
                 (case outcome of Inr result \<Rightarrow> markSucceeded now result | Inl message \<Rightarrow> markFailed now message) s
           in pump now' (s\<lparr>r_current := None\<rparr>)))"

definition createJobRunner :: "int \<Rightarrow> job list \<Rightarrow> job_log_entry list \<Rightarrow> runner" where
  "createJobRunner now jobs logs =
     \<lparr>r_jobs = snd (recoverInterruptedJobs now jobs), r_logs = logs, r_queue = [], r_pending = Map.empty,
      r_current = None, r_published = []\<rparr>"

section \<open>The service\<close>

definition cancel_message :: "job_not_cancellable \<Rightarrow> string" where
  "cancel_message e =
     (case e of
        UnknownJob jid \<Rightarrow> ''Job '' @ jid @ '' does not exist.''
      | AlreadyPast jid status \<Rightarrow> ''Job '' @ jid @ '' cannot be cancelled: it is already '' @
          (case status of Queued \<Rightarrow> ''queued'' | Running \<Rightarrow> ''running'' | Succeeded \<Rightarrow> ''succeeded''
             | FailedJob \<Rightarrow> ''failed'' | Cancelled \<Rightarrow> ''cancelled'') @ '', not queued.'')"

definition service_cancel ::
  "string \<Rightarrow> int \<Rightarrow> runner \<Rightarrow> ((error_code \<times> string) + unit) \<times> runner" where
  "service_cancel jid now s =
     (case cancel jid now s of
        (Inl e, s') \<Rightarrow> (Inl (CONFLICT, cancel_message e), s')
      | (Inr x, s') \<Rightarrow> (Inr x, s'))"

definition service_getDetail ::
  "string \<Rightarrow> runner \<Rightarrow> (error_code \<times> string) + (job \<times> job_log_entry list)" where
  "service_getDetail jid s =
     (case getById jid (r_jobs s) of
        None \<Rightarrow> Inl (NOT_FOUND, ''No job with id '' @ jid @ ''.'')
      | Some j \<Rightarrow> Inr (j, filter (\<lambda>l. jl_jobId l = jid) (r_logs s)))"

section \<open>The machine\<close>

datatype runner_event =
    Enqueue string int int enqueue_params
  | Cancel string int
  | ContextLog job_log_entry
  | ContextProgress string rat
  | Settle "string + json" int int

inductive runner_step :: "runner \<Rightarrow> runner_event \<Rightarrow> runner \<Rightarrow> bool" where
  step_enqueue: "jid \<notin> job_id ` set (r_jobs s) \<Longrightarrow>
     runner_step s (Enqueue jid now now' params) (enqueue jid now now' params s)"
| step_cancel: "runner_step s (Cancel jid now) (snd (cancel jid now s))"
| step_log: "runner_step s (ContextLog entry) (context_log entry s)"
| step_progress: "runner_step s (ContextProgress jid percent) (context_setProgress jid percent s)"
| step_settle: "runner_step s (Settle outcome now now') (settle outcome now now' s)"

inductive_cases runner_stepE: "runner_step s e s'"
inductive_simps runner_step_enqueue: "runner_step s (Enqueue jid now now' params) s'"
inductive_simps runner_step_settle: "runner_step s (Settle outcome now now') s'"

definition fresh_runner :: "runner \<Rightarrow> bool" where
  "fresh_runner s \<longleftrightarrow> (\<exists>now jobs logs. distinct (map job_id jobs) \<and> s = createJobRunner now jobs logs)"

section \<open>The invariant\<close>

definition with_status :: "job_status \<Rightarrow> job list \<Rightarrow> string list" where
  "with_status st jobs = map job_id (filter (\<lambda>j. job_status j = st) jobs)"

text \<open>First come, first served: behind a waiting row there are only waiting and cancelled rows.\<close>

definition in_turn :: "job list \<Rightarrow> bool" where
  "in_turn jobs = sorted_wrt (\<lambda>a b. job_status a = Queued \<longrightarrow> job_status b \<in> {Queued, Cancelled}) jobs"

definition runner_ok :: "runner \<Rightarrow> bool" where
  "runner_ok s \<longleftrightarrow>
     distinct (map job_id (r_jobs s)) \<and>
     with_status Queued (r_jobs s) = r_queue s \<and>
     with_status Running (r_jobs s) = (case r_current s of None \<Rightarrow> [] | Some jid \<Rightarrow> [jid]) \<and>
     dom (r_pending s) = set (r_queue s) \<and>
     (r_current s = None \<longrightarrow> r_queue s = []) \<and>
     in_turn (r_jobs s)"

lemma publish_row_simps [simp]:
  "r_jobs (publish_row jid s) = r_jobs s" "r_queue (publish_row jid s) = r_queue s"
  "r_pending (publish_row jid s) = r_pending s" "r_current (publish_row jid s) = r_current s"
  "r_logs (publish_row jid s) = r_logs s"
  by (simp_all add: publish_row_def split: option.split)

lemma change_row_simps [simp]:
  "r_jobs (change_row jid f s) = update_job jid f (r_jobs s)" "r_queue (change_row jid f s) = r_queue s"
  "r_pending (change_row jid f s) = r_pending s" "r_current (change_row jid f s) = r_current s"
  by (simp_all add: change_row_def)

lemma mark_simps [simp]:
  "job_id (markRunning now j) = job_id j" "job_status (markRunning now j) = Running"
  "job_id (markSucceeded now m j) = job_id j" "job_status (markSucceeded now m j) = Succeeded"
  "job_id (markFailed now e j) = job_id j" "job_status (markFailed now e j) = FailedJob"
  "job_id (markCancelled now e j) = job_id j" "job_status (markCancelled now e j) = Cancelled"
  "job_id (updateProgress p j) = job_id j" "job_status (updateProgress p j) = job_status j"
  by (simp_all add: markRunning_def markSucceeded_def markFailed_def markCancelled_def updateProgress_def)

text \<open>An update that keeps the id and sets the status to \<open>st\<close>.\<close>

definition sets_status :: "(job \<Rightarrow> job) \<Rightarrow> job_status \<Rightarrow> bool" where
  "sets_status f st \<longleftrightarrow> (\<forall>j. job_id (f j) = job_id j \<and> job_status (f j) = st)"

lemma sets_status_marks [simp]:
  "sets_status (markRunning now) Running" "sets_status (markSucceeded now m) Succeeded"
  "sets_status (markFailed now e) FailedJob" "sets_status (markCancelled now e) Cancelled"
  by (simp_all add: sets_status_def)

lemma update_ids: "(\<And>j. job_id (f j) = job_id j) \<Longrightarrow> map job_id (update_job jid f jobs) = map job_id jobs"
  by (induction jobs) (auto simp: update_job_def)

lemma sets_status_ids: "sets_status f st \<Longrightarrow> map job_id (update_job jid f jobs) = map job_id jobs"
  by (rule update_ids) (simp add: sets_status_def)

lemma with_status_other:
  "sets_status f st' \<Longrightarrow> st \<noteq> st' \<Longrightarrow>
     with_status st (update_job jid f jobs) = filter (\<lambda>i. i \<noteq> jid) (with_status st jobs)"
  by (induction jobs) (auto simp: with_status_def update_job_def sets_status_def)

lemma update_absent: "jid \<notin> job_id ` set jobs \<Longrightarrow> update_job jid f jobs = jobs"
  unfolding update_job_def by (intro map_idI) auto

lemma with_status_here:
  "sets_status f st \<Longrightarrow> with_status st jobs = [] \<Longrightarrow> distinct (map job_id jobs) \<Longrightarrow> jid \<in> job_id ` set jobs \<Longrightarrow>
     with_status st (update_job jid f jobs) = [jid]"
proof (induction jobs)
  case (Cons j jobs)
  from Cons show ?case
    by (cases "job_id j = jid")
      (auto simp: with_status_def update_job_def sets_status_def update_absent [unfolded update_job_def]
        split: if_splits)
qed simp

lemma with_status_keeps:
  "(\<And>j. job_id (f j) = job_id j \<and> job_status (f j) = job_status j) \<Longrightarrow>
     with_status st (update_job jid f jobs) = with_status st jobs"
  by (induction jobs) (auto simp: with_status_def update_job_def)

lemma with_status_mem: "jid \<in> set (with_status st jobs) \<longleftrightarrow> (\<exists>j\<in>set jobs. job_id j = jid \<and> job_status j = st)"
  by (auto simp: with_status_def)

lemma with_status_subset: "set (with_status st jobs) \<subseteq> job_id ` set jobs"
  by (auto simp: with_status_def)

lemma with_status_distinct: "distinct (map job_id jobs) \<Longrightarrow> distinct (with_status st jobs)"
  by (simp add: with_status_def distinct_map_filter)

lemma in_turn_Cons:
  "in_turn (j # jobs) \<longleftrightarrow> in_turn jobs \<and>
     (job_status j = Queued \<longrightarrow> (\<forall>b\<in>set jobs. job_status b \<in> {Queued, Cancelled}))"
  by (auto simp: in_turn_def)

lemma in_turn_keeps:
  "(\<And>j. job_status (f j) = job_status j) \<Longrightarrow> in_turn (update_job jid f jobs) = in_turn jobs"
  by (simp add: in_turn_def update_job_def sorted_wrt_map if_distrib cong: if_cong)

lemma in_turn_cancel: "sets_status f Cancelled \<Longrightarrow> in_turn jobs \<Longrightarrow> in_turn (update_job jid f jobs)"
  by (induction jobs) (auto simp: in_turn_Cons update_job_def in_turn_def sets_status_def)

lemma in_turn_first:
  "sets_status f st \<Longrightarrow> st \<noteq> Queued \<Longrightarrow> distinct (map job_id jobs) \<Longrightarrow> in_turn jobs \<Longrightarrow>
     with_status Queued jobs = jid # rest \<Longrightarrow> in_turn (update_job jid f jobs)"
proof (induction jobs)
  case (Cons j jobs)
  show ?case
  proof (cases "job_status j = Queued")
    case True
    with Cons.prems have jid: "job_id j = jid" by (simp add: with_status_def)
    with Cons.prems(3) have "update_job jid f jobs = jobs" by (simp add: update_absent)
    with jid Cons.prems show ?thesis
      by (simp add: in_turn_Cons update_job_def [of jid f "_ # _"]) (simp add: update_job_def sets_status_def)
  next
    case False
    with Cons.prems Cons.IH have IH: "in_turn (update_job jid f jobs)"
      by (simp add: in_turn_Cons with_status_def)
    have "job_status (if job_id j = jid then f j else j) \<noteq> Queued"
      using False Cons.prems by (simp add: sets_status_def)
    with IH show ?thesis by (simp add: in_turn_Cons update_job_def)
  qed
qed (simp add: with_status_def)

lemma in_turn_running:
  "sets_status f st \<Longrightarrow> st \<noteq> Queued \<Longrightarrow> in_turn jobs \<Longrightarrow>
     (\<And>j. j \<in> set jobs \<Longrightarrow> job_id j = jid \<Longrightarrow> job_status j = Running) \<Longrightarrow> in_turn (update_job jid f jobs)"
proof (induction jobs)
  case (Cons j jobs)
  have IH: "in_turn (update_job jid f jobs)" using Cons by (simp add: in_turn_Cons)
  have "job_id b \<noteq> jid" if "b \<in> set jobs" "job_status j = Queued" for b
    using Cons.prems(3,4) that by (auto simp: in_turn_Cons)
  with IH Cons.prems show ?case
    by (auto simp: in_turn_Cons update_job_def sets_status_def)
qed (simp add: in_turn_def update_job_def)

lemma in_turn_idle: "(\<And>j. j \<in> set jobs \<Longrightarrow> job_status j \<noteq> Queued) \<Longrightarrow> in_turn jobs"
  by (induction jobs) (simp_all add: in_turn_Cons, simp add: in_turn_def)

lemma in_turn_snoc: "in_turn jobs \<Longrightarrow> job_status j = Queued \<Longrightarrow> in_turn (jobs @ [j])"
  by (simp add: in_turn_def sorted_wrt_append)

lemma unique_row: "distinct (map job_id jobs) \<Longrightarrow> i \<in> set jobs \<Longrightarrow> j \<in> set jobs \<Longrightarrow> job_id i = job_id j \<Longrightarrow> i = j"
  by (auto simp: distinct_map dest: inj_onD)

lemma one_status:
  assumes "distinct (map job_id jobs)" and "j \<in> set jobs"
  shows "job_id j \<in> set (with_status st jobs) \<longleftrightarrow> job_status j = st"
proof
  assume "job_id j \<in> set (with_status st jobs)"
  then obtain i where "i \<in> set jobs" "job_id i = job_id j" "job_status i = st"
    unfolding with_status_mem by blast
  with unique_row [OF assms(1)] assms(2) show "job_status j = st" by blast
qed (use assms in \<open>auto simp: with_status_mem\<close>)

lemma getById_Some: "getById jid jobs = Some j \<Longrightarrow> j \<in> set jobs \<and> job_id j = jid"
  by (auto simp: getById_def find_Some_iff)

lemma getById_in: "distinct (map job_id jobs) \<Longrightarrow> j \<in> set jobs \<Longrightarrow> getById (job_id j) jobs = Some j"
  by (induction jobs) (auto simp: getById_def rev_image_eqI)

section \<open>Every step keeps it\<close>

lemma runner_ok_pump:
  assumes distinct: "distinct (map job_id (r_jobs s))" and queued: "with_status Queued (r_jobs s) = r_queue s"
    and running: "with_status Running (r_jobs s) = (case r_current s of None \<Rightarrow> [] | Some jid \<Rightarrow> [jid])"
    and pending: "dom (r_pending s) = set (r_queue s)" and turn: "in_turn (r_jobs s)"
  shows "runner_ok (pump now s)"
proof (cases "r_current s = None \<and> r_queue s \<noteq> []")
  case False
  then show ?thesis using assms by (auto simp: runner_ok_def pump_def split: list.split)
next
  case True
  then obtain nextId rest where q: "r_queue s = nextId # rest" and c: "r_current s = None"
    by (cases "r_queue s") auto
  let ?jobs = "update_job nextId (markRunning now) (r_jobs s)"
  have d: "distinct (nextId # rest)" using with_status_distinct [OF distinct, of Queued] queued q by simp
  have "nextId \<in> dom (r_pending s)" using pending q by simp
  then obtain params where "r_pending s nextId = Some params" by blast
  then have p: "pump now s = change_row nextId (markRunning now)
      (s\<lparr>r_queue := rest, r_pending := (r_pending s)(nextId := None), r_current := Some nextId\<rparr>)"
    by (simp add: pump_def q c Let_def)
  have mem: "nextId \<in> job_id ` set (r_jobs s)" using with_status_subset [of Queued "r_jobs s"] queued q by auto
  have "with_status Queued ?jobs = filter (\<lambda>i. i \<noteq> nextId) (nextId # rest)"
    using with_status_other [of "markRunning now" Running Queued nextId "r_jobs s"] queued q by simp
  also have "\<dots> = rest" using d by (auto intro: filter_True)
  finally have "with_status Queued ?jobs = rest" .
  moreover have "with_status Running ?jobs = [nextId]"
    by (rule with_status_here) (use running c distinct mem in simp_all)
  moreover have "in_turn ?jobs"
    by (rule in_turn_first [where st = Running and rest = rest]) (use distinct turn queued q in simp_all)
  moreover have "map job_id ?jobs = map job_id (r_jobs s)" by (rule update_ids) simp
  moreover have "dom ((r_pending s)(nextId := None)) = set rest" using pending q d by auto
  ultimately show ?thesis using distinct by (simp add: p runner_ok_def)
qed

lemma runner_ok_enqueue:
  assumes ok: "runner_ok s" and fresh: "jid \<notin> job_id ` set (r_jobs s)"
  shows "runner_ok (enqueue jid now now' params s)"
proof -
  have notq: "jid \<notin> set (r_queue s)"
    using ok fresh with_status_subset [of Queued "r_jobs s"] by (auto simp: runner_ok_def)
  show ?thesis
    unfolding enqueue_def Let_def
    by (rule runner_ok_pump)
      (use ok fresh notq in \<open>auto simp: runner_ok_def insert_job_def with_status_def intro: in_turn_snoc\<close>)
qed

lemma runner_ok_cancel:
  assumes ok: "runner_ok s"
  shows "runner_ok (snd (cancel jid now s))"
proof (cases "\<exists>j. getById jid (r_jobs s) = Some j \<and> job_status j = Queued")
  case False
  with ok show ?thesis by (auto simp: cancel_def split: option.split)
next
  case True
  then obtain j where j: "getById jid (r_jobs s) = Some j" "job_status j = Queued" by blast
  then have row: "j \<in> set (r_jobs s)" "job_id j = jid" using getById_Some by auto
  let ?f = "markCancelled now ''Cancelled.''"
  let ?jobs = "update_job jid ?f (r_jobs s)"
  have "distinct (map job_id (r_jobs s))" using ok by (simp add: runner_ok_def)
  from one_status [OF this row(1), of Running] row(2) j(2)
  have run: "jid \<notin> set (with_status Running (r_jobs s))" by auto
  have "with_status Queued ?jobs = filter (\<lambda>i. i \<noteq> jid) (r_queue s)"
    using ok with_status_other [of ?f Cancelled Queued jid "r_jobs s"] by (simp add: runner_ok_def)
  also have "\<dots> = remove1 jid (r_queue s)"
    using ok with_status_distinct [of "r_jobs s" Queued]
    by (simp add: runner_ok_def distinct_remove1_removeAll removeAll_filter_not_eq eq_commute)
  finally have queued: "with_status Queued ?jobs = remove1 jid (r_queue s)" .
  have running: "with_status Running ?jobs = with_status Running (r_jobs s)"
    using with_status_other [of ?f Cancelled Running jid "r_jobs s"] run by (auto intro: filter_True)
  have ids: "map job_id ?jobs = map job_id (r_jobs s)" by (rule update_ids) simp
  have turn: "in_turn ?jobs" using ok by (intro in_turn_cancel) (simp_all add: runner_ok_def)
  have "dom ((r_pending s)(jid := None)) = set (remove1 jid (r_queue s))"
    using ok with_status_distinct [of "r_jobs s" Queued] by (auto simp: runner_ok_def)
  with queued running ids turn ok show ?thesis
    by (simp add: cancel_def j runner_ok_def)
qed

lemma runner_ok_settle:
  assumes ok: "runner_ok s"
  shows "runner_ok (settle outcome now now' s)"
proof (cases "r_current s")
  case None
  with ok show ?thesis by (simp add: settle_def)
next
  case (Some jid)
  let ?f = "case outcome of Inr result \<Rightarrow> markSucceeded now result | Inl message \<Rightarrow> markFailed now message"
  let ?s = "(change_row jid ?f s)\<lparr>r_current := None\<rparr>"
  obtain st where f: "sets_status ?f st" and st: "st \<noteq> Queued" "st \<noteq> Running"
  proof (cases outcome)
    case (Inl message)
    then show ?thesis using that [of FailedJob] by simp
  next
    case (Inr result)
    then show ?thesis using that [of Succeeded] by simp
  qed
  have d: "distinct (map job_id (r_jobs s))" and run: "with_status Running (r_jobs s) = [jid]"
    using ok Some by (simp_all add: runner_ok_def)
  have rows: "job_status j = Running" if "j \<in> set (r_jobs s)" "job_id j = jid" for j
    using one_status [OF d that(1), of Running] that(2) run by simp
  have "jid \<notin> set (with_status Queued (r_jobs s))"
    using rows by (auto simp: with_status_mem)
  then have "with_status Queued (r_jobs ?s) = r_queue s"
    using with_status_other [OF f, of Queued jid "r_jobs s"] st ok by (auto simp: runner_ok_def intro: filter_True)
  moreover have "with_status Running (r_jobs ?s) = []"
    using with_status_other [OF f, of Running jid "r_jobs s"] st run by auto
  moreover have "in_turn (r_jobs ?s)"
    using in_turn_running [OF f st(1), of "r_jobs s" jid] rows ok by (simp add: runner_ok_def)
  moreover have "map job_id (r_jobs ?s) = map job_id (r_jobs s)" using sets_status_ids [OF f] by simp
  ultimately have "runner_ok (pump now' ?s)"
    using ok by (intro runner_ok_pump) (simp_all add: runner_ok_def)
  then show ?thesis by (simp add: settle_def Some Let_def)
qed
lemma runner_ok_progress: "runner_ok s \<Longrightarrow> runner_ok (context_setProgress jid p s)"
  by (simp add: runner_ok_def context_setProgress_def with_status_keeps update_ids in_turn_keeps)

lemma runner_ok_log: "runner_ok s \<Longrightarrow> runner_ok (context_log entry s)"
  by (simp add: runner_ok_def context_log_def)

lemma runner_ok_step: "runner_ok s \<Longrightarrow> runner_step s e s' \<Longrightarrow> runner_ok s'"
  by (erule runner_stepE)
    (auto intro: runner_ok_enqueue runner_ok_cancel runner_ok_settle runner_ok_progress runner_ok_log)

text \<open>Recovery fails exactly the active rows.\<close>

lemma update_twice_other:
  "foldl (\<lambda>rows i. update_job i f rows) jobs ids =
     map (\<lambda>j. if job_id j \<in> set ids then f j else j) jobs"
  if "\<And>j. job_id (f j) = job_id j" and "\<And>j. f (f j) = f j"
  using that
proof (induction ids arbitrary: jobs)
  case (Cons i ids)
  then show ?case by (simp add: update_job_def comp_def)
qed simp

lemma recovered_rows:
  assumes "distinct (map job_id jobs)"
  shows "snd (recoverInterruptedJobs now jobs) =
    map (\<lambda>j. if isActiveJobStatus (job_status j) then markFailed now INTERRUPTED j else j) jobs"
proof -
  have "job_id j \<in> job_id ` set (queryActiveRows jobs) \<longleftrightarrow> isActiveJobStatus (job_status j)" if "j \<in> set jobs" for j
    using that unique_row [OF assms] by (auto simp: queryActiveRows_def)
  then show ?thesis
    unfolding recoverInterruptedJobs_def Let_def snd_conv
    by (subst update_twice_other) (auto simp: markFailed_def)
qed

lemma fresh_runner_ok: "fresh_runner s \<Longrightarrow> runner_ok s"
proof -
  assume "fresh_runner s"
  then obtain now jobs logs where d: "distinct (map job_id jobs)" and s: "s = createJobRunner now jobs logs"
    by (auto simp: fresh_runner_def)
  have rows: "r_jobs s = map (\<lambda>j. if isActiveJobStatus (job_status j) then markFailed now INTERRUPTED j else j) jobs"
    by (simp add: s createJobRunner_def recovered_rows [OF d])
  have inactive: "\<not> isActiveJobStatus (job_status j)" if "j \<in> set (r_jobs s)" for j
    using that unfolding rows by (auto simp: isActiveJobStatus_def)
  have "map job_id (r_jobs s) = map job_id jobs" unfolding rows by (simp add: comp_def if_distrib cong: if_cong)
  moreover have "with_status st (r_jobs s) = []" if "st \<in> {Queued, Running}" for st
    using inactive that by (auto simp: with_status_def filter_empty_conv isActiveJobStatus_def)
  moreover have "in_turn (r_jobs s)"
    by (rule in_turn_idle) (use inactive in \<open>auto simp: isActiveJobStatus_def\<close>)
  ultimately show ?thesis using d
    by (simp add: runner_ok_def) (simp add: s createJobRunner_def)
qed

definition row_final :: "runner \<Rightarrow> job \<Rightarrow> bool" where
  "row_final s j \<longleftrightarrow> \<not> isActiveJobStatus (job_status j) \<and>
     (\<exists>i\<in>set (r_jobs s). job_id i = job_id j \<and> job_status i = job_status j \<and>
        job_finishedAt i = job_finishedAt j \<and> job_errorMessage i = job_errorMessage j \<and>
        job_startedAt i = job_startedAt j)"

section \<open>Finished rows stay as they are\<close>

lemma final_update:
  assumes "row_final s j" and "r_jobs s' = update_job jid f (r_jobs s)"
    and "\<And>i. i \<in> set (r_jobs s) \<Longrightarrow> job_id i = jid \<Longrightarrow> isActiveJobStatus (job_status i)"
  shows "row_final s' j"
proof -
  obtain i where i: "i \<in> set (r_jobs s)" "job_id i = job_id j" "job_status i = job_status j"
      "job_finishedAt i = job_finishedAt j" "job_errorMessage i = job_errorMessage j"
      "job_startedAt i = job_startedAt j" and fin: "\<not> isActiveJobStatus (job_status j)"
    using assms(1) unfolding row_final_def by blast
  then have "job_id i \<noteq> jid" using assms(3) by metis
  then have "i \<in> set (r_jobs s')" using i(1) unfolding assms(2) update_job_def
    by (auto simp: image_iff intro: bexI [of _ i])
  with i fin show ?thesis unfolding row_final_def by blast
qed

lemma final_same: "row_final s j \<Longrightarrow> set (r_jobs s) \<subseteq> set (r_jobs s') \<Longrightarrow> row_final s' j"
  unfolding row_final_def by blast

lemma status_of_id:
  assumes "distinct (map job_id (r_jobs s))" and "jid \<in> set (with_status st (r_jobs s))"
    and "i \<in> set (r_jobs s)" and "job_id i = jid"
  shows "job_status i = st"
  using one_status [OF assms(1,3), of st] assms(2,4) by simp

lemma final_pump:
  assumes "distinct (map job_id (r_jobs s))" and "with_status Queued (r_jobs s) = r_queue s" and "row_final s j"
  shows "row_final (pump now s) j"
proof (cases "r_current s = None \<and> r_queue s \<noteq> []")
  case False
  with assms(3) show ?thesis by (auto simp: pump_def split: list.split)
next
  case True
  then obtain nextId rest where q: "r_queue s = nextId # rest" "r_current s = None" by (cases "r_queue s") auto
  have "nextId \<in> set (with_status Queued (r_jobs s))" using assms(2) q by simp
  then have active: "isActiveJobStatus (job_status i)" if "i \<in> set (r_jobs s)" "job_id i = nextId" for i
    using status_of_id [OF assms(1)] that by (simp add: isActiveJobStatus_def)
  have "r_jobs (pump now s) = r_jobs s \<or> r_jobs (pump now s) = update_job nextId (markRunning now) (r_jobs s)"
    by (simp add: pump_def q Let_def)
  then show ?thesis
  proof
    assume "r_jobs (pump now s) = r_jobs s"
    then show ?thesis by (intro final_same [OF assms(3)]) simp
  next
    assume "r_jobs (pump now s) = update_job nextId (markRunning now) (r_jobs s)"
    then show ?thesis by (rule final_update [OF assms(3)]) (rule active)
  qed
qed

lemma final_settle:
  assumes ok: "runner_ok s" and fin: "row_final s j"
  shows "row_final (settle outcome now now' s) j"
proof (cases "r_current s")
  case None
  with fin show ?thesis by (simp add: settle_def)
next
  case (Some jid)
  let ?f = "case outcome of Inr result \<Rightarrow> markSucceeded now result | Inl message \<Rightarrow> markFailed now message"
  let ?s = "(change_row jid ?f s)\<lparr>r_current := None\<rparr>"
  obtain st where f: "sets_status ?f st" "st \<noteq> Queued"
    by (cases outcome) (use that [of FailedJob] that [of Succeeded] in auto)
  have d: "distinct (map job_id (r_jobs s))" and run: "jid \<in> set (with_status Running (r_jobs s))"
    using ok Some by (simp_all add: runner_ok_def)
  have active: "isActiveJobStatus (job_status i)" if "i \<in> set (r_jobs s)" "job_id i = jid" for i
    using status_of_id [OF d run that] by (simp add: isActiveJobStatus_def)
  have "row_final ?s j" by (rule final_update [OF fin _ active]) simp
  moreover have "jid \<notin> set (r_queue s)"
  proof
    assume "jid \<in> set (r_queue s)"
    then have "jid \<in> set (with_status Queued (r_jobs s))" using ok by (simp add: runner_ok_def)
    then obtain i where "i \<in> set (r_jobs s)" "job_id i = jid" "job_status i = Queued"
      by (auto simp: with_status_mem)
    with status_of_id [OF d run] show False by fastforce
  qed
  then have "with_status Queued (r_jobs ?s) = r_queue ?s"
    using with_status_other [OF f(1), of Queued jid "r_jobs s"] f(2) ok
    by (auto simp: runner_ok_def intro: filter_True)
  ultimately have "row_final (pump now' ?s) j"
    using d sets_status_ids [OF f(1)] by (intro final_pump) simp_all
  then show ?thesis by (simp add: settle_def Some Let_def)
qed

lemma final_enqueue:
  assumes ok: "runner_ok s" and fin: "row_final s j" and fresh: "jid \<notin> job_id ` set (r_jobs s)"
  shows "row_final (enqueue jid now now' params s) j"
  unfolding enqueue_def Let_def
  by (rule final_pump) (use ok fresh in \<open>auto simp: runner_ok_def insert_job_def with_status_def
      intro: final_same [OF fin]\<close>)

lemma final_cancel:
  assumes ok: "runner_ok s" and fin: "row_final s j"
  shows "row_final (snd (cancel jid now s)) j"
proof (cases "\<exists>i. getById jid (r_jobs s) = Some i \<and> job_status i = Queued")
  case False
  with fin show ?thesis by (auto simp: cancel_def split: option.split)
next
  case True
  then obtain i where i: "getById jid (r_jobs s) = Some i" "job_status i = Queued" by blast
  with getById_Some [OF i(1)] have q: "jid \<in> set (with_status Queued (r_jobs s))" by (auto simp: with_status_mem)
  have d: "distinct (map job_id (r_jobs s))" using ok by (simp add: runner_ok_def)
  have active: "isActiveJobStatus (job_status k)" if "k \<in> set (r_jobs s)" "job_id k = jid" for k
    using status_of_id [OF d q that] by (simp add: isActiveJobStatus_def)
  show ?thesis by (rule final_update [OF fin _ active]) (simp add: cancel_def i)
qed

lemma final_progress:
  assumes "row_final s j"
  shows "row_final (context_setProgress jid p s) j"
proof -
  obtain i where i: "i \<in> set (r_jobs s)" "job_id i = job_id j" "job_status i = job_status j"
      "job_finishedAt i = job_finishedAt j" "job_errorMessage i = job_errorMessage j"
      "job_startedAt i = job_startedAt j" and fin: "\<not> isActiveJobStatus (job_status j)"
    using assms unfolding row_final_def by blast
  let ?i = "if job_id i = jid then updateProgress p i else i"
  have "?i \<in> set (r_jobs (context_setProgress jid p s))"
    using i(1) by (simp add: context_setProgress_def update_job_def)
  moreover have "job_id ?i = job_id j \<and> job_status ?i = job_status j \<and> job_finishedAt ?i = job_finishedAt j \<and>
      job_errorMessage ?i = job_errorMessage j \<and> job_startedAt ?i = job_startedAt j"
    using i by (simp add: updateProgress_def)
  ultimately show ?thesis using fin unfolding row_final_def by blast
qed

lemma final_log: "row_final s j \<Longrightarrow> row_final (context_log entry s) j"
  by (simp add: row_final_def context_log_def)

lemma final_step: "runner_ok s \<Longrightarrow> runner_step s e s' \<Longrightarrow> row_final s j \<Longrightarrow> row_final s' j"
  by (erule runner_stepE)
    (auto intro: final_enqueue final_cancel final_settle final_progress final_log)

interpretation jobs: settled_forever fresh_runner runner_step runner_ok row_final
  by unfold_locales (auto intro: fresh_runner_ok runner_ok_step final_step)

section \<open>Properties\<close>

text \<open>
  C39 In every state that the runner can reach, at most one job is running and it is the current one, the
  queue is exactly the waiting rows in the order they were created, no job waits while the runner is
  idle, and behind a waiting job there are only waiting and cancelled ones: jobs run one at a time,
  first come, first served.
\<close>

theorem runner_serial:
  assumes "reachable fresh_runner runner_step s"
  shows "with_status Running (r_jobs s) = (case r_current s of None \<Rightarrow> [] | Some jid \<Rightarrow> [jid]) \<and>
    with_status Queued (r_jobs s) = r_queue s \<and>
    (r_current s = None \<longrightarrow> r_queue s = []) \<and>
    in_turn (r_jobs s)"
  using jobs.reachable_inv [OF assms] by (simp_all add: runner_ok_def)

definition sample_params :: enqueue_params where
  "sample_params = \<lparr>ep_type = BackupCreate, ep_createdByAdminId = None, ep_createdByLabel = ''admin'', ep_metadata = JNull\<rparr>"

definition sample_run :: runner where
  "sample_run = enqueue ''job_2'' 2 2 sample_params (enqueue ''job_1'' 1 1 sample_params (createJobRunner 0 [] []))"

lemma sample_run_reachable: "reachable fresh_runner runner_step sample_run"
proof -
  have "fresh_runner (createJobRunner 0 [] [])"
    unfolding fresh_runner_def by (intro exI [of _ 0] exI [of _ "[]"]) simp
  then have 0: "reachable fresh_runner runner_step (createJobRunner 0 [] [])" by (rule reachable.start)
  let ?s = "enqueue ''job_1'' 1 1 sample_params (createJobRunner 0 [] [])"
  have "''job_1'' \<notin> job_id ` set (r_jobs (createJobRunner 0 [] []))"
    by (simp add: createJobRunner_def recoverInterruptedJobs_def queryActiveRows_def)
  then have 1: "reachable fresh_runner runner_step ?s"
    using reachable.step [OF 0 step_enqueue] by blast
  have "map job_id (r_jobs ?s) = [''job_1'']" by code_simp
  then have "''job_2'' \<notin> job_id ` set (r_jobs ?s)" by (simp flip: set_map)
  then show ?thesis unfolding sample_run_def using reachable.step [OF 1 step_enqueue] by blast
qed

theorem runner_serial_witness:
  "r_queue sample_run = [''job_2''] \<and> with_status Running (r_jobs sample_run) = [''job_1'']"
proof -
  have "r_current sample_run = Some ''job_1''" "r_queue sample_run = [''job_2'']" by code_simp+
  with runner_serial [OF sample_run_reachable] show ?thesis by simp
qed

text \<open>
  A row that has reached a final status (succeeded, failed or cancelled) keeps its status, start, finish
  and error for ever, whatever is enqueued, cancelled, logged or settled later.
\<close>

theorem finished_rows_final:
  assumes "reachable fresh_runner runner_step s" and "path runner_step s events s'"
    and "j \<in> set (r_jobs s)" and "\<not> isActiveJobStatus (job_status j)"
  shows "\<exists>i\<in>set (r_jobs s'). job_id i = job_id j \<and> job_status i = job_status j \<and>
    job_finishedAt i = job_finishedAt j \<and> job_errorMessage i = job_errorMessage j \<and>
    job_startedAt i = job_startedAt j"
proof -
  have "row_final s j" using assms(3,4) unfolding row_final_def by blast
  from jobs.path_fact [OF assms(2) jobs.reachable_inv [OF assms(1)] this]
  show ?thesis unfolding row_final_def by blast
qed

text \<open>Settling: the closures of the current and the waiting jobs settle one after another.\<close>

fun settle_all :: "(string + json) list \<Rightarrow> int \<Rightarrow> runner \<Rightarrow> runner" where
  "settle_all [] now s = s"
| "settle_all (outcome # outcomes) now s = settle_all outcomes now (settle outcome now now s)"

lemma settle_next:
  assumes "runner_ok s" and "r_current s = Some jid"
  shows "r_current (settle outcome now now' s) = (case r_queue s of [] \<Rightarrow> None | n # _ \<Rightarrow> Some n)"
    and "r_queue (settle outcome now now' s) = tl (r_queue s)"
proof -
  have "r_pending s n \<noteq> None" if "r_queue s = n # rest" for n rest
  proof -
    have "n \<in> dom (r_pending s)" using assms(1) that by (simp add: runner_ok_def)
    then show ?thesis by blast
  qed
  then show "r_current (settle outcome now now' s) = (case r_queue s of [] \<Rightarrow> None | n # _ \<Rightarrow> Some n)"
    and "r_queue (settle outcome now now' s) = tl (r_queue s)"
    by (cases "r_queue s"; fastforce simp: settle_def assms(2) Let_def pump_def)+
qed

lemma settle_all_progress:
  "runner_ok s \<Longrightarrow> r_current s = Some jid \<Longrightarrow> k < length (r_queue s) \<Longrightarrow> length outcomes = Suc k \<Longrightarrow>
     r_current (settle_all outcomes now s) = Some (r_queue s ! k) \<and>
     r_queue (settle_all outcomes now s) = drop (Suc k) (r_queue s)"
proof (induction k arbitrary: s jid outcomes)
  case 0
  then obtain n rest a where q: "r_queue s = n # rest" "outcomes = [a]"
    by (cases "r_queue s"; cases outcomes) auto
  with settle_next [OF 0(1,2), of a now now] show ?case by simp
next
  case (Suc k)
  then obtain n rest a as where q: "r_queue s = n # rest" "outcomes = a # as"
    by (cases "r_queue s"; cases outcomes) auto
  let ?s = "settle a now now s"
  have "r_current ?s = Some n" "r_queue ?s = rest" using settle_next [OF Suc.prems(1,2), of a now now] q by simp_all
  with Suc.IH [of ?s n as] Suc.prems runner_ok_settle [OF Suc.prems(1)] q show ?case by simp
qed

lemma settle_all_ok: "runner_ok s \<Longrightarrow> runner_ok (settle_all outcomes now s)"
  by (induction outcomes arbitrary: s) (auto intro: runner_ok_settle)

text \<open>
  C40 No job starves: once the closures ahead of it have settled, however they did, the next waiting job is
  the one that runs; and when as many have settled as were running and waiting, no row is active.
\<close>

theorem waiting_jobs_run:
  assumes "reachable fresh_runner runner_step s" and "r_current s = Some jid"
    and "length outcomes = Suc k" and "k \<le> length (r_queue s)"
  shows "if k < length (r_queue s) then r_current (settle_all outcomes now s) = Some (r_queue s ! k)
    else filter (\<lambda>j. isActiveJobStatus (job_status j)) (r_jobs (settle_all outcomes now s)) = []"
proof (cases "k < length (r_queue s)")
  case True
  have ok: "runner_ok s" using assms(1) by (rule jobs.reachable_inv)
  from settle_all_progress [OF ok assms(2) True assms(3)] True show ?thesis by simp
next
  case False
  have ok: "runner_ok s" using assms(1) by (rule jobs.reachable_inv)
  have len: "length outcomes = Suc (length (r_queue s))" using assms(3,4) False by simp
  let ?s = "settle_all outcomes now s"
  have idle: "r_current ?s = None"
    using ok assms(2) len
  proof (induction outcomes arbitrary: s jid)
    case (Cons a as)
    note n = settle_next [OF Cons.prems(1,2), of a now now]
    show ?case
    proof (cases "r_queue s")
      case Nil
      with n Cons.prems(3) show ?thesis by simp
    next
      case (Cons q qs)
      with n Cons.IH [of "settle a now now s" q] Cons.prems runner_ok_settle [OF Cons.prems(1)]
      show ?thesis by simp
    qed
  qed simp
  have "runner_ok ?s" using ok by (rule settle_all_ok)
  with idle have "with_status Queued (r_jobs ?s) = []" "with_status Running (r_jobs ?s) = []"
    by (simp_all add: runner_ok_def)
  then have "filter (\<lambda>j. isActiveJobStatus (job_status j)) (r_jobs ?s) = []"
    by (auto simp: with_status_def filter_empty_conv isActiveJobStatus_def)
  with False show ?thesis by simp
qed

theorem waiting_jobs_run_witness:
  "r_current (settle_all [Inl ''disk full''] 5 sample_run) = Some ''job_2'' \<and>
   filter (\<lambda>j. isActiveJobStatus (job_status j)) (r_jobs (settle_all [Inl ''disk full'', Inr JNull] 5 sample_run)) = []"
proof -
  have c: "r_current sample_run = Some ''job_1''" and q: "r_queue sample_run = [''job_2'']" by code_simp+
  show ?thesis
    using waiting_jobs_run [OF sample_run_reachable c, of "[Inl ''disk full'']" 0 5]
      waiting_jobs_run [OF sample_run_reachable c, of "[Inl ''disk full'', Inr JNull]" 1 5] q by simp
qed

text \<open>
  Start-up recovery fails exactly the rows a previous process left queued or running, with the reason
  recorded, reports their ids, and changes no other row.
\<close>

theorem recovery_spec:
  assumes "distinct (map job_id jobs)"
  shows "recoverInterruptedJobs now jobs =
    (map job_id (filter (\<lambda>j. isActiveJobStatus (job_status j)) jobs),
     map (\<lambda>j. if isActiveJobStatus (job_status j)
               then j\<lparr>job_status := FailedJob, job_finishedAt := Some now, job_errorMessage := Some INTERRUPTED\<rparr>
               else j) jobs)"
  using recovered_rows [OF assms, of now]
  by (simp add: recoverInterruptedJobs_def queryActiveRows_def markFailed_def Let_def)

theorem recovery_spec_witness:
  "snd (recoverInterruptedJobs 7 (r_jobs sample_run)) =
     map (\<lambda>j. if isActiveJobStatus (job_status j)
               then j\<lparr>job_status := FailedJob, job_finishedAt := Some 7, job_errorMessage := Some INTERRUPTED\<rparr>
               else j) (r_jobs sample_run)"
proof -
  have "map job_id (r_jobs sample_run) = [''job_1'', ''job_2'']" by code_simp
  then have "distinct (map job_id (r_jobs sample_run))" by simp
  from recovery_spec [OF this] show ?thesis by simp
qed

lemma getById_update:
  "(\<And>j. job_id (f j) = job_id j) \<Longrightarrow> getById jid (update_job jid f jobs) = map_option f (getById jid jobs)"
  by (induction jobs) (auto simp: getById_def update_job_def)

text \<open>
  Cancelling succeeds exactly on a waiting job, which leaves the queue and gets the status cancelled
  while the current job goes on; on any other id it is a conflict and nothing changes.
\<close>

theorem cancel_spec:
  assumes "reachable fresh_runner runner_step s"
  shows "case service_cancel jid now s of
      (Inl (ec, _), s') \<Rightarrow> jid \<notin> set (r_queue s) \<and> ec = CONFLICT \<and> s' = s
    | (Inr _, s') \<Rightarrow> jid \<in> set (r_queue s) \<and> r_queue s' = remove1 jid (r_queue s) \<and>
        getById jid (r_jobs s') = map_option (markCancelled now ''Cancelled.'') (getById jid (r_jobs s)) \<and>
        r_current s' = r_current s"
proof -
  have ok: "runner_ok s" using assms by (rule jobs.reachable_inv)
  then have d: "distinct (map job_id (r_jobs s))" and q: "r_queue s = with_status Queued (r_jobs s)"
    by (simp_all add: runner_ok_def)
  show ?thesis
  proof (cases "getById jid (r_jobs s)")
    case None
    then have "jid \<notin> set (r_queue s)" by (auto simp: q with_status_mem getById_def find_None_iff)
    with None show ?thesis by (simp add: service_cancel_def cancel_def)
  next
    case (Some j)
    with getById_Some [OF Some] one_status [OF d, of j Queued]
    have "jid \<in> set (r_queue s) \<longleftrightarrow> job_status j = Queued" by (simp add: q)
    then show ?thesis using Some getById_update [of "markCancelled now ''Cancelled.''" jid "r_jobs s"]
      by (simp add: service_cancel_def cancel_def)
  qed
qed

theorem cancel_spec_witness:
  "case service_cancel ''job_2'' 9 sample_run of
      (Inl (ec, _), s') \<Rightarrow> ''job_2'' \<notin> set (r_queue sample_run) \<and> ec = CONFLICT \<and> s' = sample_run
    | (Inr _, s') \<Rightarrow> ''job_2'' \<in> set (r_queue sample_run) \<and> r_queue s' = remove1 ''job_2'' (r_queue sample_run) \<and>
        getById ''job_2'' (r_jobs s') =
          map_option (markCancelled 9 ''Cancelled.'') (getById ''job_2'' (r_jobs sample_run)) \<and>
        r_current s' = r_current sample_run"
  by (rule cancel_spec [OF sample_run_reachable])

theorem finished_rows_final_witness:
  "\<exists>i\<in>set (r_jobs (context_setProgress ''job_2'' 50 (snd (cancel ''job_2'' 3 sample_run)))).
    job_id i = ''job_2'' \<and> job_status i = Cancelled"
proof -
  let ?s = "snd (cancel ''job_2'' 3 sample_run)"
  have r: "reachable fresh_runner runner_step ?s"
    using reachable.step [OF sample_run_reachable step_cancel] .
  have p: "path runner_step ?s [ContextProgress ''job_2'' 50] (context_setProgress ''job_2'' 50 ?s)"
    using step_progress by blast
  let ?j = "\<lparr>job_id = ''job_2'', job_type = BackupCreate, job_status = Cancelled, job_progress = 0,
      job_createdByAdminId = None, job_createdByLabel = ''admin'', job_createdAt = 2, job_startedAt = None,
      job_finishedAt = Some 3, job_errorMessage = Some ''Cancelled.'', job_metadata = JNull\<rparr>"
  have "?j \<in> set (r_jobs ?s)" by code_simp
  from finished_rows_final [OF r p this] show ?thesis by (simp add: isActiveJobStatus_def) blast
qed

end
