(* ===== verification/Auth.thy ===== *)
theory Auth
  imports DockerApi "HOL-Library.AList"
begin

text \<open>
  Administrators, sessions and brute-force protection of the panel server
  (\<^verbatim>\<open>apps/server/src/modules/auth\<close> over the tables of migrations 1 to 3, with the audit log of
  \<^verbatim>\<open>platform/audit.ts\<close>).  A table is a list of rows in insertion order; its SQL statements are the
  functions below.  Times are milliseconds (the source stores their ISO text, which sorts alike).
  Argon2 and SHA-256 are the parameter \<open>crypto\<close>; random ids and tokens are arguments.
\<close>

section \<open>The audit log\<close>

datatype audit_result = AuditSuccess | AuditFailure

datatype detail_value = DText string | DNumber int | DBool bool | DNull

record audit_event =
  ae_actorAdminId :: "string option"
  ae_actorLabel :: string
  ae_action :: string
  ae_target :: "(string \<times> string) option"
  ae_result :: audit_result
  ae_errorCode :: "string option"
  ae_ip :: "string option"
  ae_userAgent :: "string option"
  ae_details :: "(string \<times> detail_value) list"

record audit_row =
  al_occurredAt :: int
  al_actorAdminId :: "string option"
  al_actorLabel :: string
  al_action :: string
  al_target :: "string option"
  al_result :: audit_result
  al_ip :: "string option"
  al_userAgent :: "string option"
  al_details :: "(string \<times> detail_value) list"

fun contains_text :: "string \<Rightarrow> string \<Rightarrow> bool" where
  "contains_text w s = (starts_with w s \<or> (case s of [] \<Rightarrow> False | _ # t \<Rightarrow> contains_text w t))"

declare contains_text.simps [simp del]

definition FORBIDDEN_DETAIL_KEYS :: "string list" where
  "FORBIDDEN_DETAIL_KEYS = [''password'', ''token'', ''secret'', ''hash'', ''credential'']"

definition secret_like_key :: "string \<Rightarrow> bool" where
  "secret_like_key key = list_ex (\<lambda>w. contains_text w (to_lower key)) FORBIDDEN_DETAIL_KEYS"

definition assertNoSecretLikeKeys :: "(string \<times> detail_value) list \<Rightarrow> string option" where
  "assertNoSecretLikeKeys details =
     (case find (\<lambda>(key, _). secret_like_key key) details of
        None \<Rightarrow> None
      | Some (key, _) \<Rightarrow> Some (''Refusing to write audit event: details key '' @ in_quotes key @
          '' looks like it might carry a secret. '' @
          ''Audit payloads may only carry non-sensitive, named fields (see platform/audit.ts).''))"

definition recordAuditEvent :: "int \<Rightarrow> audit_event \<Rightarrow> audit_row list \<Rightarrow> string + audit_row list" where
  "recordAuditEvent now event rows =
     (let details = AList.update ''errorCode''
            (case ae_errorCode event of None \<Rightarrow> DNull | Some e \<Rightarrow> DText e) (ae_details event)
      in case assertNoSecretLikeKeys details of
           Some problem \<Rightarrow> Inl problem
         | None \<Rightarrow> Inr (rows @
             [\<lparr>al_occurredAt = now, al_actorAdminId = ae_actorAdminId event,
               al_actorLabel = ae_actorLabel event, al_action = ae_action event,
               al_target = map_option (\<lambda>(type, tid). type @ '':'' @ tid) (ae_target event),
               al_result = ae_result event, al_ip = ae_ip event, al_userAgent = ae_userAgent event,
               al_details = details\<rparr>]))"

section \<open>The tables\<close>

datatype admin_role = Administrator

record admin_row =
  adm_id :: string
  adm_email :: string
  adm_passwordHash :: string
  adm_role :: admin_role
  adm_disabled :: bool
  adm_forcePasswordChange :: bool
  adm_createdAt :: int
  adm_updatedAt :: int

record session_row =
  ses_id :: string
  ses_adminId :: string
  ses_tokenHash :: string
  ses_csrfToken :: string
  ses_createdAt :: int
  ses_expiresAt :: int
  ses_lastSeenAt :: int
  ses_ipAddress :: "string option"
  ses_userAgent :: "string option"
  ses_revokedAt :: "int option"

record attempt_row =
  att_identifier :: string
  att_ipAddress :: string
  att_success :: bool
  att_attemptedAt :: int

record auth_db =
  db_admins :: "admin_row list"
  db_sessions :: "session_row list"
  db_attempts :: "attempt_row list"
  db_audit :: "audit_row list"

subsection \<open>Administrators (\<^verbatim>\<open>admins.repository.ts\<close>)\<close>

definition normalizeEmail :: "string \<Rightarrow> string" where
  "normalizeEmail email = to_lower (trim email)"

definition findByEmail :: "string \<Rightarrow> auth_db \<Rightarrow> admin_row option" where
  "findByEmail email db = find (\<lambda>a. adm_email a = normalizeEmail email) (db_admins db)"

definition findAdminById :: "string \<Rightarrow> auth_db \<Rightarrow> admin_row option" where
  "findAdminById aid db = find (\<lambda>a. adm_id a = aid) (db_admins db)"

definition countAdmins :: "auth_db \<Rightarrow> nat" where
  "countAdmins db = length (db_admins db)"

definition countEnabled :: "auth_db \<Rightarrow> nat" where
  "countEnabled db = length (filter (\<lambda>a. \<not> adm_disabled a) (db_admins db))"

definition new_admin :: "string \<Rightarrow> int \<Rightarrow> string \<Rightarrow> string \<Rightarrow> bool \<Rightarrow> admin_row" where
  "new_admin aid now email passwordHash force =
     \<lparr>adm_id = aid, adm_email = normalizeEmail email, adm_passwordHash = passwordHash,
      adm_role = Administrator, adm_disabled = False, adm_forcePasswordChange = force,
      adm_createdAt = now, adm_updatedAt = now\<rparr>"

text \<open>\<^verbatim>\<open>INSERT INTO admins\<close>; the unique index on the address makes a duplicate an error.\<close>

definition createAdmin :: "admin_row \<Rightarrow> auth_db \<Rightarrow> string + auth_db" where
  "createAdmin row db =
     (if list_ex (\<lambda>a. adm_email a = adm_email row) (db_admins db)
      then Inl ''UNIQUE constraint failed: admins.email''
      else Inr (db\<lparr>db_admins := db_admins db @ [row]\<rparr>))"

definition update_admins :: "string \<Rightarrow> (admin_row \<Rightarrow> admin_row) \<Rightarrow> auth_db \<Rightarrow> auth_db" where
  "update_admins aid f db =
     db\<lparr>db_admins := map (\<lambda>a. if adm_id a = aid then f a else a) (db_admins db)\<rparr>"

definition updateAdmin :: "int \<Rightarrow> string \<Rightarrow> bool option \<Rightarrow> admin_role option \<Rightarrow> auth_db \<Rightarrow> auth_db" where
  "updateAdmin now aid disabled role db =
     (case (disabled, role) of
        (None, None) \<Rightarrow> db
      | _ \<Rightarrow> update_admins aid (\<lambda>a. a\<lparr>
          adm_disabled := (case disabled of Some d \<Rightarrow> d | None \<Rightarrow> adm_disabled a),
          adm_role := (case role of Some r \<Rightarrow> r | None \<Rightarrow> adm_role a),
          adm_updatedAt := now\<rparr>) db)"

definition updatePassword :: "int \<Rightarrow> string \<Rightarrow> string \<Rightarrow> auth_db \<Rightarrow> auth_db" where
  "updatePassword now aid passwordHash db =
     update_admins aid (\<lambda>a. a\<lparr>adm_passwordHash := passwordHash, adm_forcePasswordChange := False,
       adm_updatedAt := now\<rparr>) db"

text \<open>Deleting an administrator deletes its sessions and clears it from the audit rows' actors.\<close>

definition deleteAdmin :: "string \<Rightarrow> auth_db \<Rightarrow> auth_db" where
  "deleteAdmin aid db =
     db\<lparr>db_admins := filter (\<lambda>a. adm_id a \<noteq> aid) (db_admins db),
        db_sessions := filter (\<lambda>s. ses_adminId s \<noteq> aid) (db_sessions db),
        db_audit := map (\<lambda>r. if al_actorAdminId r = Some aid then r\<lparr>al_actorAdminId := None\<rparr> else r)
          (db_audit db)\<rparr>"

subsection \<open>Sessions (\<^verbatim>\<open>sessions.repository.ts\<close>)\<close>

text \<open>\<^verbatim>\<open>INSERT INTO sessions\<close>, under the foreign key to its administrator and the unique token hash.\<close>

definition createSession :: "session_row \<Rightarrow> auth_db \<Rightarrow> string + auth_db" where
  "createSession row db =
     (if \<not> list_ex (\<lambda>a. adm_id a = ses_adminId row) (db_admins db) then Inl ''FOREIGN KEY constraint failed''
      else if list_ex (\<lambda>s. ses_tokenHash s = ses_tokenHash row) (db_sessions db)
        then Inl ''UNIQUE constraint failed: sessions.token_hash''
      else Inr (db\<lparr>db_sessions := db_sessions db @ [row]\<rparr>))"

definition findByTokenHash :: "string \<Rightarrow> auth_db \<Rightarrow> session_row option" where
  "findByTokenHash h db = find (\<lambda>s. ses_tokenHash s = h) (db_sessions db)"

definition update_sessions :: "(session_row \<Rightarrow> bool) \<Rightarrow> (session_row \<Rightarrow> session_row) \<Rightarrow> auth_db \<Rightarrow> auth_db" where
  "update_sessions p f db = db\<lparr>db_sessions := map (\<lambda>s. if p s then f s else s) (db_sessions db)\<rparr>"

definition touchSession :: "string \<Rightarrow> int \<Rightarrow> auth_db \<Rightarrow> auth_db" where
  "touchSession sid now db = update_sessions (\<lambda>s. ses_id s = sid) (\<lambda>s. s\<lparr>ses_lastSeenAt := now\<rparr>) db"

definition revokeSession :: "string \<Rightarrow> int \<Rightarrow> auth_db \<Rightarrow> auth_db" where
  "revokeSession sid now db =
     update_sessions (\<lambda>s. ses_id s = sid \<and> ses_revokedAt s = None) (\<lambda>s. s\<lparr>ses_revokedAt := Some now\<rparr>) db"

definition revocable :: "string \<Rightarrow> string option \<Rightarrow> session_row \<Rightarrow> bool" where
  "revocable aid except s =
     (ses_adminId s = aid \<and> ses_revokedAt s = None \<and> (case except of None \<Rightarrow> True | Some e \<Rightarrow> ses_id s \<noteq> e))"

definition revokeAllForAdmin :: "string \<Rightarrow> int \<Rightarrow> string option \<Rightarrow> auth_db \<Rightarrow> nat \<times> auth_db" where
  "revokeAllForAdmin aid now except db =
     (length (filter (revocable aid except) (db_sessions db)),
      update_sessions (revocable aid except) (\<lambda>s. s\<lparr>ses_revokedAt := Some now\<rparr>) db)"

definition deleteExpiredBefore :: "int \<Rightarrow> auth_db \<Rightarrow> auth_db" where
  "deleteExpiredBefore before db =
     db\<lparr>db_sessions := filter (\<lambda>s. \<not> ses_expiresAt s < before) (db_sessions db)\<rparr>"

subsection \<open>Login attempts (\<^verbatim>\<open>login-attempts.repository.ts\<close>)\<close>

definition recordAttempt :: "int \<Rightarrow> string \<Rightarrow> string \<Rightarrow> bool \<Rightarrow> auth_db \<Rightarrow> auth_db" where
  "recordAttempt now identifier ip success db =
     db\<lparr>db_attempts := db_attempts db @
       [\<lparr>att_identifier = identifier, att_ipAddress = ip, att_success = success, att_attemptedAt = now\<rparr>]\<rparr>"

definition countFailuresForIdentifierSince :: "string \<Rightarrow> int \<Rightarrow> auth_db \<Rightarrow> nat" where
  "countFailuresForIdentifierSince identifier since db =
     length (filter (\<lambda>a. att_identifier a = identifier \<and> \<not> att_success a \<and> since \<le> att_attemptedAt a)
       (db_attempts db))"

definition countFailuresForIpSince :: "string \<Rightarrow> int \<Rightarrow> auth_db \<Rightarrow> nat" where
  "countFailuresForIpSince ip since db =
     length (filter (\<lambda>a. att_ipAddress a = ip \<and> \<not> att_success a \<and> since \<le> att_attemptedAt a)
       (db_attempts db))"

definition clearFailuresForIdentifier :: "string \<Rightarrow> auth_db \<Rightarrow> auth_db" where
  "clearFailuresForIdentifier identifier db =
     db\<lparr>db_attempts := filter (\<lambda>a. \<not> (att_identifier a = identifier \<and> \<not> att_success a)) (db_attempts db)\<rparr>"

definition pruneAttemptsBefore :: "int \<Rightarrow> auth_db \<Rightarrow> auth_db" where
  "pruneAttemptsBefore before db =
     db\<lparr>db_attempts := filter (\<lambda>a. \<not> att_attemptedAt a < before) (db_attempts db)\<rparr>"

section \<open>The service (\<^verbatim>\<open>auth.service.ts\<close>)\<close>

record crypto =
  cr_verify :: "string \<Rightarrow> string \<Rightarrow> bool"
  cr_hash :: "string \<Rightarrow> string"
  cr_digest :: "string \<Rightarrow> string"

record session_config =
  sc_absoluteTtlHours :: int
  sc_idleTtlHours :: int

definition windowMinutes :: int where "windowMinutes = 15"
definition maxFailuresPerIdentifier :: nat where "maxFailuresPerIdentifier = 10"
definition maxFailuresPerIp :: nat where "maxFailuresPerIp = 30"

definition minutesAgo :: "int \<Rightarrow> int \<Rightarrow> int" where
  "minutesAgo minutes now = now - minutes * 60000"

definition hoursFromNow :: "int \<Rightarrow> int \<Rightarrow> int" where
  "hoursFromNow hours now = now + hours * 3600000"

record login_input =
  li_email :: string
  li_password :: string
  li_ipAddress :: string
  li_userAgent :: "string option"

definition isLockedOut :: "int \<Rightarrow> string \<Rightarrow> string \<Rightarrow> auth_db \<Rightarrow> bool" where
  "isLockedOut now identifier ip db =
     (let since = minutesAgo windowMinutes now
      in maxFailuresPerIdentifier \<le> countFailuresForIdentifierSince identifier since db \<or>
         maxFailuresPerIp \<le> countFailuresForIpSince ip since db)"

text \<open>
  An audit record is the last effect of every operation.  It is an error when its details are refused
  or when its actor is no administrator any more (a foreign key).
\<close>

definition audited :: "int \<Rightarrow> audit_event \<Rightarrow> 'a \<Rightarrow> auth_db \<Rightarrow> (string + 'a) \<times> auth_db" where
  "audited now event result db =
     (case recordAuditEvent now event (db_audit db) of
        Inl problem \<Rightarrow> (Inl problem, db)
      | Inr rows \<Rightarrow>
          if (case ae_actorAdminId event of None \<Rightarrow> True | Some aid \<Rightarrow> findAdminById aid db \<noteq> None)
          then (Inr result, db\<lparr>db_audit := rows\<rparr>)
          else (Inl ''FOREIGN KEY constraint failed'', db))"

definition auth_event ::
  "string option \<Rightarrow> string \<Rightarrow> string \<Rightarrow> audit_result \<Rightarrow> string option \<Rightarrow> string \<Rightarrow> string option \<Rightarrow> audit_event" where
  "auth_event adminId label action result errorCode ip userAgent =
     \<lparr>ae_actorAdminId = adminId, ae_actorLabel = label, ae_action = action, ae_target = None,
      ae_result = result, ae_errorCode = errorCode, ae_ip = Some ip, ae_userAgent = userAgent, ae_details = []\<rparr>"

text \<open>A login, up to the \<^verbatim>\<open>await\<close> of the password verification and from it on.\<close>

datatype login_stage = LockedOut | NoSuchAdmin | CheckPassword admin_row

record login_success =
  ls_admin :: admin_row
  ls_session :: session_row
  ls_token :: string

definition login_check :: "int \<Rightarrow> login_input \<Rightarrow> auth_db \<Rightarrow> login_stage" where
  "login_check now input db =
     (let identifier = normalizeEmail (li_email input) in
      if isLockedOut now identifier (li_ipAddress input) db then LockedOut
      else (case findByEmail identifier db of None \<Rightarrow> NoSuchAdmin | Some admin \<Rightarrow> CheckPassword admin))"

definition recordFailure ::
  "int \<Rightarrow> string \<Rightarrow> login_input \<Rightarrow> string \<Rightarrow> string option \<Rightarrow> auth_db \<Rightarrow> (string + login_success option) \<times> auth_db" where
  "recordFailure now identifier input errorCode adminId db =
     audited now
       (auth_event adminId identifier ''auth.login.failure'' AuditFailure (Some errorCode)
          (li_ipAddress input) (li_userAgent input))
       None (recordAttempt now identifier (li_ipAddress input) False db)"

definition new_session :: "crypto \<Rightarrow> session_config \<Rightarrow> int \<Rightarrow> string \<Rightarrow> string \<Rightarrow> string \<Rightarrow> admin_row \<Rightarrow> login_input \<Rightarrow> session_row" where
  "new_session cr config now sid token csrf admin input =
     \<lparr>ses_id = sid, ses_adminId = adm_id admin, ses_tokenHash = cr_digest cr token, ses_csrfToken = csrf,
      ses_createdAt = now, ses_expiresAt = hoursFromNow (sc_absoluteTtlHours config) now,
      ses_lastSeenAt = now, ses_ipAddress = Some (li_ipAddress input), ses_userAgent = li_userAgent input,
      ses_revokedAt = None\<rparr>"

definition login_complete ::
  "crypto \<Rightarrow> session_config \<Rightarrow> int \<Rightarrow> string \<Rightarrow> string \<Rightarrow> string \<Rightarrow> login_input \<Rightarrow> login_stage \<Rightarrow> auth_db \<Rightarrow>
   (string + login_success option) \<times> auth_db" where
  "login_complete cr config now sid token csrf input stage db =
     (let identifier = normalizeEmail (li_email input) in
      case stage of
        LockedOut \<Rightarrow> recordFailure now identifier input ''RATE_LIMITED'' None db
      | NoSuchAdmin \<Rightarrow> recordFailure now identifier input ''INVALID_CREDENTIALS'' None db
      | CheckPassword admin \<Rightarrow>
          if \<not> cr_verify cr (adm_passwordHash admin) (li_password input) then
            recordFailure now identifier input ''INVALID_CREDENTIALS'' (Some (adm_id admin)) db
          else if adm_disabled admin then
            recordFailure now identifier input ''ACCOUNT_DISABLED'' (Some (adm_id admin)) db
          else
            (let db = clearFailuresForIdentifier identifier
                   (recordAttempt now identifier (li_ipAddress input) True db);
                 session = new_session cr config now sid token csrf admin input
             in case createSession session db of
                  Inl problem \<Rightarrow> (Inl problem, db)
                | Inr db' \<Rightarrow>
                    audited now
                      (auth_event (Some (adm_id admin)) (adm_email admin) ''auth.login.success'' AuditSuccess None
                         (li_ipAddress input) (li_userAgent input))
                      (Some \<lparr>ls_admin = admin, ls_session = session, ls_token = token\<rparr>) db'))"

definition login ::
  "crypto \<Rightarrow> session_config \<Rightarrow> int \<Rightarrow> string \<Rightarrow> string \<Rightarrow> string \<Rightarrow> login_input \<Rightarrow> auth_db \<Rightarrow>
   (string + login_success option) \<times> auth_db" where
  "login cr config now sid token csrf input db =
     login_complete cr config now sid token csrf input (login_check now input db) db"

datatype invalid_reason = Unknown | Revoked | Expired | Idle | AdminUnusable

definition validateSession ::
  "crypto \<Rightarrow> session_config \<Rightarrow> int \<Rightarrow> string \<Rightarrow> auth_db \<Rightarrow> (invalid_reason + session_row \<times> admin_row) \<times> auth_db" where
  "validateSession cr config now token db =
     (case findByTokenHash (cr_digest cr token) db of
        None \<Rightarrow> (Inl Unknown, db)
      | Some session \<Rightarrow>
          if ses_revokedAt session \<noteq> None then (Inl Revoked, db)
          else if ses_expiresAt session \<le> now then (Inl Expired, db)
          else if hoursFromNow (sc_idleTtlHours config) (ses_lastSeenAt session) \<le> now then (Inl Idle, db)
          else
            (case findAdminById (ses_adminId session) db of
               None \<Rightarrow> (Inl AdminUnusable, db)
             | Some admin \<Rightarrow>
                 if adm_disabled admin then (Inl AdminUnusable, db)
                 else (Inr (session, admin), touchSession (ses_id session) now db)))"

definition logout :: "int \<Rightarrow> session_row \<Rightarrow> admin_row \<Rightarrow> string \<Rightarrow> string option \<Rightarrow> auth_db \<Rightarrow> (string + unit) \<times> auth_db" where
  "logout now session admin ip userAgent db =
     audited now
       (auth_event (Some (adm_id admin)) (adm_email admin) ''auth.logout'' AuditSuccess None ip userAgent)
       () (revokeSession (ses_id session) now db)"

text \<open>\<^verbatim>\<open>changePassword\<close>: the result is the updated row, or \<^const>\<open>None\<close> for a wrong current password.\<close>

definition changePassword ::
  "crypto \<Rightarrow> int \<Rightarrow> admin_row \<Rightarrow> session_row \<Rightarrow> string \<Rightarrow> string \<Rightarrow> string \<Rightarrow> string option \<Rightarrow> auth_db \<Rightarrow>
   (string + admin_row option) \<times> auth_db" where
  "changePassword cr now admin currentSession currentPassword newPassword ip userAgent db =
     (if \<not> cr_verify cr (adm_passwordHash admin) currentPassword then
        audited now
          (auth_event (Some (adm_id admin)) (adm_email admin) ''auth.password_change'' AuditFailure
             (Some ''INVALID_CREDENTIALS'') ip userAgent)
          None db
      else
        (let newHash = cr_hash cr newPassword;
             (revokedCount, db) = revokeAllForAdmin (adm_id admin) now (Some (ses_id currentSession))
               (updatePassword now (adm_id admin) newHash db);
             updated = (case findAdminById (adm_id admin) db of
                 Some a \<Rightarrow> a | None \<Rightarrow> admin\<lparr>adm_passwordHash := newHash\<rparr>)
         in audited now
              ((auth_event (Some (adm_id admin)) (adm_email admin) ''auth.password_change'' AuditSuccess
                  None ip userAgent)\<lparr>ae_details := [(''otherSessionsRevoked'', DNumber (int revokedCount))]\<rparr>)
              (Some updated) db))"

definition pruneExpired :: "int \<Rightarrow> auth_db \<Rightarrow> auth_db" where
  "pruneExpired now db =
     pruneAttemptsBefore (minutesAgo (windowMinutes * 4) now) (deleteExpiredBefore now db)"

end
