(* ===== verification/AuthRoutes.thy ===== *)
theory AuthRoutes
  imports Auth
begin

text \<open>
  The guards in front of the panel's routes (\<^verbatim>\<open>auth.middleware.ts\<close>), the routes that manage
  administrators (\<^verbatim>\<open>admins.routes.ts\<close>), the login routes (\<^verbatim>\<open>auth.routes.ts\<close>) and the creation of the
  first administrator (\<^verbatim>\<open>bootstrap.ts\<close>).  The parser of URLs is a parameter, \<open>url_host\<close>; a header that
  is absent or repeated is \<^const>\<open>None\<close>.
\<close>

section \<open>Requests and errors\<close>

type_synonym app_error = "error_code \<times> string"

record web_request =
  wr_method :: string
  wr_cookie :: "string option"
  wr_secFetchSite :: "string option"
  wr_origin :: "string option"
  wr_hostHeader :: "string option"
  wr_csrfHeader :: "string option"
  wr_ip :: string
  wr_userAgent :: "string option"

record auth_context =
  ac_session :: session_row
  ac_admin :: admin_row

section \<open>Roles\<close>

datatype permission =
    AdminsManage | MailManage | SecurityManage | DockerManage | MaintenanceManage | McpManage

definition PERMISSIONS :: "permission list" where
  "PERMISSIONS = [AdminsManage, MailManage, SecurityManage, DockerManage, MaintenanceManage, McpManage]"

fun ROLE_PERMISSIONS :: "admin_role \<Rightarrow> permission list" where
  "ROLE_PERMISSIONS Administrator = PERMISSIONS"

definition roleHasPermission :: "admin_role \<Rightarrow> permission \<Rightarrow> bool" where
  "roleHasPermission role permission = (permission \<in> set (ROLE_PERMISSIONS role))"

section \<open>Guards\<close>

definition STATE_CHANGING_METHODS :: "string list" where
  "STATE_CHANGING_METHODS = [''POST'', ''PUT'', ''PATCH'', ''DELETE'']"

text \<open>\<^verbatim>\<open>hostHeader.replace(/:(?:80|443)$/, '')\<close>.\<close>

definition without_default_port :: "string \<Rightarrow> string" where
  "without_default_port hdr =
     (if ends_with '':80'' hdr then take (length hdr - 3) hdr
      else if ends_with '':443'' hdr then take (length hdr - 4) hdr
      else hdr)"

definition isSameOriginRequest :: "(string \<Rightarrow> string option) \<Rightarrow> web_request \<Rightarrow> bool" where
  "isSameOriginRequest url_host request =
     (case wr_secFetchSite request of
        Some site \<Rightarrow> site = ''same-origin''
      | None \<Rightarrow>
          (case (wr_origin request, wr_hostHeader request) of
             (Some origin, Some hostHeader) \<Rightarrow>
               (case url_host origin of
                  None \<Rightarrow> False
                | Some originHost \<Rightarrow>
                    to_lower originHost = to_lower hostHeader \<or>
                    to_lower originHost = to_lower (without_default_port hostHeader))
           | _ \<Rightarrow> False))"

definition requireSession ::
  "crypto \<Rightarrow> session_config \<Rightarrow> int \<Rightarrow> bool \<Rightarrow> web_request \<Rightarrow> auth_db \<Rightarrow> (app_error + auth_context) \<times> auth_db" where
  "requireSession cr config now allowPasswordChangeRequired request db =
     (case wr_cookie request of
        None \<Rightarrow> (Inl (UNAUTHENTICATED, ''Authentication is required.''), db)
      | Some token \<Rightarrow>
          (case validateSession cr config now token db of
             (Inl _, db) \<Rightarrow> (Inl (UNAUTHENTICATED, ''Authentication is required.''), db)
           | (Inr (session, admin), db) \<Rightarrow>
               if adm_forcePasswordChange admin \<and> \<not> allowPasswordChangeRequired then
                 (Inl (PASSWORD_CHANGE_REQUIRED, ''You must change your password before continuing.''), db)
               else (Inr \<lparr>ac_session = session, ac_admin = admin\<rparr>, db)))"

definition timingSafeEqualString :: "crypto \<Rightarrow> string \<Rightarrow> string \<Rightarrow> bool" where
  "timingSafeEqualString cr a b = (cr_digest cr a = cr_digest cr b)"

definition requireCsrf ::
  "crypto \<Rightarrow> (string \<Rightarrow> string option) \<Rightarrow> web_request \<Rightarrow> auth_context \<Rightarrow> app_error option" where
  "requireCsrf cr url_host request auth =
     (if wr_method request \<notin> set STATE_CHANGING_METHODS then None
      else if \<not> isSameOriginRequest url_host request then Some (FORBIDDEN, ''Cross-site request rejected.'')
      else
        (case wr_csrfHeader request of
           None \<Rightarrow> Some (FORBIDDEN, ''Missing CSRF token.'')
         | Some header \<Rightarrow>
             if length header = 0 then Some (FORBIDDEN, ''Missing CSRF token.'')
             else if \<not> timingSafeEqualString cr header (ses_csrfToken (ac_session auth))
               then Some (FORBIDDEN, ''Invalid CSRF token.'')
             else None))"

definition requirePermission :: "permission \<Rightarrow> auth_context \<Rightarrow> app_error option" where
  "requirePermission permission auth =
     (if roleHasPermission (adm_role (ac_admin auth)) permission then None
      else Some (FORBIDDEN, ''You are not permitted to perform this action.''))"

text \<open>The guards of the administrators' routes, in their order.\<close>

definition admin_guards ::
  "crypto \<Rightarrow> session_config \<Rightarrow> (string \<Rightarrow> string option) \<Rightarrow> int \<Rightarrow> web_request \<Rightarrow> auth_db \<Rightarrow>
   (app_error + auth_context) \<times> auth_db" where
  "admin_guards cr config url_host now request db =
     (case requireSession cr config now False request db of
        (Inl e, db) \<Rightarrow> (Inl e, db)
      | (Inr auth, db) \<Rightarrow>
          (case requireCsrf cr url_host request auth of
             Some e \<Rightarrow> (Inl e, db)
           | None \<Rightarrow>
               (case requirePermission AdminsManage auth of
                  Some e \<Rightarrow> (Inl e, db)
                | None \<Rightarrow> (Inr auth, db))))"

section \<open>Managing administrators\<close>

definition assertNotSelf :: "string \<Rightarrow> string \<Rightarrow> string \<Rightarrow> app_error option" where
  "assertNotSelf actorId targetId action =
     (if actorId = targetId
      then Some (FORBIDDEN, ''You cannot '' @ action @ '' your own administrator account.'') else None)"

definition assertNotLastEnabledAdmin :: "auth_db \<Rightarrow> admin_row \<Rightarrow> app_error option" where
  "assertNotLastEnabledAdmin db target =
     (if adm_disabled target then None
      else if countEnabled db \<le> 1
        then Some (CONFLICT, ''At least one enabled administrator must remain.'')
      else None)"

text \<open>An error that is not the application's own (a failed statement, a refused audit record).\<close>

definition as_internal :: "(string + 'a) \<times> auth_db \<Rightarrow> (app_error + 'a) \<times> auth_db" where
  "as_internal r =
     (case r of (Inl problem, db) \<Rightarrow> (Inl (INTERNAL, problem), db) | (Inr x, db) \<Rightarrow> (Inr x, db))"

definition admin_event ::
  "auth_context \<Rightarrow> web_request \<Rightarrow> string \<Rightarrow> string \<Rightarrow> (string \<times> detail_value) list \<Rightarrow> audit_event" where
  "admin_event auth request action targetId details =
     \<lparr>ae_actorAdminId = Some (adm_id (ac_admin auth)), ae_actorLabel = adm_email (ac_admin auth),
      ae_action = action, ae_target = Some (''admin'', targetId), ae_result = AuditSuccess,
      ae_errorCode = None, ae_ip = Some (wr_ip request), ae_userAgent = wr_userAgent request,
      ae_details = details\<rparr>"

definition create_admin_route ::
  "crypto \<Rightarrow> int \<Rightarrow> string \<Rightarrow> web_request \<Rightarrow> auth_context \<Rightarrow> string \<Rightarrow> string \<Rightarrow> auth_db \<Rightarrow>
   (app_error + admin_row) \<times> auth_db" where
  "create_admin_route cr now aid request auth email password db =
     (if findByEmail email db \<noteq> None then
        (Inl (CONFLICT, ''An administrator with that email already exists.''), db)
      else
        (let row = new_admin aid now email (cr_hash cr password) True in
         case createAdmin row db of
           Inl problem \<Rightarrow> (Inl (INTERNAL, problem), db)
         | Inr db \<Rightarrow>
             as_internal (audited now
               (admin_event auth request ''admin.create'' aid [(''email'', DText (adm_email row))]) row db)))"

definition update_admin_route ::
  "int \<Rightarrow> web_request \<Rightarrow> auth_context \<Rightarrow> string \<Rightarrow> bool option \<Rightarrow> admin_role option \<Rightarrow> auth_db \<Rightarrow>
   (app_error + admin_row) \<times> auth_db" where
  "update_admin_route now request auth targetId disabled role db =
     (case findAdminById targetId db of
        None \<Rightarrow> (Inl (NOT_FOUND, ''That administrator does not exist.''), db)
      | Some target \<Rightarrow>
          (case (if disabled = Some True
                 then (case assertNotSelf (adm_id (ac_admin auth)) (adm_id target) ''disable'' of
                         Some e \<Rightarrow> Some e
                       | None \<Rightarrow> assertNotLastEnabledAdmin db target)
                 else None) of
             Some e \<Rightarrow> (Inl e, db)
           | None \<Rightarrow>
               (let db = updateAdmin now (adm_id target) disabled role db;
                    updated = (case findAdminById (adm_id target) db of Some a \<Rightarrow> a | None \<Rightarrow> target)
                in as_internal (audited now
                     (admin_event auth request ''admin.update'' (adm_id updated)
                       [(''disabled'', DBool (adm_disabled updated)), (''role'', DText ''administrator'')])
                     updated db))))"

definition delete_admin_route ::
  "int \<Rightarrow> web_request \<Rightarrow> auth_context \<Rightarrow> string \<Rightarrow> auth_db \<Rightarrow> (app_error + unit) \<times> auth_db" where
  "delete_admin_route now request auth targetId db =
     (case findAdminById targetId db of
        None \<Rightarrow> (Inl (NOT_FOUND, ''That administrator does not exist.''), db)
      | Some target \<Rightarrow>
          (case (case assertNotSelf (adm_id (ac_admin auth)) (adm_id target) ''delete'' of
                   Some e \<Rightarrow> Some e
                 | None \<Rightarrow> assertNotLastEnabledAdmin db target) of
             Some e \<Rightarrow> (Inl e, db)
           | None \<Rightarrow>
               as_internal (audited now
                 (admin_event auth request ''admin.delete'' (adm_id target) [(''email'', DText (adm_email target))])
                 () (deleteAdmin (adm_id target) db))))"

section \<open>Passwords and the first administrator\<close>

definition PASSWORD_MIN_LENGTH :: nat where "PASSWORD_MIN_LENGTH = 12"
definition PASSWORD_MAX_LENGTH :: nat where "PASSWORD_MAX_LENGTH = 256"

definition NewPasswordSchema :: "string \<Rightarrow> bool" where
  "NewPasswordSchema p = (PASSWORD_MIN_LENGTH \<le> length p \<and> length p \<le> PASSWORD_MAX_LENGTH)"

definition SubmittedPasswordSchema :: "string \<Rightarrow> bool" where
  "SubmittedPasswordSchema p = (1 \<le> length p \<and> length p \<le> PASSWORD_MAX_LENGTH)"

definition ChangePasswordRequestSchema :: "string \<Rightarrow> string \<Rightarrow> bool" where
  "ChangePasswordRequestSchema current new =
     (SubmittedPasswordSchema current \<and> NewPasswordSchema new \<and> current \<noteq> new)"

text \<open>The routes of the signed-in administrator's own account, behind their guards.\<close>

definition logout_route ::
  "crypto \<Rightarrow> session_config \<Rightarrow> (string \<Rightarrow> string option) \<Rightarrow> int \<Rightarrow> web_request \<Rightarrow> auth_db \<Rightarrow>
   (app_error + unit) \<times> auth_db" where
  "logout_route cr config url_host now request db =
     (case requireSession cr config now True request db of
        (Inl e, db) \<Rightarrow> (Inl e, db)
      | (Inr auth, db) \<Rightarrow>
          (case requireCsrf cr url_host request auth of
             Some e \<Rightarrow> (Inl e, db)
           | None \<Rightarrow>
               as_internal (logout now (ac_session auth) (ac_admin auth) (wr_ip request) (wr_userAgent request) db)))"

definition change_password_route ::
  "crypto \<Rightarrow> session_config \<Rightarrow> (string \<Rightarrow> string option) \<Rightarrow> int \<Rightarrow> web_request \<Rightarrow> string \<Rightarrow> string \<Rightarrow> auth_db \<Rightarrow>
   (app_error + admin_row) \<times> auth_db" where
  "change_password_route cr config url_host now request current new db =
     (case requireSession cr config now True request db of
        (Inl e, db) \<Rightarrow> (Inl e, db)
      | (Inr auth, db) \<Rightarrow>
          (case requireCsrf cr url_host request auth of
             Some e \<Rightarrow> (Inl e, db)
           | None \<Rightarrow>
               if \<not> ChangePasswordRequestSchema current new then
                 (Inl (VALIDATION_FAILED, ''The request body failed validation.''), db)
               else
                 (case as_internal (changePassword cr now (ac_admin auth) (ac_session auth) current new
                     (wr_ip request) (wr_userAgent request) db) of
                    (Inl e, db) \<Rightarrow> (Inl e, db)
                  | (Inr None, db) \<Rightarrow> (Inl (INVALID_CREDENTIALS, ''Current password is incorrect.''), db)
                  | (Inr (Some admin), db) \<Rightarrow> (Inr admin, db))))"

datatype bootstrap_result = AlreadyThere | NotConfigured | PolicyRefused | CreatedAdmin admin_row

definition bootstrapFirstAdmin ::
  "crypto \<Rightarrow> int \<Rightarrow> string \<Rightarrow> string option \<Rightarrow> string option \<Rightarrow> auth_db \<Rightarrow>
   (string + bootstrap_result) \<times> auth_db" where
  "bootstrapFirstAdmin cr now aid email password db =
     (if 0 < countAdmins db then (Inr AlreadyThere, db)
      else
        (case (email, password) of
           (Some e, Some p) \<Rightarrow>
             if \<not> NewPasswordSchema p then (Inr PolicyRefused, db)
             else
               (let row = new_admin aid now e (cr_hash cr p) True in
                case createAdmin row db of
                  Inl problem \<Rightarrow> (Inl problem, db)
                | Inr db' \<Rightarrow>
                    (case audited now
                       \<lparr>ae_actorAdminId = Some aid, ae_actorLabel = adm_email row,
                        ae_action = ''admin.bootstrap_created'', ae_target = Some (''admin'', aid),
                        ae_result = AuditSuccess, ae_errorCode = None, ae_ip = None, ae_userAgent = None,
                        ae_details = []\<rparr> (CreatedAdmin row) db' of
                       (Inl problem, _) \<Rightarrow> (Inl problem, db)
                     | (Inr x, db'') \<Rightarrow> (Inr x, db'')))
         | _ \<Rightarrow> (Inr NotConfigured, db)))"

end
