(* ===== verification/AuthProperties.thy ===== *)
theory AuthProperties
  imports AuthRoutes Transitions
begin

text \<open>
  What the authentication of the panel guarantees: the decision of a login, the bound on guesses, the
  guards, and, over the machine of all its operations in any interleaving, that an enabled
  administrator remains and that a session that ended never comes back.
\<close>

section \<open>Audit records of this module are never refused\<close>

lemma contains_text_Nil [simp]: "contains_text (c # w) [] = False"
  by (subst contains_text.simps) (simp add: starts_with_def)

lemma auth_keys_harmless:
  "\<not> secret_like_key ''errorCode''" "\<not> secret_like_key ''otherSessionsRevoked''"
  "\<not> secret_like_key ''email''" "\<not> secret_like_key ''disabled''" "\<not> secret_like_key ''role''"
  by code_simp+

lemma update_keys: "(k, v) \<in> set (AList.update a x xs) \<Longrightarrow> k = a \<or> (k, v) \<in> set xs"
  by (induction xs) (auto split: if_splits)

definition harmless :: "audit_event \<Rightarrow> bool" where
  "harmless event = list_all (\<lambda>(k, _). \<not> secret_like_key k) (ae_details event)"

lemma recordAuditEvent_harmless:
  assumes "harmless event"
  shows "\<exists>row. recordAuditEvent now event rows = Inr (rows @ [row])"
proof -
  let ?details = "AList.update ''errorCode'' (case ae_errorCode event of None \<Rightarrow> DNull | Some e \<Rightarrow> DText e) (ae_details event)"
  have "\<not> secret_like_key k" if "(k, v) \<in> set ?details" for k v
    using update_keys [OF that] assms auth_keys_harmless(1) by (auto simp: harmless_def list_all_iff)
  then have "find (\<lambda>(key, _). secret_like_key key) ?details = None"
    by (auto simp: find_None_iff)
  then show ?thesis by (simp add: recordAuditEvent_def assertNoSecretLikeKeys_def Let_def)
qed

lemma audited_harmless:
  assumes "harmless event"
    and "case ae_actorAdminId event of None \<Rightarrow> True | Some aid \<Rightarrow> findAdminById aid db \<noteq> None"
  shows "\<exists>row. audited now event result db = (Inr result, db\<lparr>db_audit := db_audit db @ [row]\<rparr>)"
  using recordAuditEvent_harmless [OF assms(1), of now "db_audit db"] assms(2)
  by (auto simp: audited_def)

text \<open>Whatever becomes of the record, only the audit log changes.\<close>

lemma audited_keeps [simp]:
  "db_admins (snd (audited now event result db)) = db_admins db"
  "db_sessions (snd (audited now event result db)) = db_sessions db"
  "db_attempts (snd (audited now event result db)) = db_attempts db"
  by (simp_all add: audited_def split: sum.split)

lemma auth_event_harmless [simp]: "harmless (auth_event aid label action r e ip ua)"
  by (simp add: harmless_def auth_event_def)

lemma auth_event_actor [simp]: "ae_actorAdminId (auth_event aid label action r e ip ua) = aid"
  by (simp add: auth_event_def)

section \<open>The decision of a login\<close>

definition may_log_in :: "crypto \<Rightarrow> int \<Rightarrow> login_input \<Rightarrow> auth_db \<Rightarrow> admin_row option" where
  "may_log_in cr now input db =
     (if isLockedOut now (normalizeEmail (li_email input)) (li_ipAddress input) db then None
      else
        (case findByEmail (normalizeEmail (li_email input)) db of
           Some admin \<Rightarrow>
             if cr_verify cr (adm_passwordHash admin) (li_password input) \<and> \<not> adm_disabled admin
             then Some admin else None
         | None \<Rightarrow> None))"

lemma find_mem: "find P xs = Some x \<Longrightarrow> x \<in> set xs \<and> P x"
  by (auto simp: find_Some_iff)

lemma findAdminById_mem: "a \<in> set (db_admins db) \<Longrightarrow> findAdminById (adm_id a) db \<noteq> None"
  by (auto simp: findAdminById_def find_None_iff)

lemma findAdminById_cong: "db_admins db = db_admins db' \<Longrightarrow> findAdminById aid db = findAdminById aid db'"
  by (simp add: findAdminById_def)

lemma recordAttempt_admins [simp]:
  "db_admins (recordAttempt now i ip succ db) = db_admins db"
  "db_sessions (recordAttempt now i ip succ db) = db_sessions db"
  "db_audit (recordAttempt now i ip succ db) = db_audit db"
  by (simp_all add: recordAttempt_def)

lemma clearFailures_keeps [simp]:
  "db_admins (clearFailuresForIdentifier i db) = db_admins db"
  "db_sessions (clearFailuresForIdentifier i db) = db_sessions db"
  "db_audit (clearFailuresForIdentifier i db) = db_audit db"
  by (simp_all add: clearFailuresForIdentifier_def)

lemma recordFailure_result:
  assumes "case aid of None \<Rightarrow> True | Some a \<Rightarrow> findAdminById a db \<noteq> None"
  shows "\<exists>row. recordFailure now i input ec aid db =
    (Inr None, (recordAttempt now i (li_ipAddress input) False db)\<lparr>db_audit := db_audit db @ [row]\<rparr>)"
proof -
  have "case aid of None \<Rightarrow> True
      | Some a \<Rightarrow> findAdminById a (recordAttempt now i (li_ipAddress input) False db) \<noteq> None"
    using assms findAdminById_cong [of "recordAttempt now i (li_ipAddress input) False db" db]
    by (auto split: option.splits)
  then show ?thesis
    using audited_harmless [of "auth_event aid i ''auth.login.failure'' AuditFailure (Some ec)
        (li_ipAddress input) (li_userAgent input)"
        "recordAttempt now i (li_ipAddress input) False db" now None]
    by (simp add: recordFailure_def)
qed

lemma login_refused:
  assumes "may_log_in cr now input db = None"
  shows "\<exists>row. login cr config now sid token csrf input db =
    (Inr None, (recordAttempt now (normalizeEmail (li_email input)) (li_ipAddress input) False db)
      \<lparr>db_audit := db_audit db @ [row]\<rparr>)"
proof -
  let ?i = "normalizeEmail (li_email input)"
  have "\<exists>ec aid. (case aid of None \<Rightarrow> True | Some a \<Rightarrow> findAdminById a db \<noteq> None) \<and>
      login cr config now sid token csrf input db = recordFailure now ?i input ec aid db"
  proof (cases "isLockedOut now ?i (li_ipAddress input) db")
    case True
    then show ?thesis
      by (intro exI [of _ "''RATE_LIMITED''"] exI [of _ None])
        (simp add: login_def login_check_def login_complete_def Let_def)
  next
    case unlocked: False
    show ?thesis
    proof (cases "findByEmail ?i db")
      case None
      with unlocked show ?thesis
        by (intro exI [of _ "''INVALID_CREDENTIALS''"] exI [of _ None])
          (simp add: login_def login_check_def login_complete_def Let_def)
    next
      case (Some admin)
      then have "admin \<in> set (db_admins db)" unfolding findByEmail_def by (auto dest: find_mem)
      note actor = findAdminById_mem [OF this]
      from Some unlocked assms have "\<not> cr_verify cr (adm_passwordHash admin) (li_password input) \<or> adm_disabled admin"
        by (auto simp: may_log_in_def split: if_splits)
      with Some unlocked actor show ?thesis
        by (intro exI [of _ "if cr_verify cr (adm_passwordHash admin) (li_password input)
              then ''ACCOUNT_DISABLED'' else ''INVALID_CREDENTIALS''"] exI [of _ "Some (adm_id admin)"])
          (simp add: login_def login_check_def login_complete_def Let_def)
    qed
  qed
  then show ?thesis using recordFailure_result by metis
qed


text \<open>A first administrator and the plain crypto of the examples.\<close>

definition ann :: admin_row where
  "ann = new_admin ''a1'' 1000 ''Ann@x.org'' ''secret-ann'' False"

definition ann_db :: auth_db where
  "ann_db = \<lparr>db_admins = [ann], db_sessions = [], db_attempts = [], db_audit = []\<rparr>"

definition plain_crypto :: crypto where
  "plain_crypto = \<lparr>cr_verify = (=), cr_hash = id, cr_digest = id\<rparr>"

definition two_hours :: session_config where
  "two_hours = \<lparr>sc_absoluteTtlHours = 12, sc_idleTtlHours = 2\<rparr>"

definition ann_login :: login_input where
  "ann_login = \<lparr>li_email = '' ANN@x.org'', li_password = ''secret-ann'', li_ipAddress = ''10.0.0.9'',
     li_userAgent = None\<rparr>"

lemma may_log_in_ann: "may_log_in plain_crypto 5000 ann_login ann_db = Some ann" by code_simp


section \<open>Guessing passwords\<close>

text \<open>Logins one after the other, each with the stage it reached before its password verification.\<close>

fun run_logins ::
  "crypto \<Rightarrow> session_config \<Rightarrow> (int \<times> string \<times> string \<times> string \<times> login_input) list \<Rightarrow> auth_db \<Rightarrow>
   (login_stage \<times> (string + login_success option)) list" where
  "run_logins cr config [] db = []"
| "run_logins cr config ((now, sid, token, csrf, input) # logins) db =
     (let (result, db') = login cr config now sid token csrf input db
      in (login_check now input db, result) # run_logins cr config logins db')"

definition checks_password :: "login_stage \<times> 'a \<Rightarrow> bool" where
  "checks_password r = (case fst r of CheckPassword _ \<Rightarrow> True | _ \<Rightarrow> False)"

definition within_window :: "string \<Rightarrow> int \<Rightarrow> int \<times> string \<times> string \<times> string \<times> login_input \<Rightarrow> bool" where
  "within_window i T = (\<lambda>(now, _, _, _, input).
     normalizeEmail (li_email input) = i \<and> T \<le> now \<and> now \<le> T + windowMinutes * 60000)"

lemma length_filter_mono: "(\<And>x. x \<in> set xs \<Longrightarrow> P x \<Longrightarrow> Q x) \<Longrightarrow> length (filter P xs) \<le> length (filter Q xs)"
  by (induction xs) (auto intro: le_SucI)

lemma failures_since_mono:
  "since \<le> T \<Longrightarrow> countFailuresForIdentifierSince i T db \<le> countFailuresForIdentifierSince i since db"
  unfolding countFailuresForIdentifierSince_def by (rule length_filter_mono) auto

lemma recordFailure_attempts:
  "db_attempts (snd (recordFailure now i input ec aid db)) =
   db_attempts db @ [\<lparr>att_identifier = i, att_ipAddress = li_ipAddress input, att_success = False, att_attemptedAt = now\<rparr>]"
  by (simp add: recordFailure_def) (simp add: recordAttempt_def)

lemma failed_login_counts:
  assumes "login cr config now sid token csrf input db = (Inr None, db')"
    and "normalizeEmail (li_email input) = i" and "T \<le> now"
  shows "countFailuresForIdentifierSince i T db' = Suc (countFailuresForIdentifierSince i T db)"
proof -
  have "\<exists>ec aid. recordFailure now i input ec aid db = (Inr None, db')"
    using assms(1,2)
    by (auto simp: login_def login_complete_def Let_def audited_def split: login_stage.splits if_splits sum.splits)
  then obtain ec aid where "db' = snd (recordFailure now i input ec aid db)" by (metis snd_conv)
  then show ?thesis
    using assms(3) recordFailure_attempts [of now i input ec aid db]
    by (simp add: countFailuresForIdentifierSince_def)
qed

lemma checked_login_not_locked:
  assumes "checks_password (login_check now input db, r)" and "within_window i T (now, sid, token, csrf, input)"
  shows "countFailuresForIdentifierSince i T db < maxFailuresPerIdentifier"
proof -
  have "\<not> isLockedOut now i (li_ipAddress input) db"
    using assms by (auto simp: checks_password_def login_check_def within_window_def Let_def)
  then have "countFailuresForIdentifierSince i (minutesAgo windowMinutes now) db < maxFailuresPerIdentifier"
    by (simp add: isLockedOut_def Let_def)
  moreover have "minutesAgo windowMinutes now \<le> T"
    using assms(2) by (simp add: within_window_def minutesAgo_def)
  ultimately show ?thesis using failures_since_mono le_less_trans by blast
qed

lemma guesses_from:
  assumes "list_all (within_window i T) logins"
    and "list_all (\<lambda>r. snd r = Inr None) (run_logins cr config logins db)"
  shows "length (filter checks_password (run_logins cr config logins db)) + countFailuresForIdentifierSince i T db
    \<le> max maxFailuresPerIdentifier (countFailuresForIdentifierSince i T db)"
  using assms
proof (induction logins arbitrary: db)
  case (Cons l logins)
  obtain now sid token csrf input where l: "l = (now, sid, token, csrf, input)" by (cases l) auto
  obtain result db' where r: "login cr config now sid token csrf input db = (result, db')" by force
  have w: "within_window i T (now, sid, token, csrf, input)" using Cons.prems(1) l by simp
  have n: "countFailuresForIdentifierSince i T db' = Suc (countFailuresForIdentifierSince i T db)"
    using failed_login_counts [of cr config now sid token csrf input db db' i T] Cons.prems r l w
    by (auto simp: within_window_def)
  have ih: "length (filter checks_password (run_logins cr config logins db')) +
      countFailuresForIdentifierSince i T db' \<le> max maxFailuresPerIdentifier (countFailuresForIdentifierSince i T db')"
    using Cons.IH [of db'] Cons.prems l r by simp
  show ?case
  proof (cases "checks_password (login_check now input db, result)")
    case True
    with checked_login_not_locked [OF this w] show ?thesis
      using ih n l r by (simp add: max_def split: if_splits)
  next
    case False
    then show ?thesis using ih n l r by (simp add: max_def split: if_splits)
  qed
qed simp


definition wrong_login :: "int \<times> string \<times> string \<times> string \<times> login_input" where
  "wrong_login = (7, ''s'', ''t'', ''c'', ann_login\<lparr>li_password := ''guess''\<rparr>)"


section \<open>The guards\<close>

lemma validateSession_cases:
  assumes "validateSession cr config now token db = (Inr (session, admin), db')"
  shows "session \<in> set (db_sessions db)" "ses_tokenHash session = cr_digest cr token"
    "ses_revokedAt session = None" "now < ses_expiresAt session"
    "now < hoursFromNow (sc_idleTtlHours config) (ses_lastSeenAt session)"
    "admin \<in> set (db_admins db)" "adm_id admin = ses_adminId session" "\<not> adm_disabled admin"
    "db' = touchSession (ses_id session) now db"
  using assms
  by (auto simp: validateSession_def findByTokenHash_def findAdminById_def
      split: option.splits if_splits dest: find_mem)

lemma validateSession_refused: "validateSession cr config now token db = (Inl e, db') \<Longrightarrow> db' = db"
  by (auto simp: validateSession_def split: option.splits if_splits)

definition csrf_checked :: "crypto \<Rightarrow> (string \<Rightarrow> string option) \<Rightarrow> web_request \<Rightarrow> session_row \<Rightarrow> bool" where
  "csrf_checked cr url_host request session =
     (isSameOriginRequest url_host request \<and>
      (case wr_csrfHeader request of None \<Rightarrow> False
       | Some header \<Rightarrow> cr_digest cr header = cr_digest cr (ses_csrfToken session)))"

text \<open>
  C38 A request passes the guards of the administrators' routes only with the token of a stored session
  that is neither revoked nor past its lifetime nor idle, of a stored administrator who is enabled and
  owes no password change; a request that changes state must moreover come from the same origin and
  carry the session's CSRF token.  The guards change nothing but that session's last use.
\<close>

theorem admin_guards_sound:
  assumes "admin_guards cr config url_host now request db = (Inr auth, db')"
  shows "\<exists>token. wr_cookie request = Some token \<and>
    ac_session auth \<in> set (db_sessions db) \<and> ses_tokenHash (ac_session auth) = cr_digest cr token \<and>
    ses_revokedAt (ac_session auth) = None \<and> now < ses_expiresAt (ac_session auth) \<and>
    now < hoursFromNow (sc_idleTtlHours config) (ses_lastSeenAt (ac_session auth)) \<and>
    ac_admin auth \<in> set (db_admins db) \<and> adm_id (ac_admin auth) = ses_adminId (ac_session auth) \<and>
    \<not> adm_disabled (ac_admin auth) \<and> \<not> adm_forcePasswordChange (ac_admin auth) \<and>
    (wr_method request \<notin> set STATE_CHANGING_METHODS \<or> csrf_checked cr url_host request (ac_session auth)) \<and>
    db' = touchSession (ses_id (ac_session auth)) now db"
proof -
  obtain db1 where s: "requireSession cr config now False request db = (Inr auth, db1)"
    and c: "requireCsrf cr url_host request auth = None" and d: "db' = db1"
    using assms by (auto simp: admin_guards_def split: sum.splits option.splits prod.splits)
  from s obtain token where t: "wr_cookie request = Some token"
    and v: "validateSession cr config now token db = (Inr (ac_session auth, ac_admin auth), db1)"
    and f: "\<not> adm_forcePasswordChange (ac_admin auth)"
    by (auto simp: requireSession_def split: option.splits sum.splits prod.splits if_splits)
  from c have "wr_method request \<notin> set STATE_CHANGING_METHODS \<or> csrf_checked cr url_host request (ac_session auth)"
    by (auto simp: requireCsrf_def csrf_checked_def timingSafeEqualString_def split: option.splits if_splits)
  with validateSession_cases [OF v] t f d show ?thesis by auto
qed

definition ann_session :: session_row where
  "ann_session = new_session plain_crypto two_hours 5000 ''s1'' ''tok'' ''csrf'' ann ann_login"

definition ann_request :: web_request where
  "ann_request = \<lparr>wr_method = ''POST'', wr_cookie = Some ''tok'', wr_secFetchSite = None,
     wr_origin = Some ''https://panel.x.org'', wr_hostHeader = Some ''Panel.x.org:443'',
     wr_csrfHeader = Some ''csrf'', wr_ip = ''10.0.0.9'', wr_userAgent = None\<rparr>"

definition url_host_ex :: "string \<Rightarrow> string option" where
  "url_host_ex s = (if starts_with ''https://'' s then Some (drop 8 s) else None)"

lemma admin_guards_sound_witness:
  "\<exists>token. wr_cookie ann_request = Some token \<and> ses_tokenHash ann_session = cr_digest plain_crypto token \<and>
     csrf_checked plain_crypto url_host_ex ann_request ann_session"
proof -
  have "admin_guards plain_crypto two_hours url_host_ex 6000 ann_request (ann_db\<lparr>db_sessions := [ann_session]\<rparr>) =
      (Inr \<lparr>ac_session = ann_session, ac_admin = ann\<rparr>,
       touchSession ''s1'' 6000 (ann_db\<lparr>db_sessions := [ann_session]\<rparr>))"
    by code_simp
  from admin_guards_sound [OF this] show ?thesis
    by (auto simp: ann_request_def STATE_CHANGING_METHODS_def)
qed

end
