(* ===== verification/AuthMachine.thy ===== *)
theory AuthMachine
  imports AuthProperties
begin

text \<open>
  All operations of the authentication module over one database, in any interleaving: a login in two
  stages (the verification of the password is awaited between them), requests, the account and
  administrators' routes, housekeeping, the first administrator, and the clock.  Operations take
  whatever actor and session they were handed, however stale.
\<close>

section \<open>The machine\<close>

record auth_machine =
  am_now :: int
  am_db :: auth_db
  am_pending :: "(login_input \<times> login_stage) list"
  am_issued :: "string set"

datatype auth_move =
    Clock | LoginBegins login_input | LoginEnds "login_input \<times> login_stage" string
  | Request string | LogsOut session_row admin_row | ChangesPassword admin_row session_row string string
  | CreatesAdmin auth_context string string string | UpdatesAdmin auth_context string "bool option" "admin_role option"
  | DeletesAdmin auth_context string | Housekeeping | Bootstraps string "string option" "string option"

text \<open>Random identifiers and tokens differ from those in use; digests of tokens are never issued twice.\<close>

inductive auth_step ::
  "crypto \<Rightarrow> session_config \<Rightarrow> auth_machine \<Rightarrow> auth_move \<Rightarrow> auth_machine \<Rightarrow> bool"
  for cr config where
  clock: "am_now s \<le> now \<Longrightarrow> auth_step cr config s Clock (s\<lparr>am_now := now\<rparr>)"
| login_begins: "auth_step cr config s (LoginBegins input)
    (s\<lparr>am_pending := am_pending s @ [(input, login_check (am_now s) input (am_db s))]\<rparr>)"
| login_ends: "(input, stage) \<in> set (am_pending s) \<Longrightarrow> cr_digest cr token \<notin> am_issued s \<Longrightarrow>
    \<not> list_ex (\<lambda>r. ses_id r = sid) (db_sessions (am_db s)) \<Longrightarrow>
    auth_step cr config s (LoginEnds (input, stage) token)
      (s\<lparr>am_db := snd (login_complete cr config (am_now s) sid token csrf input stage (am_db s)),
         am_pending := remove1 (input, stage) (am_pending s),
         am_issued := insert (cr_digest cr token) (am_issued s)\<rparr>)"
| request: "auth_step cr config s (Request token)
    (s\<lparr>am_db := snd (validateSession cr config (am_now s) token (am_db s))\<rparr>)"
| logs_out: "auth_step cr config s (LogsOut session admin)
    (s\<lparr>am_db := snd (logout (am_now s) session admin ip ua (am_db s))\<rparr>)"
| changes_password: "auth_step cr config s (ChangesPassword admin session current new)
    (s\<lparr>am_db := snd (changePassword cr (am_now s) admin session current new ip ua (am_db s))\<rparr>)"
| creates_admin: "\<not> list_ex (\<lambda>a. adm_id a = aid) (db_admins (am_db s)) \<Longrightarrow>
    auth_step cr config s (CreatesAdmin auth aid email password)
      (s\<lparr>am_db := snd (create_admin_route cr (am_now s) aid req auth email password (am_db s))\<rparr>)"
| updates_admin: "auth_step cr config s (UpdatesAdmin auth target disabled role)
    (s\<lparr>am_db := snd (update_admin_route (am_now s) req auth target disabled role (am_db s))\<rparr>)"
| deletes_admin: "auth_step cr config s (DeletesAdmin auth target)
    (s\<lparr>am_db := snd (delete_admin_route (am_now s) req auth target (am_db s))\<rparr>)"
| housekeeping: "auth_step cr config s Housekeeping (s\<lparr>am_db := pruneExpired (am_now s) (am_db s)\<rparr>)"
| bootstraps: "\<not> list_ex (\<lambda>a. adm_id a = aid) (db_admins (am_db s)) \<Longrightarrow>
    auth_step cr config s (Bootstraps aid email password)
      (s\<lparr>am_db := snd (bootstrapFirstAdmin cr (am_now s) aid email password (am_db s))\<rparr>)"

inductive_cases auth_stepE: "auth_step cr config s e s'"

definition empty_machine :: "auth_machine \<Rightarrow> bool" where
  "empty_machine s = (am_db s = \<lparr>db_admins = [], db_sessions = [], db_attempts = [], db_audit = []\<rparr> \<and>
     am_pending s = [] \<and> am_issued s = {})"

section \<open>What an operation may do to the two tables\<close>

text \<open>Rows of a session keep everything but their last use and their revocation, which is final.\<close>

definition session_ages :: "session_config \<Rightarrow> int \<Rightarrow> session_row \<Rightarrow> session_row \<Rightarrow> bool" where
  "session_ages config now r r' =
     (ses_id r' = ses_id r \<and> ses_tokenHash r' = ses_tokenHash r \<and> ses_expiresAt r' = ses_expiresAt r \<and>
      (ses_revokedAt r \<noteq> None \<longrightarrow> ses_revokedAt r' \<noteq> None) \<and>
      (ses_lastSeenAt r' \<noteq> ses_lastSeenAt r \<longrightarrow>
        ses_revokedAt r = None \<and> now < ses_expiresAt r \<and>
        now < hoursFromNow (sc_idleTtlHours config) (ses_lastSeenAt r)))"

definition sessions_age :: "session_config \<Rightarrow> int \<Rightarrow> session_row list \<Rightarrow> session_row list \<Rightarrow> bool" where
  "sessions_age config now xs ys =
     (\<exists>keep f. ys = map f (filter keep xs) \<and> (\<forall>r \<in> set xs. session_ages config now r (f r)))"

lemma session_ages_refl [simp]: "session_ages config now r r"
  by (simp add: session_ages_def)

lemma sessions_age_refl [simp]: "sessions_age config now xs xs"
  unfolding sessions_age_def by (rule exI [of _ "\<lambda>_. True"], rule exI [of _ id]) simp

lemma sessions_age_map:
  "(\<And>r. r \<in> set xs \<Longrightarrow> session_ages config now r (f r)) \<Longrightarrow> sessions_age config now xs (map f xs)"
  unfolding sessions_age_def by (rule exI [of _ "\<lambda>_. True"], rule exI [of _ f]) simp

lemma sessions_age_filter: "sessions_age config now xs (filter keep xs)"
  unfolding sessions_age_def by (rule exI [of _ keep], rule exI [of _ id]) simp

text \<open>What the first table owes: identities stay distinct, and an enabled row remains if there was one.\<close>

definition enabled :: "admin_row list \<Rightarrow> nat" where
  "enabled admins = length (filter (\<lambda>a. \<not> adm_disabled a) admins)"

definition admins_kept :: "admin_row list \<Rightarrow> admin_row list \<Rightarrow> bool" where
  "admins_kept xs ys =
     (distinct (map adm_id xs) \<longrightarrow> distinct (map adm_id ys) \<and> (0 < enabled xs \<longrightarrow> 0 < enabled ys))"

lemma countEnabled_enabled: "countEnabled db = enabled (db_admins db)"
  by (simp add: countEnabled_def enabled_def)

lemma admins_kept_refl [simp]: "admins_kept xs xs" by (simp add: admins_kept_def)


lemma admins_kept_append:
  "\<not> list_ex (\<lambda>a. adm_id a = adm_id row) xs \<Longrightarrow> admins_kept xs (xs @ [row])"
  by (auto simp: admins_kept_def enabled_def list_ex_iff)

lemma enabled_map: "(\<And>a. a \<in> set xs \<Longrightarrow> \<not> adm_disabled a \<Longrightarrow> \<not> adm_disabled (g a)) \<Longrightarrow> enabled xs \<le> enabled (map g xs)"
  unfolding enabled_def by (induction xs) (auto intro: le_SucI)

lemma enabled_update_one:
  assumes "distinct (map adm_id xs)"
  shows "enabled xs \<le> Suc (enabled (map (\<lambda>a. if adm_id a = aid then f a else a) xs))"
  using assms
proof (induction xs)
  case (Cons a xs)
  show ?case
  proof (cases "adm_id a = aid")
    case True
    with Cons.prems have "map (\<lambda>a. if adm_id a = aid then f a else a) xs = xs" by (auto simp: map_idI image_iff intro!: map_idI)
    then have "enabled (map (\<lambda>a. if adm_id a = aid then f a else a) xs) = enabled xs" by (rule arg_cong)
    with True show ?thesis by (simp add: enabled_def)
  qed (use Cons in \<open>simp add: enabled_def\<close>)
qed (simp add: enabled_def)

lemma enabled_delete_one:
  assumes "distinct (map adm_id xs)"
  shows "enabled xs \<le> Suc (enabled (filter (\<lambda>a. adm_id a \<noteq> aid) xs))"
  using assms
proof (induction xs)
  case (Cons a xs)
  show ?case
  proof (cases "adm_id a = aid")
    case True
    with Cons.prems have "filter (\<lambda>a. adm_id a \<noteq> aid) xs = xs" by (auto simp: filter_id_conv image_iff)
    with True show ?thesis by (simp add: enabled_def)
  qed (use Cons in \<open>simp add: enabled_def\<close>)
qed (simp add: enabled_def)

lemma ids_of_update [simp]:
  "(\<And>a. adm_id (f a) = adm_id a) \<Longrightarrow>
   map adm_id (map (\<lambda>a. if adm_id a = aid then f a else a) xs) = map adm_id xs"
  by simp

section \<open>What each operation does\<close>

lemma as_internal_db [simp]: "snd (as_internal r) = snd r"
  by (auto simp: as_internal_def split: prod.split sum.split)

lemma login_complete_sessions:
  "db_sessions (snd (login_complete cr config now sid token csrf input stage db)) = db_sessions db \<or>
   (\<exists>admin. db_sessions (snd (login_complete cr config now sid token csrf input stage db)) =
     db_sessions db @ [new_session cr config now sid token csrf admin input])"
  by (auto simp: login_complete_def recordFailure_def createSession_def Let_def split: login_stage.split)

lemma login_complete_admins [simp]:
  "db_admins (snd (login_complete cr config now sid token csrf input stage db)) = db_admins db"
  by (auto simp: login_complete_def recordFailure_def createSession_def Let_def split: login_stage.split)

lemma touchSession_ages:
  assumes "distinct (map ses_id xs)" "r \<in> set xs" "ses_revokedAt r = None" "now < ses_expiresAt r"
    "now < hoursFromNow (sc_idleTtlHours config) (ses_lastSeenAt r)"
  shows "sessions_age config now xs (map (\<lambda>q. if ses_id q = ses_id r then q\<lparr>ses_lastSeenAt := now\<rparr> else q) xs)"
proof (rule sessions_age_map)
  fix q assume "q \<in> set xs"
  then have "ses_id q = ses_id r \<longrightarrow> q = r" using assms(1,2) by (metis distinct_map inj_onD)
  then show "session_ages config now q (if ses_id q = ses_id r then q\<lparr>ses_lastSeenAt := now\<rparr> else q)"
    using assms by (auto simp: session_ages_def)
qed

lemma validateSession_ages:
  assumes "distinct (map ses_id (db_sessions db))"
  shows "sessions_age config now (db_sessions db) (db_sessions (snd (validateSession cr config now token db)))"
proof (cases "fst (validateSession cr config now token db)")
  case (Inl e)
  then have "snd (validateSession cr config now token db) = db"
    using validateSession_refused [of cr config now token db e] by (simp add: prod_eq_iff)
  then show ?thesis by simp
next
  case (Inr p)
  then obtain session admin where "validateSession cr config now token db =
      (Inr (session, admin), snd (validateSession cr config now token db))"
    by (cases p) (simp add: prod_eq_iff)
  note v = validateSession_cases [OF this]
  show ?thesis
    unfolding v(9) touchSession_def update_sessions_def
    using touchSession_ages [OF assms v(1,3,4,5)] by simp
qed

lemma validateSession_admins [simp]:
  "db_admins (snd (validateSession cr config now token db)) = db_admins db"
  by (simp add: validateSession_def touchSession_def update_sessions_def split: option.split)

lemma revoke_ages:
  "(\<And>r. p r \<Longrightarrow> ses_revokedAt r = None) \<Longrightarrow> sessions_age config now (db_sessions db)
     (db_sessions (update_sessions p (\<lambda>r. r\<lparr>ses_revokedAt := Some t\<rparr>) db))"
  unfolding update_sessions_def by (simp, rule sessions_age_map) (simp add: session_ages_def)

lemma logout_ages:
  "sessions_age config now (db_sessions db) (db_sessions (snd (logout t session admin ip ua db)))"
  unfolding logout_def audited_keeps revokeSession_def by (rule revoke_ages) simp

lemma logout_admins [simp]: "db_admins (snd (logout t session admin ip ua db)) = db_admins db"
  by (simp add: logout_def revokeSession_def update_sessions_def)

lemma update_admins_sessions [simp]: "db_sessions (update_admins aid f db) = db_sessions db"
  by (simp add: update_admins_def)

lemma changePassword_ages:
  "sessions_age config now (db_sessions db) (db_sessions (snd (changePassword cr t admin session current new ip ua db)))"
proof (cases "cr_verify cr (adm_passwordHash admin) current")
  case True
  have "sessions_age config now (db_sessions (updatePassword t (adm_id admin) (cr_hash cr new) db))
    (db_sessions (update_sessions (revocable (adm_id admin) (Some (ses_id session)))
      (\<lambda>r. r\<lparr>ses_revokedAt := Some t\<rparr>) (updatePassword t (adm_id admin) (cr_hash cr new) db)))"
    by (rule revoke_ages) (simp add: revocable_def)
  with True show ?thesis
    by (simp add: changePassword_def revokeAllForAdmin_def updatePassword_def Let_def)
qed (simp add: changePassword_def)

lemma admins_kept_map:
  assumes "\<And>a. adm_id (g a) = adm_id a" "\<And>a. a \<in> set xs \<Longrightarrow> \<not> adm_disabled a \<Longrightarrow> \<not> adm_disabled (g a)"
  shows "admins_kept xs (map g xs)"
  using enabled_map [of xs g] assms by (auto simp: admins_kept_def comp_def)

lemma changePassword_admins:
  "admins_kept (db_admins db) (db_admins (snd (changePassword cr t admin session current new ip ua db)))"
proof (cases "cr_verify cr (adm_passwordHash admin) current")
  case True
  then show ?thesis
    by (simp add: changePassword_def revokeAllForAdmin_def updatePassword_def update_admins_def
        update_sessions_def Let_def admins_kept_map)
qed (simp add: changePassword_def)

lemma updateAdmin_admins:
  assumes "disabled = Some True \<and> (\<exists>a \<in> set (db_admins db). adm_id a = aid \<and> \<not> adm_disabled a) \<longrightarrow>
    1 < countEnabled db"
  shows "admins_kept (db_admins db) (db_admins (updateAdmin now aid disabled role db))"
proof -
  let ?f = "\<lambda>a. a\<lparr>adm_disabled := (case disabled of Some d \<Rightarrow> d | None \<Rightarrow> adm_disabled a),
    adm_role := (case role of Some r \<Rightarrow> r | None \<Rightarrow> adm_role a), adm_updatedAt := now\<rparr>"
  let ?g = "\<lambda>a. if adm_id a = aid then ?f a else a"
  have ids: "adm_id (?g a) = adm_id a" for a by simp
  have "admins_kept (db_admins db) (map ?g (db_admins db))"
  proof (cases "disabled = Some True \<and> (\<exists>a \<in> set (db_admins db). adm_id a = aid \<and> \<not> adm_disabled a)")
    case True
    have "map adm_id (map ?g (db_admins db)) = map adm_id (db_admins db)" by simp
    then have ids': "distinct (map adm_id (db_admins db)) \<Longrightarrow> distinct (map adm_id (map ?g (db_admins db)))"
      by (simp only:)
    from True assms have "1 < enabled (db_admins db)" by (simp add: countEnabled_enabled)
    then show ?thesis
      unfolding admins_kept_def
      by (intro impI conjI) (erule ids', drule enabled_update_one [of _ aid ?f], linarith)
  next
    case False
    show ?thesis by (rule admins_kept_map [OF ids]) (use False in \<open>auto split: option.split\<close>)
  qed
  then show ?thesis
    by (cases disabled; cases role) (simp_all add: updateAdmin_def update_admins_def cong: if_cong)
qed

lemma updateAdmin_sessions [simp]: "db_sessions (updateAdmin now aid disabled role db) = db_sessions db"
  by (simp add: updateAdmin_def split: option.split)


lemma findAdminById_unique:
  "findAdminById aid db = Some target \<Longrightarrow> distinct (map adm_id (db_admins db)) \<Longrightarrow>
   a \<in> set (db_admins db) \<Longrightarrow> adm_id a = aid \<Longrightarrow> a = target"
  unfolding findAdminById_def by (auto dest!: find_mem simp: distinct_map inj_on_def)

lemma findAdminById_id: "findAdminById aid db = Some target \<Longrightarrow> adm_id target = aid"
  unfolding findAdminById_def by (auto dest: find_mem)

lemma assertNotLast_None:
  "assertNotLastEnabledAdmin db target = None \<Longrightarrow> \<not> adm_disabled target \<Longrightarrow> 1 < countEnabled db"
  by (simp add: assertNotLastEnabledAdmin_def split: if_splits)

lemma update_route_admins:
  "admins_kept (db_admins db) (db_admins (snd (update_admin_route now req auth targetId disabled role db)))"
proof (cases "distinct (map adm_id (db_admins db))")
  case True
  have "db_admins (snd (update_admin_route now req auth targetId disabled role db)) = db_admins db \<or>
      (db_admins (snd (update_admin_route now req auth targetId disabled role db)) =
         db_admins (updateAdmin now targetId disabled role db) \<and>
       (\<exists>target. findAdminById targetId db = Some target \<and>
         (disabled = Some True \<longrightarrow> assertNotLastEnabledAdmin db target = None)))"
    by (auto simp: update_admin_route_def Let_def dest: findAdminById_id split: option.split if_splits)
  moreover have "admins_kept (db_admins db) (db_admins (updateAdmin now targetId disabled role db))"
    if t: "findAdminById targetId db = Some target"
      and last: "disabled = Some True \<longrightarrow> assertNotLastEnabledAdmin db target = None" for target
    by (rule updateAdmin_admins) (use findAdminById_unique [OF t True] assertNotLast_None last in blast)
  ultimately show ?thesis by (elim disjE conjE exE) simp_all
qed (simp add: admins_kept_def)

lemma update_route_sessions [simp]:
  "db_sessions (snd (update_admin_route now req auth targetId disabled role db)) = db_sessions db"
  by (simp add: update_admin_route_def Let_def split: option.split)

lemma delete_route_cases:
  "snd (delete_admin_route now req auth targetId db) = db \<or>
   (\<exists>target. findAdminById targetId db = Some target \<and> assertNotLastEnabledAdmin db target = None \<and>
      db_admins (snd (delete_admin_route now req auth targetId db)) =
        filter (\<lambda>a. adm_id a \<noteq> targetId) (db_admins db) \<and>
      db_sessions (snd (delete_admin_route now req auth targetId db)) =
        filter (\<lambda>s. ses_adminId s \<noteq> targetId) (db_sessions db))"
  by (auto simp: delete_admin_route_def deleteAdmin_def dest: findAdminById_id split: option.split)

lemma delete_route_ages:
  "sessions_age config now (db_sessions db) (db_sessions (snd (delete_admin_route t req auth targetId db)))"
  using delete_route_cases [of t req auth targetId db] sessions_age_filter by (elim disjE exE conjE) simp_all

lemma delete_route_admins:
  "admins_kept (db_admins db) (db_admins (snd (delete_admin_route now req auth targetId db)))"
  using delete_route_cases [of now req auth targetId db]
proof (elim disjE exE conjE)
  fix target
  assume t: "findAdminById targetId db = Some target" and last: "assertNotLastEnabledAdmin db target = None"
    and eq: "db_admins (snd (delete_admin_route now req auth targetId db)) =
      filter (\<lambda>a. adm_id a \<noteq> targetId) (db_admins db)"
  let ?rest = "filter (\<lambda>a. adm_id a \<noteq> targetId) (db_admins db)"
  have "admins_kept (db_admins db) ?rest"
    unfolding admins_kept_def
  proof (intro impI conjI)
    assume d: "distinct (map adm_id (db_admins db))" and pos: "0 < enabled (db_admins db)"
    show "0 < enabled ?rest"
    proof (cases "adm_disabled target")
      case True
      have "filter (\<lambda>a. \<not> adm_disabled a) ?rest = filter (\<lambda>a. \<not> adm_disabled a) (db_admins db)"
        using findAdminById_unique [OF t d] True by (auto intro!: filter_cong)
      with pos show ?thesis by (simp add: enabled_def)
    next
      case False
      with last have "1 < enabled (db_admins db)" using assertNotLast_None countEnabled_enabled by metis
      with enabled_delete_one [OF d, of targetId] show ?thesis by simp
    qed
  qed (simp add: distinct_map_filter)
  with eq show ?thesis by simp
qed simp

lemma create_route_cases:
  "db_admins (snd (create_admin_route cr now aid req auth email password db)) \<in>
   {db_admins db, db_admins db @ [new_admin aid now email (cr_hash cr password) True]}"
  by (simp add: create_admin_route_def createAdmin_def Let_def)

lemma create_route_sessions [simp]:
  "db_sessions (snd (create_admin_route cr now aid req auth email password db)) = db_sessions db"
  by (simp add: create_admin_route_def createAdmin_def Let_def)

lemma bootstrap_admins_cases:
  "db_admins (snd (bootstrapFirstAdmin cr now aid email password db)) \<in>
   {db_admins db} \<union> {db_admins db @ [new_admin aid now e (cr_hash cr p) True] | e p. True}"
  by (auto simp: bootstrapFirstAdmin_def createAdmin_def audited_def Let_def
      split: option.split sum.split prod.split)

lemma bootstrap_sessions [simp]:
  "db_sessions (snd (bootstrapFirstAdmin cr now aid email password db)) = db_sessions db"
  by (auto simp: bootstrapFirstAdmin_def createAdmin_def audited_def Let_def
      split: option.split sum.split prod.split)

lemma pruneExpired_tables [simp]:
  "db_admins (pruneExpired now db) = db_admins db"
  "db_sessions (pruneExpired now db) = filter (\<lambda>s. \<not> ses_expiresAt s < now) (db_sessions db)"
  by (simp_all add: pruneExpired_def pruneAttemptsBefore_def deleteExpiredBefore_def)


section \<open>The invariant\<close>

definition auth_inv :: "auth_machine \<Rightarrow> bool" where
  "auth_inv s =
     (distinct (map adm_id (db_admins (am_db s))) \<and> distinct (map ses_id (db_sessions (am_db s))) \<and>
      distinct (map ses_tokenHash (db_sessions (am_db s))) \<and>
      ses_tokenHash ` set (db_sessions (am_db s)) \<subseteq> am_issued s)"

definition session_over :: "session_config \<Rightarrow> int \<Rightarrow> session_row \<Rightarrow> bool" where
  "session_over config now r =
     (ses_revokedAt r \<noteq> None \<or> ses_expiresAt r \<le> now \<or>
      hoursFromNow (sc_idleTtlHours config) (ses_lastSeenAt r) \<le> now)"

text \<open>The digest was issued, and no session that carries it can still be used.\<close>

definition token_dead :: "session_config \<Rightarrow> auth_machine \<Rightarrow> string \<Rightarrow> bool" where
  "token_dead config s h =
     (h \<in> am_issued s \<and>
      (\<forall>r \<in> set (db_sessions (am_db s)). ses_tokenHash r = h \<longrightarrow> session_over config (am_now s) r))"

lemma ages_inv:
  assumes "sessions_age config now xs ys"
    and "distinct (map ses_id xs)" "distinct (map ses_tokenHash xs)" "ses_tokenHash ` set xs \<subseteq> H"
  shows "distinct (map ses_id ys) \<and> distinct (map ses_tokenHash ys) \<and> ses_tokenHash ` set ys \<subseteq> H"
proof -
  from assms(1) obtain keep f where ys: "ys = map f (filter keep xs)"
    and f: "\<forall>r \<in> set xs. session_ages config now r (f r)"
    unfolding sessions_age_def by blast
  from f have "map ses_id ys = map ses_id (filter keep xs)" "map ses_tokenHash ys = map ses_tokenHash (filter keep xs)"
    by (simp_all add: ys session_ages_def)
  moreover from f have "ses_tokenHash ` set ys \<subseteq> ses_tokenHash ` set xs"
    by (auto simp: ys session_ages_def)
  ultimately show ?thesis using assms(2-4) by (auto simp: distinct_map_filter)
qed

lemma session_ages_over: "session_ages config now r r' \<Longrightarrow> session_over config now r \<Longrightarrow> session_over config now r'"
  by (auto simp: session_ages_def session_over_def)

lemma ages_over:
  assumes "sessions_age config now xs ys"
    and "\<forall>r \<in> set xs. ses_tokenHash r = h \<longrightarrow> session_over config now r"
  shows "\<forall>r \<in> set ys. ses_tokenHash r = h \<longrightarrow> session_over config now r"
proof -
  from assms(1) obtain keep f where ys: "ys = map f (filter keep xs)"
    and f: "\<forall>r \<in> set xs. session_ages config now r (f r)"
    unfolding sessions_age_def by blast
  show ?thesis
  proof (intro ballI impI)
    fix q assume "q \<in> set ys" and h: "ses_tokenHash q = h"
    then obtain r where r: "r \<in> set xs" "q = f r" by (auto simp: ys)
    with f have a: "session_ages config now r q" by simp
    with h have "ses_tokenHash r = h" by (simp add: session_ages_def)
    with assms(2) r have "session_over config now r" by simp
    with a show "session_over config now q" by (rule session_ages_over)
  qed
qed

text \<open>A step either moves the clock, or issues one session, or lets the sessions age; and it keeps the administrators.\<close>

lemma auth_step_shape:
  assumes "auth_inv s" and "auth_step cr config s e s'"
  shows "admins_kept (db_admins (am_db s)) (db_admins (am_db s')) \<and> am_now s \<le> am_now s' \<and>
    ((am_issued s \<subseteq> am_issued s' \<and>
      sessions_age config (am_now s) (db_sessions (am_db s)) (db_sessions (am_db s'))) \<or>
     (\<exists>r. db_sessions (am_db s') = db_sessions (am_db s) @ [r] \<and> ses_tokenHash r \<notin> am_issued s \<and>
        am_issued s' = insert (ses_tokenHash r) (am_issued s) \<and> ses_id r \<notin> ses_id ` set (db_sessions (am_db s))))"
  using assms(2)
proof (cases rule: auth_step.cases)
  case (login_ends input stage token sid csrf)
  show ?thesis
    using login_complete_sessions [of cr config "am_now s" sid token csrf input stage "am_db s"]
  proof (elim disjE exE)
    fix admin
    let ?r = "new_session cr config (am_now s) sid token csrf admin input"
    assume "db_sessions (snd (login_complete cr config (am_now s) sid token csrf input stage (am_db s))) =
      db_sessions (am_db s) @ [?r]"
    then show ?thesis
      using login_ends by (intro conjI disjI2 exI [of _ ?r]) (auto simp: new_session_def list_ex_iff)
  qed (use login_ends in auto)
next
  case (request token)
  then show ?thesis
    using assms(1) validateSession_ages [of "am_db s" config "am_now s" cr token] by (simp add: auth_inv_def)
next
  case (creates_admin aid auth email password req)
  then show ?thesis
    using create_route_cases [of cr "am_now s" aid req auth email password "am_db s"]
    by (auto simp: admins_kept_append new_admin_def)
next
  case (bootstraps aid email password)
  then show ?thesis
    using bootstrap_admins_cases [of cr "am_now s" aid email password "am_db s"]
    by (auto simp: admins_kept_append new_admin_def)
qed (auto simp: logout_ages changePassword_ages changePassword_admins update_route_admins delete_route_ages
    delete_route_admins sessions_age_filter)


lemma auth_inv_step:
  assumes inv: "auth_inv s" and step: "auth_step cr config s e s'"
  shows "auth_inv s'"
proof -
  from inv have i: "distinct (map adm_id (db_admins (am_db s)))" "distinct (map ses_id (db_sessions (am_db s)))"
    "distinct (map ses_tokenHash (db_sessions (am_db s)))"
    "ses_tokenHash ` set (db_sessions (am_db s)) \<subseteq> am_issued s"
    by (simp_all add: auth_inv_def)
  note shape = auth_step_shape [OF inv step]
  have admins: "distinct (map adm_id (db_admins (am_db s')))" using shape i(1) by (simp add: admins_kept_def)
  from shape have "distinct (map ses_id (db_sessions (am_db s'))) \<and>
    distinct (map ses_tokenHash (db_sessions (am_db s'))) \<and>
    ses_tokenHash ` set (db_sessions (am_db s')) \<subseteq> am_issued s'"
  proof (elim conjE disjE exE)
    assume "sessions_age config (am_now s) (db_sessions (am_db s)) (db_sessions (am_db s'))"
      and sub: "am_issued s \<subseteq> am_issued s'"
    from ages_inv [OF this(1) i(2-4)] sub show ?thesis by blast
  next
    fix r
    assume "db_sessions (am_db s') = db_sessions (am_db s) @ [r]" "ses_tokenHash r \<notin> am_issued s"
      "am_issued s' = insert (ses_tokenHash r) (am_issued s)" "ses_id r \<notin> ses_id ` set (db_sessions (am_db s))"
    then show ?thesis using i(2-4) by auto
  qed
  with admins show ?thesis by (simp add: auth_inv_def)
qed

lemma session_over_later: "session_over config now r \<Longrightarrow> now \<le> now' \<Longrightarrow> session_over config now' r"
  by (auto simp: session_over_def)

lemma token_dead_step:
  assumes "auth_inv s" "auth_step cr config s e s'" "token_dead config s h"
  shows "token_dead config s' h"
proof -
  have now: "am_now s \<le> am_now s'" using auth_step_shape [OF assms(1,2)] by simp
  have over: "\<forall>r \<in> set (db_sessions (am_db s)). ses_tokenHash r = h \<longrightarrow> session_over config (am_now s) r"
    and h: "h \<in> am_issued s" using assms(3) by (simp_all add: token_dead_def)
  from auth_step_shape [OF assms(1,2)]
  have "h \<in> am_issued s' \<and>
    (\<forall>r \<in> set (db_sessions (am_db s')). ses_tokenHash r = h \<longrightarrow> session_over config (am_now s) r)"
  proof (elim conjE disjE exE)
    assume "sessions_age config (am_now s) (db_sessions (am_db s)) (db_sessions (am_db s'))"
      and "am_issued s \<subseteq> am_issued s'"
    with h ages_over [OF _ over] show ?thesis by auto
  qed (use over h in auto)
  with now show ?thesis unfolding token_dead_def using session_over_later by blast
qed

lemma empty_machine_inv: "empty_machine s \<Longrightarrow> auth_inv s"
  by (auto simp: empty_machine_def auth_inv_def)

interpretation ended: settled_forever empty_machine "auth_step cr config" auth_inv "token_dead config" for cr config
  by unfold_locales (auto intro: empty_machine_inv auth_inv_step token_dead_step)

lemma some_admin_step:
  "auth_inv s \<Longrightarrow> auth_step cr config s e s' \<Longrightarrow> 0 < countEnabled (am_db s) \<Longrightarrow> 0 < countEnabled (am_db s')"
  using auth_step_shape [of s cr config e s'] by (simp add: auth_inv_def admins_kept_def countEnabled_enabled)

interpretation governed: settled_forever empty_machine "auth_step cr config" auth_inv
    "\<lambda>s (_ :: unit). 0 < countEnabled (am_db s)" for cr config
  by unfold_locales (auto intro: empty_machine_inv auth_inv_step some_admin_step)

lemma token_dead_refused:
  assumes "token_dead config s (cr_digest cr token)"
  shows "\<exists>reason. validateSession cr config (am_now s) token (am_db s) = (Inl reason, am_db s)"
proof (cases "fst (validateSession cr config (am_now s) token (am_db s))")
  case (Inl reason)
  then show ?thesis using validateSession_refused by (metis prod.collapse)
next
  case (Inr p)
  then obtain session admin where
    "validateSession cr config (am_now s) token (am_db s) =
      (Inr (session, admin), snd (validateSession cr config (am_now s) token (am_db s)))"
    by (metis prod.collapse)
  note v = validateSession_cases [OF this]
  from assms v(1,2) have "session_over config (am_now s) session" by (auto simp: token_dead_def)
  with v(3,4,5) show ?thesis by (simp add: session_over_def)
qed

text \<open>Tokens of stored sessions that are over are dead, since digests are stored once.\<close>

lemma over_token_dead:
  assumes "auth_inv s" "r \<in> set (db_sessions (am_db s))" "session_over config (am_now s) r"
  shows "token_dead config s (ses_tokenHash r)"
proof -
  have "q = r" if "q \<in> set (db_sessions (am_db s))" "ses_tokenHash q = ses_tokenHash r" for q
    using assms(1,2) that by (auto simp: auth_inv_def distinct_map inj_on_def)
  with assms show ?thesis by (auto simp: token_dead_def auth_inv_def)
qed

lemma reachable_auth_inv: "reachable empty_machine (auth_step cr config) s \<Longrightarrow> auth_inv s"
  by (rule ended.reachable_inv)

lemma dead_for_good:
  assumes "reachable empty_machine (auth_step cr config) s" "path (auth_step cr config) s es s'"
    and "token_dead config s (cr_digest cr token)"
  shows "\<exists>reason. validateSession cr config (am_now s') token (am_db s') = (Inl reason, am_db s')"
  using token_dead_refused [OF ended.path_fact [OF assms(2) reachable_auth_inv [OF assms(1)] assms(3)]] .

lemma revoked_dead:
  assumes inv: "auth_inv s" and r: "r \<in> set (db_sessions (am_db s))" "p r \<or> ses_revokedAt r \<noteq> None"
    and s1: "db_sessions (am_db s1) = map (\<lambda>q. if p q then q\<lparr>ses_revokedAt := Some t\<rparr> else q) (db_sessions (am_db s))"
      "am_issued s1 = am_issued s"
  shows "token_dead config s1 (ses_tokenHash r)"
proof -
  have "q = r" if "q \<in> set (db_sessions (am_db s))" "ses_tokenHash q = ses_tokenHash r" for q
    using inv r(1) that by (auto simp: auth_inv_def distinct_map inj_on_def)
  with r s1 inv show ?thesis by (auto simp: token_dead_def session_over_def auth_inv_def)
qed

section \<open>Properties\<close>

text \<open>
  C20 Once there is an enabled administrator there is one ever after: no interleaving of logins, password
  changes, creations, disablings and deletions of administrators by whatever actors locks everybody out.
\<close>

theorem enabled_admin_remains:
  assumes "reachable empty_machine (auth_step cr config) s" and "path (auth_step cr config) s es s'"
    and "0 < countEnabled (am_db s)"
  shows "0 < countEnabled (am_db s')"
  using governed.path_fact [OF assms(2) reachable_auth_inv [OF assms(1)] assms(3)] .

text \<open>
  C21 A session that logged out never serves again: in every later state, whatever happened in between,
  a request with its token is refused and changes nothing.
\<close>

theorem logged_out_refused:
  assumes "reachable empty_machine (auth_step cr config) s"
    and "r \<in> set (db_sessions (am_db s))" and "cr_digest cr token = ses_tokenHash r"
    and "auth_step cr config s (LogsOut r admin) s1" and "path (auth_step cr config) s1 es s'"
  shows "\<exists>reason. validateSession cr config (am_now s') token (am_db s') = (Inl reason, am_db s')"
proof -
  have reach: "reachable empty_machine (auth_step cr config) s1" using assms(1,4) by auto
  have s1: "db_sessions (am_db s1) = map (\<lambda>q. if ses_id q = ses_id r \<and> ses_revokedAt q = None
      then q\<lparr>ses_revokedAt := Some (am_now s)\<rparr> else q) (db_sessions (am_db s))" "am_issued s1 = am_issued s"
    using assms(4) by (auto elim!: auth_stepE simp: logout_def revokeSession_def update_sessions_def)
  have "token_dead config s1 (ses_tokenHash r)"
    by (rule revoked_dead [OF reachable_auth_inv [OF assms(1)] assms(2) _ s1]) auto
  then show ?thesis using dead_for_good [OF reach assms(5)] assms(3) by simp
qed

text \<open>
  C22 A password change ends every other session of that administrator for good: in every later state a
  request with the token of one of them is refused.
\<close>

theorem password_change_evicts:
  assumes "reachable empty_machine (auth_step cr config) s"
    and "r \<in> set (db_sessions (am_db s))" and "cr_digest cr token = ses_tokenHash r"
    and "ses_adminId r = adm_id admin" and "ses_id r \<noteq> ses_id session"
    and "cr_verify cr (adm_passwordHash admin) current"
    and "auth_step cr config s (ChangesPassword admin session current new) s1"
    and "path (auth_step cr config) s1 es s'"
  shows "\<exists>reason. validateSession cr config (am_now s') token (am_db s') = (Inl reason, am_db s')"
proof -
  have reach: "reachable empty_machine (auth_step cr config) s1" using assms(1,7) by auto
  have s1: "db_sessions (am_db s1) = map (\<lambda>q. if revocable (adm_id admin) (Some (ses_id session)) q
      then q\<lparr>ses_revokedAt := Some (am_now s)\<rparr> else q) (db_sessions (am_db s))" "am_issued s1 = am_issued s"
    using assms(6,7)
    by (auto elim!: auth_stepE simp: changePassword_def revokeAllForAdmin_def updatePassword_def update_admins_def
        update_sessions_def Let_def)
  have "token_dead config s1 (ses_tokenHash r)"
    by (rule revoked_dead [OF reachable_auth_inv [OF assms(1)] assms(2) _ s1]) (use assms(4,5) in \<open>auto simp: revocable_def\<close>)
  then show ?thesis using dead_for_good [OF reach assms(8)] assms(3) by simp
qed


section \<open>A concrete run\<close>

definition m0 :: auth_machine where
  "m0 = \<lparr>am_now = 1000, am_db = \<lparr>db_admins = [], db_sessions = [], db_attempts = [], db_audit = []\<rparr>,
     am_pending = [], am_issued = {}\<rparr>"

definition m1 :: auth_machine where
  "m1 = m0\<lparr>am_db := snd (bootstrapFirstAdmin plain_crypto 1000 ''a1'' (Some ''ann@x.org'') (Some ''secret-of-ann'') (am_db m0))\<rparr>"

definition bea :: admin_row where
  "bea = new_admin ''a1'' 1000 ''ann@x.org'' ''secret-of-ann'' True"

definition bea_login :: login_input where
  "bea_login = ann_login\<lparr>li_password := ''secret-of-ann''\<rparr>"

definition m2 :: auth_machine where
  "m2 = m1\<lparr>am_pending := am_pending m1 @ [(bea_login, login_check (am_now m1) bea_login (am_db m1))]\<rparr>"

definition m3 :: auth_machine where
  "m3 = m2\<lparr>am_db := snd (login_complete plain_crypto two_hours (am_now m2) ''s1'' ''tok'' ''csrf'' bea_login
       (login_check (am_now m1) bea_login (am_db m1)) (am_db m2)),
     am_pending := remove1 (bea_login, login_check (am_now m1) bea_login (am_db m1)) (am_pending m2),
     am_issued := insert (cr_digest plain_crypto ''tok'') (am_issued m2)\<rparr>"

lemma m1_tables: "db_admins (am_db m1) = [bea] \<and> db_sessions (am_db m1) = [] \<and> db_attempts (am_db m1) = []"
proof -
  let ?db = "am_db m0\<lparr>db_admins := [bea]\<rparr>"
  let ?e = "\<lparr>ae_actorAdminId = Some ''a1'', ae_actorLabel = adm_email bea, ae_action = ''admin.bootstrap_created'',
    ae_target = Some (''admin'', ''a1''), ae_result = AuditSuccess, ae_errorCode = None, ae_ip = None,
    ae_userAgent = None, ae_details = []\<rparr>"
  have "findAdminById ''a1'' ?db \<noteq> None" by (simp add: findAdminById_def bea_def new_admin_def)
  then obtain row where "audited 1000 ?e (CreatedAdmin bea) ?db = (Inr (CreatedAdmin bea), ?db\<lparr>db_audit := db_audit ?db @ [row]\<rparr>)"
    using audited_harmless [of ?e ?db 1000 "CreatedAdmin bea"] by (auto simp: harmless_def)
  moreover have "createAdmin bea (am_db m0) = Inr ?db"
    by (simp add: createAdmin_def m0_def)
  moreover have "new_admin ''a1'' 1000 ''ann@x.org'' (cr_hash plain_crypto ''secret-of-ann'') True = bea"
    by (simp add: bea_def plain_crypto_def)
  ultimately show ?thesis
    by (simp add: m1_def bootstrapFirstAdmin_def countAdmins_def NewPasswordSchema_def PASSWORD_MIN_LENGTH_def
        PASSWORD_MAX_LENGTH_def Let_def) (simp add: m0_def)
qed

lemma bea_check: "login_check (am_now m1) bea_login (am_db m1) = CheckPassword bea"
proof -
  have "normalizeEmail (li_email bea_login) = adm_email bea" "normalizeEmail (adm_email bea) = adm_email bea"
    by code_simp+
  then show ?thesis
    using m1_tables by (simp add: login_check_def isLockedOut_def countFailuresForIdentifierSince_def
        countFailuresForIpSince_def findByEmail_def maxFailuresPerIdentifier_def maxFailuresPerIp_def Let_def)
qed

lemma m3_tables:
  "db_admins (am_db m3) = [bea] \<and> db_sessions (am_db m3) =
     [new_session plain_crypto two_hours 1000 ''s1'' ''tok'' ''csrf'' bea bea_login]"
  using m1_tables
  by (simp add: m3_def bea_check login_complete_def m2_def createSession_def Let_def)
    (simp add: plain_crypto_def bea_def new_admin_def bea_login_def new_session_def ann_login_def m1_def m0_def)

lemma m3_reachable: "reachable empty_machine (auth_step plain_crypto two_hours) m3"
proof -
  have "reachable empty_machine (auth_step plain_crypto two_hours) m0"
    by (rule reachable.start) (simp add: empty_machine_def m0_def)
  moreover have "auth_step plain_crypto two_hours m0 (Bootstraps ''a1'' (Some ''ann@x.org'') (Some ''secret-of-ann'')) m1"
    using auth_step.bootstraps [of "''a1''" m0 plain_crypto two_hours "Some ''ann@x.org''" "Some ''secret-of-ann''"]
    by (simp add: m1_def) (simp add: m0_def)
  moreover have "auth_step plain_crypto two_hours m1 (LoginBegins bea_login) m2"
    unfolding m2_def by (rule auth_step.login_begins)
  moreover have "auth_step plain_crypto two_hours m2
      (LoginEnds (bea_login, login_check (am_now m1) bea_login (am_db m1)) ''tok'') m3"
    unfolding m3_def
    by (rule auth_step.login_ends) (use m1_tables in \<open>simp_all add: m2_def\<close>, simp add: m1_def m0_def)
  ultimately show ?thesis by (meson reachable.step)
qed

lemma enabled_admin_remains_witness:
  "0 < countEnabled (snd (delete_admin_route (am_now m3) ann_request
     \<lparr>ac_session = ann_session, ac_admin = ann\<rparr> ''a1'' (am_db m3)))"
proof -
  let ?auth = "\<lparr>ac_session = ann_session, ac_admin = ann\<rparr>"
  have "path (auth_step plain_crypto two_hours) m3 [DeletesAdmin ?auth ''a1'']
    (m3\<lparr>am_db := snd (delete_admin_route (am_now m3) ann_request ?auth ''a1'' (am_db m3))\<rparr>)"
    by (rule path.onward, rule auth_step.deletes_admin, rule path.here)
  moreover have "0 < countEnabled (am_db m3)"
    using m3_tables by (simp add: countEnabled_def bea_def new_admin_def)
  ultimately show ?thesis
    using enabled_admin_remains [OF m3_reachable] by fastforce
qed

definition bea_session :: session_row where
  "bea_session = new_session plain_crypto two_hours 1000 ''s1'' ''tok'' ''csrf'' bea bea_login"

lemma bea_session_facts:
  "bea_session \<in> set (db_sessions (am_db m3))" "cr_digest plain_crypto ''tok'' = ses_tokenHash bea_session"
  "ses_adminId bea_session = adm_id bea" "ses_id bea_session = ''s1''"
  using m3_tables by (simp_all add: bea_session_def new_session_def)

lemma logged_out_refused_witness:
  "\<exists>s' reason. path (auth_step plain_crypto two_hours) m3 [LogsOut bea_session bea, Request ''tok''] s' \<and>
     validateSession plain_crypto two_hours (am_now s') ''tok'' (am_db s') = (Inl reason, am_db s')"
proof -
  obtain s1 where s1: "auth_step plain_crypto two_hours m3 (LogsOut bea_session bea) s1"
    using auth_step.logs_out [of plain_crypto two_hours m3 bea_session bea] by blast
  obtain s2 where s2: "auth_step plain_crypto two_hours s1 (Request ''tok'') s2"
    using auth_step.request [of plain_crypto two_hours s1 "''tok''"] by blast
  from s2 have "path (auth_step plain_crypto two_hours) s1 [Request ''tok''] s2" by blast
  with logged_out_refused [OF m3_reachable bea_session_facts(1,2) s1 this] s1 show ?thesis by blast
qed

lemma password_change_evicts_witness:
  "\<exists>s' reason. path (auth_step plain_crypto two_hours) m3
      [ChangesPassword bea (bea_session\<lparr>ses_id := ''s2''\<rparr>) ''secret-of-ann'' ''another secret''] s' \<and>
     validateSession plain_crypto two_hours (am_now s') ''tok'' (am_db s') = (Inl reason, am_db s')"
proof -
  let ?e = "ChangesPassword bea (bea_session\<lparr>ses_id := ''s2''\<rparr>) ''secret-of-ann'' ''another secret''"
  obtain s1 where s1: "auth_step plain_crypto two_hours m3 ?e s1"
    using auth_step.changes_password [of plain_crypto two_hours m3 bea] by blast
  have "cr_verify plain_crypto (adm_passwordHash bea) ''secret-of-ann''"
    by (simp add: plain_crypto_def bea_def new_admin_def)
  from password_change_evicts [OF m3_reachable bea_session_facts(1,2,3) _ this s1 path.here]
  show ?thesis using s1 bea_session_facts(4) by (auto 4 3)
qed


text \<open>
  The eviction reaches the sessions there are, not a login under way: one that read the old hash before
  the password changed still verifies the old password and opens a session afterwards.
\<close>

lemma login_under_way_outlives_change:
  "\<exists>s'. path (auth_step plain_crypto two_hours) m2
     [ChangesPassword bea bea_session ''secret-of-ann'' ''another secret'', LoginEnds (bea_login, CheckPassword bea) ''tok''] s' \<and>
   (\<exists>session admin db. validateSession plain_crypto two_hours (am_now s') ''tok'' (am_db s') = (Inr (session, admin), db) \<and>
      adm_passwordHash admin = ''another secret'')"
proof -
  let ?db1 = "snd (changePassword plain_crypto 1000 bea bea_session ''secret-of-ann'' ''another secret'' ''10.0.0.9'' None (am_db m2))"
  let ?s1 = "m2\<lparr>am_db := ?db1\<rparr>"
  let ?db2 = "snd (login_complete plain_crypto two_hours 1000 ''s1'' ''tok'' ''csrf'' bea_login (CheckPassword bea) ?db1)"
  let ?s2 = "?s1\<lparr>am_db := ?db2, am_pending := remove1 (bea_login, CheckPassword bea) (am_pending m2),
    am_issued := insert (cr_digest plain_crypto ''tok'') (am_issued m2)\<rparr>"
  have now: "am_now m2 = 1000" by (simp add: m2_def m1_def m0_def)
  have db1: "db_admins ?db1 = [bea\<lparr>adm_passwordHash := ''another secret'', adm_forcePasswordChange := False,
      adm_updatedAt := 1000\<rparr>]" "db_sessions ?db1 = []"
    using m1_tables
    by (simp_all add: changePassword_def revokeAllForAdmin_def updatePassword_def update_admins_def
        update_sessions_def Let_def m2_def plain_crypto_def bea_def new_admin_def)
  have db2: "db_admins ?db2 = db_admins ?db1" "db_sessions ?db2 = [bea_session]"
    using db1
    by (simp_all add: login_complete_def createSession_def Let_def bea_session_def new_session_def plain_crypto_def
        bea_def new_admin_def bea_login_def ann_login_def)
  have "auth_step plain_crypto two_hours m2 (ChangesPassword bea bea_session ''secret-of-ann'' ''another secret'') ?s1"
    using auth_step.changes_password [of plain_crypto two_hours m2 bea bea_session "''secret-of-ann''" "''another secret''"
        "''10.0.0.9''" None] by (simp only: now)
  moreover have "auth_step plain_crypto two_hours ?s1 (LoginEnds (bea_login, CheckPassword bea) ''tok'') ?s2"
    using auth_step.login_ends [of bea_login "CheckPassword bea" ?s1 plain_crypto "''tok''" "''s1''" two_hours "''csrf''"]
      bea_check db1 now by (simp add: m2_def) (simp add: m1_def m0_def)
  moreover have "validateSession plain_crypto two_hours (am_now ?s2) ''tok'' (am_db ?s2) =
      (Inr (bea_session, hd (db_admins ?db1)), touchSession ''s1'' 1000 ?db2)"
    using db1 db2 now
    by (simp add: validateSession_def findByTokenHash_def findAdminById_def)
      (simp add: bea_session_def new_session_def plain_crypto_def hoursFromNow_def two_hours_def bea_def new_admin_def)
  ultimately show ?thesis using db1(1)
    by (intro exI [of _ ?s2] conjI) (blast, simp)
qed

end
