(* ===== verification/McpStore.thy ===== *)
theory McpStore
  imports DockerApi
begin

text \<open>
  The database of the mail agent (\<^verbatim>\<open>apps/mcp/src/store\<close>): mailbox bindings with their sealed
  credentials, connections with their setup credentials (enrollments), and the OAuth clients, requests,
  codes, grants and tokens.  A table is a list of rows in insertion order; its SQL statements are the
  functions below.  Times are milliseconds, as the ISO texts that the source stores sort alike.  Rows
  are inserted under fresh keys; the random identifiers and tokens are arguments.
\<close>

section \<open>Settings and scopes\<close>

datatype mcp_scope = MailRead | MailSend | MailDelete

definition MCP_SCOPES :: "mcp_scope list" where
  "MCP_SCOPES = [MailRead, MailSend, MailDelete]"

datatype transport_security = TransportTls | TransportStarttls

record mcp_mail_settings =
  mt_imapHost :: string
  mt_imapPort :: nat
  mt_imapSecurity :: transport_security
  mt_smtpHost :: string
  mt_smtpPort :: nat
  mt_smtpSecurity :: transport_security
  mt_tlsServername :: "string option"
  mt_tlsVerify :: bool

text \<open>
  The settings.  The rate limits and the rules of client registration are nested objects in the source;
  the permissions proposed for a new connection and the retention of the audit log, which none of the
  modelled operations reads, are left out.
\<close>

record mcp_settings =
  ms_enabled :: bool
  ms_publicBaseUrl :: "string option"
  ms_mail :: mcp_mail_settings
  ms_setupCredentialTtlHours :: int
  ms_connectionExpiryDays :: "int option"
  ms_maxConnectionsPerMailbox :: nat
  ms_accessTokenTtlMinutes :: int
  ms_refreshTokenTtlDays :: int
  ms_toolCallsPerMinute :: nat
  ms_sendsPerHour :: nat
  ms_sendsPerDay :: nat
  ms_maxRecipientsPerMessage :: nat
  ms_maxAttachmentBytes :: nat
  ms_saveSentCopies :: bool
  ms_dynamicRegistration :: bool
  ms_metadataDocuments :: bool
  ms_allowedMetadataHosts :: "string list"

definition defaultMcpSettings :: "string option \<Rightarrow> string \<Rightarrow> mcp_settings" where
  "defaultMcpSettings publicBaseUrl mailHost =
     \<lparr>ms_enabled = False, ms_publicBaseUrl = publicBaseUrl,
      ms_mail = \<lparr>mt_imapHost = mailHost, mt_imapPort = 993, mt_imapSecurity = TransportTls, mt_smtpHost = mailHost,
        mt_smtpPort = 465, mt_smtpSecurity = TransportTls, mt_tlsServername = None, mt_tlsVerify = True\<rparr>,
      ms_setupCredentialTtlHours = 24, ms_connectionExpiryDays = None, ms_maxConnectionsPerMailbox = 5,
      ms_accessTokenTtlMinutes = 15, ms_refreshTokenTtlDays = 30, ms_toolCallsPerMinute = 60, ms_sendsPerHour = 20,
      ms_sendsPerDay = 100, ms_maxRecipientsPerMessage = 20, ms_maxAttachmentBytes = 10 * 1024 * 1024,
      ms_saveSentCopies = True, ms_dynamicRegistration = True, ms_metadataDocuments = True,
      ms_allowedMetadataHosts = []\<rparr>"

text \<open>A host name as parsed: the text is trimmed before the pattern is tried.\<close>

definition HostnameSchema :: "string \<Rightarrow> bool" where
  "HostnameSchema s = (1 \<le> length s \<and> length s \<le> 253 \<and>
     list_all (\<lambda>c. is_ascii_alnum c \<or> c = CHR ''.'' \<or> c = CHR ''-'') s)"

definition PortSchema :: "nat \<Rightarrow> bool" where
  "PortSchema p = (1 \<le> p \<and> p \<le> 65535)"

definition McpMailSettingsSchema :: "mcp_mail_settings \<Rightarrow> bool" where
  "McpMailSettingsSchema m =
     (HostnameSchema (mt_imapHost m) \<and> PortSchema (mt_imapPort m) \<and> HostnameSchema (mt_smtpHost m) \<and>
      PortSchema (mt_smtpPort m) \<and> (case mt_tlsServername m of None \<Rightarrow> True | Some h \<Rightarrow> HostnameSchema h))"

definition McpSettingsSchema :: "mcp_settings \<Rightarrow> bool" where
  "McpSettingsSchema s =
     (McpMailSettingsSchema (ms_mail s) \<and> 1 \<le> ms_setupCredentialTtlHours s \<and> ms_setupCredentialTtlHours s \<le> 168 \<and>
      (case ms_connectionExpiryDays s of None \<Rightarrow> True | Some d \<Rightarrow> 1 \<le> d \<and> d \<le> 3650) \<and>
      1 \<le> ms_maxConnectionsPerMailbox s \<and> ms_maxConnectionsPerMailbox s \<le> 50 \<and>
      5 \<le> ms_accessTokenTtlMinutes s \<and> ms_accessTokenTtlMinutes s \<le> 60 \<and>
      1 \<le> ms_refreshTokenTtlDays s \<and> ms_refreshTokenTtlDays s \<le> 365 \<and>
      1 \<le> ms_toolCallsPerMinute s \<and> ms_toolCallsPerMinute s \<le> 600 \<and>
      ms_sendsPerHour s \<le> 1000 \<and> ms_sendsPerDay s \<le> 10000 \<and>
      1 \<le> ms_maxRecipientsPerMessage s \<and> ms_maxRecipientsPerMessage s \<le> 100 \<and>
      1024 \<le> ms_maxAttachmentBytes s \<and> ms_maxAttachmentBytes s \<le> 25 * 1024 * 1024 \<and>
      list_all HostnameSchema (ms_allowedMetadataHosts s) \<and> length (ms_allowedMetadataHosts s) \<le> 32)"

section \<open>Rows\<close>

datatype binding_state = BActive | BStale | BInvalid | BMailboxMissing | BRevoked

record binding_row =
  bi_id :: string
  bi_mailbox :: string
  bi_fingerprint :: string
  bi_state :: binding_state
  bi_stateReason :: "string option"
  bi_createdAt :: int
  bi_updatedAt :: int
  bi_lastVerifiedAt :: "int option"
  bi_lastError :: "string option"
  bi_revokedAt :: "int option"

record credential_row =
  cd_bindingId :: string
  cd_keyId :: string
  cd_sealed :: string
  cd_version :: nat
  cd_createdAt :: int

datatype connection_state = CEnabled | CDisabled | CRevoked

record connection_row =
  cn_id :: string
  cn_bindingId :: string
  cn_mailbox :: string
  cn_label :: string
  cn_scopes :: "mcp_scope list"
  cn_senderIdentities :: "string list"
  cn_state :: connection_state
  cn_stateReason :: "string option"
  cn_createdBy :: string
  cn_createdAt :: int
  cn_updatedAt :: int
  cn_expiresAt :: "int option"
  cn_revokedAt :: "int option"
  cn_lastAuthorizedAt :: "int option"
  cn_lastUsedAt :: "int option"

record enrollment_row =
  en_id :: string
  en_connectionId :: string
  en_username :: string
  en_passwordHash :: string
  en_issuedAt :: int
  en_expiresAt :: int
  en_consumedAt :: "int option"
  en_reservedCodeId :: "string option"
  en_reservedUntil :: "int option"
  en_failedAttempts :: nat
  en_lockedAt :: "int option"
  en_revokedAt :: "int option"

datatype client_kind = Dcr | Cimd
datatype auth_method = AuthNone | ClientSecretBasic | ClientSecretPost

record client_row =
  cl_clientId :: string
  cl_kind :: client_kind
  cl_clientName :: "string option"
  cl_redirectUris :: "string list"
  cl_grantTypes :: "string list"
  cl_tokenEndpointAuthMethod :: auth_method
  cl_clientSecretHash :: "string option"
  cl_metadataExpiresAt :: "int option"
  cl_createdAt :: int

record request_row =
  rq_id :: string
  rq_csrfTokenHash :: string
  rq_clientId :: string
  rq_redirectUri :: string
  rq_state :: "string option"
  rq_codeChallenge :: string
  rq_requestedScopes :: "mcp_scope list option"
  rq_resource :: "string option"
  rq_connectionId :: "string option"
  rq_enrollmentId :: "string option"
  rq_authenticatedAt :: "int option"
  rq_createdAt :: int
  rq_expiresAt :: int
  rq_completedAt :: "int option"

record code_row =
  ac_id :: string
  ac_codeHash :: string
  ac_requestId :: string
  ac_clientId :: string
  ac_redirectUri :: string
  ac_codeChallenge :: string
  ac_scopes :: "mcp_scope list"
  ac_resource :: string
  ac_connectionId :: string
  ac_enrollmentId :: string
  ac_createdAt :: int
  ac_expiresAt :: int
  ac_redeemedAt :: "int option"
  ac_grantId :: "string option"

record grant_row =
  gr_id :: string
  gr_connectionId :: string
  gr_clientId :: string
  gr_clientName :: "string option"
  gr_redirectUri :: string
  gr_scopes :: "mcp_scope list"
  gr_resource :: string
  gr_createdAt :: int
  gr_lastUsedAt :: "int option"
  gr_revokedAt :: "int option"
  gr_revokedReason :: "string option"

record access_row =
  at_tokenHash :: string
  at_grantId :: string
  at_connectionId :: string
  at_scopes :: "mcp_scope list"
  at_resource :: string
  at_createdAt :: int
  at_expiresAt :: int
  at_revokedAt :: "int option"

record refresh_row =
  rt_id :: string
  rt_tokenHash :: string
  rt_grantId :: string
  rt_parentId :: "string option"
  rt_createdAt :: int
  rt_expiresAt :: int
  rt_usedAt :: "int option"
  rt_revokedAt :: "int option"

record login_attempt =
  la_ip :: string
  la_username :: string
  la_success :: bool
  la_attemptedAt :: int

text \<open>An audit record, without its details; no call site passes a detail key that the log refuses.\<close>

record mcp_audit_row =
  ma_occurredAt :: int
  ma_event :: string
  ma_success :: bool
  ma_actor :: string
  ma_connectionId :: "string option"
  ma_mailbox :: "string option"
  ma_ip :: "string option"

record mcp_db =
  md_settings :: mcp_settings
  md_bindings :: "binding_row list"
  md_credentials :: "credential_row list"
  md_connections :: "connection_row list"
  md_enrollments :: "enrollment_row list"
  md_clients :: "client_row list"
  md_requests :: "request_row list"
  md_codes :: "code_row list"
  md_grants :: "grant_row list"
  md_access :: "access_row list"
  md_refresh :: "refresh_row list"
  md_attempts :: "login_attempt list"
  md_audit :: "mcp_audit_row list"

text \<open>\<^verbatim>\<open>UPDATE \<dots> SET \<dots> WHERE \<dots>\<close>.\<close>

definition update_where :: "('r \<Rightarrow> bool) \<Rightarrow> ('r \<Rightarrow> 'r) \<Rightarrow> 'r list \<Rightarrow> 'r list" where
  "update_where p f rows = map (\<lambda>r. if p r then f r else r) rows"

definition updateSettings :: "mcp_settings \<Rightarrow> mcp_db \<Rightarrow> mcp_db option" where
  "updateSettings new db = (if McpSettingsSchema new then Some (db\<lparr>md_settings := new\<rparr>) else None)"

definition mcp_record ::
  "int \<Rightarrow> string \<Rightarrow> bool \<Rightarrow> string \<Rightarrow> string option \<Rightarrow> string option \<Rightarrow> string option \<Rightarrow> mcp_db \<Rightarrow> mcp_db" where
  "mcp_record now event success actor connectionId mailbox ip db =
     db\<lparr>md_audit := md_audit db @
       [\<lparr>ma_occurredAt = now, ma_event = event, ma_success = success, ma_actor = take 254 actor,
         ma_connectionId = connectionId, ma_mailbox = mailbox, ma_ip = ip\<rparr>]\<rparr>"

section \<open>Bindings and credentials (\<^verbatim>\<open>bindings.repository.ts\<close>)\<close>

definition findLiveByMailbox :: "string \<Rightarrow> mcp_db \<Rightarrow> binding_row option" where
  "findLiveByMailbox mailbox db = find (\<lambda>b. bi_mailbox b = mailbox \<and> bi_revokedAt b = None) (md_bindings db)"

definition findBinding :: "string \<Rightarrow> mcp_db \<Rightarrow> binding_row option" where
  "findBinding bid db = find (\<lambda>b. bi_id b = bid) (md_bindings db)"

definition listLive :: "mcp_db \<Rightarrow> binding_row list" where
  "listLive db = filter (\<lambda>b. bi_revokedAt b = None) (md_bindings db)"

definition createBinding :: "string \<Rightarrow> string \<Rightarrow> string \<Rightarrow> int \<Rightarrow> mcp_db \<Rightarrow> mcp_db" where
  "createBinding bid mailbox fingerprint now db =
     db\<lparr>md_bindings := md_bindings db @
       [\<lparr>bi_id = bid, bi_mailbox = mailbox, bi_fingerprint = fingerprint, bi_state = BActive,
         bi_stateReason = None, bi_createdAt = now, bi_updatedAt = now, bi_lastVerifiedAt = None,
         bi_lastError = None, bi_revokedAt = None\<rparr>]\<rparr>"

definition setBindingState :: "string \<Rightarrow> binding_state \<Rightarrow> string option \<Rightarrow> int \<Rightarrow> mcp_db \<Rightarrow> mcp_db" where
  "setBindingState bid state reason now db =
     db\<lparr>md_bindings := update_where (\<lambda>b. bi_id b = bid)
       (\<lambda>b. b\<lparr>bi_state := state, bi_stateReason := reason, bi_lastError := None, bi_updatedAt := now,
         bi_revokedAt := (if state = BRevoked then Some now else bi_revokedAt b)\<rparr>) (md_bindings db)\<rparr>"

definition reanchor :: "string \<Rightarrow> string \<Rightarrow> int \<Rightarrow> mcp_db \<Rightarrow> mcp_db" where
  "reanchor bid fingerprint now db =
     db\<lparr>md_bindings := update_where (\<lambda>b. bi_id b = bid \<and> bi_revokedAt b = None)
       (\<lambda>b. b\<lparr>bi_fingerprint := fingerprint, bi_state := BActive, bi_stateReason := None,
         bi_lastError := None, bi_updatedAt := now\<rparr>) (md_bindings db)\<rparr>"

definition markVerified :: "string \<Rightarrow> int \<Rightarrow> mcp_db \<Rightarrow> mcp_db" where
  "markVerified bid now db =
     db\<lparr>md_bindings := update_where (\<lambda>b. bi_id b = bid)
       (\<lambda>b. b\<lparr>bi_lastVerifiedAt := Some now, bi_lastError := None, bi_updatedAt := now\<rparr>) (md_bindings db)\<rparr>"

definition recordError :: "string \<Rightarrow> string \<Rightarrow> int \<Rightarrow> mcp_db \<Rightarrow> mcp_db" where
  "recordError bid message now db =
     db\<lparr>md_bindings := update_where (\<lambda>b. bi_id b = bid)
       (\<lambda>b. b\<lparr>bi_lastError := Some (take 300 message), bi_updatedAt := now\<rparr>) (md_bindings db)\<rparr>"

definition getCredential :: "string \<Rightarrow> mcp_db \<Rightarrow> credential_row option" where
  "getCredential bid db = find (\<lambda>c. cd_bindingId c = bid) (md_credentials db)"

definition putCredential :: "string \<Rightarrow> string \<Rightarrow> string \<Rightarrow> int \<Rightarrow> mcp_db \<Rightarrow> mcp_db" where
  "putCredential bid keyId sealed now db =
     (case getCredential bid db of
        None \<Rightarrow> db\<lparr>md_credentials := md_credentials db @
          [\<lparr>cd_bindingId = bid, cd_keyId = keyId, cd_sealed = sealed, cd_version = 1, cd_createdAt = now\<rparr>]\<rparr>
      | Some existing \<Rightarrow> db\<lparr>md_credentials := update_where (\<lambda>c. cd_bindingId c = bid)
          (\<lambda>c. c\<lparr>cd_keyId := keyId, cd_sealed := sealed, cd_version := cd_version existing + 1,
            cd_createdAt := now\<rparr>) (md_credentials db)\<rparr>)"

definition deleteCredential :: "string \<Rightarrow> mcp_db \<Rightarrow> mcp_db" where
  "deleteCredential bid db = db\<lparr>md_credentials := filter (\<lambda>c. cd_bindingId c \<noteq> bid) (md_credentials db)\<rparr>"

datatype credential_health =
    Healthy | HMissing | HStale | HInvalid | HMailboxMissing | HRevoked | VaultUnavailable

definition credentialHealth :: "string option \<Rightarrow> binding_row \<Rightarrow> mcp_db \<Rightarrow> credential_health" where
  "credentialHealth vaultKeyId binding db =
     (case bi_state binding of
        BRevoked \<Rightarrow> HRevoked
      | BMailboxMissing \<Rightarrow> HMailboxMissing
      | BStale \<Rightarrow> HStale
      | BInvalid \<Rightarrow> HInvalid
      | BActive \<Rightarrow>
          (case getCredential (bi_id binding) db of
             None \<Rightarrow> HMissing
           | Some credential \<Rightarrow> if vaultKeyId = Some (cd_keyId credential) then Healthy else VaultUnavailable))"


section \<open>Connections and enrollments (\<^verbatim>\<open>connections.repository.ts\<close>)\<close>

definition findConnection :: "string \<Rightarrow> mcp_db \<Rightarrow> connection_row option" where
  "findConnection cid db = find (\<lambda>c. cn_id c = cid) (md_connections db)"

definition listByBinding :: "string \<Rightarrow> mcp_db \<Rightarrow> connection_row list" where
  "listByBinding bid db = filter (\<lambda>c. cn_bindingId c = bid) (md_connections db)"

definition countNonRevokedForBinding :: "string \<Rightarrow> mcp_db \<Rightarrow> nat" where
  "countNonRevokedForBinding bid db =
     length (filter (\<lambda>c. cn_bindingId c = bid \<and> cn_state c \<noteq> CRevoked) (md_connections db))"

definition createConnection ::
  "string \<Rightarrow> string \<Rightarrow> string \<Rightarrow> string \<Rightarrow> mcp_scope list \<Rightarrow> string \<Rightarrow> int option \<Rightarrow> int \<Rightarrow> mcp_db \<Rightarrow> mcp_db" where
  "createConnection cid bid mailbox label scopes createdBy expiresAt now db =
     db\<lparr>md_connections := md_connections db @
       [\<lparr>cn_id = cid, cn_bindingId = bid, cn_mailbox = mailbox, cn_label = label, cn_scopes = scopes,
         cn_senderIdentities = [], cn_state = CEnabled, cn_stateReason = None, cn_createdBy = createdBy,
         cn_createdAt = now, cn_updatedAt = now, cn_expiresAt = expiresAt, cn_revokedAt = None,
         cn_lastAuthorizedAt = None, cn_lastUsedAt = None\<rparr>]\<rparr>"

text \<open>A field that is absent keeps its value; \<^verbatim>\<open>expiresAt: null\<close> clears it.\<close>

definition updateConnection ::
  "string \<Rightarrow> string option \<Rightarrow> mcp_scope list option \<Rightarrow> string list option \<Rightarrow> int option option \<Rightarrow> int \<Rightarrow> mcp_db \<Rightarrow> mcp_db" where
  "updateConnection cid label scopes senderIdentities expiresAt now db =
     db\<lparr>md_connections := update_where (\<lambda>c. cn_id c = cid)
       (\<lambda>c. c\<lparr>cn_label := (case label of Some l \<Rightarrow> l | None \<Rightarrow> cn_label c),
         cn_scopes := (case scopes of Some s \<Rightarrow> s | None \<Rightarrow> cn_scopes c),
         cn_senderIdentities := (case senderIdentities of Some s \<Rightarrow> s | None \<Rightarrow> cn_senderIdentities c),
         cn_expiresAt := (case expiresAt of Some e \<Rightarrow> e | None \<Rightarrow> cn_expiresAt c),
         cn_updatedAt := now\<rparr>) (md_connections db)\<rparr>"

definition setConnectionState :: "string \<Rightarrow> connection_state \<Rightarrow> string option \<Rightarrow> int \<Rightarrow> mcp_db \<Rightarrow> mcp_db" where
  "setConnectionState cid state reason now db =
     db\<lparr>md_connections := update_where (\<lambda>c. cn_id c = cid \<and> cn_state c \<noteq> CRevoked)
       (\<lambda>c. c\<lparr>cn_state := state, cn_stateReason := reason, cn_updatedAt := now,
         cn_revokedAt := (if state = CRevoked then (case cn_revokedAt c of Some t \<Rightarrow> Some t | None \<Rightarrow> Some now)
           else cn_revokedAt c)\<rparr>) (md_connections db)\<rparr>"

definition touchAuthorized :: "string \<Rightarrow> int \<Rightarrow> mcp_db \<Rightarrow> mcp_db" where
  "touchAuthorized cid now db = db\<lparr>md_connections := update_where (\<lambda>c. cn_id c = cid)
     (\<lambda>c. c\<lparr>cn_lastAuthorizedAt := Some now\<rparr>) (md_connections db)\<rparr>"

definition touchUsed :: "string \<Rightarrow> int \<Rightarrow> mcp_db \<Rightarrow> mcp_db" where
  "touchUsed cid now db = db\<lparr>md_connections := update_where (\<lambda>c. cn_id c = cid)
     (\<lambda>c. c\<lparr>cn_lastUsedAt := Some now\<rparr>) (md_connections db)\<rparr>"

text \<open>
  Deleting a connection cascades to its enrollments, codes and grants, and from the grants to their
  tokens.
\<close>

definition deleteConnection :: "string \<Rightarrow> mcp_db \<Rightarrow> mcp_db" where
  "deleteConnection cid db =
     (let kept = \<lambda>gid. \<not> list_ex (\<lambda>g. gr_id g = gid \<and> gr_connectionId g = cid) (md_grants db)
      in db\<lparr>md_connections := filter (\<lambda>c. cn_id c \<noteq> cid) (md_connections db),
            md_enrollments := filter (\<lambda>e. en_connectionId e \<noteq> cid) (md_enrollments db),
            md_codes := filter (\<lambda>c. ac_connectionId c \<noteq> cid) (md_codes db),
            md_grants := filter (\<lambda>g. gr_connectionId g \<noteq> cid) (md_grants db),
            md_access := filter (\<lambda>t. kept (at_grantId t)) (md_access db),
            md_refresh := filter (\<lambda>t. kept (rt_grantId t)) (md_refresh db)\<rparr>)"

text \<open>\<^verbatim>\<open>ORDER BY issued_at DESC, id DESC LIMIT 1\<close>.\<close>

definition issued_later :: "enrollment_row \<Rightarrow> enrollment_row \<Rightarrow> bool" where
  "issued_later a b =
     (en_issuedAt b < en_issuedAt a \<or>
      (en_issuedAt a = en_issuedAt b \<and>
       List.lexordp (<) (map of_char (en_id b) :: nat list) (map of_char (en_id a))))"

definition currentEnrollment :: "string \<Rightarrow> mcp_db \<Rightarrow> enrollment_row option" where
  "currentEnrollment cid db =
     foldl (\<lambda>best e. case best of None \<Rightarrow> Some e | Some b \<Rightarrow> if issued_later e b then Some e else Some b) None
       (filter (\<lambda>e. en_connectionId e = cid) (md_enrollments db))"

definition findEnrollmentByUsername :: "string \<Rightarrow> mcp_db \<Rightarrow> enrollment_row option" where
  "findEnrollmentByUsername username db = find (\<lambda>e. en_username e = username) (md_enrollments db)"

definition findEnrollmentById :: "string \<Rightarrow> mcp_db \<Rightarrow> enrollment_row option" where
  "findEnrollmentById eid db = find (\<lambda>e. en_id e = eid) (md_enrollments db)"

definition ENROLLMENT_MAX_FAILED_ATTEMPTS :: nat where
  "ENROLLMENT_MAX_FAILED_ATTEMPTS = 5"

definition revokeEnrollments :: "string \<Rightarrow> int \<Rightarrow> mcp_db \<Rightarrow> mcp_db" where
  "revokeEnrollments cid now db =
     db\<lparr>md_enrollments := update_where (\<lambda>e. en_connectionId e = cid \<and> en_revokedAt e = None)
       (\<lambda>e. e\<lparr>en_revokedAt := Some now\<rparr>) (md_enrollments db)\<rparr>"

definition fresh_enrollment :: "string \<Rightarrow> string \<Rightarrow> string \<Rightarrow> string \<Rightarrow> int \<Rightarrow> int \<Rightarrow> enrollment_row" where
  "fresh_enrollment eid cid username passwordHash expiresAt now =
     \<lparr>en_id = eid, en_connectionId = cid, en_username = username, en_passwordHash = passwordHash,
      en_issuedAt = now, en_expiresAt = expiresAt, en_consumedAt = None, en_reservedCodeId = None,
      en_reservedUntil = None, en_failedAttempts = 0, en_lockedAt = None, en_revokedAt = None\<rparr>"

definition issueEnrollmentRow :: "string \<Rightarrow> string \<Rightarrow> string \<Rightarrow> string \<Rightarrow> int \<Rightarrow> int \<Rightarrow> mcp_db \<Rightarrow> mcp_db" where
  "issueEnrollmentRow eid cid username passwordHash expiresAt now db =
     (let db = revokeEnrollments cid now db
      in db\<lparr>md_enrollments := md_enrollments db @
           [fresh_enrollment eid cid username passwordHash expiresAt now]\<rparr>)"

definition resetEnrollment :: "string \<Rightarrow> string \<Rightarrow> int \<Rightarrow> int \<Rightarrow> mcp_db \<Rightarrow> mcp_db" where
  "resetEnrollment eid passwordHash expiresAt now db =
     db\<lparr>md_enrollments := update_where (\<lambda>e. en_id e = eid)
       (\<lambda>e. fresh_enrollment (en_id e) (en_connectionId e) (en_username e) passwordHash expiresAt now)
       (md_enrollments db)\<rparr>"

definition recordFailedAttempt :: "string \<Rightarrow> int \<Rightarrow> mcp_db \<Rightarrow> nat \<times> mcp_db" where
  "recordFailedAttempt eid now db =
     (let db = db\<lparr>md_enrollments := update_where (\<lambda>e. en_id e = eid)
            (\<lambda>e. e\<lparr>en_failedAttempts := en_failedAttempts e + 1,
              en_lockedAt := (if ENROLLMENT_MAX_FAILED_ATTEMPTS \<le> en_failedAttempts e + 1 \<and> en_lockedAt e = None
                then Some now else en_lockedAt e)\<rparr>) (md_enrollments db)\<rparr>
      in (case findEnrollmentById eid db of
            Some e \<Rightarrow> en_failedAttempts e | None \<Rightarrow> ENROLLMENT_MAX_FAILED_ATTEMPTS, db))"

definition reservable :: "string \<Rightarrow> int \<Rightarrow> enrollment_row \<Rightarrow> bool" where
  "reservable eid now e =
     (en_id e = eid \<and> en_consumedAt e = None \<and> en_revokedAt e = None \<and> en_lockedAt e = None \<and>
      now < en_expiresAt e \<and> (case en_reservedUntil e of None \<Rightarrow> True | Some t \<Rightarrow> t \<le> now))"

definition reserveEnrollment :: "string \<Rightarrow> string \<Rightarrow> int \<Rightarrow> int \<Rightarrow> mcp_db \<Rightarrow> bool \<times> mcp_db" where
  "reserveEnrollment eid codeId until now db =
     (length (filter (reservable eid now) (md_enrollments db)) = 1,
      db\<lparr>md_enrollments := update_where (reservable eid now)
        (\<lambda>e. e\<lparr>en_reservedCodeId := Some codeId, en_reservedUntil := Some until\<rparr>) (md_enrollments db)\<rparr>)"

definition consumable :: "string \<Rightarrow> string \<Rightarrow> enrollment_row \<Rightarrow> bool" where
  "consumable eid codeId e =
     (en_id e = eid \<and> en_reservedCodeId e = Some codeId \<and> en_consumedAt e = None \<and> en_revokedAt e = None)"

definition consumeEnrollment :: "string \<Rightarrow> string \<Rightarrow> int \<Rightarrow> mcp_db \<Rightarrow> bool \<times> mcp_db" where
  "consumeEnrollment eid codeId now db =
     (length (filter (consumable eid codeId) (md_enrollments db)) = 1,
      db\<lparr>md_enrollments := update_where (consumable eid codeId)
        (\<lambda>e. e\<lparr>en_consumedAt := Some now, en_reservedUntil := None\<rparr>) (md_enrollments db)\<rparr>)"

section \<open>OAuth (\<^verbatim>\<open>oauth.repository.ts\<close>)\<close>

definition findClient :: "string \<Rightarrow> mcp_db \<Rightarrow> client_row option" where
  "findClient clientId db = find (\<lambda>c. cl_clientId c = clientId) (md_clients db)"

text \<open>On a conflict the kind, the secret and the time of creation stay.\<close>

definition upsertClient :: "client_row \<Rightarrow> mcp_db \<Rightarrow> mcp_db" where
  "upsertClient client db =
     (if findClient (cl_clientId client) db = None then db\<lparr>md_clients := md_clients db @ [client]\<rparr>
      else db\<lparr>md_clients := update_where (\<lambda>c. cl_clientId c = cl_clientId client)
        (\<lambda>c. client\<lparr>cl_kind := cl_kind c, cl_clientSecretHash := cl_clientSecretHash c,
          cl_createdAt := cl_createdAt c\<rparr>) (md_clients db)\<rparr>)"

definition countClientsCreatedSince :: "int \<Rightarrow> mcp_db \<Rightarrow> nat" where
  "countClientsCreatedSince since db =
     length (filter (\<lambda>c. cl_kind c = Dcr \<and> since \<le> cl_createdAt c) (md_clients db))"

definition createAuthorizationRequest :: "request_row \<Rightarrow> mcp_db \<Rightarrow> mcp_db" where
  "createAuthorizationRequest request db = db\<lparr>md_requests := md_requests db @ [request]\<rparr>"

definition findAuthorizationRequest :: "string \<Rightarrow> mcp_db \<Rightarrow> request_row option" where
  "findAuthorizationRequest rid db = find (\<lambda>r. rq_id r = rid) (md_requests db)"

definition markRequestAuthenticated :: "string \<Rightarrow> string \<Rightarrow> string \<Rightarrow> int \<Rightarrow> mcp_db \<Rightarrow> mcp_db" where
  "markRequestAuthenticated rid cid eid now db =
     db\<lparr>md_requests := update_where (\<lambda>r. rq_id r = rid \<and> rq_completedAt r = None)
       (\<lambda>r. r\<lparr>rq_connectionId := Some cid, rq_enrollmentId := Some eid, rq_authenticatedAt := Some now\<rparr>)
       (md_requests db)\<rparr>"

definition completable :: "string \<Rightarrow> request_row \<Rightarrow> bool" where
  "completable rid r = (rq_id r = rid \<and> rq_completedAt r = None)"

definition completeRequest :: "string \<Rightarrow> int \<Rightarrow> mcp_db \<Rightarrow> bool \<times> mcp_db" where
  "completeRequest rid now db =
     (length (filter (completable rid) (md_requests db)) = 1,
      db\<lparr>md_requests := update_where (completable rid) (\<lambda>r. r\<lparr>rq_completedAt := Some now\<rparr>) (md_requests db)\<rparr>)"

definition createCode :: "code_row \<Rightarrow> mcp_db \<Rightarrow> mcp_db" where
  "createCode row db = db\<lparr>md_codes := md_codes db @ [row]\<rparr>"

definition findCodeByHash :: "string \<Rightarrow> mcp_db \<Rightarrow> code_row option" where
  "findCodeByHash h db = find (\<lambda>c. ac_codeHash c = h) (md_codes db)"

definition redeemable :: "string \<Rightarrow> code_row \<Rightarrow> bool" where
  "redeemable aid c = (ac_id c = aid \<and> ac_redeemedAt c = None)"

definition redeemCode :: "string \<Rightarrow> int \<Rightarrow> mcp_db \<Rightarrow> bool \<times> mcp_db" where
  "redeemCode aid now db =
     (length (filter (redeemable aid) (md_codes db)) = 1,
      db\<lparr>md_codes := update_where (redeemable aid) (\<lambda>c. c\<lparr>ac_redeemedAt := Some now\<rparr>) (md_codes db)\<rparr>)"

definition attachGrantToCode :: "string \<Rightarrow> string \<Rightarrow> mcp_db \<Rightarrow> mcp_db" where
  "attachGrantToCode aid gid db =
     db\<lparr>md_codes := update_where (\<lambda>c. ac_id c = aid) (\<lambda>c. c\<lparr>ac_grantId := Some gid\<rparr>) (md_codes db)\<rparr>"

definition createGrant :: "grant_row \<Rightarrow> mcp_db \<Rightarrow> mcp_db" where
  "createGrant row db = db\<lparr>md_grants := md_grants db @ [row]\<rparr>"

definition findGrant :: "string \<Rightarrow> mcp_db \<Rightarrow> grant_row option" where
  "findGrant gid db = find (\<lambda>g. gr_id g = gid) (md_grants db)"

definition listGrants :: "string \<Rightarrow> mcp_db \<Rightarrow> grant_row list" where
  "listGrants cid db = filter (\<lambda>g. gr_connectionId g = cid) (md_grants db)"

definition countActiveGrants :: "string \<Rightarrow> mcp_db \<Rightarrow> nat" where
  "countActiveGrants cid db = length (filter (\<lambda>g. gr_connectionId g = cid \<and> gr_revokedAt g = None) (md_grants db))"

definition touchGrant :: "string \<Rightarrow> int \<Rightarrow> mcp_db \<Rightarrow> mcp_db" where
  "touchGrant gid now db =
     db\<lparr>md_grants := update_where (\<lambda>g. gr_id g = gid) (\<lambda>g. g\<lparr>gr_lastUsedAt := Some now\<rparr>) (md_grants db)\<rparr>"

definition grant_live :: "string \<Rightarrow> grant_row \<Rightarrow> bool" where
  "grant_live gid g = (gr_id g = gid \<and> gr_revokedAt g = None)"

definition revokeGrant :: "string \<Rightarrow> string \<Rightarrow> int \<Rightarrow> mcp_db \<Rightarrow> bool \<times> mcp_db" where
  "revokeGrant gid reason now db =
     (length (filter (grant_live gid) (md_grants db)) = 1,
      db\<lparr>md_grants := update_where (grant_live gid)
           (\<lambda>g. g\<lparr>gr_revokedAt := Some now, gr_revokedReason := Some reason\<rparr>) (md_grants db),
         md_access := update_where (\<lambda>t. at_grantId t = gid \<and> at_revokedAt t = None)
           (\<lambda>t. t\<lparr>at_revokedAt := Some now\<rparr>) (md_access db),
         md_refresh := update_where (\<lambda>t. rt_grantId t = gid \<and> rt_revokedAt t = None)
           (\<lambda>t. t\<lparr>rt_revokedAt := Some now\<rparr>) (md_refresh db)\<rparr>)"

definition revokeAllGrantsForConnection :: "string \<Rightarrow> string \<Rightarrow> int \<Rightarrow> mcp_db \<Rightarrow> nat \<times> mcp_db" where
  "revokeAllGrantsForConnection cid reason now db =
     foldl (\<lambda>(count, db) g.
         if gr_revokedAt g = None then
           (let (changed, db) = revokeGrant (gr_id g) reason now db in (if changed then count + 1 else count, db))
         else (count, db)) (0, db) (listGrants cid db)"

definition createAccessToken :: "access_row \<Rightarrow> mcp_db \<Rightarrow> mcp_db" where
  "createAccessToken row db = db\<lparr>md_access := md_access db @ [row]\<rparr>"

definition findAccessTokenByHash :: "string \<Rightarrow> mcp_db \<Rightarrow> access_row option" where
  "findAccessTokenByHash h db = find (\<lambda>t. at_tokenHash t = h) (md_access db)"

definition revokeAccessTokenByHash :: "string \<Rightarrow> int \<Rightarrow> mcp_db \<Rightarrow> mcp_db" where
  "revokeAccessTokenByHash h now db =
     db\<lparr>md_access := update_where (\<lambda>t. at_tokenHash t = h \<and> at_revokedAt t = None)
       (\<lambda>t. t\<lparr>at_revokedAt := Some now\<rparr>) (md_access db)\<rparr>"

definition createRefreshToken :: "refresh_row \<Rightarrow> mcp_db \<Rightarrow> mcp_db" where
  "createRefreshToken row db = db\<lparr>md_refresh := md_refresh db @ [row]\<rparr>"

definition findRefreshTokenByHash :: "string \<Rightarrow> mcp_db \<Rightarrow> refresh_row option" where
  "findRefreshTokenByHash h db = find (\<lambda>t. rt_tokenHash t = h) (md_refresh db)"

definition rotatable :: "string \<Rightarrow> refresh_row \<Rightarrow> bool" where
  "rotatable rid t = (rt_id t = rid \<and> rt_usedAt t = None \<and> rt_revokedAt t = None)"

definition markRefreshTokenUsed :: "string \<Rightarrow> int \<Rightarrow> mcp_db \<Rightarrow> bool \<times> mcp_db" where
  "markRefreshTokenUsed rid now db =
     (length (filter (rotatable rid) (md_refresh db)) = 1,
      db\<lparr>md_refresh := update_where (rotatable rid) (\<lambda>t. t\<lparr>rt_usedAt := Some now\<rparr>) (md_refresh db)\<rparr>)"

definition purgeExpired :: "int \<Rightarrow> mcp_db \<Rightarrow> mcp_db" where
  "purgeExpired horizon db =
     db\<lparr>md_requests := filter (\<lambda>r. \<not> rq_expiresAt r < horizon) (md_requests db),
        md_codes := filter (\<lambda>c. \<not> ac_expiresAt c < horizon) (md_codes db),
        md_access := filter (\<lambda>t. \<not> at_expiresAt t < horizon) (md_access db),
        md_refresh := filter (\<lambda>t. \<not> rt_expiresAt t < horizon) (md_refresh db),
        md_attempts := filter (\<lambda>a. \<not> la_attemptedAt a < horizon) (md_attempts db)\<rparr>"

end
