(* ===== verification/McpConnections.thy ===== *)
theory McpConnections
  imports McpStore
begin

text \<open>
  Connections and the lifecycle of mailbox identities (\<^verbatim>\<open>apps/mcp/src/domain/connections.service.ts\<close>).
  A method that awaits (the hash of a setup password, the mail server's verdict on a mailbox password)
  is split there; the second half takes what the first one read, which may be stale by then.  The
  cryptography, the mail server and URL parsing are parameters (\<open>mcp_env\<close>).
\<close>

record url =
  url_protocol :: string
  url_hostname :: string
  url_origin :: string
  url_pathname :: string
  url_search :: string
  url_hash :: string
  url_username :: string
  url_password :: string

record mcp_env =
  me_sha256Hex :: "string \<Rightarrow> string"
  me_pkceChallenge :: "string \<Rightarrow> string"
  me_verifySecret :: "string \<Rightarrow> string \<Rightarrow> bool"
  me_hashSecret :: "string \<Rightarrow> string"
  me_vaultKeyId :: "string option"
  me_seal :: "string \<Rightarrow> string \<Rightarrow> string \<Rightarrow> string"
  me_url :: "string \<Rightarrow> url option"
  me_requireHttps :: bool

type_synonym control_error = "error_code \<times> string"

section \<open>Derived status\<close>

datatype connection_status = StPending | StActive | StDisabled | StSuspended | StExpired | StRevoked

fun suspensionReason :: "credential_health \<Rightarrow> string" where
  "suspensionReason HMissing = ''No IMAP/SMTP credential is provisioned for this mailbox.''"
| "suspensionReason HStale = ''The mailbox password changed; the postmaster must re-provision credentials and reissue setup credentials.''"
| "suspensionReason HInvalid = ''The mail server rejected the stored credential; the postmaster must re-provision it.''"
| "suspensionReason HMailboxMissing = ''The mailbox was not found in docker-mailserver.''"
| "suspensionReason HRevoked = ''The mailbox was deleted.''"
| "suspensionReason VaultUnavailable = ''The credential vault key is missing or does not match.''"
| "suspensionReason Healthy = []"

definition or_else_text :: "string option \<Rightarrow> string \<Rightarrow> string" where
  "or_else_text x d = (case x of Some s \<Rightarrow> s | None \<Rightarrow> d)"

definition credentialHealthOf :: "mcp_env \<Rightarrow> binding_row \<Rightarrow> mcp_db \<Rightarrow> credential_health" where
  "credentialHealthOf env binding db = credentialHealth (me_vaultKeyId env) binding db"

definition statusOf ::
  "mcp_env \<Rightarrow> int \<Rightarrow> connection_row \<Rightarrow> binding_row \<Rightarrow> mcp_db \<Rightarrow> connection_status \<times> string option" where
  "statusOf env now connection binding db =
     (if cn_state connection = CRevoked then
        (StRevoked, Some (or_else_text (cn_stateReason connection) ''Revoked by the postmaster.''))
      else if bi_state binding = BRevoked then (StRevoked, Some ''The mailbox was deleted.'')
      else if (case cn_expiresAt connection of None \<Rightarrow> False | Some t \<Rightarrow> t \<le> now) then
        (StExpired, Some ''The connection lifetime has elapsed.'')
      else if cn_state connection = CDisabled then
        (StDisabled, Some (or_else_text (cn_stateReason connection) ''Disabled by the postmaster.''))
      else
        (let health = credentialHealthOf env binding db in
         if health \<noteq> Healthy then (StSuspended, Some (suspensionReason health))
         else if 0 < countActiveGrants (cn_id connection) db then (StActive, None)
         else (StPending, Some ''Awaiting authorization by the mailbox owner.'')))"

datatype enrollment_state = ENone | ERevoked | EConsumed | ELocked | EExpired | EActive

definition enrollment_state_of :: "int \<Rightarrow> enrollment_row option \<Rightarrow> enrollment_state" where
  "enrollment_state_of now enrollment =
     (case enrollment of
        None \<Rightarrow> ENone
      | Some e \<Rightarrow>
          if en_revokedAt e \<noteq> None then ERevoked
          else if en_consumedAt e \<noteq> None then EConsumed
          else if en_lockedAt e \<noteq> None then ELocked
          else if en_expiresAt e \<le> now then EExpired
          else EActive)"

definition requireConnection :: "string \<Rightarrow> mcp_db \<Rightarrow> control_error + connection_row" where
  "requireConnection cid db =
     (case findConnection cid db of
        None \<Rightarrow> Inl (NOT_FOUND, ''No such MCP connection.'') | Some c \<Rightarrow> Inr c)"

definition requireBinding :: "connection_row \<Rightarrow> mcp_db \<Rightarrow> control_error + binding_row" where
  "requireBinding connection db =
     (case findBinding (cn_bindingId connection) db of
        None \<Rightarrow> Inl (INTERNAL, ''Connection references a missing mailbox binding.'') | Some b \<Rightarrow> Inr b)"

definition assertMutable :: "connection_row \<Rightarrow> control_error option" where
  "assertMutable connection =
     (if cn_state connection = CRevoked
      then Some (CONFLICT, ''This connection has been revoked and can no longer be changed.'') else None)"

text \<open>The connection if it exists and is not revoked.\<close>

definition mutableConnection :: "string \<Rightarrow> mcp_db \<Rightarrow> control_error + connection_row" where
  "mutableConnection cid db =
     (case requireConnection cid db of
        Inl e \<Rightarrow> Inl e
      | Inr c \<Rightarrow> (case assertMutable c of Some e \<Rightarrow> Inl e | None \<Rightarrow> Inr c))"

definition postmaster :: "string \<Rightarrow> string" where
  "postmaster actor = ''postmaster:'' @ actor"

section \<open>Mailbox identities\<close>

definition invalidateBinding ::
  "int \<Rightarrow> binding_row \<Rightarrow> binding_state \<Rightarrow> string \<Rightarrow> string \<Rightarrow> mcp_db \<Rightarrow> nat \<times> mcp_db" where
  "invalidateBinding now binding state reason actor db =
     (let connections = listByBinding (bi_id binding) db;
          db = setBindingState (bi_id binding) state (Some reason) now (deleteCredential (bi_id binding) db);
          db = foldl (\<lambda>db c. snd (revokeAllGrantsForConnection (cn_id c) reason now db)) db connections
      in (length connections,
          mcp_record now ''binding.stale'' True actor None (Some (bi_mailbox binding)) None db))"

definition markCredentialRejected :: "int \<Rightarrow> binding_row \<Rightarrow> string \<Rightarrow> mcp_db \<Rightarrow> mcp_db" where
  "markCredentialRejected now binding actor db =
     snd (invalidateBinding now binding BInvalid ''The mail server rejected the stored mailbox credential.'' actor db)"

definition resolveBinding ::
  "int \<Rightarrow> string \<Rightarrow> string \<Rightarrow> string \<Rightarrow> string \<Rightarrow> mcp_db \<Rightarrow> (control_error + binding_row) \<times> mcp_db" where
  "resolveBinding now newId mailbox fingerprint actor db =
     (case findLiveByMailbox mailbox db of
        None \<Rightarrow>
          (let db = createBinding newId mailbox fingerprint now db
           in case findBinding newId db of
                Some b \<Rightarrow> (Inr b, db) | None \<Rightarrow> (Inl (INTERNAL, ''binding insert did not persist''), db))
      | Some existing \<Rightarrow>
          (let db =
             (if bi_fingerprint existing \<noteq> fingerprint then
                reanchor (bi_id existing) fingerprint now
                  (snd (invalidateBinding now existing BStale ''The mailbox password or identity changed.'' actor db))
              else if bi_state existing = BMailboxMissing then setBindingState (bi_id existing) BActive None now db
              else db)
           in case findBinding (bi_id existing) db of
                Some b \<Rightarrow> (Inr b, db)
              | None \<Rightarrow> (Inl (INTERNAL, ''Binding vanished during resolution.''), db)))"

record verify_result =
  vr_imapOk :: bool
  vr_imapAuthFailed :: bool
  vr_imapMessage :: string
  vr_smtpOk :: bool
  vr_smtpAuthFailed :: bool
  vr_smtpMessage :: string

text \<open>\<^verbatim>\<open>provisionCredential\<close> after the mail server's verdict; before it, only the vault is checked.\<close>

definition vaultMissing :: "mcp_env \<Rightarrow> control_error option" where
  "vaultMissing env =
     (if me_vaultKeyId env = None
      then Some (CAPABILITY_UNSUPPORTED, ''The MCP credential vault key is not configured, so mailbox credentials cannot be stored. See docs/mcp-integration.md.'')
      else None)"

text \<open>Messages leave out the sentences that carry typographic characters.\<close>

definition describeVerificationFailure :: "verify_result \<Rightarrow> string" where
  "describeVerificationFailure result =
     (let failed = (if vr_imapOk result then [] else ''IMAP: '' @ vr_imapMessage result) @
            (if \<not> vr_imapOk result \<and> \<not> vr_smtpOk result then '' '' else []) @
            (if vr_smtpOk result then [] else ''SMTP: '' @ vr_smtpMessage result)
      in ''Could not verify the mailbox password against the mail server. '' @ failed @ '' Nothing was stored.'')"

definition provisionCredential ::
  "mcp_env \<Rightarrow> int \<Rightarrow> binding_row \<Rightarrow> string \<Rightarrow> string \<Rightarrow> verify_result \<Rightarrow> mcp_db \<Rightarrow> (control_error + unit) \<times> mcp_db" where
  "provisionCredential env now binding password actor result db =
     (if \<not> vr_imapOk result \<or> \<not> vr_smtpOk result then
        (Inl (if vr_imapAuthFailed result \<or> vr_smtpAuthFailed result
              then (VALIDATION_FAILED, ''The mail server rejected this mailbox password. Nothing was stored.'')
              else (UPSTREAM_UNAVAILABLE, describeVerificationFailure result)),
         mcp_record now ''binding.verification_failed'' False actor None (Some (bi_mailbox binding)) None db)
      else
        (case me_vaultKeyId env of
           None \<Rightarrow> (Inl (INTERNAL, ''The credential vault key is not configured.''), db)
         | Some keyId \<Rightarrow>
             (Inr (), mcp_record now ''binding.provisioned'' True actor None (Some (bi_mailbox binding)) None
               (markVerified (bi_id binding) now
                 (putCredential (bi_id binding) keyId (me_seal env password (bi_id binding) (bi_mailbox binding)) now db)))))"

section \<open>Creating a connection\<close>

text \<open>Up to the provisioning of a password.\<close>

definition create_begin ::
  "int \<Rightarrow> string \<Rightarrow> string \<Rightarrow> string \<Rightarrow> string \<Rightarrow> mcp_db \<Rightarrow> (control_error + binding_row) \<times> mcp_db" where
  "create_begin now newBindingId mailbox fingerprint actor db =
     (if \<not> ms_enabled (md_settings db) then
        (Inl (CONFLICT, ''MCP is disabled. Enable it in the MCP settings before generating connections.''), db)
      else if ms_publicBaseUrl (md_settings db) = None then
        (Inl (CONFLICT, ''Set the public MCP endpoint URL before generating connections.''), db)
      else
        (case resolveBinding now newBindingId mailbox fingerprint (postmaster actor) db of
           (Inl e, db) \<Rightarrow> (Inl e, db)
         | (Inr binding, db) \<Rightarrow>
             if ms_maxConnectionsPerMailbox (md_settings db) \<le> countNonRevokedForBinding (bi_id binding) db
             then (Inl (CONFLICT, ''This mailbox already has the maximum of '' @
               show_nat (ms_maxConnectionsPerMailbox (md_settings db)) @ '' connections. Revoke or delete one first.''), db)
             else (Inr binding, db)))"

text \<open>From the provisioning on, up to the hash of the setup password, with the settings read at the start.\<close>

definition create_finish ::
  "mcp_env \<Rightarrow> int \<Rightarrow> mcp_settings \<Rightarrow> string \<Rightarrow> binding_row \<Rightarrow> string \<Rightarrow> mcp_scope list \<Rightarrow> int option option \<Rightarrow> string \<Rightarrow>
   mcp_db \<Rightarrow> (control_error + connection_row) \<times> mcp_db" where
  "create_finish env now settings cid binding label permissions expiresInDays actor db =
     (let bindingAfter = (case findBinding (bi_id binding) db of Some b \<Rightarrow> b | None \<Rightarrow> binding) in
      if credentialHealthOf env bindingAfter db \<noteq> Healthy then
        (Inl (VALIDATION_FAILED, ''This mailbox has no usable IMAP/SMTP credential. Provide the mailbox password so it can be verified and stored.''), db)
      else
        (let days = (case expiresInDays of None \<Rightarrow> ms_connectionExpiryDays settings | Some d \<Rightarrow> d);
             db = createConnection cid (bi_id binding) (bi_mailbox binding) label permissions (postmaster actor)
               (map_option (\<lambda>d. now + d * 86400000) days) now db
         in case findConnection cid db of
              None \<Rightarrow> (Inl (INTERNAL, ''connection insert did not persist''), db)
            | Some connection \<Rightarrow>
                (Inr connection, mcp_record now ''connection.created'' True (postmaster actor) (Some cid)
                  (Some (cn_mailbox connection)) None db)))"

text \<open>
  Issuing a setup password, after its hash: under the username of the previous enrollment (a reissue
resets that row in place) or under a new one; settings and previous enrollment were read before it.
\<close>

definition issueEnrollment ::
  "int \<Rightarrow> mcp_settings \<Rightarrow> connection_row \<Rightarrow> enrollment_row option \<Rightarrow> string \<Rightarrow> string \<Rightarrow> string \<Rightarrow> string \<Rightarrow> string \<Rightarrow> bool \<Rightarrow>
   mcp_db \<Rightarrow> mcp_db" where
  "issueEnrollment now settings connection previous newId newUsername passwordHash actor event freshName db =
     (let expiresAt = now + ms_setupCredentialTtlHours settings * 3600000;
          db = (case (freshName, previous) of
              (False, Some p) \<Rightarrow> resetEnrollment (en_id p) passwordHash expiresAt now db
            | _ \<Rightarrow> issueEnrollmentRow newId (cn_id connection) newUsername passwordHash expiresAt now db)
      in mcp_record now event True actor (Some (cn_id connection)) (Some (cn_mailbox connection)) None db)"

section \<open>Changing a connection\<close>

text \<open>The checks of a reissue, and what \<^verbatim>\<open>issueEnrollment\<close> reads before it hashes.\<close>

definition reissue_begin :: "string \<Rightarrow> mcp_db \<Rightarrow> control_error + connection_row \<times> enrollment_row option" where
  "reissue_begin cid db =
     (case mutableConnection cid db of
        Inl e \<Rightarrow> Inl e
      | Inr c \<Rightarrow>
          (case requireBinding c db of
             Inl e \<Rightarrow> Inl e
           | Inr b \<Rightarrow>
               if bi_state b = BRevoked then Inl (CONFLICT, ''The mailbox was deleted.'')
               else Inr (c, currentEnrollment cid db)))"

definition rotate_begin :: "int \<Rightarrow> string \<Rightarrow> string \<Rightarrow> mcp_db \<Rightarrow> (control_error + connection_row) \<times> mcp_db" where
  "rotate_begin now cid actor db =
     (case mutableConnection cid db of
        Inl e \<Rightarrow> (Inl e, db)
      | Inr c \<Rightarrow>
          (let (revoked, db) = revokeAllGrantsForConnection cid ''credentials rotated'' now db
           in (Inr c, if 0 < revoked then mcp_record now ''oauth.grant_revoked'' True (postmaster actor) (Some cid)
               (Some (cn_mailbox c)) None db else db)))"

definition connection_update ::
  "int \<Rightarrow> string \<Rightarrow> string option \<Rightarrow> mcp_scope list option \<Rightarrow> string list option \<Rightarrow> int option option \<Rightarrow> string \<Rightarrow> mcp_db \<Rightarrow>
   (control_error + unit) \<times> mcp_db" where
  "connection_update now cid label permissions senderIdentities expiresAt actor db =
     (case mutableConnection cid db of
        Inl e \<Rightarrow> (Inl e, db)
      | Inr c \<Rightarrow> (Inr (), mcp_record now ''connection.updated'' True (postmaster actor) (Some cid)
          (Some (cn_mailbox c)) None (updateConnection cid label permissions senderIdentities expiresAt now db)))"

definition connection_set ::
  "int \<Rightarrow> string \<Rightarrow> connection_state \<Rightarrow> string option \<Rightarrow> string \<Rightarrow> string \<Rightarrow> mcp_db \<Rightarrow> (control_error + unit) \<times> mcp_db" where
  "connection_set now cid state reason event actor db =
     (case mutableConnection cid db of
        Inl e \<Rightarrow> (Inl e, db)
      | Inr c \<Rightarrow> (Inr (), mcp_record now event True (postmaster actor) (Some cid) (Some (cn_mailbox c)) None
          (setConnectionState cid state reason now db)))"

definition connection_disable :: "int \<Rightarrow> string \<Rightarrow> string option \<Rightarrow> string \<Rightarrow> mcp_db \<Rightarrow> (control_error + unit) \<times> mcp_db" where
  "connection_disable now cid reason actor db = connection_set now cid CDisabled reason ''connection.disabled'' actor db"

definition connection_enable :: "int \<Rightarrow> string \<Rightarrow> string \<Rightarrow> mcp_db \<Rightarrow> (control_error + unit) \<times> mcp_db" where
  "connection_enable now cid actor db = connection_set now cid CEnabled None ''connection.enabled'' actor db"

definition revokeConnectionInternal :: "int \<Rightarrow> connection_row \<Rightarrow> string \<Rightarrow> string \<Rightarrow> mcp_db \<Rightarrow> mcp_db" where
  "revokeConnectionInternal now connection actor reason db =
     (let db = snd (revokeAllGrantsForConnection (cn_id connection) reason now db);
          db = setConnectionState (cn_id connection) CRevoked (Some reason) now
            (revokeEnrollments (cn_id connection) now db)
      in mcp_record now ''connection.revoked'' True actor (Some (cn_id connection)) (Some (cn_mailbox connection)) None db)"

definition connection_revoke :: "int \<Rightarrow> string \<Rightarrow> string option \<Rightarrow> string \<Rightarrow> mcp_db \<Rightarrow> (control_error + unit) \<times> mcp_db" where
  "connection_revoke now cid reason actor db =
     (case requireConnection cid db of
        Inl e \<Rightarrow> (Inl e, db)
      | Inr c \<Rightarrow>
          (Inr (), if cn_state c = CRevoked then db
             else revokeConnectionInternal now c (postmaster actor) (or_else_text reason ''Revoked by the postmaster.'') db))"

definition connection_delete :: "int \<Rightarrow> string \<Rightarrow> string \<Rightarrow> mcp_db \<Rightarrow> (control_error + unit) \<times> mcp_db" where
  "connection_delete now cid actor db =
     (case requireConnection cid db of
        Inl e \<Rightarrow> (Inl e, db)
      | Inr c \<Rightarrow>
          (let db = (if cn_state c = CRevoked then db
                 else revokeConnectionInternal now c (postmaster actor) ''Deleted by the postmaster.'' db)
           in (Inr (), mcp_record now ''connection.deleted'' True (postmaster actor) (Some cid)
               (Some (cn_mailbox c)) None (deleteConnection cid db))))"

definition connection_revokeGrant :: "int \<Rightarrow> string \<Rightarrow> string \<Rightarrow> string \<Rightarrow> mcp_db \<Rightarrow> (control_error + unit) \<times> mcp_db" where
  "connection_revokeGrant now cid gid actor db =
     (case requireConnection cid db of
        Inl e \<Rightarrow> (Inl e, db)
      | Inr c \<Rightarrow>
          (case findGrant gid db of
             None \<Rightarrow> (Inl (NOT_FOUND, ''No such grant on this connection.''), db)
           | Some g \<Rightarrow>
               if gr_connectionId g \<noteq> cn_id c then (Inl (NOT_FOUND, ''No such grant on this connection.''), db)
               else
                 (let (changed, db) = revokeGrant (gr_id g) ''Revoked by the postmaster.'' now db
                  in (Inr (), if changed then mcp_record now ''oauth.grant_revoked'' True (postmaster actor) (Some cid)
                      (Some (cn_mailbox c)) None db else db))))"

text \<open>\<^verbatim>\<open>updateCredentials\<close> up to the mail server's verdict, and after it.\<close>

definition updateCredentials_begin ::
  "mcp_env \<Rightarrow> int \<Rightarrow> string \<Rightarrow> string \<Rightarrow> string \<Rightarrow> string \<Rightarrow> mcp_db \<Rightarrow> (control_error + binding_row) \<times> mcp_db" where
  "updateCredentials_begin env now newBindingId cid fingerprint actor db =
     (case mutableConnection cid db of
        Inl e \<Rightarrow> (Inl e, db)
      | Inr c \<Rightarrow>
          (case resolveBinding now newBindingId (cn_mailbox c) fingerprint (postmaster actor) db of
             (Inl e, db) \<Rightarrow> (Inl e, db)
           | (Inr binding, db) \<Rightarrow>
               if bi_id binding \<noteq> cn_bindingId c
               then (Inl (CONFLICT, ''This connection belongs to a mailbox that no longer exists.''), db)
               else (case vaultMissing env of Some e \<Rightarrow> (Inl e, db) | None \<Rightarrow> (Inr binding, db))))"

definition updateCredentials_finish ::
  "mcp_env \<Rightarrow> int \<Rightarrow> binding_row \<Rightarrow> string \<Rightarrow> string \<Rightarrow> verify_result \<Rightarrow> mcp_db \<Rightarrow> (control_error + unit) \<times> mcp_db" where
  "updateCredentials_finish env now binding password actor result db =
     (case provisionCredential env now binding password (postmaster actor) result db of
        (Inl e, db) \<Rightarrow> (Inl e, db)
      | (Inr _, db) \<Rightarrow>
          (Inr (), if bi_state binding = BActive then db else setBindingState (bi_id binding) BActive None now db))"

text \<open>\<^verbatim>\<open>test\<close> after the mail server's verdict on the stored credential.\<close>

definition test_finish :: "int \<Rightarrow> string \<Rightarrow> binding_row \<Rightarrow> string \<Rightarrow> verify_result \<Rightarrow> mcp_db \<Rightarrow> mcp_db" where
  "test_finish now cid binding actor result db =
     (if vr_imapOk result \<and> vr_smtpOk result then
        mcp_record now ''binding.verified'' True (postmaster actor) (Some cid) (Some (bi_mailbox binding)) None
          (markVerified (bi_id binding) now db)
      else
        mcp_record now ''binding.verification_failed'' False (postmaster actor) (Some cid) (Some (bi_mailbox binding)) None
          (if vr_imapAuthFailed result \<or> vr_smtpAuthFailed result
           then markCredentialRejected now binding (postmaster actor) db
           else recordError (bi_id binding) (vr_imapMessage result @ '' / '' @ vr_smtpMessage result) now db))"

section \<open>Events of the mail server\<close>

datatype mailbox_event = PasswordChanged | MailboxDeleted

definition mailboxEvent :: "int \<Rightarrow> string \<Rightarrow> mailbox_event \<Rightarrow> string \<Rightarrow> mcp_db \<Rightarrow> nat \<times> mcp_db" where
  "mailboxEvent now mailbox event actor db =
     (case findLiveByMailbox mailbox db of
        None \<Rightarrow> (0, db)
      | Some binding \<Rightarrow>
          (case event of
             PasswordChanged \<Rightarrow>
               invalidateBinding now binding BStale ''The mailbox password was changed.'' (postmaster actor) db
           | MailboxDeleted \<Rightarrow>
               (let connections = listByBinding (bi_id binding) db;
                    db = foldl (\<lambda>db c. if cn_state c = CRevoked then db
                        else revokeConnectionInternal now c (postmaster actor) ''The mailbox was deleted.'' db) db connections;
                    db = setBindingState (bi_id binding) BRevoked (Some ''The mailbox was deleted.'') now
                      (deleteCredential (bi_id binding) db)
                in (length connections,
                    mcp_record now ''binding.revoked'' True (postmaster actor) None (Some mailbox) None db))))"

record reconcile_counts =
  rc_stale :: nat
  rc_missing :: nat
  rc_restored :: nat

text \<open>One live binding against the fingerprints by mailbox that the panel server has read.\<close>

definition reconcile_one ::
  "int \<Rightarrow> (string \<Rightarrow> string option) \<Rightarrow> reconcile_counts \<times> mcp_db \<Rightarrow> binding_row \<Rightarrow> reconcile_counts \<times> mcp_db" where
  "reconcile_one now byMailbox = (\<lambda>(counts, db) binding.
     case byMailbox (bi_mailbox binding) of
       None \<Rightarrow>
         if bi_state binding = BMailboxMissing then (counts, db)
         else (counts\<lparr>rc_missing := rc_missing counts + 1\<rparr>,
           mcp_record now ''binding.mailbox_missing'' True ''system'' None (Some (bi_mailbox binding)) None
             (setBindingState (bi_id binding) BMailboxMissing
               (Some ''Not present in the last mailbox reconciliation.'') now db))
     | Some fingerprint \<Rightarrow>
         if fingerprint \<noteq> bi_fingerprint binding then
           (if bi_state binding = BStale then (counts, db)
            else (counts\<lparr>rc_stale := rc_stale counts + 1\<rparr>,
              snd (invalidateBinding now binding BStale ''The mailbox password or identity changed outside MCP.''
                ''system'' db)))
         else if bi_state binding = BMailboxMissing then
           (counts\<lparr>rc_restored := rc_restored counts + 1\<rparr>,
            mcp_record now ''binding.mailbox_restored'' True ''system'' None (Some (bi_mailbox binding)) None
              (setBindingState (bi_id binding) BActive None now db))
         else (counts, db))"

definition reconcile :: "int \<Rightarrow> (string \<times> string) list \<Rightarrow> mcp_db \<Rightarrow> reconcile_counts \<times> mcp_db" where
  "reconcile now entries db =
     foldl (reconcile_one now (map_of (rev entries))) (\<lparr>rc_stale = 0, rc_missing = 0, rc_restored = 0\<rparr>, db)
       (listLive db)"

end
