(* ===== verification/McpOAuth.thy ===== *)
theory McpOAuth
  imports McpConnections
begin

text \<open>
  OAuth of the mail agent (\<^verbatim>\<open>apps/mcp/src/oauth\<close>): the resource URLs (\<^verbatim>\<open>endpoints.ts\<close>), codes and tokens
  (\<^verbatim>\<open>tokens.service.ts\<close>), the check of every request to a mailbox (\<^verbatim>\<open>bearer.ts\<close>), the browser's half of
  the flow (\<^verbatim>\<open>authorization.service.ts\<close>) and the clients (\<^verbatim>\<open>clients.service.ts\<close>).  A method that awaits is
  split there.  Pages are known by their kind; what they only display is left out.
\<close>

type_synonym oauth_error = "string \<times> string \<times> nat"

abbreviation oauth_error :: "string \<Rightarrow> string \<Rightarrow> oauth_error" where
  "oauth_error error description \<equiv> (error, description, 400)"

section \<open>Endpoints\<close>

definition id_char :: "char \<Rightarrow> bool" where
  "id_char c = ((CHR ''0'' \<le> c \<and> c \<le> CHR ''9'') \<or> (CHR ''a'' \<le> c \<and> c \<le> CHR ''z''))"

definition CONNECTION_ID_PATTERN :: "string \<Rightarrow> bool" where
  "CONNECTION_ID_PATTERN s = (length s = 27 \<and> hd s = CHR ''c'' \<and> list_all id_char (tl s))"

definition resourceFor :: "string \<Rightarrow> string \<Rightarrow> string" where
  "resourceFor publicBaseUrl connectionId = publicBaseUrl @ ''/mcp/'' @ connectionId"

definition resourceMetadataUrlFor :: "string \<Rightarrow> string \<Rightarrow> string" where
  "resourceMetadataUrlFor publicBaseUrl connectionId =
     publicBaseUrl @ ''/.well-known/oauth-protected-resource/mcp/'' @ connectionId"

text \<open>\<^verbatim>\<open>s.replace(/\/$/, '')\<close>.\<close>

definition without_slash :: "string \<Rightarrow> string" where
  "without_slash s = (if ends_with ''/'' s then butlast s else s)"

definition connectionIdFromResource :: "mcp_env \<Rightarrow> string \<Rightarrow> string \<Rightarrow> string option" where
  "connectionIdFromResource env publicBaseUrl resource =
     (case (me_url env resource, me_url env publicBaseUrl) of
        (Some candidate, Some base) \<Rightarrow>
          if url_search candidate \<noteq> [] \<or> url_hash candidate \<noteq> [] \<or> url_username candidate \<noteq> [] \<or>
            url_password candidate \<noteq> [] then None
          else if url_origin candidate \<noteq> url_origin base then None
          else
            (let path = without_slash (url_pathname candidate) in
             if starts_with ''/mcp/'' path \<and> CONNECTION_ID_PATTERN (drop 5 path) then Some (drop 5 path) else None)
      | _ \<Rightarrow> None)"

definition quote :: "string \<Rightarrow> string" where
  "quote value = CHR 0x22 # concat (map (\<lambda>c. if c = CHR 0x22 \<or> c = CHR 0x5C then [CHR 0x5C, c] else [c]) value) @ [CHR 0x22]"

fun scope_name :: "mcp_scope \<Rightarrow> string" where
  "scope_name MailRead = ''mail.read''"
| "scope_name MailSend = ''mail.send''"
| "scope_name MailDelete = ''mail.delete''"

definition join :: "string \<Rightarrow> string list \<Rightarrow> string" where
  "join sep parts = (case parts of [] \<Rightarrow> [] | p # ps \<Rightarrow> p @ concat (map (\<lambda>q. sep @ q) ps))"

definition bearerChallenge :: "string \<Rightarrow> mcp_scope list \<Rightarrow> string option \<Rightarrow> string option \<Rightarrow> string" where
  "bearerChallenge resourceMetadata scope error description =
     ''Bearer '' @ join '', ''
       ([''resource_metadata='' @ quote resourceMetadata] @
        (if scope = [] then [] else [''scope='' @ quote (join '' '' (map scope_name scope))]) @
        (case error of None \<Rightarrow> [] | Some e \<Rightarrow> [''error='' @ quote e]) @
        (case description of None \<Rightarrow> [] | Some d \<Rightarrow> [''error_description='' @ quote d]))"

section \<open>Codes and tokens\<close>

definition AUTHORIZATION_CODE_TTL_SECONDS :: int where
  "AUTHORIZATION_CODE_TTL_SECONDS = 60"

definition unreserved_char :: "char \<Rightarrow> bool" where
  "unreserved_char c =
     ((CHR ''A'' \<le> c \<and> c \<le> CHR ''Z'') \<or> (CHR ''a'' \<le> c \<and> c \<le> CHR ''z'') \<or>
      (CHR ''0'' \<le> c \<and> c \<le> CHR ''9'') \<or> c \<in> set ''-._~'')"

text \<open>\<^verbatim>\<open>^[A-Za-z0-9\-._~]{43,128}$\<close>.\<close>

definition pkce_pattern :: "string \<Rightarrow> bool" where
  "pkce_pattern s = (43 \<le> length s \<and> length s \<le> 128 \<and> list_all unreserved_char s)"

definition verifyPkceS256 :: "mcp_env \<Rightarrow> string \<Rightarrow> string \<Rightarrow> bool" where
  "verifyPkceS256 env verifier challenge = (pkce_pattern verifier \<and> me_pkceChallenge env verifier = challenge)"

definition parseScopeParam :: "string option \<Rightarrow> mcp_scope list" where
  "parseScopeParam raw =
     (let tokens = filter (\<lambda>t. t \<noteq> []) (split_on CHR '' '' (or_else_text raw []))
      in filter (\<lambda>s. scope_name s \<in> set tokens) MCP_SCOPES)"

definition issueCode ::
  "mcp_env \<Rightarrow> int \<Rightarrow> string \<Rightarrow> string \<Rightarrow> client_row \<Rightarrow> request_row \<Rightarrow> mcp_scope list \<Rightarrow> string \<Rightarrow> string \<Rightarrow> string \<Rightarrow> mcp_db \<Rightarrow> mcp_db" where
  "issueCode env now codeId authCode client request scopes resource connectionId enrollmentId db =
     createCode \<lparr>ac_id = codeId, ac_codeHash = me_sha256Hex env authCode, ac_requestId = rq_id request,
       ac_clientId = cl_clientId client, ac_redirectUri = rq_redirectUri request,
       ac_codeChallenge = rq_codeChallenge request, ac_scopes = scopes, ac_resource = resource,
       ac_connectionId = connectionId, ac_enrollmentId = enrollmentId, ac_createdAt = now,
       ac_expiresAt = now + AUTHORIZATION_CODE_TTL_SECONDS * 1000, ac_redeemedAt = None, ac_grantId = None\<rparr> db"

text \<open>The random values a token response is made of.\<close>

record fresh_tokens =
  ft_grantId :: string
  ft_accessToken :: string
  ft_refreshToken :: string
  ft_refreshId :: string

record token_response =
  tr_accessToken :: string
  tr_expiresIn :: int
  tr_refreshToken :: string
  tr_scope :: string

definition mintPair ::
  "mcp_env \<Rightarrow> int \<Rightarrow> fresh_tokens \<Rightarrow> string \<Rightarrow> string \<Rightarrow> mcp_scope list \<Rightarrow> string \<Rightarrow> string option \<Rightarrow> mcp_db \<Rightarrow>
   token_response \<times> mcp_db" where
  "mintPair env now fresh grantId connectionId scopes resource parentRefreshId db =
     (let accessTtl = ms_accessTokenTtlMinutes (md_settings db) * 60;
          refreshTtl = ms_refreshTokenTtlDays (md_settings db) * 86400;
          db = createAccessToken \<lparr>at_tokenHash = me_sha256Hex env (ft_accessToken fresh), at_grantId = grantId,
            at_connectionId = connectionId, at_scopes = scopes, at_resource = resource, at_createdAt = now,
            at_expiresAt = now + accessTtl * 1000, at_revokedAt = None\<rparr> db;
          db = createRefreshToken \<lparr>rt_id = ft_refreshId fresh, rt_tokenHash = me_sha256Hex env (ft_refreshToken fresh),
            rt_grantId = grantId, rt_parentId = parentRefreshId, rt_createdAt = now,
            rt_expiresAt = now + refreshTtl * 1000, rt_usedAt = None, rt_revokedAt = None\<rparr> db
      in (\<lparr>tr_accessToken = ft_accessToken fresh, tr_expiresIn = accessTtl,
           tr_refreshToken = ft_refreshToken fresh, tr_scope = join '' '' (map scope_name scopes)\<rparr>, db))"

fun status_name :: "connection_status \<Rightarrow> string" where
  "status_name StPending = ''pending''"
| "status_name StActive = ''active''"
| "status_name StDisabled = ''disabled''"
| "status_name StSuspended = ''suspended''"
| "status_name StExpired = ''expired''"
| "status_name StRevoked = ''revoked''"

definition assertConnectionUsable :: "mcp_env \<Rightarrow> int \<Rightarrow> string \<Rightarrow> mcp_db \<Rightarrow> oauth_error option" where
  "assertConnectionUsable env now connectionId db =
     (if \<not> ms_enabled (md_settings db) then
        Some (oauth_error ''invalid_grant'' ''MCP access is currently disabled on this server.'')
      else
        (case findConnection connectionId db of
           None \<Rightarrow> Some (oauth_error ''invalid_grant'' ''The connection no longer exists.'')
         | Some connection \<Rightarrow>
             (case requireBinding connection db of
                Inl _ \<Rightarrow> Some (''server_error'', ''Internal error.'', 500)
              | Inr binding \<Rightarrow>
                  (let status = fst (statusOf env now connection binding db) in
                   if status \<noteq> StActive \<and> status \<noteq> StPending
                   then Some (oauth_error ''invalid_grant'' (''The connection is '' @ status_name status @ ''.''))
                   else None))))"

definition client_actor :: "client_row \<Rightarrow> string" where
  "client_actor client = ''client:'' @ cl_clientId client"

record exchange_input =
  xi_code :: "string option"
  xi_redirectUri :: "string option"
  xi_codeVerifier :: "string option"
  xi_resource :: "string option"
  xi_ip :: "string option"

text \<open>The checks on a code that has not been redeemed, in their order.\<close>

definition code_problem :: "mcp_env \<Rightarrow> int \<Rightarrow> client_row \<Rightarrow> exchange_input \<Rightarrow> string \<Rightarrow> code_row \<Rightarrow> oauth_error option" where
  "code_problem env now client input verifier authCode =
     (if ac_clientId authCode \<noteq> cl_clientId client then
        Some (oauth_error ''invalid_grant'' ''The authorization code was issued to another client.'')
      else if ac_expiresAt authCode \<le> now then
        Some (oauth_error ''invalid_grant'' ''The authorization code has expired.'')
      else if xi_redirectUri input \<noteq> Some (ac_redirectUri authCode) then
        Some (oauth_error ''invalid_grant'' ''redirect_uri does not match.'')
      else if \<not> verifyPkceS256 env verifier (ac_codeChallenge authCode) then
        Some (oauth_error ''invalid_grant'' ''PKCE verification failed.'')
      else
        (case xi_resource input of
           None \<Rightarrow> None
         | Some r \<Rightarrow>
             if r \<noteq> ac_resource authCode \<and> without_slash r \<noteq> ac_resource authCode
             then Some (oauth_error ''invalid_target'' ''The resource does not match the authorization.'')
             else None))"

text \<open>From the redemption on.\<close>

definition redeem_and_grant ::
  "mcp_env \<Rightarrow> int \<Rightarrow> fresh_tokens \<Rightarrow> client_row \<Rightarrow> exchange_input \<Rightarrow> code_row \<Rightarrow> mcp_db \<Rightarrow>
   (oauth_error + token_response) \<times> mcp_db" where
  "redeem_and_grant env now fresh client input authCode db =
     (case redeemCode (ac_id authCode) now db of
        (False, db) \<Rightarrow> (Inl (oauth_error ''invalid_grant'' ''The authorization code has already been used.''), db)
      | (True, db) \<Rightarrow>
     (case consumeEnrollment (ac_enrollmentId authCode) (ac_id authCode) now db of
        (False, db) \<Rightarrow> (Inl (oauth_error ''invalid_grant''
           ''The setup credential behind this authorization is no longer valid.''), db)
      | (True, db) \<Rightarrow>
     (case assertConnectionUsable env now (ac_connectionId authCode) db of
        Some e \<Rightarrow> (Inl e, db)
      | None \<Rightarrow>
     (case findConnection (ac_connectionId authCode) db of
        None \<Rightarrow> (Inl (oauth_error ''invalid_grant'' ''The connection no longer exists.''), db)
      | Some connection \<Rightarrow>
          (let scopes = filter (\<lambda>s. s \<in> set (cn_scopes connection)) (ac_scopes authCode) in
           if scopes = [] then
             (Inl (oauth_error ''invalid_scope'' ''None of the authorized permissions are still allowed.''), db)
           else
             (let db = createGrant \<lparr>gr_id = ft_grantId fresh, gr_connectionId = ac_connectionId authCode,
                    gr_clientId = cl_clientId client, gr_clientName = cl_clientName client,
                    gr_redirectUri = ac_redirectUri authCode, gr_scopes = scopes, gr_resource = ac_resource authCode,
                    gr_createdAt = now, gr_lastUsedAt = None, gr_revokedAt = None, gr_revokedReason = None\<rparr> db;
                  db = touchAuthorized (ac_connectionId authCode) now (attachGrantToCode (ac_id authCode) (ft_grantId fresh) db);
                  (pair, db) = mintPair env now fresh (ft_grantId fresh) (ac_connectionId authCode) scopes (ac_resource authCode) None db;
                  log = \<lambda>event. mcp_record now event True (client_actor client) (Some (ac_connectionId authCode))
                    (Some (cn_mailbox connection)) (xi_ip input)
              in (Inr pair, log ''oauth.token_issued'' (log ''enrollment.consumed'' db))))))))"

definition exchangeCode ::
  "mcp_env \<Rightarrow> int \<Rightarrow> fresh_tokens \<Rightarrow> client_row \<Rightarrow> exchange_input \<Rightarrow> mcp_db \<Rightarrow>
   (oauth_error + token_response) \<times> mcp_db" where
  "exchangeCode env now fresh client input db =
     (case (xi_code input, xi_codeVerifier input) of
        (Some presented, Some verifier) \<Rightarrow>
          if ''authorization_code'' \<notin> set (cl_grantTypes client) then
            (Inl (oauth_error ''unauthorized_client'' ''This client may not use the authorization_code grant.''), db)
          else
            (case findCodeByHash (me_sha256Hex env presented) db of
               None \<Rightarrow> (Inl (oauth_error ''invalid_grant'' ''The authorization code is invalid.''), db)
             | Some authCode \<Rightarrow>
                 if ac_redeemedAt authCode \<noteq> None then
                   (let db = (case ac_grantId authCode of None \<Rightarrow> db
                        | Some gid \<Rightarrow> snd (revokeGrant gid ''authorization code replayed'' now db))
                    in (Inl (oauth_error ''invalid_grant'' ''The authorization code has already been used.''),
                        mcp_record now ''oauth.code_replay_detected'' False (client_actor client)
                          (Some (ac_connectionId authCode)) None (xi_ip input) db))
                 else
                   (case code_problem env now client input verifier authCode of
                      Some e \<Rightarrow> (Inl e, db)
                    | None \<Rightarrow> redeem_and_grant env now fresh client input authCode db))
      | _ \<Rightarrow> (Inl (oauth_error ''invalid_request'' ''code and code_verifier are required.''), db))"

record refresh_input =
  ri_refreshToken :: "string option"
  ri_scope :: "string option"
  ri_resource :: "string option"
  ri_ip :: "string option"

text \<open>A replayed token revokes its grant.\<close>

definition refresh_replayed ::
  "int \<Rightarrow> string \<Rightarrow> client_row \<Rightarrow> refresh_input \<Rightarrow> grant_row \<Rightarrow> mcp_db \<Rightarrow> (oauth_error + token_response) \<times> mcp_db" where
  "refresh_replayed now reason client input grant db =
     (Inl (oauth_error ''invalid_grant'' ''The refresh token has already been used.''),
      mcp_record now ''oauth.refresh_replay_detected'' False (client_actor client) (Some (gr_connectionId grant)) None
        (ri_ip input) (snd (revokeGrant (gr_id grant) reason now db)))"

text \<open>The scopes of the new pair: what the grant and the connection both allow, and the request asks for.\<close>

definition refreshed_scopes :: "refresh_input \<Rightarrow> grant_row \<Rightarrow> connection_row \<Rightarrow> oauth_error + mcp_scope list" where
  "refreshed_scopes input grant connection =
     (let scopes = filter (\<lambda>s. s \<in> set (cn_scopes connection)) (gr_scopes grant) in
      case (case ri_scope input of
              None \<Rightarrow> Inr scopes
            | Some raw \<Rightarrow>
                (let requested = parseScopeParam (Some raw) in
                 if list_ex (\<lambda>s. s \<notin> set (gr_scopes grant)) requested
                 then Inl (oauth_error ''invalid_scope'' ''A refresh cannot add permissions to a grant.'')
                 else Inr (filter (\<lambda>s. s \<in> set requested) scopes))) of
        Inl e \<Rightarrow> Inl e
      | Inr scopes \<Rightarrow>
          if scopes = [] then Inl (oauth_error ''invalid_scope'' ''No permissions remain for this grant.'')
          else Inr scopes)"

definition grant_resource_current :: "mcp_db \<Rightarrow> grant_row \<Rightarrow> connection_row option" where
  "grant_resource_current db grant =
     (case (findConnection (gr_connectionId grant) db, ms_publicBaseUrl (md_settings db)) of
        (Some connection, Some base) \<Rightarrow>
          if resourceFor base (cn_id connection) = gr_resource grant then Some connection else None
      | _ \<Rightarrow> None)"

definition rotate_token ::
  "mcp_env \<Rightarrow> int \<Rightarrow> fresh_tokens \<Rightarrow> client_row \<Rightarrow> refresh_input \<Rightarrow> refresh_row \<Rightarrow> grant_row \<Rightarrow> connection_row \<Rightarrow>
   mcp_scope list \<Rightarrow> mcp_db \<Rightarrow> (oauth_error + token_response) \<times> mcp_db" where
  "rotate_token env now fresh client input token grant connection scopes db =
     (case markRefreshTokenUsed (rt_id token) now db of
        (False, db) \<Rightarrow> refresh_replayed now ''concurrent refresh token reuse'' client input grant db
      | (True, db) \<Rightarrow>
          (let (pair, db) = mintPair env now fresh (gr_id grant) (gr_connectionId grant) scopes (gr_resource grant)
                 (Some (rt_id token)) (touchGrant (gr_id grant) now db)
           in (Inr pair, mcp_record now ''oauth.token_refreshed'' True (client_actor client)
                 (Some (gr_connectionId grant)) (Some (cn_mailbox connection)) (ri_ip input) db)))"

definition refresh ::
  "mcp_env \<Rightarrow> int \<Rightarrow> fresh_tokens \<Rightarrow> client_row \<Rightarrow> refresh_input \<Rightarrow> mcp_db \<Rightarrow>
   (oauth_error + token_response) \<times> mcp_db" where
  "refresh env now fresh client input db =
     (case ri_refreshToken input of
        None \<Rightarrow> (Inl (oauth_error ''invalid_request'' ''refresh_token is required.''), db)
      | Some presented \<Rightarrow>
     (case findRefreshTokenByHash (me_sha256Hex env presented) db of
        None \<Rightarrow> (Inl (oauth_error ''invalid_grant'' ''The refresh token is invalid.''), db)
      | Some token \<Rightarrow>
     (case findGrant (rt_grantId token) db of
        None \<Rightarrow> (Inl (oauth_error ''invalid_grant'' ''The refresh token is invalid.''), db)
      | Some grant \<Rightarrow>
          if gr_clientId grant \<noteq> cl_clientId client then
            (Inl (oauth_error ''invalid_grant'' ''The refresh token is invalid.''), db)
          else if rt_usedAt token \<noteq> None then
            refresh_replayed now ''refresh token replay detected'' client input grant db
          else if rt_revokedAt token \<noteq> None \<or> gr_revokedAt grant \<noteq> None then
            (Inl (oauth_error ''invalid_grant'' ''The refresh token has been revoked.''), db)
          else if rt_expiresAt token \<le> now then
            (Inl (oauth_error ''invalid_grant'' ''The refresh token has expired.''), db)
          else if (case ri_resource input of None \<Rightarrow> False | Some r \<Rightarrow> without_slash r \<noteq> gr_resource grant) then
            (Inl (oauth_error ''invalid_target'' ''The resource does not match the grant.''), db)
          else
            (case grant_resource_current db grant of
               None \<Rightarrow> (Inl (oauth_error ''invalid_grant'' ''The grant is no longer valid for this server.''), db)
             | Some connection \<Rightarrow>
                 (case assertConnectionUsable env now (gr_connectionId grant) db of
                    Some e \<Rightarrow> (Inl e, db)
                  | None \<Rightarrow>
                      (case refreshed_scopes input grant connection of
                         Inl e \<Rightarrow> (Inl e, db)
                       | Inr scopes \<Rightarrow> rotate_token env now fresh client input token grant connection scopes db))))))"

definition revoke_refresh ::
  "int \<Rightarrow> string \<Rightarrow> client_row \<Rightarrow> string option \<Rightarrow> mcp_db \<Rightarrow> mcp_db option" where
  "revoke_refresh now h client ip db =
     (case findRefreshTokenByHash h db of
        None \<Rightarrow> None
      | Some token \<Rightarrow>
          Some (case findGrant (rt_grantId token) db of
             None \<Rightarrow> db
           | Some grant \<Rightarrow>
               if gr_clientId grant = cl_clientId client then
                 mcp_record now ''oauth.token_revoked'' True (client_actor client) (Some (gr_connectionId grant)) None ip
                   (snd (revokeGrant (gr_id grant) ''revoked by client'' now db))
               else db))"

definition revoke_access ::
  "int \<Rightarrow> string \<Rightarrow> client_row \<Rightarrow> string option \<Rightarrow> mcp_db \<Rightarrow> mcp_db option" where
  "revoke_access now h client ip db =
     (case findAccessTokenByHash h db of
        None \<Rightarrow> None
      | Some token \<Rightarrow>
          Some (case findGrant (at_grantId token) db of
             None \<Rightarrow> db
           | Some grant \<Rightarrow>
               if gr_clientId grant = cl_clientId client then
                 mcp_record now ''oauth.token_revoked'' True (client_actor client) (Some (gr_connectionId grant)) None ip
                   (revokeAccessTokenByHash h now db)
               else db))"

definition revoke_token ::
  "mcp_env \<Rightarrow> int \<Rightarrow> client_row \<Rightarrow> string \<Rightarrow> string option \<Rightarrow> string option \<Rightarrow> mcp_db \<Rightarrow> mcp_db" where
  "revoke_token env now client token hint ip db =
     (let h = me_sha256Hex env token;
          first = (if hint = Some ''access_token'' then revoke_access else revoke_refresh);
          second = (if hint = Some ''access_token'' then revoke_refresh else revoke_access)
      in case first now h client ip db of
           Some db' \<Rightarrow> db'
         | None \<Rightarrow> (case second now h client ip db of Some db' \<Rightarrow> db' | None \<Rightarrow> db))"

end
