(* ===== verification/McpAuthorize.thy ===== *)
theory McpAuthorize
  imports McpOAuth
begin

text \<open>
  The requests that reach the mail agent from outside: with a token (\<^verbatim>\<open>bearer.ts\<close>), from a browser that
  authorizes a client (\<^verbatim>\<open>authorization.service.ts\<close>), and from a client that identifies itself
  (\<^verbatim>\<open>clients.service.ts\<close>).
\<close>

section \<open>Requests with a token\<close>

record mcp_auth_context =
  mc_connectionId :: string
  mc_bindingId :: string
  mc_mailbox :: string
  mc_grantId :: string
  mc_clientId :: string
  mc_scopes :: "mcp_scope list"
  mc_senderIdentities :: "string list"

datatype bearer_outcome =
    BearerOk mcp_auth_context
  | BearerRefused nat "string option" string

definition TOUCH_INTERVAL_MS :: int where
  "TOUCH_INTERVAL_MS = 60000"

definition availableCapabilities :: "mcp_db \<Rightarrow> mcp_scope list" where
  "availableCapabilities db =
     filter (\<lambda>s. if s = MailSend then 0 < ms_sendsPerHour (md_settings db) \<and> 0 < ms_sendsPerDay (md_settings db)
       else True) MCP_SCOPES"

definition bearer_char :: "char \<Rightarrow> bool" where
  "bearer_char c = (unreserved_char c \<or> c \<in> set ''+/'')"

text \<open>\<^verbatim>\<open>/^Bearer ([A-Za-z0-9\-._~+/]+=*)$/\<close> on the trimmed header.\<close>

definition bearer_token :: "string \<Rightarrow> string option" where
  "bearer_token header =
     (let h = trim header; token = drop 7 h
      in if starts_with ''Bearer '' h \<and> takeWhile bearer_char token \<noteq> [] \<and>
           list_all (\<lambda>c. c = CHR ''='') (dropWhile bearer_char token) then Some token else None)"

definition challenge401 ::
  "string \<Rightarrow> connection_row \<Rightarrow> string \<Rightarrow> string option \<Rightarrow> bearer_outcome" where
  "challenge401 resourceMetadata connection description error =
     BearerRefused 401 (Some (bearerChallenge resourceMetadata (cn_scopes connection) error
       (case error of None \<Rightarrow> None | Some _ \<Rightarrow> Some description))) description"

text \<open>The checks on a token that is known and live, against the connection that was asked for.\<close>

definition verify_token ::
  "mcp_env \<Rightarrow> int \<Rightarrow> string \<Rightarrow> connection_row \<Rightarrow> access_row \<Rightarrow> string option \<Rightarrow> mcp_db \<Rightarrow> bearer_outcome \<times> mcp_db" where
  "verify_token env now base connection token ip db =
     (let connectionId = cn_id connection;
          metadata = resourceMetadataUrlFor base connectionId;
          invalid = (\<lambda>d. challenge401 metadata connection d (Some ''invalid_token''));
          denied = mcp_record now ''access.denied'' False ''anonymous'' (Some connectionId) None ip db
      in
      if at_connectionId token \<noteq> connectionId then
        (invalid ''The access token was not issued for this MCP endpoint.'', denied)
      else if at_resource token \<noteq> resourceFor base connectionId then
        (invalid ''The access token audience does not match this MCP endpoint.'', denied)
      else
        (case findGrant (at_grantId token) db of
           None \<Rightarrow> (invalid ''The authorization grant has been revoked.'', db)
         | Some grant \<Rightarrow>
             if gr_revokedAt grant \<noteq> None \<or> gr_connectionId grant \<noteq> connectionId then
               (invalid ''The authorization grant has been revoked.'', db)
             else
               (case findBinding (cn_bindingId connection) db of
                  None \<Rightarrow> (BearerRefused 403 None ''This connection is not usable.'', db)
                | Some binding \<Rightarrow>
                    (let (status, reason) = statusOf env now connection binding db in
                     if status \<noteq> StActive then
                       (BearerRefused 403 None
                         (or_else_text reason (''This connection is '' @ status_name status @ ''.'')), db)
                     else
                       (let scopes = filter (\<lambda>s. s \<in> set (cn_scopes connection) \<and> s \<in> set (availableCapabilities db))
                              (at_scopes token)
                        in if scopes = [] then
                             (BearerRefused 403 (Some (bearerChallenge metadata (cn_scopes connection)
                                (Some ''insufficient_scope'')
                                (Some ''None of the granted permissions are currently allowed.'')))
                                ''None of the granted permissions are currently allowed.'', db)
                           else
                             (BearerOk \<lparr>mc_connectionId = connectionId, mc_bindingId = bi_id binding,
                                mc_mailbox = bi_mailbox binding, mc_grantId = gr_id grant,
                                mc_clientId = gr_clientId grant, mc_scopes = scopes,
                                mc_senderIdentities = cn_senderIdentities connection\<rparr>,
                              if (case cn_lastUsedAt connection of None \<Rightarrow> True | Some t \<Rightarrow> TOUCH_INTERVAL_MS < now - t)
                              then touchGrant (gr_id grant) now (touchUsed connectionId now db) else db))))))"

definition bearer_verify ::
  "mcp_env \<Rightarrow> int \<Rightarrow> string \<Rightarrow> string option \<Rightarrow> string option \<Rightarrow> mcp_db \<Rightarrow> bearer_outcome \<times> mcp_db" where
  "bearer_verify env now connectionId authorization ip db =
     (case (ms_enabled (md_settings db), ms_publicBaseUrl (md_settings db)) of
        (True, Some base) \<Rightarrow>
          if \<not> CONNECTION_ID_PATTERN connectionId then (BearerRefused 404 None ''Unknown MCP endpoint.'', db)
          else
            (case findConnection connectionId db of
               None \<Rightarrow> (BearerRefused 404 None ''Unknown MCP endpoint.'', db)
             | Some connection \<Rightarrow>
                 if cn_state connection = CRevoked then (BearerRefused 404 None ''Unknown MCP endpoint.'', db)
                 else
                   (let metadata = resourceMetadataUrlFor base connectionId in
                    case authorization of
                      None \<Rightarrow> (challenge401 metadata connection ''Authorization required.'' None, db)
                    | Some header \<Rightarrow>
                        if header = [] then (challenge401 metadata connection ''Authorization required.'' None, db)
                        else
                          (case bearer_token header of
                             None \<Rightarrow> (challenge401 metadata connection ''Malformed Authorization header.''
                               (Some ''invalid_request''), db)
                           | Some presented \<Rightarrow>
                               (case findAccessTokenByHash (me_sha256Hex env presented) db of
                                  None \<Rightarrow> (challenge401 metadata connection
                                    ''The access token is invalid, expired or revoked.'' (Some ''invalid_token''), db)
                                | Some token \<Rightarrow>
                                    if at_revokedAt token \<noteq> None \<or> at_expiresAt token \<le> now then
                                      (challenge401 metadata connection
                                        ''The access token is invalid, expired or revoked.'' (Some ''invalid_token''), db)
                                    else verify_token env now base connection token ip db))))
      | _ \<Rightarrow> (BearerRefused 503 None ''MCP access is disabled on this server.'', db))"

section \<open>Clients\<close>

definition isLoopbackHost :: "string \<Rightarrow> bool" where
  "isLoopbackHost hostname = (hostname = ''localhost'' \<or> hostname = ''127.0.0.1'' \<or> hostname = ''[::1]'')"

definition validateRedirectUri :: "mcp_env \<Rightarrow> string \<Rightarrow> string option" where
  "validateRedirectUri env raw =
     (if 2000 < length raw then Some ''redirect URI is too long''
      else
        (case me_url env raw of
           None \<Rightarrow> Some ''redirect URI is not an absolute URI''
         | Some url \<Rightarrow>
             if url_hash url \<noteq> [] then Some ''redirect URI must not contain a fragment''
             else if url_username url \<noteq> [] \<or> url_password url \<noteq> [] then
               Some ''redirect URI must not contain credentials''
             else if url_protocol url = ''https:'' then None
             else if url_protocol url = ''http:'' \<and> isLoopbackHost (url_hostname url) then None
             else Some ''redirect URI must use https (or http on a loopback host)''))"

record registration_request =
  rg_redirectUris :: "string list"
  rg_clientName :: "string option"
  rg_grantTypes :: "string list option"
  rg_responseTypes :: "string list option"
  rg_tokenEndpointAuthMethod :: "string option"

definition MAX_REDIRECT_URIS :: nat where "MAX_REDIRECT_URIS = 10"
definition DCR_DAILY_CAP :: nat where "DCR_DAILY_CAP = 500"

fun auth_method_of :: "string \<Rightarrow> auth_method option" where
  "auth_method_of s =
     (if s = ''none'' then Some AuthNone
      else if s = ''client_secret_basic'' then Some ClientSecretBasic
      else if s = ''client_secret_post'' then Some ClientSecretPost
      else None)"

text \<open>Registration; a body that its schema refuses is \<^const>\<open>None\<close>.\<close>

definition client_register ::
  "mcp_env \<Rightarrow> int \<Rightarrow> string \<Rightarrow> string \<Rightarrow> registration_request option \<Rightarrow> string option \<Rightarrow> mcp_db \<Rightarrow>
   (oauth_error + client_row) \<times> mcp_db" where
  "client_register env now clientId clientSecret body ip db =
     (if \<not> ms_dynamicRegistration (md_settings db) then
        (Inl (''invalid_request'', ''Dynamic client registration is disabled on this server.'', 403), db)
      else if DCR_DAILY_CAP \<le> countClientsCreatedSince (now - 86400000) db then
        (Inl (''temporarily_unavailable'', ''Too many client registrations; try again later.'', 429), db)
      else
        (case body of
           None \<Rightarrow> (Inl (oauth_error ''invalid_client_metadata'' ''The client metadata is invalid.''), db)
         | Some request \<Rightarrow>
             (case find (\<lambda>p. p \<noteq> None) (map (validateRedirectUri env) (rg_redirectUris request)) of
                Some (Some problem) \<Rightarrow> (Inl (oauth_error ''invalid_redirect_uri'' problem), db)
              | _ \<Rightarrow>
                  (let grantTypes = (case rg_grantTypes request of
                         None \<Rightarrow> [''authorization_code'', ''refresh_token''] | Some g \<Rightarrow> g) in
                   if ''authorization_code'' \<notin> set grantTypes \<or>
                     list_ex (\<lambda>g. g \<noteq> ''authorization_code'' \<and> g \<noteq> ''refresh_token'') grantTypes then
                     (Inl (oauth_error ''invalid_client_metadata''
                       ''Only the authorization_code and refresh_token grant types are supported.''), db)
                   else if (case rg_responseTypes request of None \<Rightarrow> False | Some rs \<Rightarrow> list_ex (\<lambda>r. r \<noteq> ''code'') rs) then
                     (Inl (oauth_error ''invalid_client_metadata'' (''Only the '' @ in_quotes ''code'' @ '' response type is supported.'')), db)
                   else
                     (case auth_method_of (or_else_text (rg_tokenEndpointAuthMethod request) ''client_secret_basic'') of
                        None \<Rightarrow> (Inl (oauth_error ''invalid_client_metadata'' ''Unsupported token_endpoint_auth_method.''), db)
                      | Some meth \<Rightarrow>
                          (let client = \<lparr>cl_clientId = clientId, cl_kind = Dcr, cl_clientName = rg_clientName request,
                                 cl_redirectUris = rg_redirectUris request, cl_grantTypes = grantTypes,
                                 cl_tokenEndpointAuthMethod = meth,
                                 cl_clientSecretHash = (if meth = AuthNone then None else Some (me_sha256Hex env clientSecret)),
                                 cl_metadataExpiresAt = None, cl_createdAt = now\<rparr>
                           in (Inr client, mcp_record now ''oauth.client_registered'' True ''anonymous'' None None ip
                                (upsertClient client db))))))))"

definition isMetadataDocumentClientId :: "string \<Rightarrow> bool" where
  "isMetadataDocumentClientId clientId = starts_with ''https://'' clientId"

record client_document =
  do_clientId :: string
  do_clientName :: string
  do_redirectUris :: "string list"
  do_grantTypes :: "string list option"
  do_authMethods :: "string list"
  do_maxAgeSeconds :: "int option"

datatype resolution = Resolved client_row | FetchDocument "string list" | Unresolved oauth_error

text \<open>\<^verbatim>\<open>resolve\<close> up to the fetch of a metadata document.\<close>

definition client_resolve :: "int \<Rightarrow> string \<Rightarrow> mcp_db \<Rightarrow> resolution" where
  "client_resolve now clientId db =
     (if length clientId = 0 \<or> 2000 < length clientId then Unresolved (''invalid_client'', ''Unknown client.'', 401)
      else if \<not> isMetadataDocumentClientId clientId then
        (case findClient clientId db of
           None \<Rightarrow> Unresolved (''invalid_client'', ''Unknown client.'', 401)
         | Some client \<Rightarrow> if cl_kind client \<noteq> Dcr then Unresolved (''invalid_client'', ''Unknown client.'', 401)
             else Resolved client)
      else if \<not> ms_metadataDocuments (md_settings db) then
        Unresolved (''invalid_client'', ''Client ID Metadata Documents are disabled on this server.'', 401)
      else
        (case findClient clientId db of
           Some cached \<Rightarrow>
             if cl_kind cached = Cimd \<and> (case cl_metadataExpiresAt cached of None \<Rightarrow> False | Some t \<Rightarrow> now < t)
             then Resolved cached else FetchDocument (ms_allowedMetadataHosts (md_settings db))
         | None \<Rightarrow> FetchDocument (ms_allowedMetadataHosts (md_settings db))))"

definition CIMD_DEFAULT_TTL_SECONDS :: int where "CIMD_DEFAULT_TTL_SECONDS = 3600"
definition CIMD_MAX_TTL_SECONDS :: int where "CIMD_MAX_TTL_SECONDS = 86400"
definition CIMD_MIN_TTL_SECONDS :: int where "CIMD_MIN_TTL_SECONDS = 60"

text \<open>
  The checks around the fetch, in their order; \<open>fetched\<close> is the document, the fetcher's message, or
  \<^const>\<open>None\<close> for a document without its required fields.
\<close>

definition document_problem ::
  "mcp_env \<Rightarrow> string \<Rightarrow> string list \<Rightarrow> string + client_document option \<Rightarrow> string + client_document" where
  "document_problem env clientId allowedHosts fetched =
     (case me_url env clientId of
        None \<Rightarrow> Inl ''client_id is not a URL''
      | Some url \<Rightarrow>
          if url_pathname url = ''/'' \<or> url_pathname url = [] then Inl ''client_id URL must contain a path''
          else if url_search url \<noteq> [] then Inl ''client_id URL must not contain a query''
          else if allowedHosts \<noteq> [] \<and> to_lower (url_hostname url) \<notin> set allowedHosts then
            Inl ''the host is not on the list of trusted metadata hosts''
          else
            (case fetched of
               Inl message \<Rightarrow> Inl message
             | Inr None \<Rightarrow> Inl ''the document is missing required fields''
             | Inr (Some doc) \<Rightarrow>
                 if do_clientId doc \<noteq> clientId then Inl ''client_id in the document does not match its URL''
                 else if list_ex (\<lambda>u. validateRedirectUri env u \<noteq> None) (do_redirectUris doc) then
                   Inl ''a redirect URI is not https/loopback''
                 else if do_authMethods doc \<noteq> [] \<and> ''none'' \<notin> set (do_authMethods doc) then
                   Inl (''the client does not support token_endpoint_auth_method '' @ in_quotes ''none'')
                 else if ''authorization_code'' \<notin> set (case do_grantTypes doc of
                     None \<Rightarrow> [''authorization_code'', ''refresh_token''] | Some g \<Rightarrow> g) then
                   Inl ''authorization_code grant not listed''
                 else Inr doc))"

definition fetchMetadataDocument ::
  "mcp_env \<Rightarrow> int \<Rightarrow> string \<Rightarrow> string list \<Rightarrow> string + client_document option \<Rightarrow> string option \<Rightarrow> mcp_db \<Rightarrow>
   (oauth_error + client_row) \<times> mcp_db" where
  "fetchMetadataDocument env now clientId allowedHosts fetched ip db =
     (case document_problem env clientId allowedHosts fetched of
        Inl reason \<Rightarrow>
          (Inl (''invalid_client'', ''The client metadata document was rejected: '' @ reason, 401),
           mcp_record now ''oauth.client_metadata_rejected'' False ''anonymous'' None None ip db)
      | Inr doc \<Rightarrow>
          (let ttl = min CIMD_MAX_TTL_SECONDS (max CIMD_MIN_TTL_SECONDS
                 (case do_maxAgeSeconds doc of None \<Rightarrow> CIMD_DEFAULT_TTL_SECONDS | Some t \<Rightarrow> t));
               db = upsertClient \<lparr>cl_clientId = clientId, cl_kind = Cimd, cl_clientName = Some (do_clientName doc),
                 cl_redirectUris = do_redirectUris doc,
                 cl_grantTypes = (case do_grantTypes doc of
                     None \<Rightarrow> [''authorization_code'', ''refresh_token''] | Some g \<Rightarrow> g),
                 cl_tokenEndpointAuthMethod = AuthNone, cl_clientSecretHash = None,
                 cl_metadataExpiresAt = Some (now + ttl * 1000), cl_createdAt = now\<rparr> db
           in case findClient clientId db of
                None \<Rightarrow> (Inl (''server_error'', ''Client metadata could not be stored.'', 500), db)
              | Some stored \<Rightarrow> (Inr stored, db)))"

definition selectRedirectUri :: "client_row \<Rightarrow> string option \<Rightarrow> string option" where
  "selectRedirectUri client requested =
     (case requested of
        None \<Rightarrow> (case cl_redirectUris client of [u] \<Rightarrow> Some u | _ \<Rightarrow> None)
      | Some r \<Rightarrow> if r \<in> set (cl_redirectUris client) then Some r else None)"

text \<open>The credentials a client presents: its id, its secret and whether the secret came by Basic.\<close>

record client_credentials =
  cc_clientId :: string
  cc_secret :: "string option"
  cc_viaBasic :: bool

text \<open>\<open>basic\<close> is the decoded Basic header, if there is one: its two parts, or \<^const>\<open>None\<close> without a colon.\<close>

definition presented_credentials ::
  "(string \<times> string) option option \<Rightarrow> string option \<Rightarrow> string option \<Rightarrow> oauth_error + client_credentials" where
  "presented_credentials basic bodyClientId bodyClientSecret =
     (case basic of
        Some None \<Rightarrow> Inl (''invalid_client'', ''Client authentication failed.'', 401)
      | Some (Some (basicId, secret)) \<Rightarrow>
          if bodyClientId \<noteq> None \<and> bodyClientId \<noteq> Some basicId then
            Inl (oauth_error ''invalid_request'' ''client_id does not match the Authorization header.'')
          else Inr \<lparr>cc_clientId = basicId, cc_secret = Some secret, cc_viaBasic = True\<rparr>
      | None \<Rightarrow>
          (case bodyClientId of
             None \<Rightarrow> Inl (''invalid_client'', ''Client authentication failed.'', 401)
           | Some cid \<Rightarrow> Inr \<lparr>cc_clientId = cid, cc_secret = bodyClientSecret, cc_viaBasic = False\<rparr>))"

text \<open>After the client of that id is resolved (\<^const>\<open>None\<close>: it could not be).\<close>

definition client_authenticate :: "mcp_env \<Rightarrow> client_credentials \<Rightarrow> client_row option \<Rightarrow> oauth_error + client_row" where
  "client_authenticate env credentials resolved =
     (let failed = Inl (''invalid_client'', ''Client authentication failed.'', 401) in
      case resolved of
        None \<Rightarrow> failed
      | Some client \<Rightarrow>
          (case cl_tokenEndpointAuthMethod client of
             AuthNone \<Rightarrow> if cc_secret credentials \<noteq> None then failed else Inr client
           | meth \<Rightarrow>
               (case (cc_secret credentials, cl_clientSecretHash client) of
                  (Some secret, Some h) \<Rightarrow>
                    if cc_viaBasic credentials \<noteq> (meth = ClientSecretBasic) then failed
                    else if me_sha256Hex env (me_sha256Hex env secret) \<noteq> me_sha256Hex env h then failed
                    else Inr client
                | _ \<Rightarrow> failed)))"

end
