(* ===== verification/MessageRef.thy ===== *)
theory MessageRef
  imports Utf8
begin

text \<open>
  Message identifiers (\<^verbatim>\<open>apps/mcp/src/mail/message-ref.ts\<close>): a folder, the validity of its numbering and
  a message number, packed into one word that the client hands back.  A folder name is a list of code
  points; its length in the source counts two for a point beyond \<^verbatim>\<open>0xFFFF\<close>.  The encoders of
  \<^verbatim>\<open>Buffer\<close> are defined here, and the decoders are shown to invert them.
\<close>

section \<open>\<^verbatim>\<open>Buffer.from(s, 'utf8')\<close>\<close>

definition surrogate :: "nat \<Rightarrow> bool" where
  "surrogate p = (0xD800 \<le> p \<and> p \<le> 0xDFFF)"

definition utf8_point :: "nat \<Rightarrow> nat list" where
  "utf8_point p =
     (if p < 0x80 then [p]
      else if p < 0x800 then [0xC0 + p div 64, 0x80 + p mod 64]
      else if surrogate p then [0xEF, 0xBF, 0xBD]
      else if p < 0x10000 then [0xE0 + p div 4096, 0x80 + p div 64 mod 64, 0x80 + p mod 64]
      else [0xF0 + p div 262144, 0x80 + p div 4096 mod 64, 0x80 + p div 64 mod 64, 0x80 + p mod 64])"

definition utf8_encode :: "text_points \<Rightarrow> byte list" where
  "utf8_encode ps = map of_nat (concat (map utf8_point ps))"

definition scalar_value :: "nat \<Rightarrow> bool" where
  "scalar_value p = (p < 0x110000 \<and> \<not> surrogate p)"

abbreviation utf8_start :: "nat list \<Rightarrow> text_points" where
  "utf8_start \<equiv> utf8_go 0 0x80 0xBF 0"

lemma points_split:
  "p div 64 * 64 + p mod 64 = (p::nat)" "p div 4096 * 64 + p div 64 mod 64 = (p::nat) div 64"
  "p div 262144 * 64 + p div 4096 mod 64 = (p::nat) div 4096"
  using div_mult_mod_eq [of "p div 64" 64] div_mult_mod_eq [of "p div 4096" 64]
    div_mult2_eq [of p 64 64] div_mult2_eq [of p 4096 64] by simp_all

lemma sextet_less: "(n::nat) mod 64 < 64" "(n::nat) mod 64 < 128"
  using mod_less_divisor [of 64 n] by linarith+

lemma length_utf8_replicate: "length (utf8_encode (replicate n p)) = n * length (utf8_point p)"
  by (induction n) (simp_all add: utf8_encode_def)

lemma utf8_point_byte: "scalar_value p \<Longrightarrow> list_all (\<lambda>b. b < 256) (utf8_point p)"
  using sextet_less(2) [of p] sextet_less(2) [of "p div 64"] sextet_less(2) [of "p div 4096"]
  by (simp add: utf8_point_def scalar_value_def less_mult_imp_div_less)

lemma utf8_three:
  assumes "0x800 \<le> p" "p < 0x10000" "\<not> surrogate p"
  shows "utf8_lead (0xE0 + p div 4096) =
      Some (2, p div 4096, if p div 4096 = 0 then 0xA0 else 0x80, if p div 4096 = 0xD then 0x9F else 0xBF)"
    "p div 4096 = 0 \<Longrightarrow> 0x20 \<le> p div 64 mod 64" "p div 4096 = 0xD \<Longrightarrow> p div 64 mod 64 < 0x20"
proof -
  note split = points_split(1,2) [of p] sextet_less(1) [of p] sextet_less(1) [of "p div 64"]
  have "p div 4096 < 16" using assms(2) by (simp add: less_mult_imp_div_less)
  then show "utf8_lead (0xE0 + p div 4096) =
      Some (2, p div 4096, if p div 4096 = 0 then 0xA0 else 0x80, if p div 4096 = 0xD then 0x9F else 0xBF)"
    by (auto simp: utf8_lead_def)
  show "p div 4096 = 0 \<Longrightarrow> 0x20 \<le> p div 64 mod 64" using assms(1) split by linarith
  show "p div 4096 = 0xD \<Longrightarrow> p div 64 mod 64 < 0x20"
    using assms(3) split unfolding surrogate_def de_Morgan_conj by linarith
qed

lemma utf8_four:
  assumes "0x10000 \<le> p" "p < 0x110000"
  shows "utf8_lead (0xF0 + p div 262144) =
      Some (3, p div 262144, if p div 262144 = 0 then 0x90 else 0x80, if p div 262144 = 4 then 0x8F else 0xBF)"
    "p div 262144 = 0 \<Longrightarrow> 0x10 \<le> p div 4096 mod 64" "p div 262144 = 4 \<Longrightarrow> p div 4096 mod 64 < 0x10"
proof -
  note split = points_split [of p] sextet_less(1) [of p] sextet_less(1) [of "p div 64"] sextet_less(1) [of "p div 4096"]
  have "p div 262144 < 5" using assms(2) by (simp add: less_mult_imp_div_less)
  then show "utf8_lead (0xF0 + p div 262144) =
      Some (3, p div 262144, if p div 262144 = 0 then 0x90 else 0x80, if p div 262144 = 4 then 0x8F else 0xBF)"
    by (auto simp: utf8_lead_def)
  show "p div 262144 = 0 \<Longrightarrow> 0x10 \<le> p div 4096 mod 64" using assms(1) split by linarith
  show "p div 262144 = 4 \<Longrightarrow> p div 4096 mod 64 < 0x10" using assms(2) split by linarith
qed

text \<open>A continuation byte of any six bits.\<close>

lemma utf8_continues:
  "n \<noteq> 0 \<Longrightarrow> lo \<le> 0x80 + v mod 64 \<Longrightarrow> 0x80 + v mod 64 \<le> hi \<Longrightarrow>
     utf8_go n lo hi acc ((0x80 + v mod 64) # bs) =
       (if n = 1 then (acc * 64 + v mod 64) # utf8_start bs else utf8_go (n - 1) 0x80 0xBF (acc * 64 + v mod 64) bs)"
  by (simp add: utf8_go.simps)

lemma utf8_leads:
  "0x80 \<le> b \<Longrightarrow> utf8_lead b = Some (n, bits, l, u) \<Longrightarrow> utf8_start (b # bs) = utf8_go n l u bits bs"
  by (simp add: utf8_go.simps)

lemma sextet_range: "0x80 + (v::nat) mod 64 \<le> 0xBF" using sextet_less(1) [of v] by linarith

lemma utf8_decodes_point:
  assumes "scalar_value p"
  shows "utf8_start (utf8_point p @ rest) = p # utf8_start rest"
proof -
  consider "p < 0x80" | "0x80 \<le> p" "p < 0x800" | "0x800 \<le> p" "p < 0x10000" "\<not> surrogate p"
    | "0x10000 \<le> p" "p < 0x110000" "\<not> surrogate p"
    using assms by (fastforce simp: scalar_value_def)
  then show ?thesis
  proof cases
    case 2
    have "p div 64 < 32" "2 \<le> p div 64" using 2 points_split(1) [of p] sextet_less(1) [of p] by linarith+
    then have lead: "utf8_lead (0xC0 + p div 64) = Some (1, p div 64, 0x80, 0xBF)" by (simp add: utf8_lead_def)
    show ?thesis using 2 points_split(1) [of p] sextet_range
      by (simp add: utf8_point_def utf8_leads [OF _ lead] utf8_continues)
  next
    case 3
    note lead = utf8_three(1) [OF 3]
    show ?thesis using 3 utf8_three(2,3) [OF 3] points_split [of p] sextet_range
      by (auto simp: utf8_point_def utf8_leads [OF _ lead] utf8_continues)
  next
    case 4
    note lead = utf8_four(1) [OF 4(1,2)]
    have "(if p div 262144 = 0 then 0x90 else 0x80) \<le> 0x80 + p div 4096 mod 64"
      "0x80 + p div 4096 mod 64 \<le> (if p div 262144 = 4 then 0x8F else 0xBF)"
      using utf8_four(2,3) [OF 4(1,2)] sextet_range [of "p div 4096"] by (simp_all split: if_split) linarith
    then show ?thesis using 4 points_split [of p] sextet_range
      by (simp add: utf8_point_def utf8_leads [OF _ lead] utf8_continues del: One_nat_def)
  qed (simp add: utf8_point_def utf8_go.simps(2))
qed

lemma utf8_decodes: "list_all scalar_value ps \<Longrightarrow> utf8_start (concat (map utf8_point ps)) = ps"
  by (induction ps) (simp_all add: utf8_decodes_point utf8_go.simps(1))

lemma utf8_decode_encode: "list_all scalar_value ps \<Longrightarrow> utf8_decode (utf8_encode ps) = ps"
proof -
  assume ps: "list_all scalar_value ps"
  have "map unat (utf8_encode ps) = concat (map utf8_point ps)"
    unfolding utf8_encode_def map_map using ps utf8_point_byte
    by (intro map_idI) (fastforce simp: list_all_iff unat_of_nat)
  then show ?thesis using utf8_decodes [OF ps] by (simp add: utf8_decode_def)
qed

section \<open>\<^verbatim>\<open>base64url\<close>\<close>

text \<open>The alphabet, and what the decoder of \<^verbatim>\<open>Buffer\<close> reads; it takes both alphabets.\<close>

definition base64url_char :: "nat \<Rightarrow> char" where
  "base64url_char n =
     (if n < 26 then char_of (65 + n) else if n < 52 then char_of (71 + n) else if n < 62 then char_of (n - 4)
      else if n = 62 then CHR ''-'' else CHR ''_'')"

definition base64_value :: "char \<Rightarrow> nat" where
  "base64_value c =
     (if is_ascii_upper c then code c - 65 else if is_ascii_lower c then code c - 71
      else if is_digit c then code c + 4 else if c = CHR ''-'' \<or> c = CHR ''+'' then 62 else 63)"

definition base64url_letter :: "char \<Rightarrow> bool" where
  "base64url_letter c = (is_ascii_alnum c \<or> c = CHR ''-'' \<or> c = CHR ''_'')"

fun sextets :: "nat list \<Rightarrow> nat list" where
  "sextets (a # b # c # bs) = a div 4 # (a mod 4 * 16 + b div 16) # (b mod 16 * 4 + c div 64) # c mod 64 # sextets bs"
| "sextets [a, b] = [a div 4, a mod 4 * 16 + b div 16, b mod 16 * 4]"
| "sextets [a] = [a div 4, a mod 4 * 16]"
| "sextets [] = []"

text \<open>Bits left over at the end are dropped, and so is a last character that stands alone.\<close>

fun octets :: "nat list \<Rightarrow> nat list" where
  "octets (p # q # r # s # vs) = (p * 4 + q div 16) # (q mod 16 * 16 + r div 4) # (r mod 4 * 64 + s) # octets vs"
| "octets [p, q, r] = [p * 4 + q div 16, q mod 16 * 16 + r div 4]"
| "octets [p, q] = [p * 4 + q div 16]"
| "octets _ = []"

definition base64url_encode :: "byte list \<Rightarrow> string" where
  "base64url_encode bs = map base64url_char (sextets (map unat bs))"

definition base64url_decode :: "string \<Rightarrow> byte list" where
  "base64url_decode s = map of_nat (octets (map base64_value s))"

lemma packed:
  fixes x y n :: nat
  assumes "y < n"
  shows "(x * n + y) div n = x" "(x * n + y) mod n = y"
  using assms by simp_all

lemma sextet_parts:
  fixes a b :: nat
  assumes "b < 256"
  shows "b div 4 < 64" "a mod 4 * 16 + b div 16 < 64" "a mod 16 * 4 + b div 64 < 64" "b div 16 < 16" "b div 64 < 4"
proof -
  show p: "b div 4 < 64" "b div 16 < 16" "b div 64 < 4" using assms by (simp_all add: less_mult_imp_div_less)
  have "a mod 4 < 4" "a mod 16 < 16" by simp_all
  with p show "a mod 4 * 16 + b div 16 < 64" "a mod 16 * 4 + b div 64 < 64" by linarith+
qed

lemma sextets_small: "list_all (\<lambda>b. b < 256) bs \<Longrightarrow> list_all (\<lambda>v. v < 64) (sextets bs)"
proof (induction bs rule: sextets.induct)
  case (2 a b)
  then show ?case using sextet_parts(1) [of a] sextet_parts(2) [of b a] sextet_parts(3) [of 0 b] by simp
next
  case (3 a)
  then show ?case using sextet_parts(1) [of a] sextet_parts(2) [of 0 a] by simp
qed (use sextet_parts in auto)

lemma octets_sextets: "list_all (\<lambda>b. b < 256) bs \<Longrightarrow> octets (sextets bs) = bs"
proof (induction bs rule: sextets.induct)
  case (1 a b c bs)
  then show ?case by (simp add: packed sextet_parts)
next
  case (2 a b)
  then show ?case by (simp add: packed sextet_parts)
qed simp_all

lemma base64url_value:
  assumes "n < 64"
  shows "base64_value (base64url_char n) = n" "base64url_letter (base64url_char n)"
proof -
  consider "n < 26" | "26 \<le> n" "n < 52" | "52 \<le> n" "n < 62" | "n = 62" | "n = 63" using assms by linarith
  then have "base64_value (base64url_char n) = n \<and> base64url_letter (base64url_char n)"
    by cases (auto simp: base64url_char_def base64_value_def base64url_letter_def char_classes)
  then show "base64_value (base64url_char n) = n" "base64url_letter (base64url_char n)" by simp_all
qed

lemma length_sextets: "length (sextets bs) = (4 * length bs + 2) div 3"
  by (induction bs rule: sextets.induct) simp_all

lemma bytes_small: "list_all (\<lambda>b. b < 256) (map unat (bs :: byte list))"
  by (auto simp: list_all_iff intro: order_less_le_trans [OF unsigned_less])

lemma base64url_letters: "list_all base64url_letter (base64url_encode bs)"
  using sextets_small [OF bytes_small [of bs]] base64url_value(2) by (auto simp: base64url_encode_def list_all_iff)

lemma base64url_decode_encode [simp]: "base64url_decode (base64url_encode bs) = bs"
proof -
  have "map base64_value (base64url_encode bs) = sextets (map unat bs)"
    unfolding base64url_encode_def map_map using sextets_small [OF bytes_small [of bs]] base64url_value(1)
    by (intro map_idI) (simp add: list_all_iff)
  then show ?thesis
    by (simp add: base64url_decode_def octets_sextets [OF bytes_small] map_idI)
qed

section \<open>Message identifiers\<close>

record message_ref =
  mr_folder :: text_points
  mr_uidValidity :: string
  mr_uid :: nat

definition MAX_FOLDER_LENGTH :: nat where
  "MAX_FOLDER_LENGTH = 255"

definition utf16_length :: "text_points \<Rightarrow> nat" where
  "utf16_length ps = sum_list (map (\<lambda>p. if p < 0x10000 then 1 else 2) ps)"

definition UNSAFE_FOLDER_CHARACTERS :: "nat \<Rightarrow> bool" where
  "UNSAFE_FOLDER_CHARACTERS p = (p \<le> 0x1F \<or> p = 0x7F \<or> p = 0x2A \<or> p = 0x25)"

definition isSafeFolderName :: "text_points \<Rightarrow> bool" where
  "isSafeFolderName folder =
     (0 < utf16_length folder \<and> utf16_length folder \<le> MAX_FOLDER_LENGTH \<and>
      \<not> list_ex UNSAFE_FOLDER_CHARACTERS folder)"

definition encodeMessageRef :: "message_ref \<Rightarrow> string" where
  "encodeMessageRef ref =
     ''m1.'' @ base64url_encode (utf8_encode (mr_folder ref)) @ ''.'' @ mr_uidValidity ref @ ''.'' @ show_nat (mr_uid ref)"

text \<open>The pattern \<^verbatim>\<open>/^m1\.([A-Za-z0-9_-]{1,400})\.(\d{1,20})\.(\d{1,10})$/\<close> and its three groups.\<close>

definition message_id_groups :: "string \<Rightarrow> (string \<times> string \<times> string) option" where
  "message_id_groups s =
     (case split_on CHR ''.'' s of
        [version, f, v, u] \<Rightarrow>
          if version = ''m1'' \<and> 1 \<le> length f \<and> length f \<le> 400 \<and> list_all base64url_letter f \<and>
             1 \<le> length v \<and> length v \<le> 20 \<and> list_all is_digit v \<and> 1 \<le> length u \<and> length u \<le> 10 \<and> list_all is_digit u
          then Some (f, v, u) else None
      | _ \<Rightarrow> None)"

definition decodeMessageRef :: "string \<Rightarrow> message_ref option" where
  "decodeMessageRef s =
     (case message_id_groups s of
        None \<Rightarrow> None
      | Some (f, v, u) \<Rightarrow>
          (let folder = utf8_decode (base64url_decode f); uid = read_digits u in
           if utf16_length folder = 0 \<or> MAX_FOLDER_LENGTH < utf16_length folder \<or> \<not> isSafeFolderName folder then None
           else if uid < 1 \<or> 4294967295 < uid then None
           else Some \<lparr>mr_folder = folder, mr_uidValidity = v, mr_uid = uid\<rparr>))"

text \<open>\<^verbatim>\<open>/^op_[0-9a-z]{26}$/\<close>.\<close>

definition isRestoreId :: "string \<Rightarrow> bool" where
  "isRestoreId s = (length s = 29 \<and> starts_with ''op_'' s \<and> list_all (\<lambda>c. is_digit c \<or> is_ascii_lower c) (drop 3 s))"

text \<open>What a reference from the mail server satisfies.\<close>

definition server_ref :: "message_ref \<Rightarrow> bool" where
  "server_ref ref =
     (isSafeFolderName (mr_folder ref) \<and> list_all scalar_value (mr_folder ref) \<and>
      1 \<le> length (mr_uidValidity ref) \<and> length (mr_uidValidity ref) \<le> 20 \<and> list_all is_digit (mr_uidValidity ref) \<and>
      1 \<le> mr_uid ref \<and> mr_uid ref \<le> 4294967295)"

lemma show_nat_length: "n < 10 ^ k \<Longrightarrow> 0 < k \<Longrightarrow> length (show_nat n) \<le> k"
proof (induction n arbitrary: k rule: show_nat.induct)
  case (1 n)
  show ?case
  proof (cases "n < 10")
    case True then show ?thesis using 1(3) by (simp add: show_nat.simps [of n])
  next
    case False
    obtain j where k: "k = Suc j" using 1(3) by (cases k) auto
    have j: "0 < j" using False 1(2) k by (cases j) auto
    have "n div 10 < 10 ^ j" using 1(2) k by (simp add: less_mult_imp_div_less mult.commute)
    from 1(1) [OF False this j] show ?thesis using False k by (simp add: show_nat.simps [of n])
  qed
qed

lemma show_nat_nonempty [simp]: "show_nat n \<noteq> []"
  by (simp add: show_nat.simps [of n])

lemma no_dots: "list_all base64url_letter f \<Longrightarrow> CHR ''.'' \<notin> set f" "list_all is_digit v \<Longrightarrow> CHR ''.'' \<notin> set v"
  by (auto simp: list_all_iff base64url_letter_def char_classes)

lemma message_id_groups_encode:
  assumes "server_ref ref"
  shows "message_id_groups (encodeMessageRef ref) =
    (if length (utf8_encode (mr_folder ref)) \<le> 300
     then Some (base64url_encode (utf8_encode (mr_folder ref)), mr_uidValidity ref, show_nat (mr_uid ref)) else None)"
proof -
  let ?f = "base64url_encode (utf8_encode (mr_folder ref))" and ?u = "show_nat (mr_uid ref)"
  have "encodeMessageRef ref = join [CHR ''.''] [''m1'', ?f, mr_uidValidity ref, ?u]"
    by (simp add: encodeMessageRef_def)
  then have "split_on CHR ''.'' (encodeMessageRef ref) = [''m1'', ?f, mr_uidValidity ref, ?u]"
    using assms no_dots(1) [OF base64url_letters] no_dots(2) [OF show_nat_digits]
    by (simp only:) (subst split_on_join; simp add: server_ref_def no_dots)
  moreover have "length ?u \<le> 10" "1 \<le> length ?u"
    using assms show_nat_length [of "mr_uid ref" 10] by (simp_all add: server_ref_def Suc_le_eq)
  moreover have "mr_folder ref \<noteq> []" using assms by (auto simp: server_ref_def isSafeFolderName_def utf16_length_def)
  then have "utf8_encode (mr_folder ref) \<noteq> []" by (cases "mr_folder ref") (auto simp: utf8_encode_def utf8_point_def)
  then have "length ?f = (4 * length (utf8_encode (mr_folder ref)) + 2) div 3" "1 \<le> length ?f"
    by (simp_all add: base64url_encode_def length_sextets Suc_le_eq div_greater_zero_iff)
  moreover have "length ?f \<le> 400 \<longleftrightarrow> length (utf8_encode (mr_folder ref)) \<le> 300"
    unfolding calculation(4) by presburger
  ultimately show ?thesis using assms base64url_letters show_nat_digits
    by (simp add: message_id_groups_def server_ref_def)
qed

text \<open>
  C19 Handing a message identifier back names the same message, for every folder name that the mail tools
  accept and that takes at most 300 bytes; a longer one, which they accept as well, makes an identifier
  that no tool takes.
\<close>

theorem message_ref_roundtrip:
  assumes "server_ref ref"
  shows "decodeMessageRef (encodeMessageRef ref) =
    (if length (utf8_encode (mr_folder ref)) \<le> 300 then Some ref else None)"
proof -
  have "list_all scalar_value (mr_folder ref)" "0 < utf16_length (mr_folder ref)"
    "utf16_length (mr_folder ref) \<le> MAX_FOLDER_LENGTH" "isSafeFolderName (mr_folder ref)"
    "1 \<le> mr_uid ref" "mr_uid ref \<le> 4294967295"
    using assms by (simp_all add: server_ref_def isSafeFolderName_def del: One_nat_def)
  then show ?thesis
    by (simp add: decodeMessageRef_def message_id_groups_encode [OF assms] utf8_decode_encode Let_def del: One_nat_def)
qed

theorem message_ref_roundtrip_witness:
  "decodeMessageRef (encodeMessageRef \<lparr>mr_folder = [73, 0xE9, 0x1F4E7], mr_uidValidity = ''12'', mr_uid = 7\<rparr>) =
     Some \<lparr>mr_folder = [73, 0xE9, 0x1F4E7], mr_uidValidity = ''12'', mr_uid = 7\<rparr> \<and>
   decodeMessageRef (encodeMessageRef \<lparr>mr_folder = replicate 101 0x90F5, mr_uidValidity = ''12'', mr_uid = 7\<rparr>) = None"
proof -
  note defs = server_ref_def isSafeFolderName_def utf16_length_def UNSAFE_FOLDER_CHARACTERS_def MAX_FOLDER_LENGTH_def
    scalar_value_def surrogate_def is_digit_def
  have short: "server_ref \<lparr>mr_folder = [73, 0xE9, 0x1F4E7], mr_uidValidity = ''12'', mr_uid = 7\<rparr>"
    by (simp add: defs)
  have long: "server_ref \<lparr>mr_folder = replicate 101 0x90F5, mr_uidValidity = ''12'', mr_uid = 7\<rparr>"
    by (simp only: defs message_ref.simps map_replicate sum_list_replicate list_all_iff list_ex_iff set_replicate)
      (simp add: defs)
  have seven: "length (utf8_encode [73, 0xE9, 0x1F4E7]) \<le> 300" by (simp add: utf8_encode_def utf8_point_def surrogate_def)
  have many: "\<not> length (utf8_encode (replicate 101 0x90F5)) \<le> 300"
    unfolding length_utf8_replicate by (simp add: utf8_point_def surrogate_def)
  show ?thesis
    using message_ref_roundtrip [OF short] message_ref_roundtrip [OF long]
    unfolding message_ref.simps if_P [OF seven] if_not_P [OF many] by (rule conjI)
qed

text \<open>What a client can name by any identifier: a safe folder and a number in the range of IMAP.\<close>

theorem decodeMessageRef_sound:
  "decodeMessageRef s = Some ref \<Longrightarrow>
     isSafeFolderName (mr_folder ref) \<and> 1 \<le> mr_uid ref \<and> mr_uid ref \<le> 4294967295 \<and>
     list_all is_digit (mr_uidValidity ref) \<and> length (mr_uidValidity ref) \<le> 20"
  by (auto simp: decodeMessageRef_def message_id_groups_def Let_def not_less
      split: option.splits if_splits list.splits)

end
