(* ===== verification/McpToolHandlers.thy ===== *)
theory McpToolHandlers
  imports McpTools
begin

text \<open>
  The handlers of the mail tools, each split at its awaits, and the wrapper that every call runs through
  (\<^verbatim>\<open>tools.ts\<close>, \<^verbatim>\<open>buildMcpServer\<close>).  Arguments are what the input schema of the tool leaves: contents of
  attachments are decoded, cursors are numbers.
\<close>

section \<open>Requests\<close>

record send_args =
  sa_to :: "string list"
  sa_cc :: "string list"
  sa_bcc :: "string list"
  sa_subject :: string
  sa_text :: "string option"
  sa_html :: "string option"
  sa_from :: "string option"
  sa_fromName :: "string option"
  sa_replyToMessageId :: "string option"
  sa_attachments :: "outgoing_attachment list"
  sa_idempotencyKey :: "string option"
  sa_confirm :: bool

datatype tool_request =
    ListFoldersCall
  | ListMessagesCall text_points nat "nat option" bool
  | SearchCall text_points search_criteria nat "nat option"
  | ReadCall string nat
  | AttachmentCall string string
  | SendCall send_args
  | DeleteCall "string list" bool
  | RestoreCall "string list"

fun tool_name :: "tool_request \<Rightarrow> string" where
  "tool_name ListFoldersCall = ''mail_list_folders''"
| "tool_name (ListMessagesCall folder limit cursor unreadOnly) = ''mail_list_messages''"
| "tool_name (SearchCall folder criteria limit cursor) = ''mail_search''"
| "tool_name (ReadCall msgid maxBodyChars) = ''mail_read''"
| "tool_name (AttachmentCall msgid attachmentId) = ''mail_get_attachment''"
| "tool_name (SendCall a) = ''mail_send''"
| "tool_name (DeleteCall ids confirm) = ''mail_delete''"
| "tool_name (RestoreCall ids) = ''mail_restore''"

text \<open>
  The input schemas, less their patterns for addresses, types and dates.  The number of recipients was
  read when the server for the request was built.
\<close>

fun input_schema :: "nat \<Rightarrow> tool_request \<Rightarrow> bool" where
  "input_schema recipients ListFoldersCall = True"
| "input_schema recipients (ListMessagesCall folder limit cursor unreadOnly) =
     (isSafeFolderName folder \<and> 1 \<le> limit \<and> limit \<le> 50)"
| "input_schema recipients (SearchCall folder criteria limit cursor) =
     (isSafeFolderName folder \<and> 1 \<le> limit \<and> limit \<le> 50)"
| "input_schema recipients (ReadCall msgid maxBodyChars) =
     (1 \<le> length msgid \<and> length msgid \<le> 500 \<and> 100 \<le> maxBodyChars \<and> maxBodyChars \<le> 100000)"
| "input_schema recipients (AttachmentCall msgid attachmentId) =
     (1 \<le> length msgid \<and> length msgid \<le> 500 \<and> starts_with ''a'' attachmentId \<and> 2 \<le> length attachmentId \<and>
      length attachmentId \<le> 4 \<and> list_all is_digit (drop 1 attachmentId))"
| "input_schema recipients (SendCall a) =
     (1 \<le> length (sa_to a) \<and> length (sa_to a) \<le> recipients \<and> length (sa_cc a) \<le> recipients \<and>
      length (sa_bcc a) \<le> recipients \<and> 1 \<le> length (sa_subject a) \<and> length (sa_subject a) \<le> 998 \<and>
      \<not> list_ex line_terminator (sa_subject a) \<and> length (sa_attachments a) \<le> 5 \<and>
      (case sa_idempotencyKey a of None \<Rightarrow> True | Some k \<Rightarrow> 8 \<le> length k \<and> length k \<le> 128 \<and>
         list_all (\<lambda>c. is_ascii_alnum c \<or> c \<in> set ''._:-'') k) \<and> sa_confirm a)"
| "input_schema recipients (DeleteCall ids confirm) =
     (1 \<le> length ids \<and> length ids \<le> MAX_IDS_PER_CALL \<and> list_all (\<lambda>i. 1 \<le> length i \<and> length i \<le> 500) ids \<and> confirm)"
| "input_schema recipients (RestoreCall ids) =
     (1 \<le> length ids \<and> length ids \<le> MAX_IDS_PER_CALL \<and> list_all (\<lambda>i. 1 \<le> length i \<and> length i \<le> 64) ids)"

text \<open>A tool is registered only if its permission is among those of the request.\<close>

definition registered :: "mcp_auth_context \<Rightarrow> tool_request \<Rightarrow> bool" where
  "registered ctx request =
     (case TOOL_SCOPES (tool_name request) of None \<Rightarrow> False | Some scope \<Rightarrow> scope \<in> set (mc_scopes ctx))"

section \<open>What is kept over an await\<close>

record send_plan =
  sp_args :: send_args
  sp_account :: mail_account
  sp_fromAddress :: string
  sp_recipients :: nat
  sp_saveSentCopies :: bool
  sp_now :: int

datatype flight =
    AfterFolders
  | AfterPage
  | AfterMessage
  | AfterAttachment string
  | AfterOriginal send_plan
  | AfterSend send_plan string string
  | AfterTrash
  | AfterRestore mail_account operation_row string "string list" "restore_result list"

datatype handler_step = Done "tool_throw + tool_output" | Await backend_call flight

section \<open>Sending\<close>

definition recipients_of :: "send_args \<Rightarrow> nat" where
  "recipients_of a = length (sa_to a) + length (sa_cc a) + length (sa_bcc a)"

definition allowed_from :: "mcp_auth_context \<Rightarrow> string list" where
  "allowed_from ctx = map to_lower (mc_mailbox ctx # mc_senderIdentities ctx)"

definition from_address :: "mcp_auth_context \<Rightarrow> send_args \<Rightarrow> string" where
  "from_address ctx a = to_lower (or_else_text (sa_from a) (mc_mailbox ctx))"

definition attachment_bytes :: "send_args \<Rightarrow> nat" where
  "attachment_bytes a = sum_list (map (\<lambda>x. length (oa_content x)) (sa_attachments a))"

text \<open>\<^verbatim>\<open>Math.round(n / 1024)\<close>.\<close>

definition rounded_kb :: "nat \<Rightarrow> nat" where
  "rounded_kb n = (n + 512) div 1024"

definition send_refusal :: "mcp_settings \<Rightarrow> mcp_auth_context \<Rightarrow> send_args \<Rightarrow> string option" where
  "send_refusal config ctx a =
     (if sa_text a = None \<and> sa_html a = None then Some ''Provide a text or html body.''
      else if ms_maxRecipientsPerMessage config < recipients_of a then
        Some (''At most '' @ show_nat (ms_maxRecipientsPerMessage config) @ '' recipients are allowed per message.'')
      else if from_address ctx a \<notin> set (allowed_from ctx) then
        Some (''This connection may only send as: '' @ join '', '' (allowed_from ctx) @ ''.'')
      else if ms_maxAttachmentBytes config < attachment_bytes a then
        Some (''Attachments exceed the '' @ show_nat (rounded_kb (ms_maxAttachmentBytes config)) @ '' KB limit.'')
      else None)"

text \<open>What an earlier send under the same key answers.\<close>

definition repeated_send :: "operation_row \<Rightarrow> tool_throw + tool_output" where
  "repeated_send previous =
     (case op_status previous of
        OpCompleted \<Rightarrow>
          (case op_details previous of
             SendDetails messageId recipients outcome \<Rightarrow>
               Inr (SendOut AlreadySent messageId [] [] (case outcome of None \<Rightarrow> False | Some (saved, _) \<Rightarrow> saved)
                 (Some ''A message with this idempotencyKey was already sent; it was not sent again.''))
           | _ \<Rightarrow> Inr (SendOut AlreadySent [] [] [] False
                 (Some ''A message with this idempotencyKey was already sent; it was not sent again.'')))
      | OpFailed \<Rightarrow> Inl (ToolFailure ''A previous send with this idempotencyKey failed. Use a new key to try again.'')
      | _ \<Rightarrow> Inl (ToolFailure ''A previous send with this idempotencyKey has an unknown or in-progress outcome; it will not be retried automatically. Check the Sent folder.''))"

definition previous_send :: "mcp_auth_context \<Rightarrow> send_args \<Rightarrow> tools_state \<Rightarrow> operation_row option" where
  "previous_send ctx a st =
     (case sa_idempotencyKey a of None \<Rightarrow> None | Some key \<Rightarrow> findByIdempotencyKey (mc_connectionId ctx) OpSend key st)"

definition limit_reached :: "int \<Rightarrow> mcp_auth_context \<Rightarrow> tools_state \<Rightarrow> bool" where
  "limit_reached now ctx st =
     (ms_sendsPerHour (md_settings (ts_db st)) \<le> countSendsSince (mc_connectionId ctx) (now - 3600000) st \<or>
      ms_sendsPerDay (md_settings (ts_db st)) \<le> countSendsSince (mc_connectionId ctx) (now - 86400000) st)"

definition generateMessageId :: "string \<Rightarrow> string \<Rightarrow> string" where
  "generateMessageId hex fromAddress =
     (let domain = (case last_index_of CHR ''@'' fromAddress of None \<Rightarrow> fromAddress | Some i \<Rightarrow> drop (i + 1) fromAddress)
      in ''<'' @ hex @ ''.mcp@'' @ (if domain = [] then ''localhost'' else domain) @ ''>'')"

definition outgoing :: "send_plan \<Rightarrow> string option \<Rightarrow> string option \<Rightarrow> string \<Rightarrow> outgoing_message" where
  "outgoing plan inReplyTo references messageId =
     (let a = sp_args plan in
      \<lparr>om_fromName = sa_fromName a, om_fromAddress = sp_fromAddress plan, om_to = sa_to a, om_cc = sa_cc a,
       om_bcc = sa_bcc a, om_subject = sa_subject a, om_text = sa_text a, om_html = sa_html a,
       om_inReplyTo = inReplyTo, om_references = references, om_attachments = sa_attachments a,
       om_messageId = messageId\<rparr>)"

definition send_submit ::
  "tool_env \<Rightarrow> mcp_auth_context \<Rightarrow> send_plan \<Rightarrow> string option \<Rightarrow> string option \<Rightarrow> tools_state \<Rightarrow>
     handler_step \<times> tools_state" where
  "send_submit env ctx plan inReplyTo references st =
     (let messageId = generateMessageId (te_random env (ts_drawn st)) (sp_fromAddress plan)
      in case createOperation env (mc_connectionId ctx) OpSend OpPending (sa_idempotencyKey (sp_args plan))
           (SendDetails messageId (sp_recipients plan) None) (sp_now plan) st of
           (None, st) \<Rightarrow> (Done (Inl (ToolFailure ''A send with this idempotencyKey is already in progress.'')), st)
         | (Some op, st) \<Rightarrow>
             (Await (SendMail (sp_account plan) (outgoing plan inReplyTo references messageId) (sp_saveSentCopies plan))
                (AfterSend plan (op_id op) messageId), st))"

definition send_start ::
  "tool_env \<Rightarrow> int \<Rightarrow> mcp_auth_context \<Rightarrow> send_args \<Rightarrow> tools_state \<Rightarrow> handler_step \<times> tools_state" where
  "send_start env now ctx a st =
     (let config = md_settings (ts_db st) in
      case send_refusal config ctx a of
        Some m \<Rightarrow> (Done (Inl (ToolFailure m)), st)
      | None \<Rightarrow>
          (case previous_send ctx a st of
             Some previous \<Rightarrow> (Done (repeated_send previous), st)
           | None \<Rightarrow>
               if limit_reached now ctx st then
                 (Done (Inl (ToolFailure ''The sending limit for this connection has been reached. Try again later.'')), st)
               else
                 (case account env ctx st of
                    Inl e \<Rightarrow> (Done (Inl e), st)
                  | Inr acct \<Rightarrow>
                      (let plan = \<lparr>sp_args = a, sp_account = acct, sp_fromAddress = from_address ctx a,
                             sp_recipients = recipients_of a, sp_saveSentCopies = ms_saveSentCopies config, sp_now = now\<rparr>
                       in case sa_replyToMessageId a of
                            None \<Rightarrow> send_submit env ctx plan None None st
                          | Some msgid \<Rightarrow>
                              if MailRead \<notin> set (mc_scopes ctx) then
                                (Done (Inl (ToolFailure ''Replying in a thread requires read permission on this connection.'')), st)
                              else
                                (case decodeMessageRef msgid of
                                   None \<Rightarrow> (Done (Inl (ToolFailure ''replyToMessageId is not a valid message id.'')), st)
                                 | Some ref \<Rightarrow> (Await (GetMessage acct ref 100 MAX_MESSAGE_BYTES) (AfterOriginal plan), st))))))"

text \<open>The references of a reply: those that exist, joined; no text is no header.\<close>

definition reply_references :: "full_message \<Rightarrow> string option" where
  "reply_references original =
     (let parts = (case fm_references original of None \<Rightarrow> [] | Some r \<Rightarrow> [r]) @
            (case fm_messageId original of None \<Rightarrow> [] | Some m \<Rightarrow> [m]);
          text = join '' '' parts
      in if text = [] then None else Some text)"

definition after_original ::
  "tool_env \<Rightarrow> mcp_auth_context \<Rightarrow> send_plan \<Rightarrow> full_message \<Rightarrow> tools_state \<Rightarrow> handler_step \<times> tools_state" where
  "after_original env ctx plan original st =
     send_submit env ctx plan (fm_messageId original) (reply_references original) st"

definition send_completed ::
  "int \<Rightarrow> mcp_auth_context \<Rightarrow> send_plan \<Rightarrow> string \<Rightarrow> string \<Rightarrow> send_result \<Rightarrow> tools_state \<Rightarrow> handler_step \<times> tools_state" where
  "send_completed now ctx plan opId messageId result st =
     (Done (Inr (SendOut SentNow messageId (sr_accepted result) (sr_rejected result) (sr_savedToSent result)
        (sr_sentFolderError result))),
      tool_audit now ctx ''mail.sent'' True (Some (mc_mailbox ctx))
        (finishOperation opId OpCompleted
          (SendDetails messageId (sp_recipients plan)
            (Some (sr_savedToSent result, length (sr_accepted result), length (sr_rejected result)))) None now st))"

definition send_failed ::
  "int \<Rightarrow> mcp_auth_context \<Rightarrow> send_plan \<Rightarrow> string \<Rightarrow> string \<Rightarrow> tool_throw \<Rightarrow> tools_state \<Rightarrow> handler_step \<times> tools_state" where
  "send_failed now ctx plan opId messageId err st =
     (let uncertain = (case err of MailError k _ \<Rightarrow> k = ErrSendUncertain | _ \<Rightarrow> False) in
      (Done (Inl err),
       tool_audit now ctx ''mail.send_failed'' False (Some (mc_mailbox ctx))
         (finishOperation opId (if uncertain then OpUnknown else OpFailed)
           (SendDetails messageId (sp_recipients plan) None) (Some (throw_message err)) now st)))"

section \<open>Moving to Trash and back\<close>

text \<open>The identifiers in order; the first that names no message is refused.\<close>

fun decode_all :: "string list \<Rightarrow> string + message_ref list" where
  "decode_all [] = Inr []"
| "decode_all (i # ids) =
     (case decodeMessageRef i of
        None \<Rightarrow> Inl i
      | Some ref \<Rightarrow> (case decode_all ids of Inl bad \<Rightarrow> Inl bad | Inr refs \<Rightarrow> Inr (ref # refs)))"

definition delete_start ::
  "tool_env \<Rightarrow> mcp_auth_context \<Rightarrow> string list \<Rightarrow> tools_state \<Rightarrow> handler_step \<times> tools_state" where
  "delete_start env ctx ids st =
     (case decode_all ids of
        Inl bad \<Rightarrow> (Done (Inl (ToolFailure (''Message id '' @ take 40 bad @ '' is not valid.''))), st)
      | Inr refs \<Rightarrow>
          (case account env ctx st of
             Inl e \<Rightarrow> (Done (Inl e), st)
           | Inr acct \<Rightarrow> (Await (MoveToTrash acct refs) AfterTrash, st)))"

text \<open>One row per message moved; a row that cannot be written ends the tool, the earlier ones stay.\<close>

fun record_moves ::
  "tool_env \<Rightarrow> int \<Rightarrow> mcp_auth_context \<Rightarrow> trash_move list \<Rightarrow> (string \<times> string option \<times> string option) list \<Rightarrow>
     tools_state \<Rightarrow> (tool_throw + (string \<times> string option \<times> string option) list) \<times> tools_state" where
  "record_moves env now ctx [] moved st = (Inr moved, st)"
| "record_moves env now ctx (m # moves) moved st =
     (let restorable = (0 < mr_uid (tv_trash m)) in
      case createOperation env (mc_connectionId ctx) OpDelete OpCompleted None
        (DeleteDetails (tv_original m) (tv_trash m) (tv_messageId m) restorable None) now st of
        (None, st) \<Rightarrow> (Inl (OtherError ''insert failed''), st)
      | (Some op, st) \<Rightarrow>
          record_moves env now ctx moves
            (moved @ [(encodeMessageRef (tv_original m), if restorable then Some (op_id op) else None,
               if restorable then Some (encodeMessageRef (tv_trash m)) else None)]) st)"

definition after_trash ::
  "tool_env \<Rightarrow> int \<Rightarrow> mcp_auth_context \<Rightarrow> trash_move list \<Rightarrow> tools_state \<Rightarrow> handler_step \<times> tools_state" where
  "after_trash env now ctx moves st =
     (case record_moves env now ctx moves [] st of
        (Inl e, st) \<Rightarrow> (Done (Inl e), st)
      | (Inr moved, st) \<Rightarrow>
          (Done (Inr (DeleteOut moved)), tool_audit now ctx ''mail.moved_to_trash'' True (Some (mc_mailbox ctx)) st))"

definition not_restored :: "string \<Rightarrow> string \<Rightarrow> restore_result" where
  "not_restored i error = \<lparr>rr_restoreId = i, rr_restored = False, rr_id = None, rr_error = Some error\<rparr>"

definition already_restored :: string where
  "already_restored = ''This message was already restored.''"

text \<open>The deletion that a restore id of this connection names, if it can be restored.\<close>

definition restorable_operation ::
  "mcp_auth_context \<Rightarrow> string \<Rightarrow> tools_state \<Rightarrow> (operation_row \<times> message_ref \<times> message_ref \<times> string option \<times> int option) option" where
  "restorable_operation ctx i st =
     (case (if isRestoreId i then findForConnection i (mc_connectionId ctx) OpDelete st else None) of
        None \<Rightarrow> None
      | Some op \<Rightarrow>
          (case op_details op of
             DeleteDetails original trash messageId True restoredAt \<Rightarrow> Some (op, original, trash, messageId, restoredAt)
           | _ \<Rightarrow> None))"

text \<open>The loop up to its next await, with the results so far.\<close>

fun restore_loop ::
  "int \<Rightarrow> mcp_auth_context \<Rightarrow> mail_account \<Rightarrow> string list \<Rightarrow> restore_result list \<Rightarrow> tools_state \<Rightarrow>
     handler_step \<times> tools_state" where
  "restore_loop now ctx acct [] results st =
     (Done (Inr (RestoreOut results)),
      tool_audit now ctx ''mail.restored'' (list_ex rr_restored results) (Some (mc_mailbox ctx)) st)"
| "restore_loop now ctx acct (i # ids) results st =
     (case restorable_operation ctx i st of
        None \<Rightarrow> restore_loop now ctx acct ids
          (results @ [not_restored i ''No restorable deletion with this id exists for this mailbox.'']) st
      | Some (op, original, trash, messageId, restoredAt) \<Rightarrow>
          if restoredAt \<noteq> None then restore_loop now ctx acct ids (results @ [not_restored i already_restored]) st
          else (Await (RestoreFromTrash acct trash (mr_folder original) messageId) (AfterRestore acct op i ids results), st))"

definition restore_start ::
  "tool_env \<Rightarrow> int \<Rightarrow> mcp_auth_context \<Rightarrow> string list \<Rightarrow> tools_state \<Rightarrow> handler_step \<times> tools_state" where
  "restore_start env now ctx ids st =
     (case account env ctx st of Inl e \<Rightarrow> (Done (Inl e), st) | Inr acct \<Rightarrow> restore_loop now ctx acct ids [] st)"

text \<open>
  One message is back: the deletion is marked, and only the call that marks it reports it.  An error of
  the insertion is caught like one of the mail server.
\<close>

definition restore_recorded ::
  "tool_env \<Rightarrow> int \<Rightarrow> mcp_auth_context \<Rightarrow> operation_row \<Rightarrow> string \<Rightarrow> message_ref \<Rightarrow> tools_state \<Rightarrow> restore_result \<times> tools_state" where
  "restore_recorded env now ctx op i restored st =
     (case markRestored (op_id op) now st of
        (False, st) \<Rightarrow> (not_restored i already_restored, st)
      | (True, st) \<Rightarrow>
          (case createOperation env (mc_connectionId ctx) OpRestore OpCompleted None
             (RestoreDetails (op_id op) (mr_folder restored) (mr_uid restored)) now st of
             (None, st) \<Rightarrow> (not_restored i ''Restore failed.'', st)
           | (Some _, st) \<Rightarrow>
               (\<lparr>rr_restoreId = i, rr_restored = True,
                 rr_id = (if 0 < mr_uid restored then Some (encodeMessageRef restored) else None), rr_error = None\<rparr>, st)))"

definition after_restore ::
  "tool_env \<Rightarrow> int \<Rightarrow> mcp_auth_context \<Rightarrow> mail_account \<Rightarrow> operation_row \<Rightarrow> string \<Rightarrow> string list \<Rightarrow> restore_result list \<Rightarrow>
     message_ref \<Rightarrow> tools_state \<Rightarrow> handler_step \<times> tools_state" where
  "after_restore env now ctx acct op i ids results restored st =
     (let (r, st) = restore_recorded env now ctx op i restored st
      in restore_loop now ctx acct ids (results @ [r]) st)"

definition restore_refused ::
  "int \<Rightarrow> mcp_auth_context \<Rightarrow> mail_account \<Rightarrow> string \<Rightarrow> string list \<Rightarrow> restore_result list \<Rightarrow> tool_throw \<Rightarrow>
     tools_state \<Rightarrow> handler_step \<times> tools_state" where
  "restore_refused now ctx acct i ids results err st =
     (case err of
        MailError k m \<Rightarrow>
          if k = ErrAuthFailed then (Done (Inl err), st)
          else restore_loop now ctx acct ids (results @ [not_restored i m]) st
      | _ \<Rightarrow> restore_loop now ctx acct ids (results @ [not_restored i ''Restore failed.'']) st)"

section \<open>Every handler\<close>

definition with_account ::
  "tool_env \<Rightarrow> mcp_auth_context \<Rightarrow> tools_state \<Rightarrow> (mail_account \<Rightarrow> backend_call \<times> flight) \<Rightarrow> handler_step \<times> tools_state" where
  "with_account env ctx st f =
     (case account env ctx st of Inl e \<Rightarrow> (Done (Inl e), st) | Inr acct \<Rightarrow> (case f acct of (c, k) \<Rightarrow> (Await c k, st)))"

definition with_message ::
  "string \<Rightarrow> tools_state \<Rightarrow> (message_ref \<Rightarrow> handler_step \<times> tools_state) \<Rightarrow> handler_step \<times> tools_state" where
  "with_message msgid st f =
     (case decodeMessageRef msgid of
        None \<Rightarrow> (Done (Inl (ToolFailure ''That message id is not valid.'')), st) | Some ref \<Rightarrow> f ref)"

fun handler_start ::
  "tool_env \<Rightarrow> int \<Rightarrow> mcp_auth_context \<Rightarrow> tool_request \<Rightarrow> tools_state \<Rightarrow> handler_step \<times> tools_state" where
  "handler_start env now ctx ListFoldersCall st = with_account env ctx st (\<lambda>acct. (ListFolders acct, AfterFolders))"
| "handler_start env now ctx (ListMessagesCall folder limit cursor unreadOnly) st =
     with_account env ctx st (\<lambda>acct. (ListMessages acct folder limit cursor unreadOnly, AfterPage))"
| "handler_start env now ctx (SearchCall folder criteria limit cursor) st =
     with_account env ctx st (\<lambda>acct. (SearchMessages acct folder criteria limit cursor, AfterPage))"
| "handler_start env now ctx (ReadCall msgid maxBodyChars) st =
     with_message msgid st (\<lambda>ref. with_account env ctx st
       (\<lambda>acct. (GetMessage acct ref maxBodyChars MAX_MESSAGE_BYTES, AfterMessage)))"
| "handler_start env now ctx (AttachmentCall msgid attachmentId) st =
     with_message msgid st (\<lambda>ref. with_account env ctx st
       (\<lambda>acct. (GetAttachment acct ref attachmentId (ms_maxAttachmentBytes (md_settings (ts_db st))), AfterAttachment msgid)))"
| "handler_start env now ctx (SendCall a) st = send_start env now ctx a st"
| "handler_start env now ctx (DeleteCall ids confirm) st = delete_start env ctx ids st"
| "handler_start env now ctx (RestoreCall ids) st = restore_start env now ctx ids st"

text \<open>An error of the mail server leaves the handler; no call gives an answer of another kind.\<close>

definition otherwise :: "backend_answer \<Rightarrow> tools_state \<Rightarrow> handler_step \<times> tools_state" where
  "otherwise answer st = (Done (Inl (case answer of Threw e \<Rightarrow> e | _ \<Rightarrow> OtherError ''unexpected answer'')), st)"

fun handler_resume ::
  "tool_env \<Rightarrow> int \<Rightarrow> mcp_auth_context \<Rightarrow> flight \<Rightarrow> backend_answer \<Rightarrow> tools_state \<Rightarrow> handler_step \<times> tools_state" where
  "handler_resume env now ctx AfterFolders answer st =
     (case answer of GotFolders fs \<Rightarrow> (Done (Inr (FoldersOut (mc_mailbox ctx) fs)), st) | _ \<Rightarrow> otherwise answer st)"
| "handler_resume env now ctx AfterPage answer st =
     (case answer of GotPage page \<Rightarrow> (Done (Inr (page_out page)), st) | _ \<Rightarrow> otherwise answer st)"
| "handler_resume env now ctx AfterMessage answer st =
     (case answer of
        GotMessage m \<Rightarrow> (Done (Inr (MessageOut (message_out_of m) (message_text m))), st) | _ \<Rightarrow> otherwise answer st)"
| "handler_resume env now ctx (AfterAttachment msgid) answer st =
     (case answer of
        GotAttachment meta data \<Rightarrow> (Done (Inr (attachment_out msgid meta data)), st) | _ \<Rightarrow> otherwise answer st)"
| "handler_resume env now ctx (AfterOriginal plan) answer st =
     (case answer of GotMessage original \<Rightarrow> after_original env ctx plan original st | _ \<Rightarrow> otherwise answer st)"
| "handler_resume env now ctx (AfterSend plan opId messageId) answer st =
     (case answer of
        SentMail result \<Rightarrow> send_completed now ctx plan opId messageId result st
      | Threw e \<Rightarrow> send_failed now ctx plan opId messageId e st
      | _ \<Rightarrow> otherwise answer st)"
| "handler_resume env now ctx AfterTrash answer st =
     (case answer of MovedToTrash moves \<Rightarrow> after_trash env now ctx moves st | _ \<Rightarrow> otherwise answer st)"
| "handler_resume env now ctx (AfterRestore acct op i ids results) answer st =
     (case answer of
        RestoredTo ref \<Rightarrow> after_restore env now ctx acct op i ids results ref st
      | Threw e \<Rightarrow> restore_refused now ctx acct i ids results e st
      | _ \<Rightarrow> otherwise answer st)"

text \<open>\<^verbatim>\<open>run\<close> after the handler: errors become results, a rejected credential suspends the binding.\<close>

definition rejected_binding :: "mcp_auth_context \<Rightarrow> tool_throw + tool_output \<Rightarrow> tools_state \<Rightarrow> binding_row option" where
  "rejected_binding ctx outcome st =
     (case outcome of
        Inl (MailError ErrAuthFailed m) \<Rightarrow> findBinding (mc_bindingId ctx) (ts_db st) | _ \<Rightarrow> None)"

definition CREDENTIAL_REJECTED :: string where
  "CREDENTIAL_REJECTED =
     ''The mail server rejected this connection's mailbox credential. Access has been suspended; ask your postmaster to re-provision it.''"

fun result_of :: "tool_throw + tool_output \<Rightarrow> tool_result" where
  "result_of (Inr out) = ToolOk out"
| "result_of (Inl (ToolFailure m)) = ToolError m"
| "result_of (Inl (MailError k m)) = ToolError (if k = ErrAuthFailed then CREDENTIAL_REJECTED else m)"
| "result_of (Inl (OtherError m)) = ToolError ''The tool failed because of an internal error.''"

definition is_tool_error :: "tool_result \<Rightarrow> bool" where
  "is_tool_error r = (case r of ToolError _ \<Rightarrow> True | ToolOk _ \<Rightarrow> False)"

definition run_finish ::
  "int \<Rightarrow> mcp_auth_context \<Rightarrow> tool_throw + tool_output \<Rightarrow> tools_state \<Rightarrow> tool_result \<times> tools_state" where
  "run_finish now ctx outcome st =
     (let result = result_of outcome;
          st = (case rejected_binding ctx outcome st of
                  None \<Rightarrow> st
                | Some binding \<Rightarrow> st\<lparr>ts_db := markCredentialRejected now binding ''system'' (ts_db st)\<rparr>)
      in (result, tool_audit now ctx ''tool.called'' (\<not> is_tool_error result) (Some (mc_mailbox ctx)) st))"

text \<open>What a step of a call comes to: it goes on when the mail server answers, or it is over.\<close>

datatype call_step = Waiting backend_call flight | Finished tool_result

definition conclude :: "int \<Rightarrow> mcp_auth_context \<Rightarrow> handler_step \<times> tools_state \<Rightarrow> call_step \<times> tools_state" where
  "conclude now ctx s =
     (case s of
        (Await c k, st) \<Rightarrow> (Waiting c k, st)
      | (Done outcome, st) \<Rightarrow> (case run_finish now ctx outcome st of (r, st) \<Rightarrow> (Finished r, st)))"

definition call_start ::
  "tool_env \<Rightarrow> int \<Rightarrow> mcp_auth_context \<Rightarrow> tool_request \<Rightarrow> tools_state \<Rightarrow> call_step \<times> tools_state" where
  "call_start env now ctx request st =
     (case run_gate now ctx (tool_name request) st of
        (Some m, st) \<Rightarrow> (Finished (ToolError m), st)
      | (None, st) \<Rightarrow> conclude now ctx (handler_start env now ctx request st))"

definition call_resume ::
  "tool_env \<Rightarrow> int \<Rightarrow> mcp_auth_context \<Rightarrow> flight \<Rightarrow> backend_answer \<Rightarrow> tools_state \<Rightarrow> call_step \<times> tools_state" where
  "call_resume env now ctx k answer st = conclude now ctx (handler_resume env now ctx k answer st)"

end
