(* ===== verification/McpConsent.thy ===== *)
theory McpConsent
  imports McpAuthorize
begin

text \<open>
  The browser's half of the authorization flow (\<^verbatim>\<open>authorization.service.ts\<close>): the start, the login with
  the setup credential and the decision.  A page is known by its kind and its data, not its wording.
\<close>

definition AUTHORIZATION_REQUEST_TTL_SECONDS :: int where "AUTHORIZATION_REQUEST_TTL_SECONDS = 600"
definition IP_FAILURE_WINDOW_SECONDS :: int where "IP_FAILURE_WINDOW_SECONDS = 900"
definition IP_FAILURE_LIMIT :: nat where "IP_FAILURE_LIMIT = 20"

datatype authorize_outcome =
    ErrorPage string nat
  | Redirect string "(string \<times> string) list"
  | LoginPage string "mcp_scope list option" int "string option" string
  | ConsentPage string string "mcp_scope list"

definition issuer :: "mcp_env \<Rightarrow> mcp_db \<Rightarrow> string option" where
  "issuer env db =
     (if \<not> ms_enabled (md_settings db) then None
      else
        (case ms_publicBaseUrl (md_settings db) of
           None \<Rightarrow> None
         | Some base \<Rightarrow> if me_requireHttps env \<and> \<not> starts_with ''https://'' base then None else Some base))"

text \<open>\<^verbatim>\<open>redirectWith\<close>: the parameters that are present, and the issuer on every response.\<close>

definition redirectWith :: "string \<Rightarrow> string \<Rightarrow> (string \<times> string option) list \<Rightarrow> authorize_outcome" where
  "redirectWith redirectUri iss params =
     Redirect redirectUri (concat (map (\<lambda>(k, v). case v of None \<Rightarrow> [] | Some x \<Rightarrow> [(k, x)]) params) @ [(''iss'', iss)])"

section \<open>Start\<close>

datatype query_param = ParamAbsent | ParamOnce string | ParamRepeated

definition QUERY_PARAMS :: "string list" where
  "QUERY_PARAMS = [''response_type'', ''client_id'', ''redirect_uri'', ''scope'', ''state'', ''code_challenge'',
     ''code_challenge_method'', ''resource'']"

definition param :: "(string \<Rightarrow> query_param) \<Rightarrow> string \<Rightarrow> string option" where
  "param query name = (case query name of ParamOnce s \<Rightarrow> Some s | _ \<Rightarrow> None)"

text \<open>Up to the resolution of the client: an outcome, or the issuer and the id to resolve.\<close>

definition start_begin :: "mcp_env \<Rightarrow> (string \<Rightarrow> query_param) \<Rightarrow> mcp_db \<Rightarrow> authorize_outcome + string \<times> string" where
  "start_begin env query db =
     (case issuer env db of
        None \<Rightarrow> Inl (ErrorPage ''MCP access is unavailable'' 503)
      | Some iss \<Rightarrow>
          if list_ex (\<lambda>n. query n = ParamRepeated) QUERY_PARAMS then Inl (ErrorPage ''Invalid request'' 400)
          else
            (case param query ''client_id'' of
               None \<Rightarrow> Inl (ErrorPage ''Invalid request'' 400)
             | Some clientId \<Rightarrow> Inr (iss, clientId)))"

text \<open>Parameters of the flow, in the order they are checked; an error goes back to the client.\<close>

definition start_problem :: "mcp_env \<Rightarrow> string \<Rightarrow> (string \<Rightarrow> query_param) \<Rightarrow> mcp_db \<Rightarrow> (string \<times> string) option" where
  "start_problem env iss query db =
     (if param query ''response_type'' \<noteq> Some ''code'' then
        Some (''unsupported_response_type'', ''Only response_type=code is supported.'')
      else if (case param query ''code_challenge'' of None \<Rightarrow> True | Some c \<Rightarrow> \<not> pkce_pattern c) then
        Some (''invalid_request'', ''A PKCE code_challenge is required.'')
      else if param query ''code_challenge_method'' \<noteq> Some ''S256'' then
        Some (''invalid_request'', ''code_challenge_method must be S256.'')
      else if (case param query ''state'' of None \<Rightarrow> False | Some s \<Rightarrow> 1000 < length s) then
        Some (''invalid_request'', ''state is too long.'')
      else
        (case param query ''resource'' of
           None \<Rightarrow> None
         | Some resource \<Rightarrow>
             (case connectionIdFromResource env iss resource of
                None \<Rightarrow> Some (''invalid_target'', ''The requested resource is not available on this server.'')
              | Some cid \<Rightarrow>
                  (case findConnection cid db of
                     None \<Rightarrow> Some (''invalid_target'', ''The requested resource is not available on this server.'')
                   | Some connection \<Rightarrow>
                       if cn_state connection = CRevoked then
                         Some (''invalid_target'', ''The requested resource is not available on this server.'')
                       else
                         (let requested = parseScopeParam (param query ''scope'');
                              base = (if requested \<noteq> [] then requested else MCP_SCOPES)
                          in if filter (\<lambda>s. s \<in> set (cn_scopes connection)) base = []
                             then Some (''invalid_scope'', ''None of the requested permissions are allowed for this connection.'')
                             else None)))))"

definition start_finish ::
  "mcp_env \<Rightarrow> int \<Rightarrow> string \<Rightarrow> (string \<Rightarrow> query_param) \<Rightarrow> (oauth_error + client_row) \<Rightarrow> string \<Rightarrow> string \<Rightarrow> mcp_db \<Rightarrow>
   authorize_outcome \<times> mcp_db" where
  "start_finish env now iss query resolved txn csrf db =
     (case resolved of
        Inl _ \<Rightarrow> (ErrorPage ''Unknown application'' 400, db)
      | Inr client \<Rightarrow>
          (case selectRedirectUri client (param query ''redirect_uri'') of
             None \<Rightarrow> (ErrorPage ''Invalid redirect'' 400, db)
           | Some redirectUri \<Rightarrow>
               (case start_problem env iss query db of
                  Some (err, description) \<Rightarrow>
                    (redirectWith redirectUri iss [(''error'', Some err), (''error_description'', Some description),
                       (''state'', param query ''state'')], db)
                | None \<Rightarrow>
                    (let requested = parseScopeParam (param query ''scope'');
                         connectionId = (case param query ''resource'' of None \<Rightarrow> None
                           | Some r \<Rightarrow> connectionIdFromResource env iss r);
                         displayScopes = (case connectionId of None \<Rightarrow> None
                           | Some cid \<Rightarrow> map_option (\<lambda>c. filter (\<lambda>s. s \<in> set (cn_scopes c))
                               (if requested \<noteq> [] then requested else MCP_SCOPES)) (findConnection cid db));
                         expiresAt = now + AUTHORIZATION_REQUEST_TTL_SECONDS * 1000
                     in (LoginPage txn displayScopes expiresAt None [],
                         createAuthorizationRequest
                           \<lparr>rq_id = txn, rq_csrfTokenHash = me_sha256Hex env csrf, rq_clientId = cl_clientId client,
                            rq_redirectUri = redirectUri, rq_state = param query ''state'',
                            rq_codeChallenge = or_else_text (param query ''code_challenge'') [],
                            rq_requestedScopes = (if requested \<noteq> [] then Some requested else None),
                            rq_resource = param query ''resource'', rq_connectionId = connectionId,
                            rq_enrollmentId = None, rq_authenticatedAt = None, rq_createdAt = now,
                            rq_expiresAt = expiresAt, rq_completedAt = None\<rparr> db)))))"

section \<open>Login\<close>

type_synonym form = "string \<Rightarrow> string option"

definition same_text :: "mcp_env \<Rightarrow> string \<Rightarrow> string \<Rightarrow> bool" where
  "same_text env a b = (me_sha256Hex env a = me_sha256Hex env b)"

definition loadTransaction ::
  "mcp_env \<Rightarrow> int \<Rightarrow> form \<Rightarrow> string option \<Rightarrow> mcp_db \<Rightarrow> authorize_outcome + request_row" where
  "loadTransaction env now form cookieTxn db =
     (let expired = Inl (ErrorPage ''Sign-in request expired'' 400) in
      case (form ''txn'', form ''csrf'', cookieTxn) of
        (Some txn, Some csrf, Some cookie) \<Rightarrow>
          if \<not> same_text env txn cookie then expired
          else
            (case findAuthorizationRequest txn db of
               None \<Rightarrow> expired
             | Some request \<Rightarrow>
                 if rq_completedAt request \<noteq> None \<or> rq_expiresAt request \<le> now then expired
                 else if \<not> same_text env (me_sha256Hex env csrf) (rq_csrfTokenHash request) then expired
                 else Inr request)
      | _ \<Rightarrow> expired)"

definition ipThrottled :: "int \<Rightarrow> string option \<Rightarrow> mcp_db \<Rightarrow> bool" where
  "ipThrottled now ip db =
     (case ip of
        None \<Rightarrow> False
      | Some address \<Rightarrow> IP_FAILURE_LIMIT \<le> length (filter
          (\<lambda>a. la_ip a = address \<and> \<not> la_success a \<and> now - IP_FAILURE_WINDOW_SECONDS * 1000 \<le> la_attemptedAt a)
          (md_attempts db)))"

definition mcp_recordAttempt :: "int \<Rightarrow> string option \<Rightarrow> string \<Rightarrow> bool \<Rightarrow> mcp_db \<Rightarrow> mcp_db" where
  "mcp_recordAttempt now ip username success db =
     db\<lparr>md_attempts := md_attempts db @ [\<lparr>la_ip = or_else_text ip ''unknown'', la_username = take 64 username,
       la_success = success, la_attemptedAt = now\<rparr>]\<rparr>"

definition enrollmentProblem ::
  "mcp_env \<Rightarrow> int \<Rightarrow> enrollment_row \<Rightarrow> request_row \<Rightarrow> mcp_db \<Rightarrow> string option" where
  "enrollmentProblem env now enrollment request db =
     (if en_revokedAt enrollment \<noteq> None then
        Some ''These setup credentials were replaced or revoked. Ask your postmaster for new ones.''
      else if en_lockedAt enrollment \<noteq> None then
        Some ''Too many failed attempts locked these setup credentials. Ask your postmaster to reissue them.''
      else if en_consumedAt enrollment \<noteq> None then
        Some ''This setup password has already been used. If you need to connect again, ask your postmaster for new setup credentials.''
      else if en_expiresAt enrollment \<le> now then
        Some ''This setup password has expired. Ask your postmaster for new setup credentials.''
      else if (case en_reservedUntil enrollment of None \<Rightarrow> False | Some t \<Rightarrow> now < t) \<and> en_reservedCodeId enrollment \<noteq> None then
        Some ''This setup password is completing another authorization. Wait a minute and try again.''
      else if (case rq_connectionId request of None \<Rightarrow> False | Some c \<Rightarrow> c \<noteq> en_connectionId enrollment) then
        Some ''These setup credentials belong to a different MCP connection than the one being connected. Check the MCP server URL you entered.''
      else
        (case findConnection (en_connectionId enrollment) db of
           None \<Rightarrow> Some ''This MCP connection no longer exists.''
         | Some connection \<Rightarrow>
             (case findBinding (cn_bindingId connection) db of
                None \<Rightarrow> Some ''This MCP connection is not usable.''
              | Some binding \<Rightarrow>
                  (let status = fst (statusOf env now connection binding db) in
                   if status \<noteq> StPending \<and> status \<noteq> StActive
                   then Some (''This MCP connection is '' @ status_name status @ ''. Contact your postmaster.'')
                   else None))))"

definition grantedScopes :: "request_row \<Rightarrow> mcp_scope list \<Rightarrow> mcp_scope list" where
  "grantedScopes request connectionScopes =
     filter (\<lambda>s. s \<in> set connectionScopes)
       (case rq_requestedScopes request of None \<Rightarrow> MCP_SCOPES | Some s \<Rightarrow> s)"

definition to_upper_ascii :: "string \<Rightarrow> string" where
  "to_upper_ascii s = map (\<lambda>c. if is_ascii_lower c then char_of (code c - 32) else c) s"

text \<open>A setup password has ASCII capitals only; other letters are left alone.\<close>

definition normalizeSetupPassword :: "string \<Rightarrow> string" where
  "normalizeSetupPassword input = to_upper_ascii (trim input)"

definition login_username :: "form \<Rightarrow> string" where
  "login_username form = take 64 (to_lower (trim (or_else_text (form ''username'') [])))"

definition login_password :: "form \<Rightarrow> string" where
  "login_password form = normalizeSetupPassword (take 128 (or_else_text (form ''password'') []))"

definition client_unknown :: "(oauth_error + client_row) \<Rightarrow> bool" where
  "client_unknown resolved = (case resolved of Inl _ \<Rightarrow> True | Inr _ \<Rightarrow> False)"

text \<open>Before the client is resolved; then before the password is verified; then the rest.\<close>

definition mcp_login_begin ::
  "mcp_env \<Rightarrow> int \<Rightarrow> form \<Rightarrow> string option \<Rightarrow> mcp_db \<Rightarrow> authorize_outcome + request_row" where
  "mcp_login_begin env now form cookieTxn db =
     (if issuer env db = None then Inl (ErrorPage ''MCP access is unavailable'' 503)
      else loadTransaction env now form cookieTxn db)"

definition mcp_login_lookup ::
  "int \<Rightarrow> form \<Rightarrow> request_row \<Rightarrow> (oauth_error + client_row) \<Rightarrow> string option \<Rightarrow> mcp_db \<Rightarrow>
   authorize_outcome + mcp_scope list option \<times> enrollment_row option" where
  "mcp_login_lookup now form request resolved ip db =
     (if client_unknown resolved then Inl (ErrorPage ''Unknown application'' 400)
      else
        (let shown = (case rq_connectionId request of None \<Rightarrow> None
               | Some cid \<Rightarrow> map_option (\<lambda>c. grantedScopes request (cn_scopes c)) (findConnection cid db))
         in if ipThrottled now ip db then Inl (ErrorPage ''Too many attempts'' 429)
            else Inr (shown, if login_username form = [] then None
                       else findEnrollmentByUsername (login_username form) db)))"

definition mcp_login_finish ::
  "mcp_env \<Rightarrow> int \<Rightarrow> form \<Rightarrow> request_row \<Rightarrow> mcp_scope list option \<Rightarrow> enrollment_row option \<Rightarrow> string option \<Rightarrow> mcp_db \<Rightarrow>
   authorize_outcome \<times> mcp_db" where
  "mcp_login_finish env now form request shown found ip db =
     (let username = login_username form; password = login_password form;
          loginAgain = (\<lambda>problem. LoginPage (rq_id request) shown (rq_expiresAt request) (Some problem) username);
          failed = (\<lambda>event connectionId db. mcp_record now event False ''anonymous'' connectionId None ip db)
      in
      case found of
        None \<Rightarrow>
          (loginAgain ''Incorrect MCP username or setup password.'',
           failed ''enrollment.login_failed'' None (mcp_recordAttempt now ip username False db))
      | Some enrollment \<Rightarrow>
          if \<not> me_verifySecret env (en_passwordHash enrollment) password \<or> length password = 0 then
            (let db = mcp_recordAttempt now ip username False db;
                 (attempts, db) =
                   (if en_lockedAt enrollment = None \<and> en_consumedAt enrollment = None \<and> en_revokedAt enrollment = None
                    then recordFailedAttempt (en_id enrollment) now db else (0, db));
                 locked = (ENROLLMENT_MAX_FAILED_ATTEMPTS \<le> attempts)
             in (loginAgain ''Incorrect MCP username or setup password.'',
                 failed (if locked then ''enrollment.locked'' else ''enrollment.login_failed'')
                   (Some (en_connectionId enrollment)) db))
          else
            (case enrollmentProblem env now enrollment request db of
               Some problem \<Rightarrow>
                 (loginAgain problem,
                  mcp_record now ''enrollment.login_failed'' False (''enrollment:'' @ en_username enrollment)
                    (Some (en_connectionId enrollment)) None ip (mcp_recordAttempt now ip username False db))
             | None \<Rightarrow>
                 (case findConnection (en_connectionId enrollment) db of
                    None \<Rightarrow> (ErrorPage ''Unavailable'' 400, db)
                  | Some connection \<Rightarrow>
                      (let scopes = grantedScopes request (cn_scopes connection) in
                       if scopes = [] then
                         (loginAgain ''None of the requested permissions are allowed for this connection.'', db)
                       else
                         (ConsentPage (rq_id request) (cn_mailbox connection) scopes,
                          markRequestAuthenticated (rq_id request) (cn_id connection) (en_id enrollment) now
                            (mcp_recordAttempt now ip username True db))))))"

section \<open>Decision\<close>

definition decide_begin ::
  "mcp_env \<Rightarrow> int \<Rightarrow> form \<Rightarrow> string option \<Rightarrow> mcp_db \<Rightarrow> authorize_outcome + string \<times> request_row" where
  "decide_begin env now form cookieTxn db =
     (case issuer env db of
        None \<Rightarrow> Inl (ErrorPage ''MCP access is unavailable'' 503)
      | Some iss \<Rightarrow>
          (case loadTransaction env now form cookieTxn db of
             Inl page \<Rightarrow> Inl page
           | Inr request \<Rightarrow>
               if rq_authenticatedAt request = None \<or> rq_enrollmentId request = None \<or> rq_connectionId request = None
               then Inl (ErrorPage ''Sign in first'' 400)
               else Inr (iss, request)))"

text \<open>Minting the code of an approval, reserving the setup password for it and completing the request.\<close>

definition approve ::
  "mcp_env \<Rightarrow> int \<Rightarrow> string \<Rightarrow> client_row \<Rightarrow> request_row \<Rightarrow> enrollment_row \<Rightarrow> connection_row \<Rightarrow> mcp_scope list \<Rightarrow>
   string \<Rightarrow> string \<Rightarrow> string option \<Rightarrow> mcp_db \<Rightarrow> authorize_outcome \<times> mcp_db" where
  "approve env now iss client request enrollment connection scopes codeId authCode ip db =
     (let db = issueCode env now codeId authCode client request scopes (resourceFor iss (cn_id connection))
            (cn_id connection) (en_id enrollment) db;
          reserveUntil = now + AUTHORIZATION_CODE_TTL_SECONDS * 1000 + 30000
      in case reserveEnrollment (en_id enrollment) codeId reserveUntil now db of
           (False, db) \<Rightarrow> (ErrorPage ''Cannot authorize'' 400, db)
         | (True, db) \<Rightarrow>
             (case completeRequest (rq_id request) now db of
                (False, db) \<Rightarrow> (ErrorPage ''Already completed'' 400, db)
              | (True, db) \<Rightarrow>
                  (redirectWith (rq_redirectUri request) iss [(''code'', Some authCode), (''state'', rq_state request)],
                   mcp_record now ''oauth.authorization_granted'' True (''enrollment:'' @ en_username enrollment)
                     (Some (cn_id connection)) (Some (cn_mailbox connection)) ip db)))"

definition decide_finish ::
  "mcp_env \<Rightarrow> int \<Rightarrow> string \<Rightarrow> form \<Rightarrow> request_row \<Rightarrow> (oauth_error + client_row) \<Rightarrow> string \<Rightarrow> string \<Rightarrow> string option \<Rightarrow> mcp_db \<Rightarrow>
   authorize_outcome \<times> mcp_db" where
  "decide_finish env now iss form request resolved codeId authCode ip db =
     (case resolved of
        Inl _ \<Rightarrow> (ErrorPage ''Unknown application'' 400, db)
      | Inr client \<Rightarrow>
     (case (rq_enrollmentId request, rq_connectionId request) of
        (Some eid, Some cid) \<Rightarrow>
     (case findEnrollmentById eid db of
        None \<Rightarrow> (ErrorPage ''Sign-in request expired'' 400, db)
      | Some enrollment \<Rightarrow>
          if form ''decision'' \<noteq> Some ''approve'' then
            (case completeRequest (rq_id request) now db of
               (False, db) \<Rightarrow> (ErrorPage ''Already completed'' 400, db)
             | (True, db) \<Rightarrow>
                 (redirectWith (rq_redirectUri request) iss [(''error'', Some ''access_denied''),
                    (''error_description'', Some ''The user denied the authorization request.''), (''state'', rq_state request)],
                  mcp_record now ''oauth.authorization_denied'' True (''enrollment:'' @ en_username enrollment)
                    (Some cid) None ip db))
          else if enrollmentProblem env now enrollment request db \<noteq> None \<or> en_connectionId enrollment \<noteq> cid then
            (ErrorPage ''Cannot authorize'' 400, db)
          else
            (case findConnection cid db of
               None \<Rightarrow> (ErrorPage ''Unavailable'' 400, db)
             | Some connection \<Rightarrow>
                 (let scopes = grantedScopes request (cn_scopes connection) in
                  if scopes = [] then (ErrorPage ''Cannot authorize'' 400, db)
                  else approve env now iss client request enrollment connection scopes codeId authCode ip db)))
      | _ \<Rightarrow> (ErrorPage ''Sign in first'' 400, db)))"

end
