(* ===== verification/McpEvolution.thy ===== *)
theory McpEvolution
  imports McpConsent "HOL-Library.Sublist"
begin

text \<open>
  What an operation of the mail agent may do to the database: rows age, and new rows have fresh keys.
  One lemma per repository function and per service operation, in the collection \<open>evolution\<close>.
\<close>

section \<open>Rows age\<close>

text \<open>
  What no operation undoes: keys and contents stay, a redemption, a use and a revocation are final.  A
  table evolves when each of its rows is an aged row of before or has a fresh key.
\<close>

definition evolves :: "('r \<Rightarrow> 'r \<Rightarrow> bool) \<Rightarrow> ('r \<Rightarrow> bool) \<Rightarrow> 'r list \<Rightarrow> 'r list \<Rightarrow> bool" where
  "evolves ages new xs ys = (\<forall>y \<in> set ys. (\<exists>x \<in> set xs. ages x y) \<or> new y)"

lemma evolves_refl: "(\<And>r. ages r r) \<Longrightarrow> evolves ages new xs xs"
  by (auto simp: evolves_def)

lemma evolves_append: "evolves ages new xs ys \<Longrightarrow> new r \<Longrightarrow> evolves ages new xs (ys @ [r])"
  by (auto simp: evolves_def)

lemma evolves_filter: "evolves ages new xs ys \<Longrightarrow> evolves ages new xs (filter keep ys)"
  by (auto simp: evolves_def)

lemma evolves_update_where:
  assumes "evolves ages new xs ys"
    and "\<And>x y. ages x y \<Longrightarrow> p y \<Longrightarrow> ages x (f y)" and "\<And>y. new y \<Longrightarrow> p y \<Longrightarrow> new (f y)"
  shows "evolves ages new xs (update_where p f ys)"
  unfolding evolves_def update_where_def
proof (intro ballI, simp only: set_map, elim imageE)
  fix y z assume "z \<in> set ys" and y: "y = (if p z then f z else z)"
  with assms(1) have "(\<exists>x \<in> set xs. ages x z) \<or> new z" by (auto simp: evolves_def)
  then show "(\<exists>x \<in> set xs. ages x y) \<or> new y"
    by (elim disjE bexE; cases "p z") (auto simp: y intro: assms(2,3))
qed

definition code_ages :: "code_row \<Rightarrow> code_row \<Rightarrow> bool" where
  "code_ages c c' =
     (ac_codeHash c' = ac_codeHash c \<and> ac_id c' = ac_id c \<and> ac_requestId c' = ac_requestId c \<and> ac_enrollmentId c' = ac_enrollmentId c \<and>
      (ac_redeemedAt c \<noteq> None \<longrightarrow> ac_redeemedAt c' \<noteq> None))"

definition grant_ages :: "grant_row \<Rightarrow> grant_row \<Rightarrow> bool" where
  "grant_ages g g' = (gr_id g' = gr_id g \<and> (gr_revokedAt g \<noteq> None \<longrightarrow> gr_revokedAt g' \<noteq> None))"

definition access_ages :: "access_row \<Rightarrow> access_row \<Rightarrow> bool" where
  "access_ages t t' =
     (at_tokenHash t' = at_tokenHash t \<and> at_grantId t' = at_grantId t \<and> at_expiresAt t' = at_expiresAt t \<and>
      (at_revokedAt t \<noteq> None \<longrightarrow> at_revokedAt t' \<noteq> None))"

definition refresh_ages :: "refresh_row \<Rightarrow> refresh_row \<Rightarrow> bool" where
  "refresh_ages t t' =
     (rt_tokenHash t' = rt_tokenHash t \<and> rt_id t' = rt_id t \<and> rt_grantId t' = rt_grantId t \<and>
      (rt_usedAt t \<noteq> None \<longrightarrow> rt_usedAt t' \<noteq> None) \<and> (rt_revokedAt t \<noteq> None \<longrightarrow> rt_revokedAt t' \<noteq> None))"

definition connection_ages :: "connection_row \<Rightarrow> connection_row \<Rightarrow> bool" where
  "connection_ages c c' = (cn_id c' = cn_id c \<and> (cn_state c = CRevoked \<longrightarrow> cn_state c' = CRevoked))"

definition request_ages :: "request_row \<Rightarrow> request_row \<Rightarrow> bool" where
  "request_ages r r' = (rq_id r' = rq_id r \<and> rq_enrollmentId r' = rq_enrollmentId r)"

text \<open>
  New rows have one of the identifiers \<open>N\<close>, and a digest that \<open>H\<close> pairs with what it identifies (the
  code; the grant; the refresh token and its grant); a request is bound to an enrollment, and a
  code is minted, only for a pair of request and enrollment in \<open>P\<close>.  When \<open>Q\<close> holds, no setup password
  is issued: the enrollments are among those of before and none becomes unconsumed.
\<close>

definition code_new :: "(string \<times> string list) set \<Rightarrow> (string \<times> string) set \<Rightarrow> code_row \<Rightarrow> bool" where
  "code_new H P c = ((ac_codeHash c, [ac_id c]) \<in> H \<and> (ac_requestId c, ac_enrollmentId c) \<in> P)"

definition request_new :: "(string \<times> string) set \<Rightarrow> request_row \<Rightarrow> bool" where
  "request_new P r = (case rq_enrollmentId r of None \<Rightarrow> True | Some eid \<Rightarrow> (rq_id r, eid) \<in> P)"

definition enrollments_quiet :: "enrollment_row list \<Rightarrow> enrollment_row list \<Rightarrow> bool" where
  "enrollments_quiet xs ys =
     (subseq (map en_id ys) (map en_id xs) \<and>
      (\<forall>y \<in> set ys. en_consumedAt y = None \<longrightarrow> (\<exists>x \<in> set xs. en_id x = en_id y \<and> en_consumedAt x = None)))"

lemma enrollments_quiet_refl: "enrollments_quiet xs xs"
  by (auto simp: enrollments_quiet_def)

lemma enrollments_quiet_filter: "enrollments_quiet xs ys \<Longrightarrow> enrollments_quiet xs (filter keep ys)"
  by (auto simp: enrollments_quiet_def intro: subseq_order.trans [OF subseq_map [OF subseq_filter_left]])

lemma enrollments_quiet_update:
  assumes "enrollments_quiet xs ys" and "\<And>y. en_id (f y) = en_id y"
    and "\<And>y. p y \<Longrightarrow> en_consumedAt (f y) = None \<Longrightarrow> en_consumedAt y = None"
  shows "enrollments_quiet xs (update_where p f ys)"
proof -
  have "map en_id (update_where p f ys) = map en_id ys" using assms(2) by (simp add: update_where_def)
  moreover have "\<forall>y \<in> set (update_where p f ys). en_consumedAt y = None \<longrightarrow>
      (\<exists>x \<in> set xs. en_id x = en_id y \<and> en_consumedAt x = None)"
    using assms unfolding enrollments_quiet_def update_where_def by (auto split: if_splits)
  ultimately show ?thesis using assms(1) by (simp add: enrollments_quiet_def)
qed

definition db_evolves ::
  "string set \<Rightarrow> (string \<times> string list) set \<Rightarrow> (string \<times> string) set \<Rightarrow> bool \<Rightarrow> mcp_db \<Rightarrow> mcp_db \<Rightarrow> bool" where
  "db_evolves N H P Q a b =
     (evolves code_ages (code_new H P) (md_codes a) (md_codes b) \<and>
      evolves request_ages (request_new P) (md_requests a) (md_requests b) \<and>
      (Q \<longrightarrow> enrollments_quiet (md_enrollments a) (md_enrollments b)) \<and>
      evolves grant_ages (\<lambda>g. gr_id g \<in> N) (md_grants a) (md_grants b) \<and>
      evolves access_ages (\<lambda>t. (at_tokenHash t, [at_grantId t]) \<in> H) (md_access a) (md_access b) \<and>
      evolves refresh_ages (\<lambda>t. (rt_tokenHash t, [rt_id t, rt_grantId t]) \<in> H) (md_refresh a) (md_refresh b) \<and>
      evolves connection_ages (\<lambda>c. cn_id c \<in> N) (md_connections a) (md_connections b))"

lemmas ages_defs = code_ages_def grant_ages_def access_ages_def refresh_ages_def connection_ages_def request_ages_def

named_theorems evolution

lemma db_evolves_refl [evolution]: "db_evolves N H P Q a a"
  by (auto simp: db_evolves_def ages_defs enrollments_quiet_refl intro!: evolves_refl)

lemma db_evolves_quiet [evolution]:
  assumes "db_evolves N H P Q a X"
  shows "db_evolves N H P Q a (X\<lparr>md_settings := st\<rparr>)" "db_evolves N H P Q a (X\<lparr>md_bindings := bs\<rparr>)"
    "db_evolves N H P Q a (X\<lparr>md_credentials := cs\<rparr>)" "db_evolves N H P Q a (X\<lparr>md_clients := cls\<rparr>)"
    "db_evolves N H P Q a (X\<lparr>md_attempts := ats\<rparr>)" "db_evolves N H P Q a (X\<lparr>md_audit := aus\<rparr>)"
  using assms by (simp_all add: db_evolves_def)

lemma codes_evolve:
  assumes "db_evolves N H P Q a X" and "evolves code_ages (code_new H P) (md_codes a) cs"
  shows "db_evolves N H P Q a (X\<lparr>md_codes := cs\<rparr>)"
  using assms by (simp add: db_evolves_def)

lemma grants_evolve:
  assumes "db_evolves N H P Q a X" and "evolves grant_ages (\<lambda>g. gr_id g \<in> N) (md_grants a) gs"
  shows "db_evolves N H P Q a (X\<lparr>md_grants := gs\<rparr>)"
  using assms by (simp add: db_evolves_def)

lemma access_evolve:
  assumes "db_evolves N H P Q a X" and "evolves access_ages (\<lambda>t. (at_tokenHash t, [at_grantId t]) \<in> H) (md_access a) ts"
  shows "db_evolves N H P Q a (X\<lparr>md_access := ts\<rparr>)"
  using assms by (simp add: db_evolves_def)

lemma refresh_evolve:
  assumes "db_evolves N H P Q a X" and "evolves refresh_ages (\<lambda>t. (rt_tokenHash t, [rt_id t, rt_grantId t]) \<in> H) (md_refresh a) ts"
  shows "db_evolves N H P Q a (X\<lparr>md_refresh := ts\<rparr>)"
  using assms by (simp add: db_evolves_def)

lemma connections_evolve:
  assumes "db_evolves N H P Q a X" and "evolves connection_ages (\<lambda>c. cn_id c \<in> N) (md_connections a) cs"
  shows "db_evolves N H P Q a (X\<lparr>md_connections := cs\<rparr>)"
  using assms by (simp add: db_evolves_def)

lemma requests_evolve:
  assumes "db_evolves N H P Q a X" and "evolves request_ages (request_new P) (md_requests a) rs"
  shows "db_evolves N H P Q a (X\<lparr>md_requests := rs\<rparr>)"
  using assms by (simp add: db_evolves_def)

lemma enrollments_evolve:
  assumes "db_evolves N H P Q a X" and "Q \<Longrightarrow> enrollments_quiet (md_enrollments a) es"
  shows "db_evolves N H P Q a (X\<lparr>md_enrollments := es\<rparr>)"
  using assms by (simp add: db_evolves_def)

lemmas tables_evolve = codes_evolve grants_evolve access_evolve refresh_evolve connections_evolve

lemma db_evolves_tables:
  "db_evolves N H P Q a X \<Longrightarrow> evolves code_ages (code_new H P) (md_codes a) (md_codes X)"
  "db_evolves N H P Q a X \<Longrightarrow> evolves grant_ages (\<lambda>g. gr_id g \<in> N) (md_grants a) (md_grants X)"
  "db_evolves N H P Q a X \<Longrightarrow> evolves access_ages (\<lambda>t. (at_tokenHash t, [at_grantId t]) \<in> H) (md_access a) (md_access X)"
  "db_evolves N H P Q a X \<Longrightarrow> evolves refresh_ages (\<lambda>t. (rt_tokenHash t, [rt_id t, rt_grantId t]) \<in> H) (md_refresh a) (md_refresh X)"
  "db_evolves N H P Q a X \<Longrightarrow> evolves connection_ages (\<lambda>c. cn_id c \<in> N) (md_connections a) (md_connections X)"
  "db_evolves N H P Q a X \<Longrightarrow> evolves request_ages (request_new P) (md_requests a) (md_requests X)"
  "db_evolves N H P Q a X \<Longrightarrow> Q \<Longrightarrow> enrollments_quiet (md_enrollments a) (md_enrollments X)"
  by (simp_all add: db_evolves_def)

section \<open>The repositories\<close>

lemma mcp_record_evolves [evolution]:
  "db_evolves N H P Q a X \<Longrightarrow> db_evolves N H P Q a (mcp_record now ev success act c m ip X)"
  by (simp add: mcp_record_def db_evolves_quiet)

lemma binding_ops_evolve [evolution]:
  assumes "db_evolves N H P Q a X"
  shows "db_evolves N H P Q a (createBinding bid m f now X)" "db_evolves N H P Q a (setBindingState bid st r now X)"
    "db_evolves N H P Q a (reanchor bid f now X)" "db_evolves N H P Q a (markVerified bid now X)"
    "db_evolves N H P Q a (recordError bid msg now X)" "db_evolves N H P Q a (putCredential bid k se now X)"
    "db_evolves N H P Q a (deleteCredential bid X)"
  using assms
  by (simp_all add: createBinding_def setBindingState_def reanchor_def markVerified_def recordError_def
      putCredential_def deleteCredential_def db_evolves_quiet split: option.split)

lemma connection_ops_evolve [evolution]:
  assumes "db_evolves N H P Q a X"
  shows "db_evolves N H P Q a (updateConnection cid l sc si ex now X)"
    "db_evolves N H P Q a (setConnectionState cid st r now X)"
    "db_evolves N H P Q a (touchAuthorized cid now X)" "db_evolves N H P Q a (touchUsed cid now X)"
  using assms unfolding updateConnection_def setConnectionState_def touchAuthorized_def touchUsed_def
  by (auto intro!: connections_evolve evolves_update_where db_evolves_tables(5) simp: connection_ages_def)

lemma createConnection_evolves [evolution]:
  "db_evolves N H P Q a X \<Longrightarrow> cid \<in> N \<Longrightarrow> db_evolves N H P Q a (createConnection cid bid m l sc cb ex now X)"
  unfolding createConnection_def by (auto intro!: connections_evolve evolves_append db_evolves_tables(5))

lemma deleteConnection_evolves [evolution]:
  "db_evolves N H P Q a X \<Longrightarrow> db_evolves N H P Q a (deleteConnection cid X)"
  by (auto simp: deleteConnection_def Let_def db_evolves_def intro!: evolves_filter enrollments_quiet_filter)

lemma enrollment_ops_evolve [evolution]:
  assumes "db_evolves N H P Q a X"
  shows "db_evolves N H P Q a (revokeEnrollments cid now X)"
    "db_evolves N H P Q a (snd (recordFailedAttempt eid now X))"
    "db_evolves N H P Q a (snd (reserveEnrollment eid c un now X))"
    "db_evolves N H P Q a (snd (consumeEnrollment eid c now X))"
  using assms
  by (auto simp: revokeEnrollments_def recordFailedAttempt_def reserveEnrollment_def consumeEnrollment_def Let_def
      intro!: enrollments_evolve enrollments_quiet_update db_evolves_tables(7))

lemma enrollment_issues_evolve [evolution]:
  assumes "db_evolves N H P Q a X" and "\<not> Q"
  shows "db_evolves N H P Q a (issueEnrollmentRow eid cid u h ex now X)"
    "db_evolves N H P Q a (resetEnrollment eid h ex now X)"
  using assms
  by (auto simp: issueEnrollmentRow_def resetEnrollment_def Let_def intro!: enrollments_evolve enrollment_ops_evolve)

lemma request_ops_evolve [evolution]:
  assumes "db_evolves N H P Q a X"
  shows "db_evolves N H P Q a (upsertClient cl X)"
    "rq_enrollmentId r = None \<Longrightarrow> db_evolves N H P Q a (createAuthorizationRequest r X)"
    "(rid, e) \<in> P \<Longrightarrow> db_evolves N H P Q a (markRequestAuthenticated rid c e now X)"
    "db_evolves N H P Q a (snd (completeRequest rid now X))"
    "db_evolves N H P Q a (mcp_recordAttempt now ip u sc X)"
proof -
  show "db_evolves N H P Q a (upsertClient cl X)" "db_evolves N H P Q a (mcp_recordAttempt now ip u sc X)"
    using assms by (simp_all add: upsertClient_def mcp_recordAttempt_def db_evolves_quiet)
  show "db_evolves N H P Q a (createAuthorizationRequest r X)" if "rq_enrollmentId r = None"
    using assms that unfolding createAuthorizationRequest_def
    by (auto intro!: requests_evolve evolves_append db_evolves_tables(6) simp: request_new_def)
  show "db_evolves N H P Q a (snd (completeRequest rid now X))"
    using assms unfolding completeRequest_def
    by (auto intro!: requests_evolve evolves_update_where db_evolves_tables(6) simp: request_new_def request_ages_def split: option.splits)
  show "db_evolves N H P Q a (markRequestAuthenticated rid c e now X)" if "(rid, e) \<in> P"
  proof -
    have "evolves request_ages (request_new P) (md_requests a)
        (update_where (\<lambda>r. rq_id r = rid \<and> rq_completedAt r = None)
          (\<lambda>r. r\<lparr>rq_connectionId := Some c, rq_enrollmentId := Some e, rq_authenticatedAt := Some now\<rparr>) (md_requests X))"
      using db_evolves_tables(6) [OF assms] that
      by (fastforce simp: evolves_def update_where_def request_new_def)
    with assms show ?thesis unfolding markRequestAuthenticated_def by (intro requests_evolve)
  qed
qed

lemma code_ops_evolve [evolution]:
  assumes "db_evolves N H P Q a X"
  shows "code_new H P r \<Longrightarrow> db_evolves N H P Q a (createCode r X)"
    "db_evolves N H P Q a (snd (redeemCode aid now X))" "db_evolves N H P Q a (attachGrantToCode aid gid X)"
  using assms unfolding createCode_def redeemCode_def attachGrantToCode_def
  by (auto intro!: codes_evolve evolves_append evolves_update_where db_evolves_tables(1) simp: code_ages_def code_new_def)

lemma grant_ops_evolve [evolution]:
  assumes "db_evolves N H P Q a X"
  shows "gr_id g \<in> N \<Longrightarrow> db_evolves N H P Q a (createGrant g X)" "db_evolves N H P Q a (touchGrant gid now X)"
  using assms unfolding createGrant_def touchGrant_def
  by (auto intro!: grants_evolve evolves_append evolves_update_where db_evolves_tables(2) simp: grant_ages_def)

lemma revokeGrant_evolves [evolution]:
  assumes "db_evolves N H P Q a X"
  shows "db_evolves N H P Q a (snd (revokeGrant gid r now X))"
  using db_evolves_tables [OF assms] unfolding revokeGrant_def
  using assms by (auto simp: db_evolves_def ages_defs intro!: evolves_update_where)

lemma revokeAll_evolves [evolution]:
  assumes "db_evolves N H P Q a X"
  shows "db_evolves N H P Q a (snd (revokeAllGrantsForConnection cid r now X))"
proof -
  have "db_evolves N H P Q a (snd p) \<Longrightarrow> db_evolves N H P Q a (snd (foldl (\<lambda>(count, db) g.
         if gr_revokedAt g = None then
           (let (changed, db) = revokeGrant (gr_id g) r now db in (if changed then count + 1 else count, db))
         else (count, db)) p gs))" for p :: "nat \<times> mcp_db" and gs :: "grant_row list"
    by (induction gs arbitrary: p) (auto simp: case_prod_unfold Let_def revokeGrant_evolves)
  then show ?thesis using assms unfolding revokeAllGrantsForConnection_def by simp
qed

lemma token_ops_evolve [evolution]:
  assumes "db_evolves N H P Q a X"
  shows "(at_tokenHash t, [at_grantId t]) \<in> H \<Longrightarrow> db_evolves N H P Q a (createAccessToken t X)"
    "db_evolves N H P Q a (revokeAccessTokenByHash h now X)"
    "(rt_tokenHash u, [rt_id u, rt_grantId u]) \<in> H \<Longrightarrow> db_evolves N H P Q a (createRefreshToken u X)"
    "db_evolves N H P Q a (snd (markRefreshTokenUsed rid now X))"
  using assms unfolding createAccessToken_def revokeAccessTokenByHash_def createRefreshToken_def markRefreshTokenUsed_def
  by (auto intro!: access_evolve refresh_evolve evolves_append evolves_update_where db_evolves_tables(3,4)
      simp: access_ages_def refresh_ages_def)

lemma purgeExpired_evolves [evolution]: "db_evolves N H P Q a X \<Longrightarrow> db_evolves N H P Q a (purgeExpired hz X)"
  by (auto simp: purgeExpired_def db_evolves_def intro!: evolves_filter)


section \<open>The services\<close>

lemma foldl_evolves:
  "(\<And>X x. db_evolves N H P Q a X \<Longrightarrow> db_evolves N H P Q a (f X x)) \<Longrightarrow> db_evolves N H P Q a X \<Longrightarrow>
   db_evolves N H P Q a (foldl f X xs)"
  by (induction xs arbitrary: X) auto

lemma foldl_snd_evolves:
  "(\<And>p x. db_evolves N H P Q a (snd p) \<Longrightarrow> db_evolves N H P Q a (snd (f p x))) \<Longrightarrow> db_evolves N H P Q a (snd p) \<Longrightarrow>
   db_evolves N H P Q a (snd (foldl f p xs))"
  by (induction xs arbitrary: p) auto

lemma invalidateBinding_evolves [evolution]:
  "db_evolves N H P Q a X \<Longrightarrow> db_evolves N H P Q a (snd (invalidateBinding now b st r act X))"
  by (simp add: invalidateBinding_def Let_def evolution foldl_evolves)

lemma markCredentialRejected_evolves [evolution]:
  "db_evolves N H P Q a X \<Longrightarrow> db_evolves N H P Q a (markCredentialRejected now b act X)"
  by (simp add: markCredentialRejected_def evolution)

lemma resolveBinding_evolves [evolution]:
  "db_evolves N H P Q a X \<Longrightarrow> db_evolves N H P Q a (snd (resolveBinding now nid m f act X))"
  by (auto simp: resolveBinding_def Let_def evolution split: option.split)

lemma provisionCredential_evolves [evolution]:
  "db_evolves N H P Q a X \<Longrightarrow> db_evolves N H P Q a (snd (provisionCredential env now b pw act r X))"
  by (auto simp: provisionCredential_def evolution split: option.split)

lemma create_begin_evolves [evolution]:
  "db_evolves N H P Q a X \<Longrightarrow> db_evolves N H P Q a (snd (create_begin now nid m f act X))"
  using resolveBinding_evolves [of N H P Q a X now nid m f "postmaster act"]
  by (auto simp: create_begin_def split: prod.split sum.split)

lemma create_finish_evolves [evolution]:
  "db_evolves N H P Q a X \<Longrightarrow> cid \<in> N \<Longrightarrow> db_evolves N H P Q a (snd (create_finish env now st cid b l ps ex act X))"
  by (auto simp: create_finish_def Let_def evolution split: option.split)

lemma issueEnrollment_evolves [evolution]:
  "db_evolves N H P Q a X \<Longrightarrow> \<not> Q \<Longrightarrow> db_evolves N H P Q a (issueEnrollment now st c prev nid u h act ev fr X)"
  by (auto simp: issueEnrollment_def Let_def evolution split: option.split bool.split)

lemma rotate_begin_evolves [evolution]:
  "db_evolves N H P Q a X \<Longrightarrow> db_evolves N H P Q a (snd (rotate_begin now cid act X))"
  by (auto simp: rotate_begin_def Let_def case_prod_unfold evolution split: sum.split)

lemma connection_changes_evolve [evolution]:
  assumes "db_evolves N H P Q a X"
  shows "db_evolves N H P Q a (snd (connection_update now cid l ps si ex act X))"
    "db_evolves N H P Q a (snd (connection_set now cid st r ev act X))"
  using assms by (auto simp: connection_update_def connection_set_def evolution split: sum.split)

lemma connection_switch_evolves [evolution]:
  assumes "db_evolves N H P Q a X"
  shows "db_evolves N H P Q a (snd (connection_disable now cid r act X))"
    "db_evolves N H P Q a (snd (connection_enable now cid act X))"
  using assms by (simp_all add: connection_disable_def connection_enable_def evolution)

lemma revokeConnectionInternal_evolves [evolution]:
  "db_evolves N H P Q a X \<Longrightarrow> db_evolves N H P Q a (revokeConnectionInternal now c act r X)"
  by (simp add: revokeConnectionInternal_def Let_def evolution)

lemma connection_removals_evolve [evolution]:
  assumes "db_evolves N H P Q a X"
  shows "db_evolves N H P Q a (snd (connection_revoke now cid r act X))"
    "db_evolves N H P Q a (snd (connection_delete now cid act X))"
    "db_evolves N H P Q a (snd (connection_revokeGrant now cid gid act X))"
  using assms
  by (auto simp: connection_revoke_def connection_delete_def connection_revokeGrant_def Let_def case_prod_unfold
      evolution split: sum.split option.split)

lemma credentials_evolve [evolution]:
  assumes "db_evolves N H P Q a X"
  shows "db_evolves N H P Q a (snd (updateCredentials_begin env now nid cid f act X))"
    "db_evolves N H P Q a (snd (updateCredentials_finish env now b pw act r X))"
    "db_evolves N H P Q a (test_finish now cid b act r X)"
  using assms resolveBinding_evolves [OF assms] provisionCredential_evolves [OF assms]
  by (auto simp: updateCredentials_begin_def updateCredentials_finish_def test_finish_def evolution
      split: sum.split option.split prod.split) (metis evolution snd_conv)+


lemma mailboxEvent_evolves [evolution]:
  "db_evolves N H P Q a X \<Longrightarrow> db_evolves N H P Q a (snd (mailboxEvent now m ev act X))"
  by (auto simp: mailboxEvent_def Let_def evolution foldl_evolves split: option.split mailbox_event.split)

lemma reconcile_evolves [evolution]:
  "db_evolves N H P Q a X \<Longrightarrow> db_evolves N H P Q a (snd (reconcile now entries X))"
  unfolding reconcile_def
  by (rule foldl_snd_evolves) (auto simp: reconcile_one_def case_prod_unfold evolution split: option.split)

lemma mintPair_evolves [evolution]:
  "db_evolves N H P Q a X \<Longrightarrow> (me_sha256Hex env (ft_accessToken fresh), [g]) \<in> H \<Longrightarrow>
   (me_sha256Hex env (ft_refreshToken fresh), [ft_refreshId fresh, g]) \<in> H \<Longrightarrow>
   db_evolves N H P Q a (snd (mintPair env now fresh g c sc r p X))"
  by (simp add: mintPair_def Let_def evolution)

lemma issueCode_evolves [evolution]:
  "db_evolves N H P Q a X \<Longrightarrow> (me_sha256Hex env authCode, [cid]) \<in> H \<Longrightarrow> (rq_id rq, enr) \<in> P \<Longrightarrow>
   db_evolves N H P Q a (issueCode env now cid authCode client rq sc res con enr X)"
  by (simp add: issueCode_def evolution code_new_def)

definition tokens_new :: "mcp_env \<Rightarrow> (string \<times> string list) set \<Rightarrow> fresh_tokens \<Rightarrow> string \<Rightarrow> bool" where
  "tokens_new env H fresh gid =
     ((me_sha256Hex env (ft_accessToken fresh), [gid]) \<in> H \<and>
      (me_sha256Hex env (ft_refreshToken fresh), [ft_refreshId fresh, gid]) \<in> H)"

lemma redeem_and_grant_evolves [evolution]:
  assumes "db_evolves N H P Q a X" "tokens_new env H fresh (ft_grantId fresh)" "ft_grantId fresh \<in> N"
  shows "db_evolves N H P Q a (snd (redeem_and_grant env now fresh client input authCode X))"
  using assms
  by (auto simp: redeem_and_grant_def tokens_new_def Let_def case_prod_unfold evolution split: bool.split option.split)

lemma exchangeCode_evolves [evolution]:
  assumes "db_evolves N H P Q a X" "tokens_new env H fresh (ft_grantId fresh)" "ft_grantId fresh \<in> N"
  shows "db_evolves N H P Q a (snd (exchangeCode env now fresh client input X))"
  using assms by (auto simp: exchangeCode_def Let_def evolution split: option.split)

lemma refresh_replayed_evolves [evolution]:
  "db_evolves N H P Q a X \<Longrightarrow> db_evolves N H P Q a (snd (refresh_replayed now r client input g X))"
  by (simp add: refresh_replayed_def evolution)

lemma rotate_token_evolves [evolution]:
  assumes "db_evolves N H P Q a X" "tokens_new env H fresh (gr_id g)"
  shows "db_evolves N H P Q a (snd (rotate_token env now fresh client input t g c sc X))"
  using assms
  by (auto simp: rotate_token_def tokens_new_def Let_def case_prod_unfold evolution split: bool.split)

lemma findGrant_id: "findGrant gid db = Some g \<Longrightarrow> gr_id g = gid \<and> g \<in> set (md_grants db)"
  by (auto simp: findGrant_def find_Some_iff)

text \<open>The grant that a refresh is for.\<close>

definition refreshed_grant :: "mcp_env \<Rightarrow> refresh_input \<Rightarrow> mcp_db \<Rightarrow> string" where
  "refreshed_grant env input db =
     (case ri_refreshToken input of None \<Rightarrow> []
      | Some presented \<Rightarrow> (case findRefreshTokenByHash (me_sha256Hex env presented) db of
            None \<Rightarrow> [] | Some t \<Rightarrow> rt_grantId t))"

lemma refresh_evolves [evolution]:
  assumes "db_evolves N H P Q a X" "tokens_new env H fresh (refreshed_grant env input X)"
  shows "db_evolves N H P Q a (snd (refresh env now fresh client input X))"
  using assms
  by (auto simp: refresh_def refreshed_grant_def Let_def evolution dest: findGrant_id split: option.split sum.split)

lemma revoke_token_evolves [evolution]:
  assumes "db_evolves N H P Q a X"
  shows "db_evolves N H P Q a (revoke_token env now client t hint ip X)"
proof -
  have "revoke_refresh now h client ip X = Some Y \<Longrightarrow> db_evolves N H P Q a Y"
    "revoke_access now h client ip X = Some Y \<Longrightarrow> db_evolves N H P Q a Y" for h Y
    using assms by (auto simp: revoke_refresh_def revoke_access_def evolution split: option.splits if_splits)
  then show ?thesis using assms by (auto simp: revoke_token_def Let_def split: option.split)
qed

lemma bearer_verify_evolves [evolution]:
  "db_evolves N H P Q a X \<Longrightarrow> db_evolves N H P Q a (snd (bearer_verify env now cid au ip X))"
  by (auto simp: bearer_verify_def verify_token_def Let_def case_prod_unfold evolution split: option.split bool.split)

lemma clients_evolve [evolution]:
  assumes "db_evolves N H P Q a X"
  shows "db_evolves N H P Q a (snd (client_register env now cid sec body ip X))"
    "db_evolves N H P Q a (snd (fetchMetadataDocument env now cid hosts fetched ip X))"
  using assms
  by (auto simp: client_register_def fetchMetadataDocument_def Let_def evolution split: option.split sum.split)

lemma start_finish_evolves [evolution]:
  "db_evolves N H P Q a X \<Longrightarrow> db_evolves N H P Q a (snd (start_finish env now iss q res txn csrf X))"
  by (auto simp: start_finish_def Let_def evolution split: sum.split option.split)

lemma mcp_login_finish_evolves [evolution]:
  "db_evolves N H P Q a X \<Longrightarrow>
   (\<And>e. found = Some e \<Longrightarrow> me_verifySecret env (en_passwordHash e) (login_password form) \<Longrightarrow> (rq_id rq, en_id e) \<in> P) \<Longrightarrow>
   db_evolves N H P Q a (snd (mcp_login_finish env now form rq shown found ip X))"
  by (auto simp: mcp_login_finish_def Let_def case_prod_unfold evolution split: option.split)

lemma findEnrollmentById_id: "findEnrollmentById eid db = Some e \<Longrightarrow> en_id e = eid"
  by (auto simp: findEnrollmentById_def find_Some_iff)

lemma decide_finish_evolves [evolution]:
  assumes "db_evolves N H P Q a X" "(me_sha256Hex env authCode, [codeId]) \<in> H"
    and "\<And>eid. rq_enrollmentId rq = Some eid \<Longrightarrow> (rq_id rq, eid) \<in> P"
  shows "db_evolves N H P Q a (snd (decide_finish env now iss form rq res codeId authCode ip X))"
  using assms
  by (auto simp: decide_finish_def approve_def Let_def case_prod_unfold evolution dest: findEnrollmentById_id
      split: sum.split option.split bool.split)

end
