(* ===== verification/McpMachine.thy ===== *)
theory McpMachine
  imports McpEvolution Transitions
begin

text \<open>
  All operations of the mail agent over one database, in any interleaving.  An operation that awaits
  is the events between its awaits; an event takes what was read before its await from its arguments,
  however stale.  Beside the database the machine remembers which identifiers and digests were issued,
  what requests were loaded and looked up, which enrollments a setup password was issued for and which
  ones led to a grant.
\<close>

section \<open>Events\<close>

datatype mcp_event =
    Tick int
  | SettingsChanged mcp_settings
  | CreateBegun string string string string
  | CredentialVerified binding_row string string verify_result
  | CreateEnded mcp_settings string binding_row string "mcp_scope list" "int option option" string
  | EnrollmentIssued mcp_settings connection_row "enrollment_row option" string string string string string bool
  | RotateBegun string string
  | ConnectionUpdated string "string option" "mcp_scope list option" "string list option" "int option option" string
  | ConnectionDisabled string "string option" string
  | ConnectionEnabled string string
  | ConnectionRevoked string "string option" string
  | ConnectionDeleted string string
  | GrantRevoked string string string
  | CredentialsBegun string string string string
  | CredentialsEnded binding_row string string verify_result
  | ConnectionTested string binding_row string verify_result
  | CredentialRejected binding_row string
  | MailboxChanged string mailbox_event string
  | Reconciled "(string \<times> string) list"
  | ClientRegistered string string "registration_request option" "string option"
  | DocumentFetched string "string list" "string + client_document option" "string option"
  | AuthorizationStarted string "string \<Rightarrow> query_param" "oauth_error + client_row" string string
  | LoginLoaded form "string option"
  | LoginLookedUp form request_row "oauth_error + client_row" "string option"
  | LoginFinished form request_row "mcp_scope list option" "enrollment_row option" "string option"
  | DecisionLoaded form "string option"
  | DecisionFinished string form request_row "oauth_error + client_row" string string "string option"
  | CodeExchanged fresh_tokens client_row exchange_input
  | TokenRefreshed fresh_tokens client_row refresh_input
  | TokenRevoked client_row string "string option" "string option"
  | BearerChecked string "string option" "string option"
  | Purged int

fun apply_event :: "mcp_env \<Rightarrow> int \<Rightarrow> mcp_event \<Rightarrow> mcp_db \<Rightarrow> mcp_db" where
  "apply_event env now (Tick t) db = db"
| "apply_event env now (SettingsChanged new) db = (case updateSettings new db of None \<Rightarrow> db | Some db' \<Rightarrow> db')"
| "apply_event env now (CreateBegun bid mailbox fp actor) db = snd (create_begin now bid mailbox fp actor db)"
| "apply_event env now (CredentialVerified b pw actor r) db = snd (provisionCredential env now b pw actor r db)"
| "apply_event env now (CreateEnded st cid b label perms days actor) db =
     snd (create_finish env now st cid b label perms days actor db)"
| "apply_event env now (EnrollmentIssued st c previous eid user h actor ev freshName) db =
     issueEnrollment now st c previous eid user h actor ev freshName db"
| "apply_event env now (RotateBegun cid actor) db = snd (rotate_begin now cid actor db)"
| "apply_event env now (ConnectionUpdated cid label perms ids expires actor) db =
     snd (connection_update now cid label perms ids expires actor db)"
| "apply_event env now (ConnectionDisabled cid reason actor) db = snd (connection_disable now cid reason actor db)"
| "apply_event env now (ConnectionEnabled cid actor) db = snd (connection_enable now cid actor db)"
| "apply_event env now (ConnectionRevoked cid reason actor) db = snd (connection_revoke now cid reason actor db)"
| "apply_event env now (ConnectionDeleted cid actor) db = snd (connection_delete now cid actor db)"
| "apply_event env now (GrantRevoked cid gid actor) db = snd (connection_revokeGrant now cid gid actor db)"
| "apply_event env now (CredentialsBegun bid cid fp actor) db = snd (updateCredentials_begin env now bid cid fp actor db)"
| "apply_event env now (CredentialsEnded b pw actor r) db = snd (updateCredentials_finish env now b pw actor r db)"
| "apply_event env now (ConnectionTested cid b actor r) db = test_finish now cid b actor r db"
| "apply_event env now (CredentialRejected b actor) db = markCredentialRejected now b actor db"
| "apply_event env now (MailboxChanged mailbox ev actor) db = snd (mailboxEvent now mailbox ev actor db)"
| "apply_event env now (Reconciled entries) db = snd (reconcile now entries db)"
| "apply_event env now (ClientRegistered cid secret body ip) db = snd (client_register env now cid secret body ip db)"
| "apply_event env now (DocumentFetched cid hosts fetched ip) db =
     snd (fetchMetadataDocument env now cid hosts fetched ip db)"
| "apply_event env now (AuthorizationStarted iss query resolved txn csrf) db =
     snd (start_finish env now iss query resolved txn csrf db)"
| "apply_event env now (LoginLoaded form cookie) db = db"
| "apply_event env now (LoginLookedUp form request resolved ip) db = db"
| "apply_event env now (LoginFinished form request shown found ip) db =
     snd (mcp_login_finish env now form request shown found ip db)"
| "apply_event env now (DecisionLoaded form cookie) db = db"
| "apply_event env now (DecisionFinished iss form request resolved codeId authCode ip) db =
     snd (decide_finish env now iss form request resolved codeId authCode ip db)"
| "apply_event env now (CodeExchanged fresh client input) db = snd (exchangeCode env now fresh client input db)"
| "apply_event env now (TokenRefreshed fresh client input) db = snd (refresh env now fresh client input db)"
| "apply_event env now (TokenRevoked client token hint ip) db = revoke_token env now client token hint ip db"
| "apply_event env now (BearerChecked cid authorization ip) db = snd (bearer_verify env now cid authorization ip db)"
| "apply_event env now (Purged horizon) db = purgeExpired horizon db"

text \<open>The identifiers and digests that an event draws.\<close>

fun event_ids :: "mcp_event \<Rightarrow> string set" where
  "event_ids (CreateBegun bid mailbox fp actor) = {bid}"
| "event_ids (CreateEnded st cid b label perms days actor) = {cid}"
| "event_ids (EnrollmentIssued st c previous eid user h actor ev freshName) = {eid}"
| "event_ids (CredentialsBegun bid cid fp actor) = {bid}"
| "event_ids (AuthorizationStarted iss query resolved txn csrf) = {txn}"
| "event_ids (DecisionFinished iss form request resolved codeId authCode ip) = {codeId}"
| "event_ids (CodeExchanged fresh client input) = {ft_grantId fresh, ft_refreshId fresh}"
| "event_ids (TokenRefreshed fresh client input) = {ft_refreshId fresh}"
| "event_ids _ = {}"

definition pair_digests :: "mcp_env \<Rightarrow> fresh_tokens \<Rightarrow> string \<Rightarrow> (string \<times> string list) set" where
  "pair_digests env fresh gid =
     {(me_sha256Hex env (ft_accessToken fresh), [gid]), (me_sha256Hex env (ft_refreshToken fresh), [ft_refreshId fresh, gid])}"

fun event_digests :: "mcp_env \<Rightarrow> mcp_db \<Rightarrow> mcp_event \<Rightarrow> (string \<times> string list) set" where
  "event_digests env db (DecisionFinished iss form request resolved codeId authCode ip) =
     {(me_sha256Hex env authCode, [codeId])}"
| "event_digests env db (CodeExchanged fresh client input) = pair_digests env fresh (ft_grantId fresh)"
| "event_digests env db (TokenRefreshed fresh client input) = pair_digests env fresh (refreshed_grant env input db)"
| "event_digests env db _ = {}"

text \<open>A login that the password check accepted, as a pair of request and enrollment.\<close>

fun event_proofs :: "mcp_env \<Rightarrow> mcp_event \<Rightarrow> (string \<times> string) set" where
  "event_proofs env (LoginFinished form request shown (Some e) ip) =
     (if me_verifySecret env (en_passwordHash e) (login_password form) then {(rq_id request, en_id e)} else {})"
| "event_proofs env _ = {}"

text \<open>The enrollment a setup password is issued for, and the one behind a grant.\<close>

fun event_issues :: "mcp_event \<Rightarrow> string list" where
  "event_issues (EnrollmentIssued st c previous eid user h actor ev freshName) =
     [case (freshName, previous) of (False, Some p) \<Rightarrow> en_id p | _ \<Rightarrow> eid]"
| "event_issues _ = []"

definition exchanged_enrollment :: "mcp_env \<Rightarrow> exchange_input \<Rightarrow> mcp_db \<Rightarrow> string list" where
  "exchanged_enrollment env input db =
     (case xi_code input of None \<Rightarrow> []
      | Some presented \<Rightarrow> (case findCodeByHash (me_sha256Hex env presented) db of
            None \<Rightarrow> [] | Some c \<Rightarrow> [ac_enrollmentId c]))"

definition succeeded :: "'e + 'a \<Rightarrow> bool" where
  "succeeded r = (case r of Inl _ \<Rightarrow> False | Inr _ \<Rightarrow> True)"

fun event_grants :: "mcp_env \<Rightarrow> int \<Rightarrow> mcp_db \<Rightarrow> mcp_event \<Rightarrow> string list" where
  "event_grants env now db (CodeExchanged fresh client input) =
     (if succeeded (fst (exchangeCode env now fresh client input db)) then exchanged_enrollment env input db else [])"
| "event_grants env now db _ = []"

section \<open>The machine\<close>

record mcp_machine =
  mm_now :: int
  mm_db :: mcp_db
  mm_ids :: "string set"
  mm_digests :: "(string \<times> string list) set"
  mm_logins :: "(form \<times> request_row) set"
  mm_lookups :: "(form \<times> request_row \<times> mcp_scope list option \<times> enrollment_row option) set"
  mm_decisions :: "(form \<times> string \<times> request_row) set"
  mm_proved :: "(string \<times> string) set"
  mm_issued :: "string list"
  mm_granted :: "string list"

definition loaded_now :: "'a + 'b \<Rightarrow> 'b set" where
  "loaded_now r = (case r of Inl _ \<Rightarrow> {} | Inr x \<Rightarrow> {x})"

fun event_logins :: "mcp_env \<Rightarrow> int \<Rightarrow> mcp_db \<Rightarrow> mcp_event \<Rightarrow> (form \<times> request_row) set" where
  "event_logins env now db (LoginLoaded form cookie) = Pair form ` loaded_now (mcp_login_begin env now form cookie db)"
| "event_logins env now db _ = {}"

fun event_lookups ::
  "int \<Rightarrow> mcp_db \<Rightarrow> mcp_event \<Rightarrow> (form \<times> request_row \<times> mcp_scope list option \<times> enrollment_row option) set" where
  "event_lookups now db (LoginLookedUp form request resolved ip) =
     (\<lambda>(shown, found). (form, request, shown, found)) ` loaded_now (mcp_login_lookup now form request resolved ip db)"
| "event_lookups now db _ = {}"

fun event_decisions :: "mcp_env \<Rightarrow> int \<Rightarrow> mcp_db \<Rightarrow> mcp_event \<Rightarrow> (form \<times> string \<times> request_row) set" where
  "event_decisions env now db (DecisionLoaded form cookie) = Pair form ` loaded_now (decide_begin env now form cookie db)"
| "event_decisions env now db _ = {}"

text \<open>
  An event may happen if its identifiers and digests are fresh, and if it continues an operation, the
  earlier part of it has happened.
\<close>

fun continues :: "mcp_machine \<Rightarrow> mcp_event \<Rightarrow> bool" where
  "continues s (Tick t) = (mm_now s \<le> t)"
| "continues s (LoginLookedUp form request resolved ip) = ((form, request) \<in> mm_logins s)"
| "continues s (LoginFinished form request shown found ip) = ((form, request, shown, found) \<in> mm_lookups s)"
| "continues s (DecisionFinished iss form request resolved codeId authCode ip) = ((form, iss, request) \<in> mm_decisions s)"
| "continues s _ = True"

definition digests_fresh :: "(string \<times> string list) set \<Rightarrow> (string \<times> string list) set \<Rightarrow> bool" where
  "digests_fresh old new = (single_valued new \<and> fst ` new \<inter> fst ` old = {})"

definition may_happen :: "mcp_env \<Rightarrow> mcp_machine \<Rightarrow> mcp_event \<Rightarrow> bool" where
  "may_happen env s e =
     (continues s e \<and> event_ids e \<inter> mm_ids s = {} \<and> digests_fresh (mm_digests s) (event_digests env (mm_db s) e))"

definition mcp_next :: "mcp_env \<Rightarrow> mcp_machine \<Rightarrow> mcp_event \<Rightarrow> mcp_machine" where
  "mcp_next env s e =
     \<lparr>mm_now = (case e of Tick t \<Rightarrow> t | _ \<Rightarrow> mm_now s),
      mm_db = apply_event env (mm_now s) e (mm_db s),
      mm_ids = mm_ids s \<union> event_ids e,
      mm_digests = mm_digests s \<union> event_digests env (mm_db s) e,
      mm_logins = mm_logins s \<union> event_logins env (mm_now s) (mm_db s) e,
      mm_lookups = mm_lookups s \<union> event_lookups (mm_now s) (mm_db s) e,
      mm_decisions = mm_decisions s \<union> event_decisions env (mm_now s) (mm_db s) e,
      mm_proved = mm_proved s \<union> event_proofs env e,
      mm_issued = mm_issued s @ event_issues e,
      mm_granted = mm_granted s @ event_grants env (mm_now s) (mm_db s) e\<rparr>"

inductive mcp_step :: "mcp_env \<Rightarrow> mcp_machine \<Rightarrow> mcp_event \<Rightarrow> mcp_machine \<Rightarrow> bool" for env where
  happens: "may_happen env s e \<Longrightarrow> mcp_step env s e (mcp_next env s e)"

inductive_cases mcp_stepE: "mcp_step env s e s'"

inductive_simps mcp_step_iff: "mcp_step env s e s'"

definition blank_db :: "mcp_settings \<Rightarrow> mcp_db" where
  "blank_db st = \<lparr>md_settings = st, md_bindings = [], md_credentials = [], md_connections = [], md_enrollments = [],
     md_clients = [], md_requests = [], md_codes = [], md_grants = [], md_access = [], md_refresh = [],
     md_attempts = [], md_audit = []\<rparr>"

definition blank_machine :: "mcp_settings \<Rightarrow> int \<Rightarrow> mcp_machine" where
  "blank_machine st now = \<lparr>mm_now = now, mm_db = blank_db st, mm_ids = {}, mm_digests = {}, mm_logins = {},
     mm_lookups = {}, mm_decisions = {}, mm_proved = {}, mm_issued = [], mm_granted = []\<rparr>"

definition mcp_initial :: "mcp_machine \<Rightarrow> bool" where
  "mcp_initial s = (\<exists>st now. s = blank_machine st now)"

section \<open>One event\<close>

lemma event_evolves:
  assumes "event_proofs env e \<subseteq> P"
    and "\<And>iss form rq res codeId authCode ip eid. e = DecisionFinished iss form rq res codeId authCode ip \<Longrightarrow>
      rq_enrollmentId rq = Some eid \<Longrightarrow> (rq_id rq, eid) \<in> P"
  shows "db_evolves (event_ids e) (event_digests env db e) P (event_issues e = []) db (apply_event env now e db)"
proof (cases e)
  case (SettingsChanged new)
  then show ?thesis by (auto simp: updateSettings_def evolution split: option.split)
next
  case (LoginFinished form request shown found ip)
  then show ?thesis using assms(1) by (auto intro!: mcp_login_finish_evolves db_evolves_refl)
next
  case (DecisionFinished iss form rq res codeId authCode ip)
  then show ?thesis using assms(2) by (auto intro!: decide_finish_evolves db_evolves_refl)
qed (auto simp: evolution tokens_new_def pair_digests_def)

end
