(* ===== verification/McpLifecycle.thy ===== *)
theory McpLifecycle
  imports McpMachine
begin

text \<open>
  What the mail agent's machine keeps (digests identify what they were issued for, enrollments are
  distinct, codes and requests rest on a verified password, setup passwords are not spent more often
  than issued) and what no event undoes (revoked grants and connections, redeemed codes, used refresh
  tokens).
\<close>

section \<open>Invariant\<close>

definition rows_known :: "mcp_machine \<Rightarrow> bool" where
  "rows_known s =
     (single_valued (mm_digests s) \<and>
      (\<forall>c \<in> set (md_codes (mm_db s)). (ac_codeHash c, [ac_id c]) \<in> mm_digests s) \<and>
      (\<forall>t \<in> set (md_access (mm_db s)). (at_tokenHash t, [at_grantId t]) \<in> mm_digests s) \<and>
      (\<forall>t \<in> set (md_refresh (mm_db s)). (rt_tokenHash t, [rt_id t, rt_grantId t]) \<in> mm_digests s) \<and>
      (\<forall>g \<in> set (md_grants (mm_db s)). gr_id g \<in> mm_ids s) \<and>
      (\<forall>c \<in> set (md_connections (mm_db s)). cn_id c \<in> mm_ids s))"

definition logins_proved :: "mcp_machine \<Rightarrow> bool" where
  "logins_proved s =
     ((\<forall>c \<in> set (md_codes (mm_db s)). (ac_requestId c, ac_enrollmentId c) \<in> mm_proved s) \<and>
      (\<forall>r \<in> set (md_requests (mm_db s)). request_new (mm_proved s) r) \<and>
      (\<forall>(form, iss, r) \<in> mm_decisions s. request_new (mm_proved s) r))"

definition unspent :: "string \<Rightarrow> mcp_db \<Rightarrow> nat" where
  "unspent eid db = (if \<exists>e \<in> set (md_enrollments db). en_id e = eid \<and> en_consumedAt e = None then 1 else 0)"

definition passwords_counted :: "mcp_machine \<Rightarrow> bool" where
  "passwords_counted s =
     (distinct (map en_id (md_enrollments (mm_db s))) \<and> en_id ` set (md_enrollments (mm_db s)) \<subseteq> mm_ids s \<and>
      (\<forall>eid. count_list (mm_granted s) eid + unspent eid (mm_db s) \<le> count_list (mm_issued s) eid))"

definition mcp_inv :: "mcp_machine \<Rightarrow> bool" where
  "mcp_inv s = (rows_known s \<and> logins_proved s \<and> passwords_counted s)"

lemma single_valued_fresh:
  assumes "single_valued A" "digests_fresh A B"
  shows "single_valued (A \<union> B)"
proof (rule single_valuedI)
  fix x y z assume xy: "(x, y) \<in> A \<union> B" and xz: "(x, z) \<in> A \<union> B"
  have "(x, u) \<in> A \<Longrightarrow> (x, v) \<in> B \<Longrightarrow> False" for u v
    using assms(2) unfolding digests_fresh_def by force
  with xy xz assms show "y = z" unfolding single_valued_def digests_fresh_def by blast
qed

text \<open>What a step does to the database, given that the codes and requests rest on a password.\<close>

lemma step_evolves:
  assumes "mcp_step env s e s'" "logins_proved s"
  shows "db_evolves (event_ids e) (event_digests env (mm_db s) e) (mm_proved s') (event_issues e = [])
    (mm_db s) (mm_db s')"
  using assms
proof (elim mcp_stepE)
  assume "may_happen env s e" and s': "s' = mcp_next env s e"
  then show ?thesis using assms(2) unfolding s' mcp_next_def
    by (auto intro!: event_evolves simp: may_happen_def logins_proved_def request_new_def
        split: option.splits) fastforce
qed

lemma step_effects:
  assumes "mcp_step env s e s'"
  shows "mm_digests s' = mm_digests s \<union> event_digests env (mm_db s) e" "mm_ids s' = mm_ids s \<union> event_ids e"
    "mm_proved s' = mm_proved s \<union> event_proofs env e" "mm_issued s' = mm_issued s @ event_issues e"
    "mm_granted s' = mm_granted s @ event_grants env (mm_now s) (mm_db s) e"
    "mm_decisions s' = mm_decisions s \<union> event_decisions env (mm_now s) (mm_db s) e"
    "mm_db s' = apply_event env (mm_now s) e (mm_db s)"
    "event_ids e \<inter> mm_ids s = {}" "digests_fresh (mm_digests s) (event_digests env (mm_db s) e)"
  using assms by (auto elim!: mcp_stepE simp: mcp_next_def may_happen_def)

lemma rows_known_step:
  assumes "mcp_step env s e s'" "rows_known s" "logins_proved s"
  shows "rows_known s'"
proof -
  note ev = step_evolves [OF assms(1,3)] and eff = step_effects [OF assms(1)]
  have "single_valued (mm_digests s')"
    using assms(2) unfolding eff(1) rows_known_def by (auto intro: single_valued_fresh eff(9))
  then show ?thesis using ev assms(2)
    unfolding rows_known_def db_evolves_def evolves_def eff code_new_def ages_defs
    by (auto 0 3)
qed


lemma request_new_mono: "request_new P r \<Longrightarrow> P \<subseteq> P' \<Longrightarrow> request_new P' r"
  by (auto simp: request_new_def split: option.splits)

lemma decide_begin_request: "decide_begin env now form cookie db = Inr (iss, r) \<Longrightarrow> r \<in> set (md_requests db)"
  by (auto simp: decide_begin_def loadTransaction_def findAuthorizationRequest_def find_Some_iff Let_def
      split: option.splits sum.splits if_splits)

lemma logins_proved_step:
  assumes "mcp_step env s e s'" "logins_proved s"
  shows "logins_proved s'"
proof -
  note ev = step_evolves [OF assms] and eff = step_effects [OF assms(1)]
  have grows: "mm_proved s \<subseteq> mm_proved s'" unfolding eff by auto
  have "\<forall>c \<in> set (md_codes (mm_db s')). (ac_requestId c, ac_enrollmentId c) \<in> mm_proved s'"
    using ev assms(2) grows unfolding db_evolves_def evolves_def code_new_def code_ages_def logins_proved_def by fastforce
  moreover have "\<forall>r \<in> set (md_requests (mm_db s')). request_new (mm_proved s') r"
    using ev assms(2) grows unfolding db_evolves_def evolves_def request_ages_def logins_proved_def
    by (fastforce simp: request_new_def split: option.splits)
  moreover have "request_new (mm_proved s') r" if "(form, iss, r) \<in> mm_decisions s'" for form iss r
  proof -
    have "(form, iss, r) \<in> mm_decisions s \<or> r \<in> set (md_requests (mm_db s))"
      using that unfolding eff
      by (cases e) (auto simp: loaded_now_def split: sum.splits dest: decide_begin_request)
    then have "request_new (mm_proved s) r" using assms(2) unfolding logins_proved_def by auto
    then show ?thesis using grows by (rule request_new_mono)
  qed
  ultimately show ?thesis unfolding logins_proved_def by auto
qed

subsection \<open>Setup passwords\<close>

lemma unspent_le: "unspent eid db \<le> 1" by (simp add: unspent_def)

lemma quiet_unspent:
  "enrollments_quiet (md_enrollments db) (md_enrollments db') \<Longrightarrow> unspent eid db' \<le> unspent eid db"
  by (auto simp: enrollments_quiet_def unspent_def)

lemma subseq_keeps: "subseq xs ys \<Longrightarrow> set xs \<subseteq> set ys \<and> (distinct ys \<longrightarrow> distinct xs)"
  by (induction rule: list_emb.induct) auto

lemma quiet_distinct:
  assumes "enrollments_quiet xs ys" "distinct (map en_id xs)"
  shows "distinct (map en_id ys)" "en_id ` set ys \<subseteq> en_id ` set xs"
  using assms subseq_keeps [of "map en_id ys" "map en_id xs"] by (auto simp: enrollments_quiet_def)

text \<open>A reissue resets a row in place; any other issue appends one.\<close>

lemma issue_counts:
  fixes s :: mcp_machine
  assumes "e = EnrollmentIssued st c previous eid user h actor ev freshName" "eid \<notin> mm_ids s" "passwords_counted s"
    and db: "md_enrollments db' = md_enrollments (apply_event env now e (mm_db s))"
  shows "distinct (map en_id (md_enrollments db'))"
    "en_id ` set (md_enrollments db') \<subseteq> insert eid (mm_ids s)"
    "\<And>x. unspent x db' \<le> unspent x (mm_db s) + count_list (event_issues e) x"
proof -
  let ?es = "md_enrollments (mm_db s)"
  have old: "distinct (map en_id ?es)" "en_id ` set ?es \<subseteq> mm_ids s" using assms(3) by (auto simp: passwords_counted_def)
  obtain p f g r where shape: "(event_issues e = [p] \<and> md_enrollments db' = update_where (\<lambda>r. en_id r = p) f ?es) \<or>
      (event_issues e = [eid] \<and> md_enrollments db' = update_where g f ?es @ [r] \<and> en_id r = eid \<and>
        (\<forall>r. en_consumedAt (f r) = en_consumedAt r))" and ids: "\<And>r. en_id (f r) = en_id r"
  proof (cases "\<exists>q. previous = Some q \<and> \<not> freshName")
    case True
    then obtain q where "previous = Some q" "\<not> freshName" by auto
    then show ?thesis
      by (intro that [of "en_id q" "\<lambda>e. fresh_enrollment (en_id e) (en_connectionId e) (en_username e) h
            (now + ms_setupCredentialTtlHours st * 3600000) now"])
        (auto simp: db assms(1) issueEnrollment_def resetEnrollment_def mcp_record_def fresh_enrollment_def)
  next
    case False
    then have "event_issues e = [eid]" "md_enrollments db' =
        update_where (\<lambda>e. en_connectionId e = cn_id c \<and> en_revokedAt e = None) (\<lambda>e. e\<lparr>en_revokedAt := Some now\<rparr>) ?es @
        [fresh_enrollment eid (cn_id c) user h (now + ms_setupCredentialTtlHours st * 3600000) now]"
      by (cases freshName; cases previous;
          simp add: db assms(1) issueEnrollment_def issueEnrollmentRow_def revokeEnrollments_def mcp_record_def Let_def)+
    then show ?thesis
      by (intro that [of eid "\<lambda>e. e\<lparr>en_revokedAt := Some now\<rparr>" "\<lambda>e. en_connectionId e = cn_id c \<and> en_revokedAt e = None"])
        (auto simp: fresh_enrollment_def)
  qed
  have same_ids: "map en_id (update_where q f xs) = map en_id xs" for q xs
    using ids by (simp add: update_where_def)
  have same_set: "en_id ` set (update_where q f xs) = en_id ` set xs" for q xs
    using arg_cong [OF same_ids, of set] by simp
  from shape show "distinct (map en_id (md_enrollments db'))"
    using old assms(2) by (auto simp: same_ids same_set simp del: set_map) (use same_set in auto)
  from shape show "en_id ` set (md_enrollments db') \<subseteq> insert eid (mm_ids s)"
    using old by (elim disjE conjE; simp only: set_append image_Un same_set list.set image_insert image_empty; blast)
  from shape ids show "unspent x db' \<le> unspent x (mm_db s) + count_list (event_issues e) x" for x
    by (auto simp: unspent_def update_where_def split: if_splits) fastforce+
qed


text \<open>An exchange that succeeds consumes the one enrollment row that its code reserved.\<close>

lemma exchange_success:
  assumes "exchangeCode env now fresh client input db = (Inr r, db')"
  obtains c d where "xi_code input \<noteq> None" "findCodeByHash (me_sha256Hex env (the (xi_code input))) db = Some c"
    "ac_redeemedAt c = None" "xi_codeVerifier input \<noteq> None"
    "code_problem env now client input (the (xi_codeVerifier input)) c = None"
    "redeemCode (ac_id c) now db = (True, d)"
    "fst (consumeEnrollment (ac_enrollmentId c) (ac_id c) now d)"
    "redeem_and_grant env now fresh client input c db = (Inr r, db')"
  using assms
  by (auto simp: exchangeCode_def redeem_and_grant_def Let_def split: option.splits if_splits prod.splits bool.splits)


lemma exchange_consumes:
  assumes "exchangeCode env now fresh client input db = (Inr r, db')" "distinct (map en_id (md_enrollments db))"
  shows "exchanged_enrollment env input db = [eid] \<Longrightarrow> unspent eid db = 1 \<and> unspent eid db' = 0"
    "length (exchanged_enrollment env input db) = 1"
proof -
  obtain c d where c: "xi_code input \<noteq> None" "findCodeByHash (me_sha256Hex env (the (xi_code input))) db = Some c"
    "redeemCode (ac_id c) now db = (True, d)" "fst (consumeEnrollment (ac_enrollmentId c) (ac_id c) now d)"
    "redeem_and_grant env now fresh client input c db = (Inr r, db')"
    using assms(1) by (rule exchange_success)
  have enr: "exchanged_enrollment env input db = [ac_enrollmentId c]"
    using c(1,2) by (auto simp: exchanged_enrollment_def)
  then show "length (exchanged_enrollment env input db) = 1" by simp
  assume "exchanged_enrollment env input db = [eid]"
  with enr have eid: "eid = ac_enrollmentId c" by simp
  have d: "md_enrollments d = md_enrollments db" using c(3) by (auto simp: redeemCode_def)
  have "length (filter (consumable eid (ac_id c)) (md_enrollments db)) = 1"
    using c(4) by (simp add: consumeEnrollment_def d eid)
  then obtain e where e: "e \<in> set (md_enrollments db)" "consumable eid (ac_id c) e"
    by (metis filter_empty_conv length_0_conv one_neq_zero)
  then have only: "x = e" if "x \<in> set (md_enrollments db)" "en_id x = eid" for x
    using assms(2) that by (metis consumable_def distinct_map inj_onD)
  have "md_enrollments db' = md_enrollments (snd (consumeEnrollment eid (ac_id c) now d))"
    using c(3,4,5) unfolding eid
    by (auto simp: redeem_and_grant_def Let_def createGrant_def attachGrantToCode_def touchAuthorized_def mintPair_def
        createAccessToken_def createRefreshToken_def mcp_record_def split: option.splits if_splits prod.splits bool.splits)
  then have db': "md_enrollments db' = update_where (consumable eid (ac_id c))
      (\<lambda>e. e\<lparr>en_consumedAt := Some now, en_reservedUntil := None\<rparr>) (md_enrollments db)"
    by (simp add: consumeEnrollment_def d)
  have "unspent eid db = 1" using e by (auto simp: unspent_def consumable_def)
  moreover have "unspent eid db' = 0"
    using only e(2) by (auto simp: unspent_def db' update_where_def split: if_splits)
  ultimately show "unspent eid db = 1 \<and> unspent eid db' = 0" ..
qed

lemma passwords_counted_step:
  assumes "mcp_step env s e s'" "passwords_counted s" "logins_proved s"
  shows "passwords_counted s'"
proof -
  note ev = step_evolves [OF assms(1,3)] and eff = step_effects [OF assms(1)]
  show ?thesis
  proof (cases "event_issues e = []")
    case True
    then have quiet: "enrollments_quiet (md_enrollments (mm_db s)) (md_enrollments (mm_db s'))"
      using ev by (simp add: db_evolves_def)
    have count: "count_list (event_grants env (mm_now s) (mm_db s) e) x + unspent x (mm_db s') \<le> unspent x (mm_db s)" for x
    proof (cases "\<exists>fresh client input r. e = CodeExchanged fresh client input \<and>
        fst (exchangeCode env (mm_now s) fresh client input (mm_db s)) = Inr r")
      case True
      then obtain fresh client input r where e: "e = CodeExchanged fresh client input"
        and x: "exchangeCode env (mm_now s) fresh client input (mm_db s) = (Inr r, mm_db s')"
        unfolding eff(7) by (auto simp: prod_eq_iff)
      have "distinct (map en_id (md_enrollments (mm_db s)))" using assms(2) by (simp add: passwords_counted_def)
      note ex = exchange_consumes [OF x this]
      obtain eid where "exchanged_enrollment env input (mm_db s) = [eid]" using ex(2) by (auto simp: length_Suc_conv)
      then show ?thesis using ex(1) quiet_unspent [OF quiet, of x] by (cases "x = eid") (auto simp: e x succeeded_def)
    next
      case False
      then have "event_grants env (mm_now s) (mm_db s) e = []"
        by (cases e) (auto simp: succeeded_def split: sum.splits)
      then show ?thesis using quiet_unspent [OF quiet] by simp
    qed
    have "count_list (mm_granted s') x + unspent x (mm_db s') \<le> count_list (mm_issued s') x" for x
    proof -
      have "count_list (mm_granted s) x + unspent x (mm_db s) \<le> count_list (mm_issued s) x"
        using assms(2) by (simp add: passwords_counted_def)
      moreover have "count_list (mm_granted s') x =
          count_list (mm_granted s) x + count_list (event_grants env (mm_now s) (mm_db s) e) x" "mm_issued s' = mm_issued s"
        using True by (simp_all add: eff(4,5))
      ultimately show ?thesis using count [of x] by simp
    qed
    then show ?thesis using quiet_distinct [OF quiet] assms(2) unfolding passwords_counted_def eff by auto
  next
    case False
    then obtain st c previous eid user h actor evn freshName
      where e: "e = EnrollmentIssued st c previous eid user h actor evn freshName" by (cases e) auto
    have "eid \<notin> mm_ids s" using eff(8) by (auto simp: e)
    note i = issue_counts [OF e this assms(2) arg_cong [OF eff(7), of md_enrollments]]
    have "count_list (mm_granted s') x + unspent x (mm_db s') \<le> count_list (mm_issued s') x" for x
      using i(3) [of x] assms(2) unfolding passwords_counted_def eff(4,5) by (auto simp: e dest!: spec [of _ x])
    then show ?thesis using i(1,2) unfolding passwords_counted_def by (auto simp: eff e)
  qed
qed

lemma mcp_inv_step: "mcp_inv s \<Longrightarrow> mcp_step env s e s' \<Longrightarrow> mcp_inv s'"
  unfolding mcp_inv_def by (auto intro: rows_known_step logins_proved_step passwords_counted_step)

lemma mcp_inv_initial: "mcp_initial s \<Longrightarrow> mcp_inv s"
  by (auto simp: mcp_initial_def mcp_inv_def rows_known_def logins_proved_def passwords_counted_def blank_machine_def
      blank_db_def unspent_def)


section \<open>Facts that no event undoes\<close>

definition grant_dead :: "mcp_machine \<Rightarrow> string \<Rightarrow> bool" where
  "grant_dead s gid = (gid \<in> mm_ids s \<and> (\<forall>g \<in> set (md_grants (mm_db s)). gr_id g = gid \<longrightarrow> gr_revokedAt g \<noteq> None))"

definition connection_dead :: "mcp_machine \<Rightarrow> string \<Rightarrow> bool" where
  "connection_dead s cid =
     (cid \<in> mm_ids s \<and> (\<forall>c \<in> set (md_connections (mm_db s)). cn_id c = cid \<longrightarrow> cn_state c = CRevoked))"

definition code_spent :: "mcp_machine \<Rightarrow> string \<Rightarrow> bool" where
  "code_spent s h =
     (h \<in> fst ` mm_digests s \<and> (\<forall>c \<in> set (md_codes (mm_db s)). ac_codeHash c = h \<longrightarrow> ac_redeemedAt c \<noteq> None))"

definition digest_of :: "mcp_machine \<Rightarrow> string \<times> string list \<Rightarrow> bool" where
  "digest_of s p = (p \<in> mm_digests s)"

lemma fact_steps:
  assumes "mcp_inv s" "mcp_step env s e s'"
  shows "grant_dead s gid \<Longrightarrow> grant_dead s' gid" "connection_dead s cid \<Longrightarrow> connection_dead s' cid"
    "code_spent s h \<Longrightarrow> code_spent s' h" "digest_of s p \<Longrightarrow> digest_of s' p"
proof -
  have "logins_proved s" using assms(1) by (simp add: mcp_inv_def)
  note ev = step_evolves [OF assms(2) this] and eff = step_effects [OF assms(2)]
  note tables = db_evolves_tables [OF ev, unfolded evolves_def]
  show "grant_dead s gid \<Longrightarrow> grant_dead s' gid"
    using tables(2) eff(8) unfolding grant_dead_def eff(2) grant_ages_def by (auto; metis option.distinct(1) disjoint_iff)
  show "connection_dead s cid \<Longrightarrow> connection_dead s' cid"
    using tables(5) eff(8) unfolding connection_dead_def eff(2) connection_ages_def by (auto; metis disjoint_iff)
  show "code_spent s h \<Longrightarrow> code_spent s' h"
    using tables(1) eff(9) unfolding code_spent_def eff(1) code_ages_def code_new_def digests_fresh_def
    by (auto 0 3 simp: disjoint_iff image_iff)
  show "digest_of s p \<Longrightarrow> digest_of s' p" by (simp add: digest_of_def eff(1))
qed

interpretation mcp: guarded_system mcp_initial "mcp_step env" mcp_inv for env
  by unfold_locales (auto intro: mcp_inv_initial mcp_inv_step)

interpretation dead_grants: settled_forever mcp_initial "mcp_step env" mcp_inv grant_dead for env
  by unfold_locales (rule fact_steps(1))

interpretation dead_connections: settled_forever mcp_initial "mcp_step env" mcp_inv connection_dead for env
  by unfold_locales (rule fact_steps(2))

interpretation spent_codes: settled_forever mcp_initial "mcp_step env" mcp_inv code_spent for env
  by unfold_locales (rule fact_steps(3))

interpretation digests: settled_forever mcp_initial "mcp_step env" mcp_inv digest_of for env
  by unfold_locales (rule fact_steps(4))

end
