(* ===== verification/McpToolMachine.thy ===== *)
theory McpToolMachine
  imports McpToolHandlers McpLifecycle
begin

text \<open>
  The mail agent with its tools: all its operations and all calls of tools, over one database, in any
  interleaving.  A call is between two awaits at a time; the mail server answers whatever it likes,
  whenever it likes, or never.  The machine remembers which request contexts the check of tokens let
  through, every call made to the mail server, and when calls passed the rate limiter.
\<close>

section \<open>The machine\<close>

type_synonym call_in_flight = "nat \<times> mcp_auth_context \<times> tool_request \<times> backend_call \<times> flight"

record tool_machine =
  tm_agent :: mcp_machine
  tm_shared :: tools_state
  tm_contexts :: "mcp_auth_context set"
  tm_flights :: "call_in_flight list"
  tm_log :: "(mcp_auth_context \<times> tool_request \<times> backend_call) list"
  tm_passed :: "(string \<times> int) list"

datatype tool_event =
    AgentStep mcp_event
  | Called nat mcp_auth_context nat tool_request
  | Answered nat backend_answer

text \<open>The context that a request with a token is let through with.\<close>

fun contexts_of :: "mcp_env \<Rightarrow> int \<Rightarrow> mcp_db \<Rightarrow> mcp_event \<Rightarrow> mcp_auth_context set" where
  "contexts_of env now db (BearerChecked cid authorization ip) =
     (case fst (bearer_verify env now cid authorization ip db) of BearerOk ctx \<Rightarrow> {ctx} | BearerRefused _ _ _ \<Rightarrow> {})"
| "contexts_of env now db _ = {}"

text \<open>The rows of the operations of a connection go with the connection.\<close>

definition cascade :: "mcp_db \<Rightarrow> operation_row list \<Rightarrow> operation_row list" where
  "cascade db rows = filter (\<lambda>r. findConnection (op_connectionId r) db \<noteq> None) rows"

definition agent_moved :: "tool_env \<Rightarrow> mcp_event \<Rightarrow> mcp_machine \<Rightarrow> tool_machine \<Rightarrow> tool_machine" where
  "agent_moved env e a s =
     s\<lparr>tm_agent := a,
       tm_shared := (tm_shared s)\<lparr>ts_db := mm_db a, ts_operations := cascade (mm_db a) (ts_operations (tm_shared s))\<rparr>,
       tm_contexts := tm_contexts s \<union> contexts_of (te_agent env) (mm_now (tm_agent s)) (mm_db (tm_agent s)) e\<rparr>"

definition advance ::
  "nat \<Rightarrow> mcp_auth_context \<Rightarrow> tool_request \<Rightarrow> call_step \<times> tools_state \<Rightarrow> tool_machine \<Rightarrow> tool_machine" where
  "advance n ctx request r s =
     (let s = s\<lparr>tm_shared := snd r, tm_agent := (tm_agent s)\<lparr>mm_db := ts_db (snd r)\<rparr>\<rparr>
      in case fst r of
           Finished result \<Rightarrow> s
         | Waiting c k \<Rightarrow> s\<lparr>tm_flights := (n, ctx, request, c, k) # tm_flights s, tm_log := tm_log s @ [(ctx, request, c)]\<rparr>)"

definition noted :: "mcp_auth_context \<Rightarrow> tool_request \<Rightarrow> tool_machine \<Rightarrow> tool_machine" where
  "noted ctx request s =
     (if fst (run_gate (mm_now (tm_agent s)) ctx (tool_name request) (tm_shared s)) = None
      then s\<lparr>tm_passed := tm_passed s @ [(mc_connectionId ctx, mm_now (tm_agent s))]\<rparr> else s)"

definition landed :: "nat \<Rightarrow> tool_machine \<Rightarrow> tool_machine" where
  "landed n s = s\<lparr>tm_flights := filter (\<lambda>f. fst f \<noteq> n) (tm_flights s)\<rparr>"

inductive tool_step :: "tool_env \<Rightarrow> tool_machine \<Rightarrow> tool_event \<Rightarrow> tool_machine \<Rightarrow> bool" for env where
  agent_moves: "mcp_step (te_agent env) (tm_agent s) e a \<Longrightarrow> tool_step env s (AgentStep e) (agent_moved env e a s)"
| call_starts: "ctx \<in> tm_contexts s \<Longrightarrow> registered ctx request \<Longrightarrow> input_schema recipients request \<Longrightarrow>
    n \<notin> fst ` set (tm_flights s) \<Longrightarrow>
    tool_step env s (Called n ctx recipients request)
      (advance n ctx request (call_start env (mm_now (tm_agent s)) ctx request (tm_shared s)) (noted ctx request s))"
| call_resumes: "(n, ctx, request, c, k) \<in> set (tm_flights s) \<Longrightarrow> answers c answer \<Longrightarrow>
    tool_step env s (Answered n answer)
      (advance n ctx request (call_resume env (mm_now (tm_agent s)) ctx k answer (tm_shared s)) (landed n s))"

inductive_cases tool_stepE: "tool_step env s e s'"

definition blank_tools :: "mcp_settings \<Rightarrow> tools_state" where
  "blank_tools settings = \<lparr>ts_db = blank_db settings, ts_operations = [], ts_audit = [], ts_calls = Map.empty, ts_drawn = 0\<rparr>"

definition blank_tool_machine :: "mcp_settings \<Rightarrow> int \<Rightarrow> tool_machine" where
  "blank_tool_machine settings now =
     \<lparr>tm_agent = blank_machine settings now, tm_shared = blank_tools settings, tm_contexts = {}, tm_flights = [],
      tm_log = [], tm_passed = []\<rparr>"

definition tool_initial :: "tool_machine \<Rightarrow> bool" where
  "tool_initial s = (\<exists>settings now. s = blank_tool_machine settings now)"

section \<open>What the handlers leave alone\<close>

named_theorems tool_frames \<open>what an operation of the tools does to the parts of the state\<close>

lemma createOperation_frame [tool_frames]:
  "createOperation env cid kind status key d now st = (r, st') \<Longrightarrow>
     ts_db st' = ts_db st \<and> ts_calls st' = ts_calls st \<and> ts_drawn st' = Suc (ts_drawn st)"
  by (auto simp: createOperation_def Let_def split: if_splits)

lemma tool_audit_frame [simp]:
  "ts_db (tool_audit now ctx e b m st) = ts_db st" "ts_operations (tool_audit now ctx e b m st) = ts_operations st"
  "ts_calls (tool_audit now ctx e b m st) = ts_calls st" "ts_drawn (tool_audit now ctx e b m st) = ts_drawn st"
  by (simp_all add: tool_audit_def)

lemma finishOperation_frame [simp]:
  "ts_db (finishOperation oid status d e now st) = ts_db st" "ts_calls (finishOperation oid status d e now st) = ts_calls st"
  "ts_drawn (finishOperation oid status d e now st) = ts_drawn st"
  by (simp_all add: finishOperation_def)

lemma markRestored_frame [tool_frames]:
  "markRestored oid now st = (b, st') \<Longrightarrow> ts_db st' = ts_db st \<and> ts_calls st' = ts_calls st \<and> ts_drawn st' = ts_drawn st"
  by (auto simp: markRestored_def split: option.splits if_splits)

lemma restore_loop_frame [tool_frames]:
  "restore_loop now ctx acct ids results st = (h, st') \<Longrightarrow>
     ts_db st' = ts_db st \<and> ts_operations st' = ts_operations st \<and> ts_calls st' = ts_calls st \<and> ts_drawn st' = ts_drawn st"
  by (induction now ctx acct ids results st rule: restore_loop.induct) (auto split: option.splits if_splits)

lemma restore_recorded_frame [tool_frames]:
  "restore_recorded env now ctx op i ref st = (r, st') \<Longrightarrow> ts_db st' = ts_db st \<and> ts_calls st' = ts_calls st"
  by (auto simp: restore_recorded_def split: prod.splits bool.splits option.splits dest!: tool_frames)

lemma record_moves_frame [tool_frames]:
  "record_moves env now ctx moves moved st = (r, st') \<Longrightarrow> ts_db st' = ts_db st \<and> ts_calls st' = ts_calls st"
  by (induction env now ctx moves moved st rule: record_moves.induct)
    (auto simp: Let_def split: prod.splits option.splits dest!: createOperation_frame)

lemma send_submit_frame [tool_frames]:
  "send_submit env ctx plan a b st = (h, st') \<Longrightarrow> ts_db st' = ts_db st \<and> ts_calls st' = ts_calls st"
  by (auto simp: send_submit_def Let_def split: prod.splits option.splits dest!: tool_frames)

text \<open>The handlers that only read, and the steps that only pass an answer on.\<close>

lemmas reading_defs = with_account_def with_message_def otherwise_def

lemma send_start_frame [tool_frames]:
  "send_start env now ctx a st = (h, st') \<Longrightarrow> ts_db st' = ts_db st \<and> ts_calls st' = ts_calls st"
  by (auto simp: send_start_def Let_def split: option.splits sum.splits if_splits dest: send_submit_frame)

lemma handler_start_frame:
  "handler_start env now ctx request st = (h, st') \<Longrightarrow> ts_db st' = ts_db st \<and> ts_calls st' = ts_calls st"
  by (cases request)
    (auto simp: reading_defs delete_start_def restore_start_def split: sum.splits option.splits prod.splits dest: tool_frames)

lemma handler_resume_frame:
  "handler_resume env now ctx k answer st = (h, st') \<Longrightarrow> ts_db st' = ts_db st \<and> ts_calls st' = ts_calls st"
  by (cases k)
    (auto simp: reading_defs after_original_def send_completed_def send_failed_def after_trash_def after_restore_def
      restore_refused_def Let_def split: backend_answer.splits prod.splits sum.splits tool_throw.splits if_splits
      dest!: tool_frames)

text \<open>The end of a call touches the database only to suspend the binding of the call.\<close>

definition suspends :: "int \<Rightarrow> mcp_auth_context \<Rightarrow> mcp_db \<Rightarrow> mcp_db \<Rightarrow> bool" where
  "suspends now ctx db db' =
     (\<exists>b. findBinding (mc_bindingId ctx) db = Some b \<and> db' = markCredentialRejected now b ''system'' db)"

lemma rejected_binding_Some:
  "rejected_binding ctx outcome st = Some b \<longleftrightarrow>
     (\<exists>m. outcome = Inl (MailError ErrAuthFailed m)) \<and> findBinding (mc_bindingId ctx) (ts_db st) = Some b"
  by (auto simp: rejected_binding_def split: sum.splits tool_throw.splits mail_error_kind.splits)

lemma rejected_binding_auth [simp]:
  "rejected_binding ctx (Inl (MailError ErrAuthFailed m)) st = findBinding (mc_bindingId ctx) (ts_db st)"
  by (simp add: rejected_binding_def)

lemma conclude_effect:
  assumes "conclude now ctx (h, st) = (r, st')"
  shows "ts_operations st' = ts_operations st" "ts_calls st' = ts_calls st" "ts_drawn st' = ts_drawn st"
    "(\<exists>c k. r = Waiting c k \<and> h = Await c k \<and> st' = st) \<or> (\<exists>result. r = Finished result)"
    "ts_db st' = ts_db st \<or> suspends now ctx (ts_db st) (ts_db st')"
    "h = Done (Inl (MailError ErrAuthFailed m)) \<Longrightarrow> findBinding (mc_bindingId ctx) (ts_db st) = Some b \<Longrightarrow>
       ts_db st' = markCredentialRejected now b ''system'' (ts_db st)"
  using assms
  by (auto simp: conclude_def run_finish_def Let_def suspends_def rejected_binding_Some
      split: handler_step.splits option.splits prod.splits)

lemma run_gate_frame:
  assumes "run_gate now ctx tool st = (m, st')"
  shows "ts_db st' = ts_db st" "ts_operations st' = ts_operations st" "ts_drawn st' = ts_drawn st"
  using assms by (auto simp: run_gate_def split: if_splits prod.splits bool.splits option.splits)

lemma call_start_cases:
  assumes "call_start env now ctx request st = (r, st')"
  obtains (gated) m where "run_gate now ctx (tool_name request) st = (Some m, st')" "r = Finished (ToolError m)"
  | (runs) st1 h st2 where "run_gate now ctx (tool_name request) st = (None, st1)"
      "handler_start env now ctx request st1 = (h, st2)" "conclude now ctx (h, st2) = (r, st')"
proof (cases "run_gate now ctx (tool_name request) st")
  case (Pair m st1)
  then show thesis
  proof (cases m)
    case None
    obtain h st2 where "handler_start env now ctx request st1 = (h, st2)" by fastforce
    with None Pair assms show thesis by (intro runs) (auto simp: call_start_def)
  next
    case (Some x)
    with Pair assms show thesis by (intro gated) (auto simp: call_start_def)
  qed
qed

lemma call_resume_cases:
  assumes "call_resume env now ctx k answer st = (r, st')"
  obtains h st2 where "handler_resume env now ctx k answer st = (h, st2)" "conclude now ctx (h, st2) = (r, st')"
  using assms by (cases "handler_resume env now ctx k answer st") (auto simp: call_resume_def)

lemma call_start_db:
  assumes "call_start env now ctx request st = (r, st')"
  shows "ts_db st' = ts_db st \<or> suspends now ctx (ts_db st) (ts_db st')"
  using assms
proof (cases rule: call_start_cases)
  case (runs st1 h st2)
  then show ?thesis using conclude_effect(5) [OF runs(3)] by (simp add: handler_start_frame run_gate_frame(1))
qed (simp add: run_gate_frame(1))

lemma call_resume_db:
  assumes "call_resume env now ctx k answer st = (r, st')"
  shows "ts_db st' = ts_db st \<or> suspends now ctx (ts_db st) (ts_db st')"
  using assms
proof (cases rule: call_resume_cases)
  case (1 h st2)
  then show ?thesis using conclude_effect(5) [OF 1(2)] by (simp add: handler_resume_frame)
qed

section \<open>The machine refines the one without tools\<close>

definition in_sync :: "tool_machine \<Rightarrow> bool" where
  "in_sync s = (ts_db (tm_shared s) = mm_db (tm_agent s) \<and> distinct (map fst (tm_flights s)))"

text \<open>Suspending a binding is an event of the machine below.\<close>

lemma rejection_is_step:
  "mcp_step env a (CredentialRejected b actor) (a\<lparr>mm_db := markCredentialRejected (mm_now a) b actor (mm_db a)\<rparr>)"
proof -
  have "may_happen env a (CredentialRejected b actor)" by (simp add: may_happen_def digests_fresh_def)
  then have "mcp_step env a (CredentialRejected b actor) (mcp_next env a (CredentialRejected b actor))" ..
  moreover have "mcp_next env a (CredentialRejected b actor) = a\<lparr>mm_db := markCredentialRejected (mm_now a) b actor (mm_db a)\<rparr>"
    by (simp add: mcp_next_def)
  ultimately show ?thesis by simp
qed

lemma advance_agent:
  assumes "ts_db st = ts_db st0 \<or> suspends now ctx (ts_db st0) (ts_db st)" "ts_db st0 = mm_db (tm_agent s)"
    "now = mm_now (tm_agent s)"
  shows "tm_agent (advance n ctx request (r, st) s) = tm_agent s \<or>
    (\<exists>b. mcp_step env (tm_agent s) (CredentialRejected b ''system'') (tm_agent (advance n ctx request (r, st) s)))"
proof -
  have agent: "tm_agent (advance n ctx request (r, st) s) = (tm_agent s)\<lparr>mm_db := ts_db st\<rparr>"
    by (simp add: advance_def Let_def split: call_step.split)
  show ?thesis
  proof (cases "ts_db st = ts_db st0")
    case True then show ?thesis using assms(2) agent by simp
  next
    case False
    then obtain b where "ts_db st = markCredentialRejected (mm_now (tm_agent s)) b ''system'' (mm_db (tm_agent s))"
      using assms by (auto simp: suspends_def)
    then show ?thesis using rejection_is_step [of env "tm_agent s" b "''system''"] agent by auto
  qed
qed

lemma noted_frame [simp]:
  "tm_agent (noted ctx request s) = tm_agent s" "tm_shared (noted ctx request s) = tm_shared s"
  "tm_contexts (noted ctx request s) = tm_contexts s" "tm_flights (noted ctx request s) = tm_flights s"
  "tm_log (noted ctx request s) = tm_log s"
  by (simp_all add: noted_def)

lemma landed_frame [simp]:
  "tm_agent (landed n s) = tm_agent s" "tm_shared (landed n s) = tm_shared s" "tm_contexts (landed n s) = tm_contexts s"
  "tm_log (landed n s) = tm_log s" "tm_passed (landed n s) = tm_passed s"
  by (simp_all add: landed_def)

lemma advance_frame [simp]:
  "tm_shared (advance n ctx request r s) = snd r" "tm_contexts (advance n ctx request r s) = tm_contexts s"
  "tm_passed (advance n ctx request r s) = tm_passed s" "mm_db (tm_agent (advance n ctx request r s)) = ts_db (snd r)"
  "mm_now (tm_agent (advance n ctx request r s)) = mm_now (tm_agent s)"
  "mm_ids (tm_agent (advance n ctx request r s)) = mm_ids (tm_agent s)"
  by (simp_all add: advance_def Let_def split: call_step.splits)

lemma advance_Finished [simp]:
  "tm_flights (advance n ctx request (Finished result, st) s) = tm_flights s"
  "tm_log (advance n ctx request (Finished result, st) s) = tm_log s"
  by (simp_all add: advance_def Let_def)

lemma advance_Waiting [simp]:
  "tm_flights (advance n ctx request (Waiting c k, st) s) = (n, ctx, request, c, k) # tm_flights s"
  "tm_log (advance n ctx request (Waiting c k, st) s) = tm_log s @ [(ctx, request, c)]"
  by (simp_all add: advance_def Let_def)

lemma tool_step_agent:
  assumes "tool_step env s e s'" "in_sync s"
  shows "tm_agent s' = tm_agent s \<or> (\<exists>e'. mcp_step (te_agent env) (tm_agent s) e' (tm_agent s'))"
  using assms(1)
proof (cases rule: tool_step.cases)
  case (agent_moves e a)
  then show ?thesis by (auto simp: agent_moved_def)
next
  case (call_starts ctx request recipients n)
  obtain r st where c: "call_start env (mm_now (tm_agent s)) ctx request (tm_shared s) = (r, st)" by fastforce
  from advance_agent [OF call_start_db [OF c], of "noted ctx request s" n request r] assms(2) c
  show ?thesis unfolding call_starts(2) by (auto simp: in_sync_def)
next
  case (call_resumes n ctx request c k answer)
  obtain r st where c: "call_resume env (mm_now (tm_agent s)) ctx k answer (tm_shared s) = (r, st)" by fastforce
  from advance_agent [OF call_resume_db [OF c], of "landed n s" n request r] assms(2) c
  show ?thesis unfolding call_resumes(2) by (auto simp: in_sync_def)
qed

lemma distinct_flights:
  "distinct (map fst fs) \<Longrightarrow> distinct (map fst (filter P fs))"
  by (simp add: distinct_map_filter)

lemma in_sync_step:
  assumes "tool_step env s e s'" "in_sync s"
  shows "in_sync s'"
  using assms(1)
proof (cases rule: tool_step.cases)
  case (call_starts ctx request recipients n)
  from assms(2) show ?thesis using call_starts
    by (cases "call_start env (mm_now (tm_agent s)) ctx request (tm_shared s)")
      (auto simp: in_sync_def advance_def Let_def image_iff split: call_step.splits)
next
  case (call_resumes n ctx request c k answer)
  from assms(2) show ?thesis using call_resumes
    by (cases "call_resume env (mm_now (tm_agent s)) ctx k answer (tm_shared s)")
      (auto simp: in_sync_def advance_def Let_def landed_def distinct_flights split: call_step.splits)
qed (use assms(2) in \<open>auto simp: in_sync_def agent_moved_def\<close>)

lemma in_sync_initial: "tool_initial s \<Longrightarrow> in_sync s"
  by (auto simp: tool_initial_def in_sync_def blank_tool_machine_def blank_tools_def blank_machine_def)

end
