(* ===== verification/SlidingWindow.thy ===== *)
theory SlidingWindow
  imports Transitions "HOL-Library.Sublist"
begin

text \<open>
  Rate limits over a sliding window, on the times of what was admitted.  A sequence is paced when at each
  of its times the window that ends there holds at most the limit.  Then so does every window.
\<close>

definition in_window :: "int \<Rightarrow> int \<Rightarrow> int list \<Rightarrow> nat" where
  "in_window w t ts = length (filter (\<lambda>u. t - w < u) ts)"

definition paced :: "int \<Rightarrow> nat \<Rightarrow> int list \<Rightarrow> bool" where
  "paced w limit ts = (\<forall>us t vs. ts = us @ t # vs \<longrightarrow> in_window w t (us @ [t]) \<le> limit)"

lemma paced_Nil [simp]: "paced w limit []"
  by (simp add: paced_def)

lemma in_window_append [simp]: "in_window w t (us @ vs) = in_window w t us + in_window w t vs"
  by (simp add: in_window_def)

lemma in_window_Cons: "in_window w t (u # us) = (if t - w < u then 1 else 0) + in_window w t us"
  by (simp add: in_window_def)

lemma in_window_Nil [simp]: "in_window w t [] = 0"
  by (simp add: in_window_def)

lemma paced_snoc: "paced w limit (ts @ [t]) \<longleftrightarrow> paced w limit ts \<and> in_window w t (ts @ [t]) \<le> limit"
proof
  assume p: "paced w limit (ts @ [t])"
  have "in_window w u (us @ [u]) \<le> limit" if "ts = us @ u # vs" for us u vs
    using p that unfolding paced_def by (metis append.assoc append_Cons)
  moreover have "in_window w t (ts @ [t]) \<le> limit" using p unfolding paced_def by blast
  ultimately show "paced w limit ts \<and> in_window w t (ts @ [t]) \<le> limit" by (simp add: paced_def)
next
  assume p: "paced w limit ts \<and> in_window w t (ts @ [t]) \<le> limit"
  show "paced w limit (ts @ [t])"
    unfolding paced_def
  proof (intro allI impI)
    fix us u vs assume s: "ts @ [t] = us @ u # vs"
    then show "in_window w u (us @ [u]) \<le> limit"
      using p by (cases vs rule: rev_cases) (auto simp: paced_def simp del: in_window_append)
  qed
qed

lemma in_window_subseq: "subseq us ts \<Longrightarrow> in_window w t us \<le> in_window w t ts"
  by (induction rule: list_emb.induct) (auto simp: in_window_Cons)

lemma paced_subseq: "paced w limit ts \<Longrightarrow> subseq us ts \<Longrightarrow> paced w limit us"
proof (induction ts arbitrary: us rule: rev_induct)
  case (snoc t ts)
  obtain vs v where us: "us = vs @ v" "subseq vs ts" "subseq v [t]"
    using snoc.prems(2) by (auto simp: subseq_append_iff)
  have IH: "paced w limit vs" using snoc us(2) by (simp add: paced_snoc)
  from us(3) consider "v = []" | "v = [t]" by (cases v) (auto split: if_splits elim: list_emb.cases)
  then show ?case
  proof cases
    case 2
    have "in_window w t (vs @ [t]) \<le> in_window w t (ts @ [t])" using in_window_subseq [OF us(2), of w t] by simp
    then show ?thesis using IH snoc.prems(1) us(1) 2 by (simp add: paced_snoc del: in_window_append)
  qed (simp add: us(1) IH)
qed (auto dest: list_emb_Nil2)

lemma length_filter_le_filter: "(\<And>x. P x \<Longrightarrow> Q x) \<Longrightarrow> length (filter P xs) \<le> length (filter Q xs)"
  by (induction xs) auto

text \<open>At most the limit in every window, wherever it ends.\<close>

lemma paced_window:
  assumes "paced w limit ts" "sorted ts"
  shows "length (filter (\<lambda>u. t - w < u \<and> u \<le> t) ts) \<le> limit"
  using assms
proof (induction ts rule: rev_induct)
  case (snoc u ts)
  have IH: "length (filter (\<lambda>u. t - w < u \<and> u \<le> t) ts) \<le> limit"
    using snoc by (simp add: paced_snoc sorted_append)
  show ?case
  proof (cases "t - w < u \<and> u \<le> t")
    case True
    have "length (filter (\<lambda>v. t - w < v \<and> v \<le> t) ts) \<le> in_window w u ts"
      unfolding in_window_def using True by (intro length_filter_le_filter) auto
    moreover have "in_window w u (ts @ [u]) \<le> limit" using snoc.prems(1) by (simp add: paced_snoc del: in_window_append)
    moreover have "0 < w" using True by linarith
    ultimately show ?thesis using True by (simp add: in_window_Cons)
  qed (use IH in auto)
qed simp

section \<open>The interface of a limiter\<close>

text \<open>
  What a limiter owes: the clock does not run backwards, and a step only forgets times, or admits one
  more, at the present time, that the window has room for.
\<close>

lemma subseq_ordered: "subseq us ts \<Longrightarrow> sorted ts \<Longrightarrow> sorted us \<and> set us \<subseteq> set ts"
  by (induction rule: list_emb.induct) auto

locale window_limiter = guarded_system initial moves inv
  for initial :: "'s \<Rightarrow> bool" and moves :: "'s \<Rightarrow> 'e \<Rightarrow> 's \<Rightarrow> bool" and inv :: "'s \<Rightarrow> bool" +
  fixes times :: "'s \<Rightarrow> int list" and clock :: "'s \<Rightarrow> int" and w :: int and limit :: nat
  assumes none_yet: "initial s \<Longrightarrow> times s = []"
    and clock_forward: "inv s \<Longrightarrow> moves s e s' \<Longrightarrow> clock s \<le> clock s'"
    and admission: "inv s \<Longrightarrow> moves s e s' \<Longrightarrow>
      subseq (times s') (times s) \<or>
      times s' = times s @ [clock s] \<and> in_window w (clock s) (times s @ [clock s]) \<le> limit"
begin

lemma times_paced:
  "reachable initial moves s \<Longrightarrow> paced w limit (times s) \<and> sorted (times s) \<and> (\<forall>t \<in> set (times s). t \<le> clock s)"
proof (induction rule: reachable.induct)
  case (start s)
  then show ?case by (simp add: none_yet)
next
  case (step s e s')
  have inv: "inv s" using step(1) by (rule reachable_inv)
  note forward = clock_forward [OF inv step(2)]
  from admission [OF inv step(2)] show ?case
  proof
    assume sub: "subseq (times s') (times s)"
    then have "sorted (times s') \<and> set (times s') \<subseteq> set (times s)" using step.IH by (intro subseq_ordered) simp_all
    then show ?thesis using step.IH forward paced_subseq [OF _ sub] by fastforce
  next
    assume "times s' = times s @ [clock s] \<and> in_window w (clock s) (times s @ [clock s]) \<le> limit"
    then show ?thesis using step.IH forward by (fastforce simp: paced_snoc sorted_append simp del: in_window_append)
  qed
qed

lemma window_bound: "reachable initial moves s \<Longrightarrow> length (filter (\<lambda>u. t - w < u \<and> u \<le> t) (times s)) \<le> limit"
  by (intro paced_window) (auto dest: times_paced)

end

end
