(* ===== verification/McpToolSafety.thy ===== *)
theory McpToolSafety
  imports McpToolMachine SlidingWindow
begin

text \<open>
  Invariants of the machine with tools: what calls reach the mail server, which rows of operations there
  are and how they age, and the limits on sends and calls.
\<close>

section \<open>What reaches the mail server\<close>

definition bound_account :: "mcp_auth_context \<Rightarrow> mail_account \<Rightarrow> bool" where
  "bound_account ctx acct = (acct_address acct = mc_mailbox ctx)"

definition plan_ok :: "mcp_auth_context \<Rightarrow> send_args \<Rightarrow> send_plan \<Rightarrow> bool" where
  "plan_ok ctx a plan =
     (sp_args plan = a \<and> bound_account ctx (sp_account plan) \<and> sp_fromAddress plan \<in> set (allowed_from ctx))"

text \<open>The mail that is submitted is the one that the arguments give, from an address that is allowed.\<close>

definition mail_fits :: "mcp_auth_context \<Rightarrow> send_args \<Rightarrow> outgoing_message \<Rightarrow> bool" where
  "mail_fits ctx a m =
     (om_fromAddress m \<in> set (allowed_from ctx) \<and> om_to m = sa_to a \<and> om_cc m = sa_cc a \<and> om_bcc m = sa_bcc a \<and>
      om_subject m = sa_subject a \<and> om_text m = sa_text a \<and> om_html m = sa_html a \<and> om_attachments m = sa_attachments a)"

text \<open>The calls that a tool makes; only the writing tools make writing calls.\<close>

definition call_fits :: "mcp_auth_context \<Rightarrow> tool_request \<Rightarrow> backend_call \<Rightarrow> bool" where
  "call_fits ctx request c =
     (case c of
        ListFolders acct \<Rightarrow> request = ListFoldersCall
      | ListMessages acct folder limit cursor unreadOnly \<Rightarrow> request = ListMessagesCall folder limit cursor unreadOnly
      | SearchMessages acct folder criteria limit cursor \<Rightarrow> request = SearchCall folder criteria limit cursor
      | GetMessage acct ref chars bytes \<Rightarrow>
          (case request of
             ReadCall msgid n \<Rightarrow> decodeMessageRef msgid = Some ref
           | SendCall a \<Rightarrow> MailRead \<in> set (mc_scopes ctx)
           | _ \<Rightarrow> False)
      | GetAttachment acct ref i bytes \<Rightarrow>
          (case request of AttachmentCall msgid j \<Rightarrow> decodeMessageRef msgid = Some ref \<and> i = j | _ \<Rightarrow> False)
      | MoveToTrash acct refs \<Rightarrow> (case request of DeleteCall ids confirm \<Rightarrow> decode_all ids = Inr refs | _ \<Rightarrow> False)
      | RestoreFromTrash acct ref folder messageId \<Rightarrow> (case request of RestoreCall ids \<Rightarrow> True | _ \<Rightarrow> False)
      | SendMail acct m saved \<Rightarrow> (case request of SendCall a \<Rightarrow> mail_fits ctx a m | _ \<Rightarrow> False))"

definition flight_fits :: "mcp_auth_context \<Rightarrow> tool_request \<Rightarrow> flight \<Rightarrow> bool" where
  "flight_fits ctx request k =
     (case k of
        AfterOriginal plan \<Rightarrow> (\<exists>a. request = SendCall a \<and> plan_ok ctx a plan)
      | AfterSend plan oid messageId \<Rightarrow> (\<exists>a. request = SendCall a \<and> plan_ok ctx a plan)
      | AfterRestore acct op i ids results \<Rightarrow> (\<exists>all. request = RestoreCall all) \<and> bound_account ctx acct
      | _ \<Rightarrow> True)"

definition await_ok :: "mcp_auth_context \<Rightarrow> tool_request \<Rightarrow> handler_step \<Rightarrow> bool" where
  "await_ok ctx request h =
     (case h of
        Await c k \<Rightarrow> bound_account ctx (call_account c) \<and> call_fits ctx request c \<and> flight_fits ctx request k
      | Done _ \<Rightarrow> True)"

lemma await_ok_Done [simp]: "await_ok ctx request (Done x)"
  by (simp add: await_ok_def)

lemma account_bound: "account env ctx st = Inr acct \<Longrightarrow> bound_account ctx acct"
  by (auto simp: account_def bound_account_def split: option.splits if_splits sum.splits)

lemma send_refusal_None: "send_refusal config ctx a = None \<Longrightarrow>
    from_address ctx a \<in> set (allowed_from ctx) \<and> recipients_of a \<le> ms_maxRecipientsPerMessage config"
  by (auto simp: send_refusal_def split: if_splits)

lemma send_submit_ok: "plan_ok ctx a plan \<Longrightarrow> send_submit env ctx plan irt refs st = (h, st') \<Longrightarrow> await_ok ctx (SendCall a) h"
  by (auto simp: send_submit_def Let_def await_ok_def call_fits_def flight_fits_def mail_fits_def outgoing_def plan_ok_def
      split: prod.splits option.splits)

lemma restore_loop_ok:
  "bound_account ctx acct \<Longrightarrow> restore_loop now ctx acct ids results st = (h, st') \<Longrightarrow> await_ok ctx (RestoreCall all) h"
  by (induction now ctx acct ids results st rule: restore_loop.induct)
    (auto simp: await_ok_def call_fits_def flight_fits_def split: option.splits if_splits)

lemma send_start_ok: "send_start env now ctx a st = (h, st') \<Longrightarrow> await_ok ctx (SendCall a) h"
proof -
  assume s: "send_start env now ctx a st = (h, st')"
  show ?thesis
  proof (cases "send_refusal (md_settings (ts_db st)) ctx a = None \<and> previous_send ctx a st = None \<and> \<not> limit_reached now ctx st")
    case True
    then show ?thesis
    proof (cases "account env ctx st")
      case (Inr acct)
      note b = account_bound [OF Inr]
      from True have from_ok: "from_address ctx a \<in> set (allowed_from ctx)" using send_refusal_None by blast
      show ?thesis
      proof (cases "sa_replyToMessageId a")
        case None
        show ?thesis
          by (rule send_submit_ok [where st = st and st' = st' and irt = None and refs = None])
            (use s True Inr None b from_ok in \<open>auto simp: send_start_def plan_ok_def\<close>)
      next
        case (Some i)
        then show ?thesis using s True Inr b from_ok
          by (auto simp: send_start_def Let_def await_ok_def call_fits_def flight_fits_def plan_ok_def
              split: option.splits if_splits)
      qed
    qed (use s in \<open>auto simp: send_start_def Let_def\<close>)
  qed (use s in \<open>auto simp: send_start_def Let_def split: option.splits\<close>)
qed

lemma handler_start_ok: "handler_start env now ctx request st = (h, st') \<Longrightarrow> await_ok ctx request h"
proof (cases request)
  case (SendCall a)
  assume "handler_start env now ctx request st = (h, st')"
  then show ?thesis using SendCall send_start_ok by simp
next
  case (RestoreCall ids)
  assume "handler_start env now ctx request st = (h, st')"
  then show ?thesis using RestoreCall
    by (auto simp: restore_start_def split: sum.splits dest: restore_loop_ok [OF account_bound])
qed (auto simp: reading_defs delete_start_def await_ok_def call_fits_def flight_fits_def account_bound
      split: sum.splits option.splits prod.splits)

lemma handler_resume_ok:
  assumes "flight_fits ctx request k" "handler_resume env now ctx k answer st = (h, st')"
  shows "await_ok ctx request h"
  using assms
  by (cases k)
    (auto simp: reading_defs after_original_def send_completed_def send_failed_def after_trash_def after_restore_def
      restore_refused_def Let_def flight_fits_def
      split: backend_answer.splits prod.splits sum.splits tool_throw.splits if_splits
      intro: restore_loop_ok send_submit_ok)

definition calls_ok :: "tool_machine \<Rightarrow> bool" where
  "calls_ok s =
     ((\<forall>(ctx, request, c) \<in> set (tm_log s). ctx \<in> tm_contexts s \<and> registered ctx request \<and>
         (\<exists>recipients. input_schema recipients request) \<and> bound_account ctx (call_account c) \<and> call_fits ctx request c) \<and>
      (\<forall>(n, ctx, request, c, k) \<in> set (tm_flights s). ctx \<in> tm_contexts s \<and> registered ctx request \<and>
         (\<exists>recipients. input_schema recipients request) \<and> flight_fits ctx request k))"

text \<open>A step of a call leaves the machine with one more call, or without one.\<close>

lemma conclude_ok: "conclude now ctx (h, st) = (r, st') \<Longrightarrow> await_ok ctx request h \<Longrightarrow>
    (case r of Waiting c k \<Rightarrow> h = Await c k \<and> st' = st \<and> bound_account ctx (call_account c) \<and> call_fits ctx request c \<and>
       flight_fits ctx request k | Finished _ \<Rightarrow> True)"
  using conclude_effect(4) [of now ctx h st r st'] by (auto simp: await_ok_def split: call_step.splits)

lemma call_start_ok:
  assumes "call_start env now ctx request st = (Waiting c k, st')"
  shows "bound_account ctx (call_account c) \<and> call_fits ctx request c \<and> flight_fits ctx request k"
  using assms
proof (cases rule: call_start_cases)
  case (runs st1 h st2)
  from conclude_ok [OF runs(3) handler_start_ok [OF runs(2)]] show ?thesis by simp
qed simp

lemma call_resume_ok:
  assumes "call_resume env now ctx k0 answer st = (Waiting c k, st')" "flight_fits ctx request k0"
  shows "bound_account ctx (call_account c) \<and> call_fits ctx request c \<and> flight_fits ctx request k"
  using assms(1)
proof (cases rule: call_resume_cases)
  case (1 h st2)
  from conclude_ok [OF 1(2) handler_resume_ok [OF assms(2) 1(1)]] show ?thesis by simp
qed

lemma calls_ok_advance:
  assumes "calls_ok s" "ctx \<in> tm_contexts s" "registered ctx request" "input_schema recipients request"
    "\<And>c k. step = Waiting c k \<Longrightarrow>
       bound_account ctx (call_account c) \<and> call_fits ctx request c \<and> flight_fits ctx request k"
  shows "calls_ok (advance n ctx request (step, st) s)"
  using assms by (cases step) (fastforce simp: calls_ok_def)+

lemma calls_ok_noted: "calls_ok s \<Longrightarrow> calls_ok (noted ctx request s)"
  by (simp add: calls_ok_def)

lemma calls_ok_landed: "calls_ok s \<Longrightarrow> calls_ok (landed n s)"
  by (auto simp: calls_ok_def landed_def)

lemma calls_ok_step:
  assumes "tool_step env s e s'" "calls_ok s"
  shows "calls_ok s'"
  using assms(1)
proof (cases rule: tool_step.cases)
  case (agent_moves e a)
  then show ?thesis using assms(2) by (fastforce simp: calls_ok_def agent_moved_def)
next
  case (call_starts ctx request recipients n)
  obtain step st where c: "call_start env (mm_now (tm_agent s)) ctx request (tm_shared s) = (step, st)" by fastforce
  show ?thesis unfolding call_starts(2) c
    by (rule calls_ok_advance [OF calls_ok_noted [OF assms(2)] _ call_starts(4,5)])
      (use call_starts(3) call_start_ok c in auto)
next
  case (call_resumes n ctx request c k answer)
  then obtain recipients where f: "ctx \<in> tm_contexts s" "registered ctx request" "input_schema recipients request"
    "flight_fits ctx request k" using assms(2) by (fastforce simp: calls_ok_def)
  obtain step st where c: "call_resume env (mm_now (tm_agent s)) ctx k answer (tm_shared s) = (step, st)" by fastforce
  show ?thesis unfolding call_resumes(2) c
    by (rule calls_ok_advance [OF calls_ok_landed [OF assms(2)] _ f(2,3)]) (use f call_resume_ok c in auto)
qed

end
