(* ===== verification/McpToolRows.thy ===== *)
theory McpToolRows
  imports McpToolSafety
begin

text \<open>
  How the rows of write operations age: a step of a call keeps every row, in order, with what identifies
  it, and appends new rows under newly drawn identifiers.
\<close>

section \<open>Ageing of rows\<close>

definition deletion :: "operation_row \<Rightarrow> bool" where
  "deletion r = (op_kind r = OpDelete \<and> (case op_details r of DeleteDetails _ _ _ _ _ \<Rightarrow> True | _ \<Rightarrow> False))"

text \<open>\<open>X\<close> are the sends that are finished meanwhile.\<close>

definition row_ages :: "string set \<Rightarrow> operation_row \<Rightarrow> operation_row \<Rightarrow> bool" where
  "row_ages X r r' =
     (op_id r' = op_id r \<and> op_connectionId r' = op_connectionId r \<and> op_kind r' = op_kind r \<and>
      op_idempotencyKey r' = op_idempotencyKey r \<and> op_createdAt r' = op_createdAt r \<and>
      (op_id r \<notin> X \<longrightarrow> op_status r' = op_status r) \<and>
      (deletion r \<and> op_id r \<notin> X \<longrightarrow>
         deletion r' \<and> (details_restoredAt (op_details r) \<noteq> None \<longrightarrow> details_restoredAt (op_details r') \<noteq> None)) \<and>
      (op_kind r = OpRestore \<and> op_id r \<notin> X \<longrightarrow> op_details r' = op_details r))"

definition rows_age :: "tool_env \<Rightarrow> string set \<Rightarrow> (operation_row \<Rightarrow> bool) \<Rightarrow> tools_state \<Rightarrow> tools_state \<Rightarrow> bool" where
  "rows_age env X new st st' =
     (\<exists>xs ys. ts_operations st' = xs @ ys \<and> list_all2 (row_ages X) (ts_operations st) xs \<and>
        ts_drawn st \<le> ts_drawn st' \<and> (\<forall>r \<in> set ys. new r) \<and>
        op_id ` set ys \<subseteq> te_opId env ` {ts_drawn st..<ts_drawn st'} \<and> (inj (te_opId env) \<longrightarrow> distinct (map op_id ys)))"

lemma row_ages_refl [simp]: "row_ages X r r"
  by (simp add: row_ages_def)

lemma row_ages_trans: "row_ages X r r' \<Longrightarrow> row_ages X r' r'' \<Longrightarrow> row_ages X r r''"
  by (auto simp: row_ages_def)

lemma rows_all_refl [simp]: "list_all2 (row_ages X) rs rs"
  by (simp add: list.rel_refl)

lemma rows_age_same:
  "ts_operations st' = ts_operations st \<Longrightarrow> ts_drawn st \<le> ts_drawn st' \<Longrightarrow> rows_age env X new st st'"
  unfolding rows_age_def by (intro exI [of _ "ts_operations st"] exI [of _ "[]"]) auto

lemma rows_age_update:
  assumes "ts_operations st' = update_where p f (ts_operations st)" "ts_drawn st' = ts_drawn st"
    "\<And>r. r \<in> set (ts_operations st) \<Longrightarrow> p r \<Longrightarrow> row_ages X r (f r)"
  shows "rows_age env X new st st'"
proof -
  have "list_all2 (row_ages X) (ts_operations st) (ts_operations st')"
    unfolding assms(1) update_where_def list_all2_map2 using assms(3)
    by (intro list.rel_refl_strong) simp
  then show ?thesis unfolding rows_age_def
    by (intro exI [of _ "ts_operations st'"] exI [of _ "[]"]) (auto simp: assms(2))
qed

lemma rows_all_ids: "list_all2 (row_ages X) xs ys \<Longrightarrow> map op_id ys = map op_id xs"
  by (induction rule: list_all2_induct) (auto simp: row_ages_def)

lemma rows_all_new:
  "list_all2 (row_ages X) xs ys \<Longrightarrow> (\<And>r r'. new r \<Longrightarrow> row_ages X r r' \<Longrightarrow> new r') \<Longrightarrow> \<forall>r \<in> set xs. new r \<Longrightarrow>
     \<forall>r \<in> set ys. new r"
  by (induction rule: list_all2_induct) auto

lemma rows_age_trans:
  assumes "rows_age env X new st st1" "rows_age env X new st1 st2" "\<And>r r'. new r \<Longrightarrow> row_ages X r r' \<Longrightarrow> new r'"
  shows "rows_age env X new st st2"
proof -
  obtain xs ys where 1: "ts_operations st1 = xs @ ys" "list_all2 (row_ages X) (ts_operations st) xs"
    "ts_drawn st \<le> ts_drawn st1" "\<forall>r \<in> set ys. new r" "op_id ` set ys \<subseteq> te_opId env ` {ts_drawn st..<ts_drawn st1}"
    "inj (te_opId env) \<longrightarrow> distinct (map op_id ys)"
    using assms(1) unfolding rows_age_def by auto
  obtain us vs where 2: "ts_operations st2 = us @ vs" "list_all2 (row_ages X) (ts_operations st1) us"
    "ts_drawn st1 \<le> ts_drawn st2" "\<forall>r \<in> set vs. new r" "op_id ` set vs \<subseteq> te_opId env ` {ts_drawn st1..<ts_drawn st2}"
    "inj (te_opId env) \<longrightarrow> distinct (map op_id vs)"
    using assms(2) unfolding rows_age_def by auto
  obtain xs' ys' where 3: "us = xs' @ ys'" "list_all2 (row_ages X) xs xs'" "list_all2 (row_ages X) ys ys'"
    using 2(2) unfolding 1(1) by (auto simp: list_all2_append1)
  note ids = rows_all_ids [OF 3(3)]
  have idset: "op_id ` set ys' = op_id ` set ys" using arg_cong [OF ids, of set] by simp
  have "\<forall>r \<in> set ys'. new r" by (rule rows_all_new [OF 3(3) _ 1(4)]) (rule assms(3))
  moreover have "list_all2 (row_ages X) (ts_operations st) xs'"
    using list_all2_trans [OF _ 1(2) 3(2), of "row_ages X"] row_ages_trans by blast
  moreover have "op_id ` set (ys' @ vs) \<subseteq> te_opId env ` {ts_drawn st..<ts_drawn st2}"
  proof -
    have sub: "{ts_drawn st..<ts_drawn st1} \<subseteq> {ts_drawn st..<ts_drawn st2}"
      "{ts_drawn st1..<ts_drawn st2} \<subseteq> {ts_drawn st..<ts_drawn st2}" using 1(3) 2(3) by auto
    note mono = image_mono [OF sub(1), of "te_opId env"] image_mono [OF sub(2), of "te_opId env"]
    show ?thesis unfolding set_append image_Un idset
      by (rule Un_least [OF subset_trans [OF 1(5) mono(1)] subset_trans [OF 2(5) mono(2)]])
  qed
  moreover have "distinct (map op_id (ys' @ vs))" if inj: "inj (te_opId env)"
  proof -
    have "te_opId env ` {ts_drawn st..<ts_drawn st1} \<inter> te_opId env ` {ts_drawn st1..<ts_drawn st2} = {}"
      unfolding image_Int [OF inj, symmetric] ivl_disj_int_two(3) by (rule image_empty)
    then have "op_id ` set ys' \<inter> op_id ` set vs = {}" unfolding idset using 1(5) 2(5) by (metis Int_mono subset_empty)
    moreover have "distinct (map op_id ys')" "distinct (map op_id vs)" using inj 1(6) 2(6) ids by simp_all
    ultimately show ?thesis by simp
  qed
  moreover have "\<forall>r \<in> set (ys' @ vs). new r" using calculation(1) 2(4) by auto
  ultimately show ?thesis using 1(3) 2(1,3) 3(1) unfolding rows_age_def
    by (intro exI [of _ xs'] exI [of _ "ys' @ vs"]) simp
qed

lemma createOperation_ages:
  assumes "createOperation env cid kind status key d now st = (r, st')"
    "\<And>row. op_connectionId row = cid \<Longrightarrow> op_kind row = kind \<Longrightarrow> op_details row = d \<Longrightarrow> op_status row = status \<Longrightarrow>
       op_idempotencyKey row = key \<Longrightarrow> op_createdAt row = now \<Longrightarrow> new row"
  shows "rows_age env X new st st'"
proof (cases "insertable env cid kind key st")
  case True
  then obtain row where row: "r = Some row" "ts_operations st' = ts_operations st @ [row]" "ts_drawn st' = Suc (ts_drawn st)"
    "op_id row = te_opId env (ts_drawn st)" "new row"
    using assms by (auto simp: createOperation_def Let_def)
  then show ?thesis unfolding rows_age_def
    by (intro exI [of _ "ts_operations st"] exI [of _ "[row]"] conjI) auto
next
  case False
  then show ?thesis using assms(1) by (intro rows_age_same) (auto simp: createOperation_def Let_def)
qed

section \<open>Every step of a call\<close>

lemma record_moves_age:
  "record_moves env now ctx moves moved st = (r, st') \<Longrightarrow> rows_age env {} deletion st st'"
proof (induction env now ctx moves moved st arbitrary: r st' rule: record_moves.induct)
  case (2 env now ctx m moves moved st)
  let ?d = "DeleteDetails (tv_original m) (tv_trash m) (tv_messageId m) (0 < mr_uid (tv_trash m)) None"
  obtain row st1 where c: "createOperation env (mc_connectionId ctx) OpDelete OpCompleted None ?d now st = (row, st1)"
    by fastforce
  have first: "rows_age env {} deletion st st1" by (rule createOperation_ages [OF c]) (simp add: deletion_def)
  show ?case
  proof (cases row)
    case None then show ?thesis using 2(2) c first by (auto simp: Let_def)
  next
    case (Some op)
    from 2(2) c Some obtain ms where "record_moves env now ctx moves ms st1 = (r, st')" by (auto simp: Let_def)
    from 2(1) [OF refl c [symmetric] Some, of r st'] this 2(2) c Some
    have "rows_age env {} deletion st1 st'" by (auto simp: Let_def)
    then show ?thesis using first by (intro rows_age_trans [of env "{}" _ st st1 st']) (auto simp: row_ages_def)
  qed
qed (simp add: rows_age_same)

lemma finishOperation_ages: "rows_age env {oid} new st (finishOperation oid status d e now st)"
  by (rule rows_age_update [where p = "\<lambda>r. op_id r = oid" and
        f = "\<lambda>r. r\<lparr>op_status := status, op_details := d, op_error := map_option (take 300) e, op_completedAt := Some now\<rparr>"])
    (auto simp: finishOperation_def row_ages_def)

lemma find_SomeD: "find P xs = Some x \<Longrightarrow> x \<in> set xs \<and> P x"
  by (auto simp: find_Some_iff)

lemma with_restoredAt_deletion:
  "deletion r \<Longrightarrow> \<exists>a b c d. op_details r = DeleteDetails a b c d (details_restoredAt (op_details r))"
  by (auto simp: deletion_def split: operation_details.splits)

lemma markRestored_ages:
  assumes "markRestored oid now st = (b, st')" "\<And>r. r \<in> set (ts_operations st) \<Longrightarrow> op_id r = oid \<Longrightarrow> deletion r"
  shows "rows_age env X new st st'"
proof (cases "findOperation oid st")
  case None
  then show ?thesis using assms(1) by (auto simp: markRestored_def intro: rows_age_same)
next
  case (Some row)
  then have "row \<in> set (ts_operations st)" "op_id row = oid" by (auto simp: findOperation_def dest: find_SomeD)
  then obtain a b c d where "op_details row = DeleteDetails a b c d (details_restoredAt (op_details row))"
    using with_restoredAt_deletion assms(2) by blast
  then have w: "with_restoredAt now (op_details row) = DeleteDetails a b c d (Some now)" by (metis with_restoredAt.simps(1))
  have "rows_age env X new st (st\<lparr>ts_operations := update_where (unrestored oid)
      (\<lambda>r. r\<lparr>op_details := with_restoredAt now (op_details row)\<rparr>) (ts_operations st)\<rparr>)"
    by (rule rows_age_update [where p = "unrestored oid" and
          f = "\<lambda>r. r\<lparr>op_details := with_restoredAt now (op_details row)\<rparr>"])
      (use assms(2) in \<open>auto simp: unrestored_def row_ages_def w deletion_def\<close>)
  then show ?thesis using assms(1) Some by (auto simp: markRestored_def intro: rows_age_same split: if_splits)
qed

definition restoration_of :: "string \<Rightarrow> operation_row \<Rightarrow> bool" where
  "restoration_of d r = (op_kind r = OpRestore \<and> (case op_details r of RestoreDetails d' f u \<Rightarrow> d' = d | _ \<Rightarrow> False))"

lemma restore_recorded_age:
  assumes "restore_recorded env now ctx op i ref st = (r, st')"
    "\<And>q. q \<in> set (ts_operations st) \<Longrightarrow> op_id q = op_id op \<Longrightarrow> deletion q"
  shows "rows_age env {} (restoration_of (op_id op)) st st'"
proof -
  obtain b st1 where m: "markRestored (op_id op) now st = (b, st1)" by fastforce
  note marked = markRestored_ages [OF m assms(2), of env "{}" "restoration_of (op_id op)"]
  show ?thesis
  proof (cases b)
    case True
    obtain row st2 where c: "createOperation env (mc_connectionId ctx) OpRestore OpCompleted None
        (RestoreDetails (op_id op) (mr_folder ref) (mr_uid ref)) now st1 = (row, st2)" by fastforce
    have "rows_age env {} (restoration_of (op_id op)) st1 st2"
      by (rule createOperation_ages [OF c]) (simp add: restoration_of_def)
    moreover have "st' = st2" using assms(1) m True c by (auto simp: restore_recorded_def split: option.splits)
    ultimately show ?thesis using marked
      by (intro rows_age_trans [of env "{}" _ st st1 st']) (auto simp: row_ages_def restoration_of_def)
  qed (use assms(1) m marked in \<open>auto simp: restore_recorded_def\<close>)
qed

section \<open>What a step of a call does to the rows\<close>

definition is_submission :: "backend_call \<Rightarrow> bool" where
  "is_submission c = (case c of SendMail _ _ _ \<Rightarrow> True | _ \<Rightarrow> False)"

fun flight_send :: "flight \<Rightarrow> string list" where
  "flight_send (AfterSend plan oid messageId) = [oid]"
| "flight_send _ = []"

fun flight_restore :: "flight \<Rightarrow> string list" where
  "flight_restore (AfterRestore acct op i ids results) = [op_id op]"
| "flight_restore _ = []"

definition quiet_await :: "tools_state \<Rightarrow> handler_step \<Rightarrow> bool" where
  "quiet_await st h =
     (case h of
        Done _ \<Rightarrow> True
      | Await c k \<Rightarrow> \<not> is_submission c \<and> flight_send k = [] \<and>
          (\<forall>oid \<in> set (flight_restore k). \<exists>op \<in> set (ts_operations st). op_id op = oid \<and> deletion op))"

lemma quiet_Done [simp]: "quiet_await st (Done x)"
  by (simp add: quiet_await_def)

lemma quiet_await_cong: "ts_operations st = ts_operations st' \<Longrightarrow> quiet_await st h = quiet_await st' h"
  by (cases h) (simp_all add: quiet_await_def)

lemma send_submit_cases:
  assumes "send_submit env ctx plan irt refs st = (h, st')"
  obtains (refused) m where "h = Done (Inl m)" "ts_operations st' = ts_operations st" "ts_drawn st' = Suc (ts_drawn st)"
  | (submits) row messageId m where
      "h = Await (SendMail (sp_account plan) m (sp_saveSentCopies plan)) (AfterSend plan (op_id row) messageId)"
      "insertable env (mc_connectionId ctx) OpSend (sa_idempotencyKey (sp_args plan)) st"
      "ts_operations st' = ts_operations st @ [row]" "ts_drawn st' = Suc (ts_drawn st)" "op_id row = te_opId env (ts_drawn st)"
      "op_connectionId row = mc_connectionId ctx" "op_kind row = OpSend" "op_status row = OpPending"
      "op_idempotencyKey row = sa_idempotencyKey (sp_args plan)" "op_createdAt row = sp_now plan"
  using assms unfolding send_submit_def createOperation_def Let_def
  by (cases "insertable env (mc_connectionId ctx) OpSend (sa_idempotencyKey (sp_args plan)) st") auto

lemma restorable_operation_row:
  "restorable_operation ctx i st = Some (op, original, trash, messageId, restoredAt) \<Longrightarrow>
     op \<in> set (ts_operations st) \<and> op_id op = i \<and> deletion op \<and> op_connectionId op = mc_connectionId ctx \<and>
     op_details op = DeleteDetails original trash messageId True restoredAt"
  by (auto simp: restorable_operation_def findForConnection_def deletion_def dest!: find_SomeD
      split: option.splits if_splits operation_details.splits bool.splits)

lemma restore_loop_quiet:
  "restore_loop now ctx acct ids results st = (h, st') \<Longrightarrow>
     ts_operations st' = ts_operations st \<and> ts_drawn st' = ts_drawn st \<and> quiet_await st h"
  by (induction now ctx acct ids results st rule: restore_loop.induct)
    (auto simp: quiet_await_def is_submission_def split: option.splits if_splits
      dest!: restorable_operation_row intro!: bexI)

lemma send_start_rows:
  assumes "send_start env now ctx a st = (h, st')"
  shows "st' = st \<and> quiet_await st h \<or>
    (\<exists>plan. sa_replyToMessageId a = None \<and> plan_ok ctx a plan \<and> sp_now plan = now \<and> \<not> limit_reached now ctx st \<and>
       send_submit env ctx plan None None st = (h, st'))"
proof (cases "send_refusal (md_settings (ts_db st)) ctx a = None \<and> previous_send ctx a st = None \<and> \<not> limit_reached now ctx st")
  case True
  show ?thesis
  proof (cases "account env ctx st")
    case (Inr acct)
    show ?thesis
    proof (cases "sa_replyToMessageId a")
      case None
      let ?plan = "\<lparr>sp_args = a, sp_account = acct, sp_fromAddress = from_address ctx a, sp_recipients = recipients_of a,
        sp_saveSentCopies = ms_saveSentCopies (md_settings (ts_db st)), sp_now = now\<rparr>"
      have "send_submit env ctx ?plan None None st = (h, st')"
        using assms True Inr None by (simp add: send_start_def)
      moreover have "plan_ok ctx a ?plan"
        using True account_bound [OF Inr] send_refusal_None [of "md_settings (ts_db st)" ctx a]
        by (simp add: plan_ok_def)
      ultimately show ?thesis using None True by (intro disjI2 exI [of _ ?plan]) simp
    qed (use assms True Inr in \<open>auto simp: send_start_def Let_def quiet_await_def is_submission_def split: option.splits if_splits\<close>)
  qed (use assms True in \<open>auto simp: send_start_def Let_def\<close>)
qed (use assms in \<open>auto simp: send_start_def Let_def split: option.splits\<close>)

lemma handler_start_rows:
  assumes "handler_start env now ctx request st = (h, st')"
  shows "ts_operations st' = ts_operations st \<and> ts_drawn st' = ts_drawn st \<and> quiet_await st h \<or>
    (\<exists>a plan. request = SendCall a \<and> sa_replyToMessageId a = None \<and> plan_ok ctx a plan \<and> sp_now plan = now \<and>
       \<not> limit_reached now ctx st \<and> send_submit env ctx plan None None st = (h, st'))"
proof (cases request)
  case (SendCall a)
  then show ?thesis using assms send_start_rows [of env now ctx a st h st'] by auto
next
  case (RestoreCall ids)
  then show ?thesis using assms by (auto simp: restore_start_def split: sum.splits dest: restore_loop_quiet)
qed (use assms in \<open>auto simp: reading_defs delete_start_def quiet_await_def is_submission_def
      split: sum.splits option.splits prod.splits\<close>)

text \<open>The rows that a resumed call may add, and the sends that it finishes.\<close>

definition added_by :: "flight \<Rightarrow> operation_row \<Rightarrow> bool" where
  "added_by k r =
     (case k of AfterTrash \<Rightarrow> deletion r | _ \<Rightarrow> False)"

lemma handler_resume_rows:
  assumes "handler_resume env now ctx k answer st = (h, st')"
  obtains (changes) "rows_age env (set (flight_send k)) (added_by k) st st'" "quiet_await st' h"
      "(\<nexists>acct op i ids results ref. k = AfterRestore acct op i ids results \<and> answer = RestoredTo ref)"
  | (submits) plan original where "k = AfterOriginal plan" "answer = GotMessage original"
      "send_submit env ctx plan (fm_messageId original) (reply_references original) st = (h, st')"
  | (restores) acct op i ids results ref r st1 where "k = AfterRestore acct op i ids results" "answer = RestoredTo ref"
      "restore_recorded env now ctx op i ref st = (r, st1)" "ts_operations st' = ts_operations st1"
      "ts_drawn st' = ts_drawn st1" "quiet_await st' h"
proof (cases k)
  case (AfterOriginal plan)
  then show thesis using assms submits changes
    by (cases answer) (auto simp: after_original_def otherwise_def rows_age_same)
next
  case (AfterSend plan oid messageId)
  show thesis
  proof (rule changes)
    show "rows_age env (set (flight_send k)) (added_by k) st st'" "quiet_await st' h"
      using assms AfterSend finishOperation_ages [of env oid "added_by k" st]
      by (auto simp: send_completed_def send_failed_def otherwise_def rows_age_def Let_def split: backend_answer.splits)
  qed (simp add: AfterSend)
next
  case AfterTrash
  have "rows_age env (set (flight_send k)) (added_by k) st st' \<and> quiet_await st' h"
  proof (cases "\<exists>moves. answer = MovedToTrash moves")
    case True
    then obtain moves where answer: "answer = MovedToTrash moves" ..
    obtain res st1 where r: "record_moves env now ctx moves [] st = (res, st1)" by fastforce
    have "ts_operations st' = ts_operations st1" "ts_drawn st' = ts_drawn st1" "quiet_await st' h"
      using assms AfterTrash answer r by (auto simp: after_trash_def split: sum.splits)
    then show ?thesis using record_moves_age [OF r] by (simp add: rows_age_def AfterTrash added_by_def)
  qed (use assms AfterTrash in \<open>auto simp: otherwise_def rows_age_same split: backend_answer.splits\<close>)
  then show thesis by (intro changes) (simp_all add: AfterTrash)
next
  case (AfterRestore acct op i ids results)
  show thesis
  proof (cases "\<exists>ref. answer = RestoredTo ref")
    case True
    then obtain ref where answer: "answer = RestoredTo ref" ..
    obtain r st1 where r: "restore_recorded env now ctx op i ref st = (r, st1)" by fastforce
    then have loop: "restore_loop now ctx acct ids (results @ [r]) st1 = (h, st')"
      using assms AfterRestore answer by (simp add: after_restore_def)
    show thesis using restore_loop_quiet [OF loop]
      by (intro restores [OF AfterRestore answer r]) (auto cong: quiet_await_cong)
  next
    case False
    then have "ts_operations st' = ts_operations st \<and> ts_drawn st' = ts_drawn st \<and> quiet_await st h"
      using assms AfterRestore
      by (auto simp: otherwise_def restore_refused_def split: backend_answer.splits tool_throw.splits if_splits
          dest: restore_loop_quiet)
    then show thesis using False AfterRestore
      by (intro changes) (auto simp: rows_age_same cong: quiet_await_cong)
  qed
qed (use assms changes in \<open>auto simp: otherwise_def rows_age_same split: backend_answer.splits\<close>)

end
