(* ===== verification/McpToolInvariants.thy ===== *)
theory McpToolInvariants
  imports McpToolRows
begin

text \<open>
  The invariant of the machine with tools: identifiers of rows are distinct, a send under way has a
  pending row of its own, a deletion is restored at most once, and a connection submits at most one mail
  under an idempotency key.
\<close>

section \<open>Rows\<close>

definition drawn_ids :: "tool_env \<Rightarrow> nat \<Rightarrow> string set" where
  "drawn_ids env n = te_opId env ` {..<n}"

definition rows_ok :: "tool_env \<Rightarrow> tools_state \<Rightarrow> bool" where
  "rows_ok env st = (distinct (map op_id (ts_operations st)) \<and> op_id ` set (ts_operations st) \<subseteq> drawn_ids env (ts_drawn st))"

definition flights_ok :: "tool_env \<Rightarrow> tools_state \<Rightarrow> flight list \<Rightarrow> bool" where
  "flights_ok env st ks =
     (distinct (concat (map flight_send ks)) \<and>
      (\<forall>oid \<in> set (concat (map flight_send ks)). oid \<in> drawn_ids env (ts_drawn st) \<and>
         (\<forall>r \<in> set (ts_operations st). op_id r = oid \<longrightarrow> op_kind r = OpSend \<and> op_status r = OpPending)) \<and>
      (\<forall>oid \<in> set (concat (map flight_restore ks)). oid \<in> drawn_ids env (ts_drawn st) \<and>
         (\<forall>r \<in> set (ts_operations st). op_id r = oid \<longrightarrow> deletion r)))"

definition restored_by :: "operation_row \<Rightarrow> string list" where
  "restored_by r = (if op_kind r = OpRestore then (case op_details r of RestoreDetails d f u \<Rightarrow> [d] | _ \<Rightarrow> []) else [])"

definition restores :: "operation_row list \<Rightarrow> string list" where
  "restores rows = concat (map restored_by rows)"

definition restores_ok :: "tool_env \<Rightarrow> tools_state \<Rightarrow> bool" where
  "restores_ok env st =
     (distinct (restores (ts_operations st)) \<and>
      (\<forall>d \<in> set (restores (ts_operations st)). d \<in> drawn_ids env (ts_drawn st) \<and>
         (\<forall>q \<in> set (ts_operations st). op_id q = d \<longrightarrow> deletion q \<and> details_restoredAt (op_details q) \<noteq> None)))"

lemma drawn_fresh:
  "inj (te_opId env) \<Longrightarrow> oid \<in> drawn_ids env n \<Longrightarrow> oid \<notin> te_opId env ` {n..<m}"
  by (auto simp: drawn_ids_def inj_eq)

lemma drawn_disjoint:
  assumes "inj (te_opId env)" "A \<subseteq> drawn_ids env n" "B \<subseteq> te_opId env ` {n..<m}"
  shows "A \<inter> B = {}"
  using drawn_fresh [OF assms(1)] assms(2,3) by (meson disjoint_iff subset_iff)

lemma drawn_range: "te_opId env ` {n..<m} \<subseteq> drawn_ids env m"
  unfolding drawn_ids_def by (intro image_mono) auto

lemma drawn_mono: "n \<le> m \<Longrightarrow> drawn_ids env n \<subseteq> drawn_ids env m"
  by (auto simp: drawn_ids_def)

lemma drawn_new: "n \<le> i \<Longrightarrow> i < m \<Longrightarrow> te_opId env i \<in> drawn_ids env m"
  by (auto simp: drawn_ids_def)

lemma all2_preimage: "list_all2 P xs ys \<Longrightarrow> y \<in> set ys \<Longrightarrow> \<exists>x \<in> set xs. P x y"
  by (induction rule: list_all2_induct) auto

lemma deletion_kind: "deletion r \<Longrightarrow> op_kind r = OpDelete"
  by (simp add: deletion_def)

text \<open>A row of an identifier drawn before is an old one that aged.\<close>

lemma aged_row:
  assumes "rows_age env X new st st'" "inj (te_opId env)" "r' \<in> set (ts_operations st')" "op_id r' \<in> drawn_ids env (ts_drawn st)"
  obtains r where "r \<in> set (ts_operations st)" "row_ages X r r'"
proof -
  obtain xs ys where *: "ts_operations st' = xs @ ys" "list_all2 (row_ages X) (ts_operations st) xs"
    "op_id ` set ys \<subseteq> te_opId env ` {ts_drawn st..<ts_drawn st'}"
    using assms(1) unfolding rows_age_def by auto
  have "r' \<in> set xs" using assms(3) *(1,3) drawn_fresh [OF assms(2,4)] by auto
  then show thesis using all2_preimage [OF *(2)] that by blast
qed

lemma rows_ok_age:
  assumes "rows_age env X new st st'" "inj (te_opId env)" "rows_ok env st"
  shows "rows_ok env st'"
proof -
  obtain xs ys where *: "ts_operations st' = xs @ ys" "list_all2 (row_ages X) (ts_operations st) xs" "ts_drawn st \<le> ts_drawn st'"
    "op_id ` set ys \<subseteq> te_opId env ` {ts_drawn st..<ts_drawn st'}" "distinct (map op_id ys)"
    using assms(1,2) unfolding rows_age_def by auto
  note ids = rows_all_ids [OF *(2)]
  have idset: "op_id ` set xs = op_id ` set (ts_operations st)" using arg_cong [OF ids, of set] by simp
  have old: "op_id ` set xs \<subseteq> drawn_ids env (ts_drawn st)" using assms(3) by (simp add: idset rows_ok_def)
  have new: "op_id ` set ys \<subseteq> drawn_ids env (ts_drawn st')" by (rule subset_trans [OF *(4) drawn_range])
  have "op_id ` set xs \<inter> op_id ` set ys = {}" by (rule drawn_disjoint [OF assms(2) old *(4)])
  moreover have "distinct (map op_id xs)" using ids assms(3) by (simp add: rows_ok_def)
  ultimately show ?thesis using subset_trans [OF old drawn_mono [OF *(3)]] new *(5)
    by (simp add: rows_ok_def *(1) image_Un)
qed

lemma flights_ok_age:
  assumes "rows_age env X new st st'" "inj (te_opId env)" "flights_ok env st ks" "X \<inter> set (concat (map flight_send ks)) = {}"
    "\<And>r. r \<in> set (ts_operations st) \<Longrightarrow> op_id r \<in> X \<Longrightarrow> op_kind r = OpSend"
  shows "flights_ok env st' ks"
proof -
  have "ts_drawn st \<le> ts_drawn st'" using assms(1) by (auto simp: rows_age_def)
  note mono = drawn_mono [OF this, of env]
  have "op_kind r = OpSend \<and> op_status r = OpPending"
    if "oid \<in> set (concat (map flight_send ks))" "r \<in> set (ts_operations st')" "op_id r = oid" for oid r
  proof -
    have "oid \<in> drawn_ids env (ts_drawn st)" using assms(3) that(1) by (auto simp: flights_ok_def)
    with assms that obtain q where "q \<in> set (ts_operations st)" "row_ages X q r" by (auto elim: aged_row)
    moreover from this have "op_kind q = OpSend \<and> op_status q = OpPending"
      using assms(3) that by (auto simp: flights_ok_def row_ages_def)
    moreover have "oid \<notin> X" using assms(4) that(1) by blast
    ultimately show ?thesis using that(3) by (simp add: row_ages_def)
  qed
  moreover have "deletion r"
    if "oid \<in> set (concat (map flight_restore ks))" "r \<in> set (ts_operations st')" "op_id r = oid" for oid r
  proof -
    have "oid \<in> drawn_ids env (ts_drawn st)" using assms(3) that(1) by (auto simp: flights_ok_def)
    with assms that obtain q where "q \<in> set (ts_operations st)" "row_ages X q r" by (auto elim: aged_row)
    moreover from this have "deletion q" using assms(3) that by (auto simp: flights_ok_def row_ages_def)
    moreover from this have "op_id q \<notin> X" using assms(5) calculation(1) deletion_kind by fastforce
    ultimately show ?thesis by (simp add: row_ages_def)
  qed
  moreover have "oid \<in> drawn_ids env (ts_drawn st')"
    if "oid \<in> set (concat (map flight_send ks)) \<or> oid \<in> set (concat (map flight_restore ks))" for oid
    by (rule subsetD [OF mono]) (use assms(3) that in \<open>auto simp only: flights_ok_def\<close>)
  moreover have "distinct (concat (map flight_send ks))" using assms(3) by (simp only: flights_ok_def)
  ultimately show ?thesis unfolding flights_ok_def by simp
qed

lemma restores_aged:
  "list_all2 (row_ages X) xs ys \<Longrightarrow> (\<And>r. r \<in> set xs \<Longrightarrow> op_id r \<in> X \<Longrightarrow> op_kind r = OpSend) \<Longrightarrow> restores ys = restores xs"
proof (induction rule: list_all2_induct)
  case (Cons x xs y ys)
  have "restored_by y = restored_by x" using Cons.hyps(1) Cons.prems [of x] by (auto simp: row_ages_def restored_by_def)
  then show ?case using Cons by (auto simp: restores_def)
qed (simp add: restores_def)

lemma restores_ok_age:
  assumes "rows_age env X new st st'" "inj (te_opId env)" "restores_ok env st" "\<And>r. new r \<Longrightarrow> op_kind r \<noteq> OpRestore"
    "\<And>r. r \<in> set (ts_operations st) \<Longrightarrow> op_id r \<in> X \<Longrightarrow> op_kind r = OpSend"
  shows "restores_ok env st'"
proof -
  obtain xs ys where *: "ts_operations st' = xs @ ys" "list_all2 (row_ages X) (ts_operations st) xs" "ts_drawn st \<le> ts_drawn st'"
    "\<forall>r \<in> set ys. new r"
    using assms(1) unfolding rows_age_def by auto
  have "restores ys = []" using *(4) assms(4) by (auto simp: restores_def restored_by_def)
  then have same: "restores (ts_operations st') = restores (ts_operations st)"
    using restores_aged [OF *(2) assms(5)] *(1) by (simp add: restores_def)
  have "deletion q \<and> details_restoredAt (op_details q) \<noteq> None"
    if "d \<in> set (restores (ts_operations st))" "q \<in> set (ts_operations st')" "op_id q = d" for d q
  proof -
    have d: "d \<in> drawn_ids env (ts_drawn st)" using assms(3) that(1) by (auto simp: restores_ok_def)
    with assms that obtain p where p: "p \<in> set (ts_operations st)" "row_ages X p q" by (auto elim: aged_row)
    then have "op_id p = d" using that by (simp add: row_ages_def)
    then have "deletion p \<and> details_restoredAt (op_details p) \<noteq> None"
      using assms(3) that(1) p(1) unfolding restores_ok_def by blast
    moreover from this have "op_id p \<notin> X" using assms(5) [OF p(1)] deletion_kind by fastforce
    ultimately show ?thesis using p(2) by (simp add: row_ages_def)
  qed
  moreover have "d \<in> drawn_ids env (ts_drawn st')" if "d \<in> set (restores (ts_operations st))" for d
    by (rule subsetD [OF drawn_mono [OF *(3)]]) (use assms(3) that in \<open>auto simp only: restores_ok_def\<close>)
  moreover have "distinct (restores (ts_operations st))" using assms(3) by (simp only: restores_ok_def)
  ultimately show ?thesis unfolding restores_ok_def same by simp
qed

text \<open>A restoration is recorded by the call that marked the deletion, so it is the first.\<close>

lemma markRestored_True:
  assumes "markRestored oid now st = (True, st')" "\<And>r. r \<in> set (ts_operations st) \<Longrightarrow> op_id r = oid \<Longrightarrow> deletion r"
  shows "\<exists>r \<in> set (ts_operations st). op_id r = oid \<and> details_restoredAt (op_details r) = None"
    "\<And>r'. r' \<in> set (ts_operations st') \<Longrightarrow> op_id r' = oid \<Longrightarrow> deletion r' \<and> details_restoredAt (op_details r') \<noteq> None"
proof -
  obtain row where row: "findOperation oid st = Some row" "details_restoredAt (op_details row) = None"
    "st' = st\<lparr>ts_operations := update_where (unrestored oid)
       (\<lambda>r. r\<lparr>op_details := with_restoredAt now (op_details row)\<rparr>) (ts_operations st)\<rparr>"
    using assms(1) by (auto simp: markRestored_def split: option.splits if_splits)
  have r: "row \<in> set (ts_operations st)" "op_id row = oid" using row(1) by (auto simp: findOperation_def dest: find_SomeD)
  then show "\<exists>r \<in> set (ts_operations st). op_id r = oid \<and> details_restoredAt (op_details r) = None" using row(2) by auto
  obtain a b c d where "op_details row = DeleteDetails a b c d None"
    using with_restoredAt_deletion [OF assms(2) [OF r]] row(2) by auto
  then have w: "with_restoredAt now (op_details row) = DeleteDetails a b c d (Some now)" by simp
  show "deletion r' \<and> details_restoredAt (op_details r') \<noteq> None"
    if r': "r' \<in> set (ts_operations st')" "op_id r' = oid" for r'
  proof -
    obtain r where r: "r \<in> set (ts_operations st)"
      "r' = (if unrestored oid r then r\<lparr>op_details := with_restoredAt now (op_details row)\<rparr> else r)"
      using r'(1) unfolding row(3) by (auto simp: update_where_def)
    then have "op_id r = oid" using r'(2) by (simp split: if_splits)
    then show ?thesis using assms(2) [OF r(1)] r(2) by (simp add: unrestored_def deletion_def w)
  qed
qed

lemma ok_cong:
  assumes "ts_operations st' = ts_operations st" "ts_drawn st' = ts_drawn st"
  shows "rows_ok env st' = rows_ok env st" "flights_ok env st' ks = flights_ok env st ks" "restores_ok env st' = restores_ok env st"
  by (simp_all add: rows_ok_def flights_ok_def restores_ok_def assms)

lemma restore_recorded_ok:
  assumes "restore_recorded env now ctx op i ref st = (r, st')" "inj (te_opId env)" "rows_ok env st" "restores_ok env st"
    "\<And>q. q \<in> set (ts_operations st) \<Longrightarrow> op_id q = op_id op \<Longrightarrow> deletion q"
  shows "restores_ok env st'"
proof -
  obtain b st1 where m: "markRestored (op_id op) now st = (b, st1)" by fastforce
  have age: "rows_age env {} (\<lambda>_. False) st st1" by (rule markRestored_ages [OF m]) (rule assms(5))
  have ok1: "rows_ok env st1" "restores_ok env st1"
    by (rule rows_ok_age [OF age assms(2,3)], rule restores_ok_age [OF age assms(2,4)]) simp_all
  show ?thesis
  proof (cases b)
    case False
    then show ?thesis using assms(1) m ok1(2) by (simp add: restore_recorded_def)
  next
    case True
    have "markRestored (op_id op) now st = (True, st1)" using m True by simp
    note marked = markRestored_True [OF this assms(5)]
    have same: "restores (ts_operations st1) = restores (ts_operations st)"
      using age restores_aged [of "{}"] by (fastforce simp: rows_age_def restores_def)
    have fresh: "op_id op \<notin> set (restores (ts_operations st1))"
      using marked(1) assms(4) unfolding same restores_ok_def by blast
    have d: "op_id op \<in> drawn_ids env (ts_drawn st1)"
      using marked(1) assms(3) markRestored_frame [OF m] by (fastforce simp: rows_ok_def)
    let ?details = "RestoreDetails (op_id op) (mr_folder ref) (mr_uid ref)"
    obtain row st2 where c: "createOperation env (mc_connectionId ctx) OpRestore OpCompleted None ?details now st1 = (row, st2)"
      by fastforce
    have st': "st' = st2" using assms(1) m True c by (auto simp: restore_recorded_def split: option.splits)
    have new: "te_opId env (ts_drawn st1) \<notin> drawn_ids env (ts_drawn st1)" using assms(2) by (auto simp: drawn_ids_def inj_eq)
    show ?thesis
    proof (cases "insertable env (mc_connectionId ctx) OpRestore None st1")
      case False
      then have "ts_operations st' = ts_operations st1" "ts_drawn st1 \<le> ts_drawn st'"
        using c st' by (auto simp: createOperation_def Let_def)
      then show ?thesis using ok1(2) drawn_mono by (fastforce simp: restores_ok_def)
    next
      case True
      then obtain q where q: "ts_operations st' = ts_operations st1 @ [q]" "op_id q = te_opId env (ts_drawn st1)"
        "restored_by q = [op_id op]" "ts_drawn st' = Suc (ts_drawn st1)"
        using c st' by (auto simp: createOperation_def Let_def restored_by_def)
      have "drawn_ids env (ts_drawn st1) \<subseteq> drawn_ids env (ts_drawn st')" unfolding q(4) by (rule drawn_mono) simp
      moreover have "restores (ts_operations st') = restores (ts_operations st1) @ [op_id op]" by (simp add: restores_def q)
      ultimately show ?thesis using ok1(2) fresh d new marked(2) q(1,2)
        unfolding restores_ok_def by (auto simp: subset_iff)
    qed
  qed
qed

section \<open>Steps of calls\<close>

definition waiting :: "call_step \<Rightarrow> flight list" where
  "waiting step = (case step of Waiting c k \<Rightarrow> [k] | Finished _ \<Rightarrow> [])"

definition awaited :: "handler_step \<Rightarrow> flight list" where
  "awaited h = (case h of Await c k \<Rightarrow> [k] | Done _ \<Rightarrow> [])"

definition state_ok :: "tool_env \<Rightarrow> tools_state \<Rightarrow> flight list \<Rightarrow> bool" where
  "state_ok env st ks = (rows_ok env st \<and> flights_ok env st ks \<and> restores_ok env st)"

lemma quiet_await_ok:
  assumes "rows_ok env st" "flights_ok env st ks" "quiet_await st h"
  shows "flights_ok env st (awaited h @ ks)"
proof (cases h)
  case (Await c k)
  have quiet: "flight_send k = []"
    "\<And>oid. oid \<in> set (flight_restore k) \<Longrightarrow> \<exists>op \<in> set (ts_operations st). op_id op = oid \<and> deletion op"
    using assms(3) by (auto simp: quiet_await_def Await)
  have new: "oid \<in> drawn_ids env (ts_drawn st) \<and> (\<forall>r \<in> set (ts_operations st). op_id r = oid \<longrightarrow> deletion r)"
    if member: "oid \<in> set (flight_restore k)" for oid
  proof -
    obtain op where op: "op \<in> set (ts_operations st)" "op_id op = oid" "deletion op"
      using quiet(2) [OF member] by blast
    have "inj_on op_id (set (ts_operations st))" "op_id ` set (ts_operations st) \<subseteq> drawn_ids env (ts_drawn st)"
      using assms(1) by (simp_all add: rows_ok_def distinct_map)
    then show ?thesis using op by (metis image_subset_iff inj_onD)
  qed
  have sends: "concat (map flight_send (awaited h @ ks)) = concat (map flight_send ks)"
    by (simp add: awaited_def Await quiet(1))
  have restored: "set (concat (map flight_restore (awaited h @ ks))) =
      set (flight_restore k) \<union> set (concat (map flight_restore ks))" by (simp add: awaited_def Await)
  show ?thesis using assms(2) new unfolding flights_ok_def sends restored ball_Un by (intro conjI ballI; elim conjE; blast)
qed (simp add: awaited_def assms(2))

lemma send_submit_state_ok:
  assumes "send_submit env ctx plan irt refs st = (h, st')" "inj (te_opId env)" "state_ok env st ks"
  shows "state_ok env st' (awaited h @ ks)"
  using assms(1)
proof (cases rule: send_submit_cases)
  case (refused m)
  have age: "rows_age env {} (\<lambda>_. False) st st'" using refused by (intro rows_age_same) simp_all
  show ?thesis using assms(3) refused(1) rows_ok_age [OF age assms(2)] flights_ok_age [OF age assms(2)]
      restores_ok_age [OF age assms(2)] by (simp add: state_ok_def awaited_def)
next
  case (submits row messageId m)
  have age: "rows_age env {} (\<lambda>r. op_kind r = OpSend) st st'"
    unfolding rows_age_def using submits by (intro exI [of _ "ts_operations st"] exI [of _ "[row]"]) auto
  have new: "op_id row \<notin> drawn_ids env (ts_drawn st)" using assms(2) submits(5) by (auto simp: drawn_ids_def inj_eq)
  have "rows_ok env st'" "restores_ok env st'" "flights_ok env st' ks"
    using assms(3) rows_ok_age [OF age assms(2)] flights_ok_age [OF age assms(2)] restores_ok_age [OF age assms(2)]
    by (simp_all add: state_ok_def)
  moreover have "op_id row \<in> drawn_ids env (ts_drawn st')" by (simp add: submits(4,5) drawn_ids_def)
  moreover have "op_id row \<notin> set (concat (map flight_send ks))" using new assms(3) by (auto simp: state_ok_def flights_ok_def)
  moreover have "r = row" if "r \<in> set (ts_operations st')" "op_id r = op_id row" for r
    using that new assms(3) submits(3) by (auto simp: state_ok_def rows_ok_def)
  ultimately show ?thesis using submits(1,7,8) by (auto simp: state_ok_def flights_ok_def awaited_def)
qed

lemma handler_start_state_ok:
  assumes "handler_start env now ctx request st = (h, st')" "inj (te_opId env)" "state_ok env st ks"
  shows "state_ok env st' (awaited h @ ks)"
  using handler_start_rows [OF assms(1)]
proof (elim disjE exE conjE)
  assume "ts_operations st' = ts_operations st" "ts_drawn st' = ts_drawn st" "quiet_await st h"
  then show ?thesis using assms(3) quiet_await_ok [of env st ks h] by (simp add: state_ok_def ok_cong [of st' st])
next
  fix a plan assume "send_submit env ctx plan None None st = (h, st')"
  then show ?thesis using assms(2,3) by (rule send_submit_state_ok)
qed

lemma handler_resume_state_ok:
  assumes "handler_resume env now ctx k answer st = (h, st')" "inj (te_opId env)" "state_ok env st (k # ks)"
  shows "state_ok env st' (awaited h @ ks)"
proof -
  have ok: "rows_ok env st" "restores_ok env st" "flights_ok env st ks" "set (flight_send k) \<inter> set (concat (map flight_send ks)) = {}"
    using assms(3) by (auto simp: state_ok_def flights_ok_def)
  have del: "deletion r" if "oid \<in> set (flight_restore k)" "r \<in> set (ts_operations st)" "op_id r = oid" for oid r
    using assms(3) that by (auto simp: state_ok_def flights_ok_def)
  have send: "op_kind r = OpSend" if "r \<in> set (ts_operations st)" "op_id r \<in> set (flight_send k)" for r
    using assms(3) that by (auto simp: state_ok_def flights_ok_def)
  show ?thesis
  proof (cases rule: handler_resume_rows [OF assms(1)])
    case 1
    note changes = this
    have "op_kind r \<noteq> OpRestore" if "added_by k r" for r
      using that by (auto simp: added_by_def deletion_def split: flight.splits)
    then have "rows_ok env st'" "restores_ok env st'" "flights_ok env st' ks"
      using rows_ok_age [OF changes(1) assms(2) ok(1)] restores_ok_age [OF changes(1) assms(2) ok(2)]
        flights_ok_age [OF changes(1) assms(2) ok(3,4)] send by auto
    then show ?thesis using quiet_await_ok [OF _ _ changes(2)] by (simp add: state_ok_def)
  next
    case (2 plan original)
    note submits = this
    have "state_ok env st ks" using ok by (simp add: state_ok_def)
    from send_submit_state_ok [OF submits(3) assms(2) this] show ?thesis .
  next
    case (3 acct op i ids results ref r st1)
    note restores = this
    have age: "rows_age env {} (restoration_of (op_id op)) st st1"
      by (rule restore_recorded_age [OF restores(3)]) (use del restores(1) in auto)
    have "rows_ok env st1" "flights_ok env st1 ks"
      using rows_ok_age [OF age assms(2) ok(1)] flights_ok_age [OF age assms(2) ok(3)] by simp_all
    moreover have "restores_ok env st1"
      by (rule restore_recorded_ok [OF restores(3) assms(2) ok(1,2)]) (use del restores(1) in auto)
    ultimately have "state_ok env st' ks" using ok_cong [OF restores(4,5)] by (simp add: state_ok_def)
    then show ?thesis using quiet_await_ok [OF _ _ restores(6)] by (auto simp: state_ok_def)
  qed
qed

end
