(* ===== verification/McpExample.thy ===== *)
theory McpExample
  imports McpLifecycle
begin

text \<open>
  One run of the mail agent from a blank database, from the creation of a connection to the tokens of a
  client.  Digests are the texts themselves and passwords their own hashes.
\<close>

definition demo_env :: mcp_env where
  "demo_env = \<lparr>me_sha256Hex = (\<lambda>s. s), me_pkceChallenge = (\<lambda>s. s), me_verifySecret = (=), me_hashSecret = (\<lambda>s. s),
     me_vaultKeyId = Some ''k'', me_seal = (\<lambda>_ _ _. ''s''), me_url = (\<lambda>_. None), me_requireHttps = False\<rparr>"

definition demo_settings :: mcp_settings where
  "demo_settings = (defaultMcpSettings (Some ''h'') ''m'')\<lparr>ms_enabled := True\<rparr>"

definition demo_cid :: string where "demo_cid = CHR ''c'' # replicate 26 (CHR ''0'')"
definition demo_scopes :: "mcp_scope list" where "demo_scopes = [MailRead, MailSend, MailDelete]"
definition demo_challenge :: string where "demo_challenge = replicate 43 (CHR ''a'')"

lemma demo_texts [simp]: "CONNECTION_ID_PATTERN demo_cid" "pkce_pattern demo_challenge" "length demo_cid = 27"
  by (simp_all add: demo_cid_def demo_challenge_def CONNECTION_ID_PATTERN_def pkce_pattern_def id_char_def unreserved_char_def
      list_all_length less_eq_char_def)

lemma demo_cid_long [simp]:
  "demo_cid \<noteq> [c]" "[c] \<noteq> demo_cid" "demo_cid \<noteq> [c, d]" "[c, d] \<noteq> demo_cid"
  by (rule notI, drule arg_cong [of _ _ length], simp)+

definition demo_binding :: binding_row where
  "demo_binding = \<lparr>bi_id = ''B'', bi_mailbox = ''m'', bi_fingerprint = ''f'', bi_state = BActive, bi_stateReason = None,
     bi_createdAt = 0, bi_updatedAt = 0, bi_lastVerifiedAt = None, bi_lastError = None, bi_revokedAt = None\<rparr>"

definition demo_connection :: connection_row where
  "demo_connection = \<lparr>cn_id = demo_cid, cn_bindingId = ''B'', cn_mailbox = ''m'', cn_label = ''l'', cn_scopes = demo_scopes,
     cn_senderIdentities = [], cn_state = CEnabled, cn_stateReason = None, cn_createdBy = ''postmaster:a'', cn_createdAt = 0,
     cn_updatedAt = 0, cn_expiresAt = None, cn_revokedAt = None, cn_lastAuthorizedAt = None, cn_lastUsedAt = None\<rparr>"

definition demo_ctx :: mcp_auth_context where
  "demo_ctx = \<lparr>mc_connectionId = demo_cid, mc_bindingId = ''B'', mc_mailbox = ''m'', mc_grantId = ''G'', mc_clientId = ''C'',
     mc_scopes = demo_scopes, mc_senderIdentities = []\<rparr>"

definition demo_client :: client_row where
  "demo_client = \<lparr>cl_clientId = ''C'', cl_kind = Dcr, cl_clientName = None, cl_redirectUris = [''r''],
     cl_grantTypes = [''authorization_code''], cl_tokenEndpointAuthMethod = AuthNone, cl_clientSecretHash = None,
     cl_metadataExpiresAt = None, cl_createdAt = 0\<rparr>"

definition demo_query :: "string \<Rightarrow> query_param" where
  "demo_query name =
     (if name = ''response_type'' then ParamOnce ''code''
      else if name = ''code_challenge'' then ParamOnce demo_challenge
      else if name = ''code_challenge_method'' then ParamOnce ''S256''
      else ParamAbsent)"

definition demo_form :: form where
  "demo_form name =
     (if name = ''txn'' then Some ''t'' else if name = ''csrf'' then Some ''x'' else if name = ''username'' then Some ''u''
      else if name = ''password'' then Some ''P'' else if name = ''decision'' then Some ''approve'' else None)"

definition demo_request :: request_row where
  "demo_request = \<lparr>rq_id = ''t'', rq_csrfTokenHash = ''x'', rq_clientId = ''C'', rq_redirectUri = ''r'', rq_state = None,
     rq_codeChallenge = demo_challenge, rq_requestedScopes = None, rq_resource = None, rq_connectionId = None,
     rq_enrollmentId = None, rq_authenticatedAt = None, rq_createdAt = 0, rq_expiresAt = 600000, rq_completedAt = None\<rparr>"

definition demo_enrollment :: enrollment_row where
  "demo_enrollment = fresh_enrollment ''E'' demo_cid ''u'' ''P'' 86400000 0"

definition demo_verdict :: verify_result where
  "demo_verdict = \<lparr>vr_imapOk = True, vr_imapAuthFailed = False, vr_imapMessage = [], vr_smtpOk = True,
     vr_smtpAuthFailed = False, vr_smtpMessage = []\<rparr>"

definition demo_fresh :: fresh_tokens where
  "demo_fresh = \<lparr>ft_grantId = ''G'', ft_accessToken = ''at'', ft_refreshToken = ''rt'', ft_refreshId = ''R''\<rparr>"

definition demo_exchange :: exchange_input where
  "demo_exchange = \<lparr>xi_code = Some ''cd'', xi_redirectUri = Some ''r'', xi_codeVerifier = Some demo_challenge,
     xi_resource = None, xi_ip = None\<rparr>"

lemmas demo_defs = demo_scopes_def demo_env_def demo_settings_def defaultMcpSettings_def demo_binding_def demo_connection_def
  demo_client_def demo_request_def demo_enrollment_def demo_verdict_def demo_fresh_def demo_exchange_def fresh_enrollment_def

definition demo_refresh :: refresh_input where
  "demo_refresh = \<lparr>ri_refreshToken = Some ''rt'', ri_scope = None, ri_resource = None, ri_ip = None\<rparr>"

definition demo_events :: "mcp_event list" where
  "demo_events =
     [CreateBegun ''B'' ''m'' ''f'' ''a'',
      CredentialVerified demo_binding ''p'' ''a'' demo_verdict,
      CreateEnded demo_settings demo_cid demo_binding ''l'' demo_scopes None ''a'',
      EnrollmentIssued demo_settings demo_connection None ''E'' ''u'' ''P'' ''a'' ''i'' True,
      AuthorizationStarted ''h'' demo_query (Inr demo_client) ''t'' ''x'',
      LoginLoaded demo_form (Some ''t''),
      LoginLookedUp demo_form demo_request (Inr demo_client) None,
      LoginFinished demo_form demo_request None (Some demo_enrollment) None,
      DecisionLoaded demo_form (Some ''t''),
      DecisionFinished ''h'' demo_form (demo_request\<lparr>rq_connectionId := Some demo_cid, rq_enrollmentId := Some ''E'',
        rq_authenticatedAt := Some 0\<rparr>) (Inr demo_client) ''A'' ''cd'' None,
      CodeExchanged demo_fresh demo_client demo_exchange,
      TokenRefreshed (demo_fresh\<lparr>ft_accessToken := ''at2'', ft_refreshToken := ''rt2'', ft_refreshId := ''R2''\<rparr>) demo_client demo_refresh]"

definition demo_start :: mcp_machine where "demo_start = blank_machine demo_settings 0"

lemmas demo_eval = mcp_next_def blank_machine_def blank_db_def create_begin_def resolveBinding_def findLiveByMailbox_def
  createBinding_def findBinding_def countNonRevokedForBinding_def provisionCredential_def putCredential_def getCredential_def
  markVerified_def update_where_def mcp_record_def create_finish_def credentialHealthOf_def credentialHealth_def
  createConnection_def findConnection_def issueEnrollment_def issueEnrollmentRow_def revokeEnrollments_def Let_def
  postmaster_def start_finish_def selectRedirectUri_def start_problem_def param_def demo_query_def parseScopeParam_def
  or_else_text_def createAuthorizationRequest_def AUTHORIZATION_REQUEST_TTL_SECONDS_def loaded_now_def
  mcp_login_begin_def issuer_def loadTransaction_def demo_form_def same_text_def findAuthorizationRequest_def
  mcp_login_lookup_def client_unknown_def ipThrottled_def login_username_def trim_def trim_by_def js_space_def
  findEnrollmentByUsername_def mcp_login_finish_def login_password_def normalizeSetupPassword_def to_upper_ascii_def
  is_ascii_lower_def enrollmentProblem_def statusOf_def countActiveGrants_def grantedScopes_def MCP_SCOPES_def
  mcp_recordAttempt_def markRequestAuthenticated_def decide_begin_def decide_finish_def findEnrollmentById_def approve_def
  issueCode_def resourceFor_def AUTHORIZATION_CODE_TTL_SECONDS_def createCode_def reserveEnrollment_def reservable_def
  completeRequest_def completable_def redirectWith_def to_lower_def
  to_lower_char_def is_ascii_upper_def exchangeCode_def findCodeByHash_def code_problem_def verifyPkceS256_def redeem_and_grant_def redeemCode_def
  redeemable_def consumeEnrollment_def consumable_def assertConnectionUsable_def requireBinding_def createGrant_def
  touchAuthorized_def attachGrantToCode_def mintPair_def createAccessToken_def createRefreshToken_def client_actor_def
  refresh_def demo_refresh_def findRefreshTokenByHash_def findGrant_def refreshed_scopes_def grant_resource_current_def rotate_token_def
  markRefreshTokenUsed_def rotatable_def touchGrant_def succeeded_def exchanged_enrollment_def refreshed_grant_def pair_digests_def


text \<open>A property of every state that the events of a run happen in.\<close>

fun run_all :: "(mcp_machine \<Rightarrow> bool) \<Rightarrow> mcp_env \<Rightarrow> mcp_machine \<Rightarrow> mcp_event list \<Rightarrow> bool" where
  "run_all P env s [] = True"
| "run_all P env s (e # es) = (P s \<and> run_all P env (mcp_next env s e) es)"

fun run_ok :: "mcp_env \<Rightarrow> mcp_machine \<Rightarrow> mcp_event list \<Rightarrow> bool" where
  "run_ok env s [] = True"
| "run_ok env s (e # es) = (may_happen env s e \<and> run_ok env (mcp_next env s e) es)"

lemma run_path: "run_ok env s es \<Longrightarrow> path (mcp_step env) s es (foldl (mcp_next env) s es)"
  by (induction es arbitrary: s) (auto intro: happens)

lemma run_prefix: "run_ok env s es \<Longrightarrow> run_ok env s (take n es)"
  by (induction env s es arbitrary: n rule: run_ok.induct) (auto simp: take_Cons split: nat.split)

lemma digests_fresh_simps [simp]:
  "digests_fresh old {}"
  "digests_fresh old {(h, x)} \<longleftrightarrow> h \<notin> fst ` old"
  "digests_fresh old {(h, x), (k, y)} \<longleftrightarrow> (h = k \<longrightarrow> x = y) \<and> h \<notin> fst ` old \<and> k \<notin> fst ` old"
  by (auto simp: digests_fresh_def single_valued_def)

lemma demo_run: "run_ok demo_env demo_start demo_events"
  by (simp add: demo_events_def demo_start_def demo_eval demo_defs may_happen_def)

definition default_limits :: "mcp_machine \<Rightarrow> bool" where
  "default_limits s = (md_settings (mm_db s) = demo_settings)"

lemma demo_limits: "run_all default_limits demo_env demo_start demo_events"
  by (simp add: demo_events_def demo_start_def demo_eval demo_defs default_limits_def)

definition demo_state :: "nat \<Rightarrow> mcp_machine" where
  "demo_state n = foldl (mcp_next demo_env) demo_start (take n demo_events)"

lemma demo_path: "path (mcp_step demo_env) demo_start (take n demo_events) (demo_state n)"
  unfolding demo_state_def by (intro run_path run_prefix demo_run)

lemma demo_initial: "mcp_initial demo_start"
  by (auto simp: mcp_initial_def demo_start_def)

lemma demo_reachable: "reachable mcp_initial (mcp_step demo_env) (demo_state n)"
  by (rule mcp.reachable_path [OF demo_path]) (blast intro: demo_initial)

text \<open>The database at the end of the run: a grant, two pairs of tokens, the first refresh token used.\<close>

definition demo_db :: mcp_db where
  "demo_db =
     \<lparr>md_settings = \<lparr>ms_enabled = True, ms_publicBaseUrl = Some ''h'',
       ms_mail = \<lparr>mt_imapHost = ''m'', mt_imapPort = 993, mt_imapSecurity = TransportTls, mt_smtpHost = ''m'',
         mt_smtpPort = 465, mt_smtpSecurity = TransportTls, mt_tlsServername = None, mt_tlsVerify = True\<rparr>,
       ms_setupCredentialTtlHours = 24,
       ms_connectionExpiryDays = None, ms_maxConnectionsPerMailbox = 5, ms_accessTokenTtlMinutes = 15,
       ms_refreshTokenTtlDays = 30, ms_toolCallsPerMinute = 60, ms_sendsPerHour = 20, ms_sendsPerDay = 100,
       ms_maxRecipientsPerMessage = 20, ms_maxAttachmentBytes = 10485760, ms_saveSentCopies = True,
       ms_dynamicRegistration = True, ms_metadataDocuments = True, ms_allowedMetadataHosts = []\<rparr>,
     md_bindings = [\<lparr>bi_id = ''B'', bi_mailbox = ''m'', bi_fingerprint = ''f'', bi_state = BActive,
       bi_stateReason = None, bi_createdAt = 0, bi_updatedAt = 0, bi_lastVerifiedAt = Some 0, bi_lastError = None,
       bi_revokedAt = None\<rparr>],
     md_credentials = [\<lparr>cd_bindingId = ''B'', cd_keyId = ''k'', cd_sealed = ''s'', cd_version = Suc 0,
       cd_createdAt = 0\<rparr>],
     md_connections = [\<lparr>cn_id = demo_cid, cn_bindingId = ''B'', cn_mailbox = ''m'', cn_label = ''l'', cn_scopes
       = demo_scopes, cn_senderIdentities = [], cn_state = CEnabled, cn_stateReason = None, cn_createdBy =
       ''postmaster:a'', cn_createdAt = 0, cn_updatedAt = 0, cn_expiresAt = None, cn_revokedAt = None,
       cn_lastAuthorizedAt = Some 0, cn_lastUsedAt = None\<rparr>],
     md_enrollments = [\<lparr>en_id = ''E'', en_connectionId = demo_cid, en_username = ''u'', en_passwordHash =
       ''P'', en_issuedAt = 0, en_expiresAt = 86400000, en_consumedAt = Some 0, en_reservedCodeId = Some ''A'',
       en_reservedUntil = None, en_failedAttempts = 0, en_lockedAt = None, en_revokedAt = None\<rparr>],
     md_clients = [],
     md_requests = [\<lparr>rq_id = ''t'', rq_csrfTokenHash = ''x'', rq_clientId = ''C'', rq_redirectUri = ''r'',
       rq_state = None, rq_codeChallenge = demo_challenge, rq_requestedScopes = None, rq_resource = None,
       rq_connectionId = Some demo_cid, rq_enrollmentId = Some ''E'', rq_authenticatedAt = Some 0, rq_createdAt = 0,
       rq_expiresAt = 600000, rq_completedAt = Some 0\<rparr>],
     md_codes = [\<lparr>ac_id = ''A'', ac_codeHash = ''cd'', ac_requestId = ''t'', ac_clientId = ''C'',
       ac_redirectUri = ''r'', ac_codeChallenge = demo_challenge, ac_scopes = demo_scopes, ac_resource = ''h/mcp/'' @
       demo_cid, ac_connectionId = demo_cid, ac_enrollmentId = ''E'', ac_createdAt = 0, ac_expiresAt = 60000,
       ac_redeemedAt = Some 0, ac_grantId = Some ''G''\<rparr>],
     md_grants = [\<lparr>gr_id = ''G'', gr_connectionId = demo_cid, gr_clientId = ''C'', gr_clientName = None,
       gr_redirectUri = ''r'', gr_scopes = demo_scopes, gr_resource = ''h/mcp/'' @ demo_cid, gr_createdAt = 0,
       gr_lastUsedAt = Some 0, gr_revokedAt = None, gr_revokedReason = None\<rparr>],
     md_access = [\<lparr>at_tokenHash = ''at'', at_grantId = ''G'', at_connectionId = demo_cid, at_scopes =
       demo_scopes, at_resource = ''h/mcp/'' @ demo_cid, at_createdAt = 0, at_expiresAt = 900000, at_revokedAt =
       None\<rparr>, \<lparr>at_tokenHash = ''at2'', at_grantId = ''G'', at_connectionId = demo_cid, at_scopes =
       demo_scopes, at_resource = ''h/mcp/'' @ demo_cid, at_createdAt = 0, at_expiresAt = 900000, at_revokedAt =
       None\<rparr>],
     md_refresh = [\<lparr>rt_id = ''R'', rt_tokenHash = ''rt'', rt_grantId = ''G'', rt_parentId = None, rt_createdAt
       = 0, rt_expiresAt = 2592000000, rt_usedAt = Some 0, rt_revokedAt = None\<rparr>, \<lparr>rt_id = ''R2'',
       rt_tokenHash = ''rt2'', rt_grantId = ''G'', rt_parentId = Some ''R'', rt_createdAt = 0, rt_expiresAt =
       2592000000, rt_usedAt = None, rt_revokedAt = None\<rparr>],
     md_attempts = [\<lparr>la_ip = ''unknown'', la_username = ''u'', la_success = True, la_attemptedAt = 0\<rparr>],
     md_audit = [\<lparr>ma_occurredAt = 0, ma_event = ''binding.provisioned'', ma_success = True, ma_actor = ''a'',
       ma_connectionId = None, ma_mailbox = Some ''m'', ma_ip = None\<rparr>, \<lparr>ma_occurredAt = 0, ma_event =
       ''connection.created'', ma_success = True, ma_actor = ''postmaster:a'', ma_connectionId = Some demo_cid,
       ma_mailbox = Some ''m'', ma_ip = None\<rparr>, \<lparr>ma_occurredAt = 0, ma_event = ''i'', ma_success = True,
       ma_actor = ''a'', ma_connectionId = Some demo_cid, ma_mailbox = Some ''m'', ma_ip = None\<rparr>,
       \<lparr>ma_occurredAt = 0, ma_event = ''oauth.authorization_granted'', ma_success = True, ma_actor =
       ''enrollment:u'', ma_connectionId = Some demo_cid, ma_mailbox = Some ''m'', ma_ip = None\<rparr>,
       \<lparr>ma_occurredAt = 0, ma_event = ''enrollment.consumed'', ma_success = True, ma_actor = ''client:C'',
       ma_connectionId = Some demo_cid, ma_mailbox = Some ''m'', ma_ip = None\<rparr>, \<lparr>ma_occurredAt = 0,
       ma_event = ''oauth.token_issued'', ma_success = True, ma_actor = ''client:C'', ma_connectionId = Some demo_cid,
       ma_mailbox = Some ''m'', ma_ip = None\<rparr>, \<lparr>ma_occurredAt = 0, ma_event = ''oauth.token_refreshed'',
       ma_success = True, ma_actor = ''client:C'', ma_connectionId = Some demo_cid, ma_mailbox = Some ''m'', ma_ip =
       None\<rparr>]\<rparr>"

lemma demo_end [simp]:
  "mm_db (demo_state 12) = demo_db" "mm_now (demo_state 12) = 0"
  "mm_ids (demo_state 12) = {''R2'', ''G'', ''R'', ''A'', ''t'', ''E'', demo_cid, ''B''}"
  "mm_digests (demo_state 12) =
     {(''at2'', [''G'']), (''rt2'', [''R2'', ''G'']), (''at'', [''G'']), (''rt'', [''R'', ''G'']), (''cd'', [''A''])}"
  "mm_issued (demo_state 12) = [''E'']" "mm_granted (demo_state 12) = [''E'']"
  by (simp_all add: demo_state_def demo_events_def demo_start_def demo_eval demo_defs demo_db_def)

text \<open>Before the exchange.\<close>

lemma demo_unexchanged:
  "mm_now (demo_state 10) = 0" "mm_ids (demo_state 10) = {''A'', ''t'', ''E'', demo_cid, ''B''}"
  "mm_digests (demo_state 10) = {(''cd'', [''A''])}"
  "\<exists>r. fst (exchangeCode demo_env 0 demo_fresh demo_client demo_exchange (mm_db (demo_state 10))) = Inr r"
  by (simp_all add: demo_state_def demo_events_def demo_start_def demo_eval demo_defs)

end
