(* ===== verification/McpProperties.thy ===== *)
theory McpProperties
  imports McpExample
begin

text \<open>
  What the mail agent promises: which requests with a token are served, what ends a token, how often a
  code and a setup password can be spent and what an exchange and a refresh require.
\<close>

section \<open>Requests with a token\<close>

definition accepted :: "bearer_outcome \<Rightarrow> bool" where
  "accepted r = (case r of BearerOk _ \<Rightarrow> True | BearerRefused _ _ _ \<Rightarrow> False)"

lemma findConnection_id: "findConnection cid db = Some c \<Longrightarrow> cn_id c = cid \<and> c \<in> set (md_connections db)"
  by (auto simp: findConnection_def find_Some_iff)

lemma statusOf_active:
  "fst (statusOf env now connection binding db) = StActive \<Longrightarrow>
   cn_state connection = CEnabled \<and> bi_state binding \<noteq> BRevoked \<and> credentialHealthOf env binding db = Healthy \<and>
   (\<forall>t. cn_expiresAt connection = Some t \<longrightarrow> now < t)"
  by (cases "cn_state connection") (auto simp: statusOf_def Let_def split: if_splits option.splits)

lemma verify_token_accepted:
  assumes "fst (verify_token env now base connection token ip db) = BearerOk ctx"
  shows "\<exists>grant binding. findGrant (at_grantId token) db = Some grant \<and> findBinding (cn_bindingId connection) db = Some binding \<and>
    at_connectionId token = cn_id connection \<and> at_resource token = resourceFor base (cn_id connection) \<and>
    gr_revokedAt grant = None \<and> gr_connectionId grant = cn_id connection \<and>
    fst (statusOf env now connection binding db) = StActive \<and>
    mc_scopes ctx = filter (\<lambda>s. s \<in> set (cn_scopes connection) \<and> s \<in> set (availableCapabilities db)) (at_scopes token) \<and>
    mc_scopes ctx \<noteq> [] \<and> mc_connectionId ctx = cn_id connection \<and> mc_mailbox ctx = bi_mailbox binding \<and>
    mc_grantId ctx = gr_id grant"
  using assms
  by (auto simp: verify_token_def challenge401_def Let_def split: if_splits option.splits prod.splits)

lemma bearer_accepted:
  assumes "fst (bearer_verify env now cid authorization ip db) = BearerOk ctx"
  shows "\<exists>base header presented connection token. ms_enabled (md_settings db) \<and>
    ms_publicBaseUrl (md_settings db) = Some base \<and> authorization = Some header \<and> bearer_token header = Some presented \<and>
    findConnection cid db = Some connection \<and> cn_state connection \<noteq> CRevoked \<and>
    findAccessTokenByHash (me_sha256Hex env presented) db = Some token \<and>
    at_revokedAt token = None \<and> now < at_expiresAt token \<and>
    fst (verify_token env now base connection token ip db) = BearerOk ctx"
  using assms
  by (auto simp: bearer_verify_def challenge401_def Let_def split: if_splits option.splits bool.splits)

text \<open>
  C3 A request is served only with a token that was issued for this very endpoint, is neither revoked nor
  expired and whose grant is live, while the connection is enabled and unexpired and its mailbox
  credential healthy.  The mailbox it may touch comes from the connection, and its permissions are among
  those of the token, of the connection and of the server at this moment.
\<close>

theorem bearer_sound:
  assumes "fst (bearer_verify env now cid authorization ip db) = BearerOk ctx"
  shows "\<exists>base header presented connection token grant binding.
    ms_enabled (md_settings db) \<and> ms_publicBaseUrl (md_settings db) = Some base \<and>
    authorization = Some header \<and> bearer_token header = Some presented \<and>
    findAccessTokenByHash (me_sha256Hex env presented) db = Some token \<and>
    at_revokedAt token = None \<and> now < at_expiresAt token \<and>
    at_connectionId token = cid \<and> at_resource token = resourceFor base cid \<and>
    findGrant (at_grantId token) db = Some grant \<and> gr_revokedAt grant = None \<and> gr_connectionId grant = cid \<and>
    findConnection cid db = Some connection \<and> cn_state connection = CEnabled \<and>
    (\<forall>t. cn_expiresAt connection = Some t \<longrightarrow> now < t) \<and>
    findBinding (cn_bindingId connection) db = Some binding \<and> credentialHealthOf env binding db = Healthy \<and>
    mc_connectionId ctx = cid \<and> mc_grantId ctx = at_grantId token \<and> mc_mailbox ctx = bi_mailbox binding \<and>
    mc_scopes ctx \<noteq> [] \<and>
    set (mc_scopes ctx) = set (at_scopes token) \<inter> set (cn_scopes connection) \<inter> set (availableCapabilities db)"
proof -
  obtain base header presented connection token where b: "ms_enabled (md_settings db)"
    "ms_publicBaseUrl (md_settings db) = Some base" "authorization = Some header" "bearer_token header = Some presented"
    "findConnection cid db = Some connection" "findAccessTokenByHash (me_sha256Hex env presented) db = Some token"
    "at_revokedAt token = None" "now < at_expiresAt token"
    "fst (verify_token env now base connection token ip db) = BearerOk ctx"
    using bearer_accepted [OF assms] by blast
  have "cn_id connection = cid" using findConnection_id [OF b(5)] by simp
  moreover obtain grant binding where "findGrant (at_grantId token) db = Some grant"
    "findBinding (cn_bindingId connection) db = Some binding" "at_connectionId token = cn_id connection"
    "at_resource token = resourceFor base (cn_id connection)" "gr_revokedAt grant = None"
    "gr_connectionId grant = cn_id connection" "fst (statusOf env now connection binding db) = StActive"
    "mc_scopes ctx = filter (\<lambda>s. s \<in> set (cn_scopes connection) \<and> s \<in> set (availableCapabilities db)) (at_scopes token)"
    "mc_scopes ctx \<noteq> []" "mc_connectionId ctx = cn_id connection" "mc_mailbox ctx = bi_mailbox binding"
    "mc_grantId ctx = gr_id grant"
    using verify_token_accepted [OF b(9)] by blast
  ultimately show ?thesis
    using b statusOf_active findGrant_id by (intro exI conjI) (assumption | fastforce | simp | blast)+
qed

lemma demo_accepts:
  "fst (bearer_verify demo_env 0 demo_cid (Some ''Bearer at'') None demo_db) = BearerOk demo_ctx"
  by (simp add: demo_ctx_def demo_scopes_def bearer_verify_def demo_db_def bearer_token_def trim_def trim_by_def js_space_def starts_with_def bearer_char_def
      unreserved_char_def less_eq_char_def findConnection_def findAccessTokenByHash_def demo_env_def verify_token_def Let_def
      resourceFor_def findGrant_def findBinding_def statusOf_def credentialHealthOf_def credentialHealth_def getCredential_def
      countActiveGrants_def availableCapabilities_def MCP_SCOPES_def)

theorem bearer_sound_witness:
  "\<exists>ctx token. fst (bearer_verify demo_env 0 demo_cid (Some ''Bearer at'') None demo_db) = BearerOk ctx \<and>
     mc_mailbox ctx = ''m'' \<and> at_connectionId token = demo_cid \<and> token \<in> set (md_access demo_db)"
proof -
  from bearer_sound [OF demo_accepts] obtain h token
    where "findAccessTokenByHash h demo_db = Some token" "at_connectionId token = demo_cid" by blast
  then show ?thesis using demo_accepts by (auto simp: findAccessTokenByHash_def find_Some_iff demo_ctx_def)
qed

section \<open>What ends a token\<close>

lemma digest_unique: "rows_known s \<Longrightarrow> (h, x) \<in> mm_digests s \<Longrightarrow> (h, y) \<in> mm_digests s \<Longrightarrow> x = y"
  by (auto simp: rows_known_def single_valued_def)

lemma findAccessToken_row: "findAccessTokenByHash h db = Some t \<Longrightarrow> at_tokenHash t = h \<and> t \<in> set (md_access db)"
  by (auto simp: findAccessTokenByHash_def find_Some_iff)

text \<open>A token of a dead grant is refused.\<close>

lemma dead_grant_refuses:
  assumes "rows_known s" "digest_of s (me_sha256Hex env presented, [gid])" "grant_dead s gid" "bearer_token header = Some presented"
  shows "\<not> accepted (fst (bearer_verify env now cid (Some header) ip (mm_db s)))"
proof
  assume "accepted (fst (bearer_verify env now cid (Some header) ip (mm_db s)))"
  then obtain ctx where "fst (bearer_verify env now cid (Some header) ip (mm_db s)) = BearerOk ctx"
    by (auto simp: accepted_def split: bearer_outcome.splits)
  from bearer_accepted [OF this] assms(4) obtain base connection token
    where t: "findAccessTokenByHash (me_sha256Hex env presented) (mm_db s) = Some token"
      and "fst (verify_token env now base connection token ip (mm_db s)) = BearerOk ctx" by auto
  from verify_token_accepted [OF this(2)] obtain grant
    where g: "findGrant (at_grantId token) (mm_db s) = Some grant" "gr_revokedAt grant = None" by blast
  have "(me_sha256Hex env presented, [at_grantId token]) \<in> mm_digests s"
    using findAccessToken_row [OF t] assms(1) by (auto simp: rows_known_def)
  then have "at_grantId token = gid" using assms(1,2) digest_unique by (auto simp: digest_of_def)
  then show False using findGrant_id [OF g(1)] g(2) assms(3) by (auto simp: grant_dead_def)
qed

text \<open>Revoking a grant leaves no live row of it.\<close>

lemma revokeGrant_kills: "\<forall>g \<in> set (md_grants (snd (revokeGrant gid r now db))). gr_id g = gid \<longrightarrow> gr_revokedAt g \<noteq> None"
  by (simp add: revokeGrant_def update_where_def grant_live_def ball_Un)

lemma mcp_record_tables [simp]:
  "md_grants (mcp_record now ev b a c m ip db) = md_grants db"
  "md_connections (mcp_record now ev b a c m ip db) = md_connections db"
  "md_codes (mcp_record now ev b a c m ip db) = md_codes db"
  "md_access (mcp_record now ev b a c m ip db) = md_access db"
  "md_refresh (mcp_record now ev b a c m ip db) = md_refresh db"
  by (simp_all add: mcp_record_def)

lemma step_kills:
  assumes "mcp_step env s e s'" "mcp_inv s" "findGrant gid (mm_db s) = Some g"
    and "\<forall>g \<in> set (md_grants (apply_event env (mm_now s) e (mm_db s))). gr_id g = gid \<longrightarrow> gr_revokedAt g \<noteq> None"
  shows "grant_dead s' gid"
  using assms(2,4) findGrant_id [OF assms(3)] step_effects(2,7) [OF assms(1)]
  by (auto simp: grant_dead_def mcp_inv_def rows_known_def)

lemma after_death:
  assumes "reachable mcp_initial (mcp_step env) s" "mcp_step env s e s1" "path (mcp_step env) s1 es s2"
    "findAccessTokenByHash (me_sha256Hex env presented) (mm_db s) = Some token" "bearer_token header = Some presented"
    "findGrant (at_grantId token) (mm_db s) = Some g"
    "\<forall>g \<in> set (md_grants (apply_event env (mm_now s) e (mm_db s))). gr_id g = at_grantId token \<longrightarrow> gr_revokedAt g \<noteq> None"
  shows "\<not> accepted (fst (bearer_verify env now cid (Some header) ip (mm_db s2)))"
proof -
  have inv: "mcp_inv s" using assms(1) by (rule mcp.reachable_inv)
  then have inv1: "mcp_inv s1" using assms(2) by (rule mcp_inv_step)
  have "digest_of s (me_sha256Hex env presented, [at_grantId token])"
    using inv findAccessToken_row [OF assms(4)] by (auto simp: mcp_inv_def rows_known_def digest_of_def)
  then have "digest_of s1 (me_sha256Hex env presented, [at_grantId token])" using fact_steps(4) inv assms(2) by blast
  then have "digest_of s2 (me_sha256Hex env presented, [at_grantId token])"
    by (rule digests.path_fact [OF assms(3) inv1])
  moreover have "grant_dead s2 (at_grantId token)"
    by (rule dead_grants.path_fact [OF assms(3) inv1 step_kills [OF assms(2) inv assms(6,7)]])
  moreover have "rows_known s2" using mcp.path_inv [OF assms(3) inv1] by (simp add: mcp_inv_def)
  ultimately show ?thesis using assms(5) by (intro dead_grant_refuses)
qed

text \<open>
  C4 When the postmaster has revoked a grant, none of its access tokens is ever accepted again, at any
  endpoint, whatever happens in between.
\<close>

theorem revoked_grant_evicts:
  assumes "reachable mcp_initial (mcp_step env) s"
    and "findAccessTokenByHash (me_sha256Hex env presented) (mm_db s) = Some token" "bearer_token header = Some presented"
    and "mcp_step env s (GrantRevoked cid (at_grantId token) actor) s1"
    and "fst (connection_revokeGrant (mm_now s) cid (at_grantId token) actor (mm_db s)) = Inr ()"
    and "path (mcp_step env) s1 es s2"
  shows "\<not> accepted (fst (bearer_verify env now endpoint (Some header) ip (mm_db s2)))"
proof -
  obtain g where g: "findGrant (at_grantId token) (mm_db s) = Some g"
    using assms(5) by (auto simp: connection_revokeGrant_def split: sum.splits option.splits)
  have "\<forall>g \<in> set (md_grants (snd (connection_revokeGrant (mm_now s) cid (at_grantId token) actor (mm_db s)))).
      gr_id g = at_grantId token \<longrightarrow> gr_revokedAt g \<noteq> None"
    using assms(5) revokeGrant_kills [of "at_grantId token"] findGrant_id [OF g]
    by (auto simp: connection_revokeGrant_def Let_def g case_prod_unfold split: sum.splits if_splits)
  then show ?thesis using after_death [OF assms(1,4,6,2,3) g] by simp
qed

lemma demo_token:
  "findAccessTokenByHash (me_sha256Hex demo_env ''at'') (mm_db (demo_state 12)) = Some (md_access demo_db ! 0)"
  "at_grantId (md_access demo_db ! 0) = ''G''" "bearer_token ''Bearer at'' = Some ''at''"
  "findGrant ''G'' (mm_db (demo_state 12)) = Some (md_grants demo_db ! 0)"
  "findConnection demo_cid (mm_db (demo_state 12)) = Some (md_connections demo_db ! 0)"
  "md_connections demo_db ! 0 \<in> set (md_connections (mm_db (demo_state 12)))"
  "cn_id (md_connections demo_db ! 0) = demo_cid"
  by (simp_all add: demo_db_def findAccessTokenByHash_def demo_env_def findGrant_def findConnection_def bearer_token_def trim_def
      trim_by_def js_space_def starts_with_def bearer_char_def unreserved_char_def less_eq_char_def)

lemma demo_step:
  "continues (demo_state 12) e \<Longrightarrow> event_ids e = {} \<Longrightarrow> event_digests demo_env demo_db e = {} \<Longrightarrow>
   mcp_step demo_env (demo_state 12) e (mcp_next demo_env (demo_state 12) e)"
  by (rule happens) (simp add: may_happen_def)

theorem revoked_grant_evicts_witness:
  "\<not> accepted (fst (bearer_verify demo_env 1 demo_cid (Some ''Bearer at'') None
     (mm_db (mcp_next demo_env (demo_state 12) (GrantRevoked demo_cid ''G'' ''a'')))))"
  by (rule revoked_grant_evicts [OF demo_reachable demo_token(1,3), unfolded demo_token(2), OF demo_step _ path.here])
    (simp_all add: connection_revokeGrant_def requireConnection_def findConnection_def findGrant_def Let_def case_prod_unfold
      demo_db_def)





section \<open>What ends a connection\<close>

definition connection_ended :: "string \<Rightarrow> mcp_db \<Rightarrow> bool" where
  "connection_ended cid db = (\<forall>c \<in> set (md_connections db). cn_id c = cid \<longrightarrow> cn_state c = CRevoked)"

lemma dead_connection_refuses:
  "connection_ended cid db \<Longrightarrow> \<not> accepted (fst (bearer_verify env now cid authorization ip db))"
  using bearer_accepted findConnection_id
  by (fastforce simp: connection_ended_def accepted_def split: bearer_outcome.splits)

lemma after_connection_death:
  assumes "reachable mcp_initial (mcp_step env) s" "mcp_step env s e s1" "path (mcp_step env) s1 es s2"
    "c \<in> set (md_connections (mm_db s))" "connection_ended (cn_id c) (apply_event env (mm_now s) e (mm_db s))"
  shows "\<not> accepted (fst (bearer_verify env now (cn_id c) authorization ip (mm_db s2)))"
proof -
  have inv: "mcp_inv s" using assms(1) by (rule mcp.reachable_inv)
  then have inv1: "mcp_inv s1" using assms(2) by (rule mcp_inv_step)
  have "connection_dead s1 (cn_id c)"
    using inv assms(4,5) step_effects(2,7) [OF assms(2)]
    by (auto simp: connection_dead_def connection_ended_def mcp_inv_def rows_known_def)
  then have "connection_dead s2 (cn_id c)" by (rule dead_connections.path_fact [OF assms(3) inv1])
  then show ?thesis by (intro dead_connection_refuses) (simp add: connection_dead_def connection_ended_def)
qed

lemma setConnectionState_revokes: "connection_ended cid (setConnectionState cid CRevoked r now db)"
  by (simp add: connection_ended_def setConnectionState_def update_where_def ball_Un)

lemma setConnectionState_keeps_ended: "connection_ended x db \<Longrightarrow> connection_ended x (setConnectionState cid st r now db)"
  by (auto simp: connection_ended_def setConnectionState_def update_where_def)

lemma connection_ended_cong: "md_connections db' = md_connections db \<Longrightarrow> connection_ended cid db' = connection_ended cid db"
  by (simp add: connection_ended_def)

lemma revokeConnectionInternal_connections:
  "md_connections (revokeConnectionInternal now c actor r db) =
   md_connections (setConnectionState (cn_id c) CRevoked (Some r) now db)"
proof -
  have "md_connections (snd p) = md_connections db \<Longrightarrow>
      md_connections (snd (foldl (\<lambda>(count, db) g. if gr_revokedAt g = None then
           (let (changed, db) = revokeGrant (gr_id g) r now db in (if changed then count + 1 else count, db))
         else (count, db)) p gs)) = md_connections db" for p :: "nat \<times> mcp_db" and gs :: "grant_row list"
    by (induction gs arbitrary: p) (auto simp: case_prod_unfold Let_def revokeGrant_def)
  then have "md_connections (snd (revokeAllGrantsForConnection (cn_id c) r now db)) = md_connections db"
    unfolding revokeAllGrantsForConnection_def by simp
  then show ?thesis
    by (simp add: revokeConnectionInternal_def Let_def setConnectionState_def revokeEnrollments_def)
qed

lemma revokeConnectionInternal_ends:
  "connection_ended (cn_id c) (revokeConnectionInternal now c actor r db)"
  "connection_ended x db \<Longrightarrow> connection_ended x (revokeConnectionInternal now c actor r db)"
  using setConnectionState_revokes setConnectionState_keeps_ended
    connection_ended_cong [OF revokeConnectionInternal_connections] by blast+

text \<open>
  C10 A connection that the postmaster revoked or deleted serves no request ever again; its identifier is
  never given to another one.
\<close>

theorem revoked_connection_gone:
  assumes "reachable mcp_initial (mcp_step env) s" "findConnection cid (mm_db s) = Some c" "cn_state c \<noteq> CRevoked"
    and "e = ConnectionRevoked cid reason actor \<or> e = ConnectionDeleted cid actor"
    and "mcp_step env s e s1" "path (mcp_step env) s1 es s2"
  shows "\<not> accepted (fst (bearer_verify env now cid authorization ip (mm_db s2)))"
proof -
  note c = findConnection_id [OF assms(2)]
  have "connection_ended cid (snd (connection_revoke (mm_now s) cid reason actor (mm_db s)))"
    using revokeConnectionInternal_ends(1) [of c] c assms(3)
    by (simp add: connection_revoke_def requireConnection_def assms(2))
  moreover have "connection_ended cid (snd (connection_delete (mm_now s) cid actor (mm_db s)))"
    by (simp add: connection_delete_def requireConnection_def assms(2) Let_def connection_ended_def deleteConnection_def)
  ultimately show ?thesis using after_connection_death [OF assms(1,5,6), of c] c assms(4) by auto
qed

theorem revoked_connection_gone_witness:
  "\<not> accepted (fst (bearer_verify demo_env 1 demo_cid (Some ''Bearer at'') None
     (mm_db (mcp_next demo_env (demo_state 12) (ConnectionDeleted demo_cid ''a'')))))"
  by (rule revoked_connection_gone [OF demo_reachable demo_token(5) _ disjI2 [OF refl] demo_step path.here])
    (simp_all add: demo_db_def)

lemma revokes_all:
  assumes "c \<in> set cs \<and> cn_state c \<noteq> CRevoked \<or> connection_ended (cn_id c) db"
  shows "connection_ended (cn_id c) (foldl (\<lambda>db c. if cn_state c = CRevoked then db
    else revokeConnectionInternal now c actor r db) db cs)"
  using assms
proof (induction cs arbitrary: db)
  case (Cons x cs)
  then show ?case
    using revokeConnectionInternal_ends(1) [of x now actor r db] revokeConnectionInternal_ends(2) [of "cn_id c" db now x actor r]
    by (cases "x = c") (auto simp del: foldl.simps simp: foldl_Cons)
qed auto

text \<open>
  C9 Deleting a mailbox ends every connection to it: none of them ever serves a request again, also when
  a mailbox of the same address is created later.
\<close>

theorem mailbox_deleted_evicts:
  assumes "reachable mcp_initial (mcp_step env) s" "findLiveByMailbox mailbox (mm_db s) = Some b"
    and "c \<in> set (md_connections (mm_db s))" "cn_bindingId c = bi_id b" "cn_state c \<noteq> CRevoked"
    and "mcp_step env s (MailboxChanged mailbox MailboxDeleted actor) s1" "path (mcp_step env) s1 es s2"
  shows "\<not> accepted (fst (bearer_verify env now (cn_id c) authorization ip (mm_db s2)))"
proof -
  have "c \<in> set (listByBinding (bi_id b) (mm_db s)) \<and> cn_state c \<noteq> CRevoked"
    using assms(3-5) by (simp add: listByBinding_def)
  then have "connection_ended (cn_id c) (foldl (\<lambda>db c. if cn_state c = CRevoked then db
      else revokeConnectionInternal (mm_now s) c (postmaster actor) ''The mailbox was deleted.'' db) (mm_db s)
      (listByBinding (bi_id b) (mm_db s)))"
    by (intro revokes_all disjI1)
  moreover have "md_connections (snd (mailboxEvent (mm_now s) mailbox MailboxDeleted actor (mm_db s))) =
      md_connections (foldl (\<lambda>db c. if cn_state c = CRevoked then db
      else revokeConnectionInternal (mm_now s) c (postmaster actor) ''The mailbox was deleted.'' db) (mm_db s)
      (listByBinding (bi_id b) (mm_db s)))"
    by (simp add: mailboxEvent_def assms(2) Let_def setBindingState_def deleteCredential_def)
  ultimately have "connection_ended (cn_id c) (apply_event env (mm_now s) (MailboxChanged mailbox MailboxDeleted actor) (mm_db s))"
    unfolding connection_ended_def by simp
  then show ?thesis by (rule after_connection_death [OF assms(1,6,7,3)])
qed

theorem mailbox_deleted_evicts_witness:
  "\<not> accepted (fst (bearer_verify demo_env 1 demo_cid (Some ''Bearer at'') None
     (mm_db (mcp_next demo_env (demo_state 12) (MailboxChanged ''m'' MailboxDeleted ''a'')))))"
  by (rule mailbox_deleted_evicts [OF demo_reachable _ demo_token(6) _ _ demo_step path.here, unfolded demo_token(7),
        where b = "md_bindings demo_db ! 0"])
    (simp_all add: demo_db_def findLiveByMailbox_def)

section \<open>Codes and setup passwords\<close>

text \<open>
  C6 A setup password leads to at most one grant: for every enrollment, the code exchanges that succeeded
  are at most as many as the setup passwords issued for it.
\<close>

theorem one_grant_per_setup_password:
  assumes "reachable mcp_initial (mcp_step env) s"
  shows "count_list (mm_granted s) enrollment \<le> count_list (mm_issued s) enrollment"
proof -
  have "count_list (mm_granted s) enrollment + unspent enrollment (mm_db s) \<le> count_list (mm_issued s) enrollment"
    using mcp.reachable_inv [OF assms] by (simp add: mcp_inv_def passwords_counted_def)
  then show ?thesis by simp
qed

theorem one_grant_per_setup_password_witness:
  "count_list (mm_granted (demo_state 12)) ''E'' = 1 \<and> count_list (mm_granted (demo_state 12)) ''E'' \<le> 1"
  using one_grant_per_setup_password [OF demo_reachable, of 12 "''E''"] by simp

lemma proofs_happened:
  "path (mcp_step env) s es s' \<Longrightarrow> p \<in> mm_proved s' \<Longrightarrow> p \<in> mm_proved s \<or> (\<exists>e \<in> set es. p \<in> event_proofs env e)"
  by (induction rule: path.induct) (auto dest: step_effects(3))

lemma event_proofs_login:
  "(rid, eid) \<in> event_proofs env e \<Longrightarrow> \<exists>form request shown row ip.
     e = LoginFinished form request shown (Some row) ip \<and> rq_id request = rid \<and> en_id row = eid \<and>
     me_verifySecret env (en_passwordHash row) (login_password form)"
  by (cases "(env, e)" rule: event_proofs.cases) (auto split: if_splits)

text \<open>
  C7 Every authorization code that exists goes back to a login whose password was verified against the
  very enrollment that the code will consume, within the very request it was minted for.
\<close>

theorem code_requires_password:
  assumes "mcp_initial s" "path (mcp_step env) s es s'" "c \<in> set (md_codes (mm_db s'))"
  shows "\<exists>form request shown row ip. LoginFinished form request shown (Some row) ip \<in> set es \<and>
    rq_id request = ac_requestId c \<and> en_id row = ac_enrollmentId c \<and>
    me_verifySecret env (en_passwordHash row) (login_password form)"
proof -
  have "mm_proved s = {}" using assms(1) by (auto simp: mcp_initial_def blank_machine_def)
  moreover have "mcp_inv s'" using mcp.path_inv [OF assms(2)] mcp_inv_initial assms(1) by blast
  then have "(ac_requestId c, ac_enrollmentId c) \<in> mm_proved s'"
    using assms(3) by (auto simp: mcp_inv_def logins_proved_def)
  ultimately show ?thesis using proofs_happened [OF assms(2)] event_proofs_login by blast
qed

theorem code_requires_password_witness:
  "\<exists>form request shown row ip. LoginFinished form request shown (Some row) ip \<in> set (take 12 demo_events) \<and>
     en_id row = ''E'' \<and> me_verifySecret demo_env (en_passwordHash row) (login_password form)"
  using code_requires_password [OF demo_initial demo_path, of "md_codes demo_db ! 0" 12] by (fastforce simp: demo_db_def)


lemma findCode_row: "findCodeByHash h db = Some c \<Longrightarrow> ac_codeHash c = h \<and> c \<in> set (md_codes db)"
  by (auto simp: findCodeByHash_def find_Some_iff)

text \<open>From the redemption on, nothing makes a code redeemable again.\<close>

lemma redeem_and_grant_redeems:
  assumes "redeem_and_grant env now fresh client input c db = (Inr r, db')"
  shows "\<forall>x \<in> set (md_codes db'). ac_id x = ac_id c \<longrightarrow> ac_redeemedAt x \<noteq> None"
proof -
  have "md_codes db' = update_where (\<lambda>x. ac_id x = ac_id c) (\<lambda>x. x\<lparr>ac_grantId := Some (ft_grantId fresh)\<rparr>)
      (update_where (redeemable (ac_id c)) (\<lambda>x. x\<lparr>ac_redeemedAt := Some now\<rparr>) (md_codes db))"
    using assms
    by (auto simp: redeem_and_grant_def Let_def createGrant_def attachGrantToCode_def touchAuthorized_def mintPair_def
        createAccessToken_def createRefreshToken_def mcp_record_def redeemCode_def consumeEnrollment_def
        split: option.splits if_splits prod.splits bool.splits)
  then show ?thesis by (auto simp: update_where_def redeemable_def)
qed

lemma spent_code_refused:
  assumes "code_spent s (me_sha256Hex env presented)" "xi_code input = Some presented"
  shows "\<not> succeeded (fst (exchangeCode env now fresh client input (mm_db s)))"
proof (cases "findCodeByHash (me_sha256Hex env presented) (mm_db s)")
  case (Some c)
  then have "ac_redeemedAt c \<noteq> None" using assms(1) findCode_row [OF Some] by (simp add: code_spent_def)
  with Some show ?thesis
    by (auto simp: exchangeCode_def assms(2) succeeded_def Let_def split: option.split)
qed (auto simp: exchangeCode_def assms(2) succeeded_def split: option.split)

text \<open>
  C5 An authorization code buys one grant: after an exchange that succeeded, no later exchange of that
  code does, by any client and after anything that happens in between.
\<close>

theorem code_exchanged_once:
  assumes "reachable mcp_initial (mcp_step env) s"
    and "fst (exchangeCode env (mm_now s) fresh client input (mm_db s)) = Inr response"
    and "mcp_step env s (CodeExchanged fresh client input) s1" "path (mcp_step env) s1 es s2"
    and "xi_code again = xi_code input"
  shows "\<not> succeeded (fst (exchangeCode env now fresh' client' again (mm_db s2)))"
proof -
  have inv: "mcp_inv s" using assms(1) by (rule mcp.reachable_inv)
  then have inv1: "mcp_inv s1" using assms(3) by (rule mcp_inv_step)
  note eff = step_effects [OF assms(3)]
  have "exchangeCode env (mm_now s) fresh client input (mm_db s) = (Inr response, mm_db s1)"
    using assms(2) eff(7) by (simp add: prod_eq_iff)
  then obtain presented c where c: "xi_code input = Some presented"
    "findCodeByHash (me_sha256Hex env presented) (mm_db s) = Some c"
    "redeem_and_grant env (mm_now s) fresh client input c (mm_db s) = (Inr response, mm_db s1)"
    by (elim exchange_success) auto
  have "(ac_codeHash c, [ac_id c]) \<in> mm_digests s1"
    using inv findCode_row [OF c(2)] eff(1) by (auto simp: mcp_inv_def rows_known_def)
  moreover have "\<forall>x \<in> set (md_codes (mm_db s1)). (ac_codeHash x, [ac_id x]) \<in> mm_digests s1" "rows_known s1"
    using inv1 by (auto simp: mcp_inv_def rows_known_def)
  ultimately have "\<forall>x \<in> set (md_codes (mm_db s1)). ac_codeHash x = ac_codeHash c \<longrightarrow> ac_id x = ac_id c"
    using digest_unique [of s1] by fastforce
  then have "code_spent s1 (ac_codeHash c)"
    using redeem_and_grant_redeems [OF c(3)] \<open>(ac_codeHash c, [ac_id c]) \<in> mm_digests s1\<close>
    unfolding code_spent_def by force
  then have "code_spent s2 (ac_codeHash c)" by (rule spent_codes.path_fact [OF assms(4) inv1])
  then show ?thesis using spent_code_refused assms(5) c(1) findCode_row [OF c(2)] by simp
qed

theorem code_exchanged_once_witness:
  "\<not> succeeded (fst (exchangeCode demo_env 1 demo_fresh demo_client demo_exchange
     (mm_db (mcp_next demo_env (demo_state 10) (CodeExchanged demo_fresh demo_client demo_exchange)))))"
proof -
  obtain r where r: "fst (exchangeCode demo_env (mm_now (demo_state 10)) demo_fresh demo_client demo_exchange (mm_db (demo_state 10))) = Inr r"
    using demo_unexchanged(1,4) by auto
  show ?thesis
    by (rule code_exchanged_once [OF demo_reachable r happens path.here refl])
      (simp add: may_happen_def demo_unexchanged(2,3) pair_digests_def demo_env_def demo_fresh_def)
qed

subsection \<open>What an exchange requires\<close>

lemma usable_cong [simp]:
  "assertConnectionUsable env now cid (db\<lparr>md_codes := cs\<rparr>) = assertConnectionUsable env now cid db"
  "assertConnectionUsable env now cid (db\<lparr>md_enrollments := es\<rparr>) = assertConnectionUsable env now cid db"
  by (simp_all add: assertConnectionUsable_def findConnection_def requireBinding_def findBinding_def statusOf_def
      credentialHealthOf_def credentialHealth_def getCredential_def countActiveGrants_def Let_def
      split: option.split binding_state.split)

lemma findConnection_cong [simp]:
  "findConnection cid (db\<lparr>md_codes := cs\<rparr>) = findConnection cid db"
  "findConnection cid (db\<lparr>md_enrollments := es\<rparr>) = findConnection cid db"
  by (simp_all add: findConnection_def)

definition resource_matches :: "string option \<Rightarrow> string \<Rightarrow> bool" where
  "resource_matches requested resource =
     (case requested of None \<Rightarrow> True | Some r \<Rightarrow> r = resource \<or> without_slash r = resource)"

lemma code_problem_None:
  "code_problem env now client input verifier c = None \<longleftrightarrow>
     ac_clientId c = cl_clientId client \<and> now < ac_expiresAt c \<and> xi_redirectUri input = Some (ac_redirectUri c) \<and>
     verifyPkceS256 env verifier (ac_codeChallenge c) \<and> resource_matches (xi_resource input) (ac_resource c)"
  by (auto simp: code_problem_def resource_matches_def split: option.splits)

lemma redeem_and_grant_succeeds:
  "succeeded (fst (redeem_and_grant env now fresh client input c db)) \<longleftrightarrow>
     length (filter (redeemable (ac_id c)) (md_codes db)) = 1 \<and>
     length (filter (consumable (ac_enrollmentId c) (ac_id c)) (md_enrollments db)) = 1 \<and>
     assertConnectionUsable env now (ac_connectionId c) db = None \<and>
     (\<exists>connection. findConnection (ac_connectionId c) db = Some connection \<and>
        set (ac_scopes c) \<inter> set (cn_scopes connection) \<noteq> {})"
  by (auto simp: redeem_and_grant_def redeemCode_def consumeEnrollment_def succeeded_def Let_def case_prod_unfold
      filter_empty_conv split: option.split bool.split)

text \<open>
  C11 A code exchange succeeds exactly when the code is known and unredeemed, was minted for this client
  and redirect address, is at most a minute old, the verifier answers its challenge, the setup password
  it reserved is unconsumed and unrevoked, the connection is usable and still allows one of the
  permissions.
\<close>

theorem exchange_decides:
  "succeeded (fst (exchangeCode env now fresh client input db)) \<longleftrightarrow>
     (\<exists>presented verifier c connection. xi_code input = Some presented \<and> xi_codeVerifier input = Some verifier \<and>
        ''authorization_code'' \<in> set (cl_grantTypes client) \<and>
        findCodeByHash (me_sha256Hex env presented) db = Some c \<and> ac_redeemedAt c = None \<and>
        ac_clientId c = cl_clientId client \<and> now < ac_expiresAt c \<and> xi_redirectUri input = Some (ac_redirectUri c) \<and>
        verifyPkceS256 env verifier (ac_codeChallenge c) \<and> resource_matches (xi_resource input) (ac_resource c) \<and>
        length (filter (redeemable (ac_id c)) (md_codes db)) = 1 \<and>
        length (filter (consumable (ac_enrollmentId c) (ac_id c)) (md_enrollments db)) = 1 \<and>
        assertConnectionUsable env now (ac_connectionId c) db = None \<and>
        findConnection (ac_connectionId c) db = Some connection \<and>
        set (ac_scopes c) \<inter> set (cn_scopes connection) \<noteq> {})"
proof -
  have "succeeded (fst (exchangeCode env now fresh client input db)) \<longleftrightarrow>
     (\<exists>presented verifier c. xi_code input = Some presented \<and> xi_codeVerifier input = Some verifier \<and>
        ''authorization_code'' \<in> set (cl_grantTypes client) \<and>
        findCodeByHash (me_sha256Hex env presented) db = Some c \<and> ac_redeemedAt c = None \<and>
        code_problem env now client input verifier c = None \<and>
        succeeded (fst (redeem_and_grant env now fresh client input c db)))"
    by (auto simp: exchangeCode_def succeeded_def Let_def split: option.split)
  then show ?thesis unfolding code_problem_None redeem_and_grant_succeeds by blast
qed


subsection \<open>A reissue leaves a login standing\<close>

text \<open>
  Reissuing a setup password resets its enrollment in place, so an authorization request that was
  authenticated with the old password still names it: its approval mints a code that will consume the
  reissued credential.
\<close>

definition demo_reissued :: mcp_db where
  "demo_reissued = issueEnrollment 0 demo_settings demo_connection (Some demo_enrollment) ''E2'' ''u'' ''Q'' ''a''
     ''enrollment.reissued'' False (mm_db (demo_state 8))"

lemma reissue_outlived_by_login:
  "\<exists>request. decide_begin demo_env 0 demo_form (Some ''t'') demo_reissued = Inr (''h'', request) \<and>
     fst (decide_finish demo_env 0 ''h'' demo_form request (Inr demo_client) ''A'' ''cd'' None demo_reissued) =
       Redirect ''r'' [(''code'', ''cd''), (''iss'', ''h'')]"
  by (simp add: demo_reissued_def demo_state_def demo_events_def demo_start_def demo_eval demo_defs resetEnrollment_def)

subsection \<open>A credential stored for a deleted mailbox\<close>

text \<open>
  While the mail server verifies a new password of a stale mailbox, the mailbox may be deleted: its
  credential is wiped and its binding revoked.  The verification then stores the password and sets the
  revoked binding active.
\<close>

lemma credential_outlives_mailbox:
  "getCredential ''B'' (snd (mailboxEvent 1 ''m'' MailboxDeleted ''a'' demo_db)) = None"
  "getCredential ''B'' (snd (updateCredentials_finish demo_env 2 (demo_binding\<lparr>bi_state := BStale\<rparr>) ''p'' ''a'' demo_verdict
     (snd (mailboxEvent 1 ''m'' MailboxDeleted ''a'' demo_db)))) \<noteq> None"
  "\<exists>b \<in> set (md_bindings (snd (updateCredentials_finish demo_env 2 (demo_binding\<lparr>bi_state := BStale\<rparr>) ''p'' ''a'' demo_verdict
     (snd (mailboxEvent 1 ''m'' MailboxDeleted ''a'' demo_db))))). bi_revokedAt b \<noteq> None \<and> bi_state b = BActive"
  by (simp_all add: demo_db_def demo_eval demo_defs mailboxEvent_def listByBinding_def revokeConnectionInternal_def
      revokeAllGrantsForConnection_def listGrants_def revokeGrant_def grant_live_def setConnectionState_def setBindingState_def
      deleteCredential_def updateCredentials_finish_def)

end
