(* ===== verification/McpToolSystem.thy ===== *)
theory McpToolSystem
  imports McpToolInvariants McpProperties
begin

text \<open>
  The machine with tools as a guarded system: its invariant, and its projection to the machine without
  tools, along which everything proved there carries over.
\<close>

section \<open>Rows and flights of the machine\<close>

definition flight_of :: "call_in_flight \<Rightarrow> flight" where
  "flight_of f = snd (snd (snd (snd f)))"

definition rows_inv :: "tool_env \<Rightarrow> tool_machine \<Rightarrow> bool" where
  "rows_inv env s = state_ok env (tm_shared s) (map flight_of (tm_flights s))"

lemma flight_of_simp [simp]: "flight_of (n, ctx, request, c, k) = k"
  by (simp add: flight_of_def)

lemma waiting_awaited:
  "conclude now ctx (h, st) = (step, st') \<Longrightarrow>
     waiting step = awaited h \<and> ts_operations st' = ts_operations st \<and> ts_drawn st' = ts_drawn st"
  by (auto simp: conclude_def run_finish_def Let_def waiting_def awaited_def split: handler_step.splits option.splits)

lemma state_ok_cong:
  "ts_operations st' = ts_operations st \<Longrightarrow> ts_drawn st' = ts_drawn st \<Longrightarrow> state_ok env st' ks = state_ok env st ks"
  by (simp add: state_ok_def ok_cong [of st' st])

lemma call_start_state_ok:
  assumes "call_start env now ctx request st = (step, st')" "inj (te_opId env)" "state_ok env st ks"
  shows "state_ok env st' (waiting step @ ks)"
  using assms(1)
proof (cases rule: call_start_cases)
  case (gated m)
  then show ?thesis using assms(3) state_ok_cong [of st' st] run_gate_frame(2,3) [OF gated(1)] by (simp add: waiting_def)
next
  case (runs st1 h st2)
  have "state_ok env st1 ks" using assms(3) state_ok_cong [of st1 st] run_gate_frame(2,3) [OF runs(1)] by simp
  from handler_start_state_ok [OF runs(2) assms(2) this] show ?thesis
    using waiting_awaited [OF runs(3)] state_ok_cong [of st' st2] by simp
qed

lemma call_resume_state_ok:
  assumes "call_resume env now ctx k answer st = (step, st')" "inj (te_opId env)" "state_ok env st (k # ks)"
  shows "state_ok env st' (waiting step @ ks)"
  using assms(1)
proof (cases rule: call_resume_cases)
  case (1 h st2)
  from handler_resume_state_ok [OF 1(1) assms(2,3)] show ?thesis
    using waiting_awaited [OF 1(2)] state_ok_cong [of st' st2] by simp
qed

lemma advance_flights: "map flight_of (tm_flights (advance n ctx request (step, st) s)) = waiting step @ map flight_of (tm_flights s)"
  by (cases step) (simp_all add: waiting_def)

text \<open>Taking out the flight that lands leaves the others.\<close>

lemma flights_ok_swap:
  assumes "flights_ok env st (us @ k # vs)"
  shows "flights_ok env st (k # us @ vs)"
  using assms by (auto simp: flights_ok_def)

lemma landed_flights:
  assumes "(n, ctx, request, c, k) \<in> set (tm_flights s)" "distinct (map fst (tm_flights s))" "state_ok env st (map flight_of (tm_flights s))"
  shows "state_ok env st (k # map flight_of (tm_flights (landed n s)))"
proof -
  obtain us vs where split: "tm_flights s = us @ (n, ctx, request, c, k) # vs" using assms(1) by (auto dest: split_list)
  then have "filter (\<lambda>f. fst f \<noteq> n) us = us" "filter (\<lambda>f. fst f \<noteq> n) vs = vs"
    using assms(2) by (auto simp: filter_id_conv image_iff)
  then have "tm_flights (landed n s) = us @ vs" by (simp add: landed_def split)
  then show ?thesis using assms(3) flights_ok_swap [of env st "map flight_of us" k "map flight_of vs"]
    by (simp add: state_ok_def split)
qed

text \<open>The rows of a deleted connection go; what the others promise stays.\<close>

lemma restores_filter:
  "set (restores (filter P rows)) \<subseteq> set (restores rows)"
  "distinct (restores rows) \<Longrightarrow> distinct (restores (filter P rows))"
proof -
  show sub: "set (restores (filter P rows)) \<subseteq> set (restores rows)" for rows by (auto simp: restores_def)
  show "distinct (restores rows) \<Longrightarrow> distinct (restores (filter P rows))"
  proof (induction rows)
    case (Cons r rows)
    then show ?case using sub [of rows] by (auto simp: restores_def)
  qed simp
qed

lemma state_ok_filter:
  assumes "state_ok env st ks" "ts_operations st' = filter P (ts_operations st)" "ts_drawn st' = ts_drawn st"
  shows "state_ok env st' ks"
proof -
  have "rows_ok env st'" using assms by (auto simp: state_ok_def rows_ok_def distinct_map_filter)
  moreover have "flights_ok env st' ks" using assms by (simp add: state_ok_def flights_ok_def)
  moreover have "restores_ok env st'"
    using assms restores_filter(1) [of P "ts_operations st"] restores_filter(2) [of "ts_operations st" P]
    by (auto simp: state_ok_def restores_ok_def)
  ultimately show ?thesis by (simp add: state_ok_def)
qed

lemma rows_inv_step:
  assumes "tool_step env s e s'" "in_sync s" "inj (te_opId env)" "rows_inv env s"
  shows "rows_inv env s'"
  using assms(1)
proof (cases rule: tool_step.cases)
  case (agent_moves e a)
  have "state_ok env (tm_shared s') (map flight_of (tm_flights s))"
    by (rule state_ok_filter [where st = "tm_shared s"])
      (use assms(4) in \<open>auto simp: rows_inv_def agent_moves(2) agent_moved_def cascade_def\<close>)
  then show ?thesis by (simp add: rows_inv_def agent_moves(2) agent_moved_def)
next
  case (call_starts ctx request recipients n)
  obtain step st where c: "call_start env (mm_now (tm_agent s)) ctx request (tm_shared s) = (step, st)" by fastforce
  show ?thesis using call_start_state_ok [OF c assms(3) assms(4) [unfolded rows_inv_def]]
    by (simp add: rows_inv_def call_starts(2) c advance_flights)
next
  case (call_resumes n ctx request c k answer)
  obtain step st where r: "call_resume env (mm_now (tm_agent s)) ctx k answer (tm_shared s) = (step, st)" by fastforce
  have "state_ok env (tm_shared s) (k # map flight_of (tm_flights (landed n s)))"
    by (rule landed_flights [OF call_resumes(3)]) (use assms(2,4) in \<open>auto simp: in_sync_def rows_inv_def\<close>)
  from call_resume_state_ok [OF r assms(3) this] show ?thesis
    by (simp add: rows_inv_def call_resumes(2) r advance_flights)
qed

section \<open>Contexts and keys\<close>

definition contexts_known :: "tool_machine \<Rightarrow> bool" where
  "contexts_known s = (\<forall>ctx \<in> tm_contexts s. mc_connectionId ctx \<in> mm_ids (tm_agent s))"

lemma context_connection:
  assumes "ctx \<in> contexts_of env now db e"
  shows "\<exists>cid authorization ip c. e = BearerChecked cid authorization ip \<and>
    fst (bearer_verify env now cid authorization ip db) = BearerOk ctx \<and> findConnection (mc_connectionId ctx) db = Some c"
proof -
  obtain cid authorization ip where e: "e = BearerChecked cid authorization ip"
    "fst (bearer_verify env now cid authorization ip db) = BearerOk ctx"
    using assms by (cases e) (auto split: bearer_outcome.splits)
  from bearer_accepted [OF e(2)] obtain base connection token where
    "findConnection cid db = Some connection" "fst (verify_token env now base connection token ip db) = BearerOk ctx" by blast
  then show ?thesis using e verify_token_accepted findConnection_id by metis
qed

text \<open>A connection that is known and there was there before; identifiers are not used twice.\<close>

lemma connection_persists:
  assumes "mcp_step env a e a'" "mcp_inv a" "cid \<in> mm_ids a" "findConnection cid (mm_db a') \<noteq> None"
  shows "findConnection cid (mm_db a) \<noteq> None"
proof -
  have "logins_proved a" using assms(2) by (simp add: mcp_inv_def)
  note tables = db_evolves_tables(5) [OF step_evolves [OF assms(1) this], unfolded evolves_def]
  obtain c where c: "c \<in> set (md_connections (mm_db a'))" "cn_id c = cid"
    using assms(4) by (auto simp: findConnection_def dest: find_SomeD)
  have "cid \<notin> event_ids e" using step_effects(8) [OF assms(1)] assms(3) by blast
  then obtain c0 where "c0 \<in> set (md_connections (mm_db a))" "connection_ages c0 c" using tables c by blast
  then have "\<exists>c0 \<in> set (md_connections (mm_db a)). cn_id c0 = cid" using c(2) by (auto simp: connection_ages_def)
  then show ?thesis by (auto simp: findConnection_def find_None_iff)
qed

definition requested_key :: "tool_request \<Rightarrow> string option" where
  "requested_key request = (case request of SendCall a \<Rightarrow> sa_idempotencyKey a | _ \<Rightarrow> None)"

definition submits_key :: "string \<Rightarrow> string \<Rightarrow> mcp_auth_context \<times> tool_request \<times> backend_call \<Rightarrow> bool" where
  "submits_key cid key entry =
     (case entry of (ctx, request, c) \<Rightarrow> mc_connectionId ctx = cid \<and> is_submission c \<and>
        requested_key request = Some key)"

text \<open>The mails submitted by a connection under a key.\<close>

definition submissions :: "string \<Rightarrow> string \<Rightarrow> tool_machine \<Rightarrow> (mcp_auth_context \<times> tool_request \<times> backend_call) list" where
  "submissions cid key s = filter (submits_key cid key) (tm_log s)"

definition key_held :: "string \<Rightarrow> string \<Rightarrow> tools_state \<Rightarrow> bool" where
  "key_held cid key st = list_ex (same_key cid OpSend key) (ts_operations st)"

definition keys_inv :: "tool_machine \<Rightarrow> bool" where
  "keys_inv s =
     (\<forall>cid key. length (submissions cid key s) \<le> 1 \<and>
        (submissions cid key s \<noteq> [] \<longrightarrow> cid \<in> mm_ids (tm_agent s) \<and>
           (findConnection cid (mm_db (tm_agent s)) \<noteq> None \<longrightarrow> key_held cid key (tm_shared s))))"

lemma all2_image: "list_all2 P xs ys \<Longrightarrow> x \<in> set xs \<Longrightarrow> \<exists>y \<in> set ys. P x y"
  by (induction rule: list_all2_induct) auto

lemma key_held_age: "rows_age env X new st st' \<Longrightarrow> key_held cid key st \<Longrightarrow> key_held cid key st'"
proof -
  assume age: "rows_age env X new st st'" and held: "key_held cid key st"
  obtain xs ys where *: "ts_operations st' = xs @ ys" "list_all2 (row_ages X) (ts_operations st) xs"
    using age by (auto simp: rows_age_def)
  obtain r where r: "r \<in> set (ts_operations st)" "same_key cid OpSend key r" using held by (auto simp: key_held_def list_ex_iff)
  obtain r' where "r' \<in> set xs" "row_ages X r r'" using all2_image [OF *(2) r(1)] by blast
  then show ?thesis using r(2) *(1) by (auto simp: key_held_def list_ex_iff same_key_def row_ages_def)
qed

lemma key_held_same: "ts_operations st' = ts_operations st \<Longrightarrow> key_held cid key st' = key_held cid key st"
  by (simp add: key_held_def)

text \<open>What a step of a call owes: keys stay held, and a submission takes a free key of a live connection.\<close>

definition calls_of :: "handler_step \<Rightarrow> backend_call list" where
  "calls_of h = (case h of Await c k \<Rightarrow> [c] | Done _ \<Rightarrow> [])"

definition calls_made :: "call_step \<Rightarrow> backend_call list" where
  "calls_made step = (case step of Waiting c k \<Rightarrow> [c] | Finished _ \<Rightarrow> [])"

definition takes_key :: "mcp_auth_context \<Rightarrow> string \<Rightarrow> tools_state \<Rightarrow> tools_state \<Rightarrow> bool" where
  "takes_key ctx key st st' =
     (findConnection (mc_connectionId ctx) (ts_db st) \<noteq> None \<and> \<not> key_held (mc_connectionId ctx) key st \<and>
      key_held (mc_connectionId ctx) key st')"

definition key_step :: "mcp_auth_context \<Rightarrow> tool_request \<Rightarrow> tools_state \<Rightarrow> backend_call list \<Rightarrow> tools_state \<Rightarrow> bool" where
  "key_step ctx request st cs st' =
     ((\<forall>cid key. key_held cid key st \<longrightarrow> key_held cid key st') \<and>
      (\<forall>key. list_ex is_submission cs \<and> requested_key request = Some key \<longrightarrow> takes_key ctx key st st'))"

lemma send_submit_keys:
  assumes "send_submit env ctx plan irt refs st = (h, st')" "sp_args plan = a"
  shows "key_step ctx (SendCall a) st (calls_of h) st'"
  using assms(1)
proof (cases rule: send_submit_cases)
  case (refused m)
  then show ?thesis by (simp add: key_step_def key_held_same [of st' st] calls_of_def)
next
  case (submits row messageId m)
  have "key_held cid key st'" if "key_held cid key st" for cid key
    using that submits(3) by (simp add: key_held_def)
  moreover have "takes_key ctx key st st'" if "sa_idempotencyKey a = Some key" for key
    using that submits assms(2) by (simp add: takes_key_def key_held_def insertable_def same_key_def)
  ultimately show ?thesis by (simp add: key_step_def requested_key_def)
qed

lemma quiet_keys:
  "quiet_await st0 h \<Longrightarrow> (\<And>cid key. key_held cid key st \<Longrightarrow> key_held cid key st') \<Longrightarrow> key_step ctx request st (calls_of h) st'"
  by (cases h) (simp_all add: key_step_def quiet_await_def calls_of_def)

lemma handler_start_keys:
  assumes "handler_start env now ctx request st = (h, st')"
  shows "key_step ctx request st (calls_of h) st'"
  using handler_start_rows [OF assms]
proof (elim disjE exE conjE)
  assume "ts_operations st' = ts_operations st" "quiet_await st h"
  then show ?thesis by (intro quiet_keys) (simp_all add: key_held_same [of st' st])
next
  fix a plan assume "request = SendCall a" "plan_ok ctx a plan" "send_submit env ctx plan None None st = (h, st')"
  then show ?thesis using send_submit_keys by (simp add: plan_ok_def)
qed

lemma handler_resume_keys:
  assumes "handler_resume env now ctx k answer st = (h, st')" "flight_fits ctx request k" "flights_ok env st (k # ks)"
  shows "key_step ctx request st (calls_of h) st'"
proof (cases rule: handler_resume_rows [OF assms(1)])
  case 1
  show ?thesis by (rule quiet_keys [OF 1(2)]) (rule key_held_age [OF 1(1)])
next
  case (2 plan original)
  then obtain a where "request = SendCall a" "plan_ok ctx a plan" using assms(2) by (auto simp: flight_fits_def)
  then show ?thesis using send_submit_keys [OF 2(3)] by (simp add: plan_ok_def)
next
  case (3 acct op i ids results ref r st1)
  have "rows_age env {} (restoration_of (op_id op)) st st1"
    by (rule restore_recorded_age [OF 3(3)]) (use assms(3) 3(1) in \<open>auto simp: flights_ok_def\<close>)
  then have "key_held cid key st'" if "key_held cid key st" for cid key
    using key_held_age that key_held_same [OF 3(4)] by blast
  then show ?thesis by (rule quiet_keys [OF 3(6)])
qed

lemma conclude_keys:
  assumes "conclude now ctx (h, st1) = (step, st')" "key_step ctx request st (calls_of h) st1"
  shows "key_step ctx request st (calls_made step) st'"
proof -
  have "calls_made step = calls_of h"
    using assms(1) by (auto simp: conclude_def run_finish_def Let_def calls_made_def calls_of_def
        split: handler_step.splits option.splits)
  then show ?thesis using assms(2) key_held_same [OF conclude_effect(1) [OF assms(1)]]
    by (simp add: key_step_def takes_key_def)
qed

lemma call_start_keys:
  assumes "call_start env now ctx request st = (step, st')"
  shows "key_step ctx request st (calls_made step) st'"
  using assms
proof (cases rule: call_start_cases)
  case (gated m)
  then show ?thesis using key_held_same [OF run_gate_frame(2) [OF gated(1)]] by (simp add: key_step_def calls_made_def)
next
  case (runs st1 h st2)
  have "key_step ctx request st1 (calls_made step) st'" by (rule conclude_keys [OF runs(3) handler_start_keys [OF runs(2)]])
  then show ?thesis using key_held_same [OF run_gate_frame(2) [OF runs(1)]] run_gate_frame(1) [OF runs(1)]
    by (simp add: key_step_def takes_key_def)
qed

lemma call_resume_keys:
  assumes "call_resume env now ctx k answer st = (step, st')" "flight_fits ctx request k" "flights_ok env st (k # ks)"
  shows "key_step ctx request st (calls_made step) st'"
  using assms(1)
proof (cases rule: call_resume_cases)
  case (1 h st2)
  show ?thesis by (rule conclude_keys [OF 1(2) handler_resume_keys [OF 1(1) assms(2,3)]])
qed

section \<open>The invariant\<close>

definition tool_inv :: "tool_env \<Rightarrow> tool_machine \<Rightarrow> bool" where
  "tool_inv env s =
     (in_sync s \<and> mcp_inv (tm_agent s) \<and> calls_ok s \<and> contexts_known s \<and>
      (inj (te_opId env) \<longrightarrow> rows_inv env s \<and> keys_inv s))"

lemma tool_step_mcp_inv:
  assumes "tool_step env s e s'" "in_sync s" "mcp_inv (tm_agent s)"
  shows "mcp_inv (tm_agent s')"
  using tool_step_agent [OF assms(1,2)] assms(3) mcp_inv_step by auto

lemma tool_step_ids:
  assumes "tool_step env s e s'" "in_sync s"
  shows "mm_ids (tm_agent s) \<subseteq> mm_ids (tm_agent s')"
  using tool_step_agent [OF assms]
proof
  assume "\<exists>e'. mcp_step (te_agent env) (tm_agent s) e' (tm_agent s')"
  then obtain e' where "mcp_step (te_agent env) (tm_agent s) e' (tm_agent s')" ..
  from step_effects(2) [OF this] show ?thesis by simp
qed simp

lemma tool_step_persists:
  assumes "tool_step env s e s'" "in_sync s" "mcp_inv (tm_agent s)" "cid \<in> mm_ids (tm_agent s)"
    "findConnection cid (mm_db (tm_agent s')) \<noteq> None"
  shows "findConnection cid (mm_db (tm_agent s)) \<noteq> None"
  using tool_step_agent [OF assms(1,2)]
proof
  assume "\<exists>e'. mcp_step (te_agent env) (tm_agent s) e' (tm_agent s')"
  then obtain e' where "mcp_step (te_agent env) (tm_agent s) e' (tm_agent s')" ..
  from connection_persists [OF this assms(3,4,5)] show ?thesis .
qed (use assms(5) in simp)

text \<open>A context belongs to a connection that is there when its token is checked.\<close>

lemma context_known:
  assumes "ctx \<in> contexts_of env (mm_now a) (mm_db a) e" "mcp_inv a"
  shows "mc_connectionId ctx \<in> mm_ids a"
proof -
  obtain c where "findConnection (mc_connectionId ctx) (mm_db a) = Some c" using context_connection [OF assms(1)] by blast
  from findConnection_id [OF this] show ?thesis using assms(2) by (auto simp: mcp_inv_def rows_known_def)
qed

lemma contexts_known_step:
  assumes "tool_step env s e s'" "in_sync s" "mcp_inv (tm_agent s)" "contexts_known s"
  shows "contexts_known s'"
  unfolding contexts_known_def
proof
  fix ctx assume ctx: "ctx \<in> tm_contexts s'"
  have "mc_connectionId ctx \<in> mm_ids (tm_agent s)"
    using assms(1)
  proof (cases rule: tool_step.cases)
    case (agent_moves e a)
    show ?thesis
    proof (cases "ctx \<in> tm_contexts s")
      case False
      then have "ctx \<in> contexts_of (te_agent env) (mm_now (tm_agent s)) (mm_db (tm_agent s)) e"
        using ctx by (simp add: agent_moves(2) agent_moved_def)
      then show ?thesis by (rule context_known [OF _ assms(3)])
    qed (use assms(4) in \<open>simp add: contexts_known_def\<close>)
  qed (use ctx assms(4) in \<open>simp_all add: contexts_known_def\<close>)
  then show "mc_connectionId ctx \<in> mm_ids (tm_agent s')" using tool_step_ids [OF assms(1,2)] by blast
qed

lemma key_held_cascade:
  "key_held cid key (tm_shared s) \<Longrightarrow> findConnection cid (mm_db a) \<noteq> None \<Longrightarrow> key_held cid key (tm_shared (agent_moved env e a s))"
  by (auto simp: key_held_def list_ex_iff same_key_def agent_moved_def cascade_def)

lemma submissions_advance:
  "submissions cid key (advance n ctx request (step, st) s) =
     submissions cid key s @ (if mc_connectionId ctx = cid \<and> list_ex is_submission (calls_made step) \<and> requested_key request = Some key
       then [(ctx, request, hd (calls_made step))] else [])"
  by (cases step) (auto simp: submissions_def submits_key_def calls_made_def)

lemma submissions_frame [simp]:
  "submissions cid key (noted ctx request s) = submissions cid key s" "submissions cid key (landed n s) = submissions cid key s"
  "submissions cid key (agent_moved env e a s) = submissions cid key s"
  by (simp_all add: submissions_def agent_moved_def)

text \<open>Both kinds of steps of a call, from a machine \<open>m\<close> that has the log and the shared state of \<open>s\<close>.\<close>

lemma keys_inv_advance:
  assumes "keys_inv s" "in_sync s" "mc_connectionId ctx \<in> mm_ids (tm_agent s)"
    and m: "\<And>cid key. submissions cid key m = submissions cid key s" "tm_agent m = tm_agent s"
    and step: "key_step ctx request (tm_shared s) (calls_made step) st"
    and persists: "\<And>cid. cid \<in> mm_ids (tm_agent s) \<Longrightarrow> findConnection cid (ts_db st) \<noteq> None \<Longrightarrow>
      findConnection cid (mm_db (tm_agent s)) \<noteq> None"
  shows "keys_inv (advance n ctx request (step, st) m)"
  unfolding keys_inv_def
proof (intro allI)
  fix cid key
  let ?s' = "advance n ctx request (step, st) m"
  have old: "length (submissions cid key s) \<le> 1"
    "submissions cid key s \<noteq> [] \<Longrightarrow> cid \<in> mm_ids (tm_agent s) \<and>
       (findConnection cid (mm_db (tm_agent s)) \<noteq> None \<longrightarrow> key_held cid key (tm_shared s))"
    using assms(1) by (simp_all add: keys_inv_def)
  have keeps: "key_held cid key (tm_shared s) \<Longrightarrow> key_held cid key st" using step by (simp add: key_step_def)
  show "length (submissions cid key ?s') \<le> 1 \<and> (submissions cid key ?s' \<noteq> [] \<longrightarrow> cid \<in> mm_ids (tm_agent ?s') \<and>
      (findConnection cid (mm_db (tm_agent ?s')) \<noteq> None \<longrightarrow> key_held cid key (tm_shared ?s')))"
  proof (cases "mc_connectionId ctx = cid \<and> list_ex is_submission (calls_made step) \<and> requested_key request = Some key")
    case True
    then have takes: "takes_key ctx key (tm_shared s) st" using step by (simp add: key_step_def)
    then have free: "findConnection cid (mm_db (tm_agent s)) \<noteq> None" "\<not> key_held cid key (tm_shared s)"
      using True assms(2) by (auto simp: takes_key_def in_sync_def)
    have "submissions cid key s = []"
    proof (rule ccontr)
      assume "submissions cid key s \<noteq> []"
      from old(2) [OF this] free show False by blast
    qed
    then show ?thesis using takes True assms(3) m by (simp add: submissions_advance takes_key_def)
  next
    case False
    then have same: "submissions cid key ?s' = submissions cid key s" by (simp add: submissions_advance m)
    show ?thesis unfolding same using old persists [of cid] keeps m(2) by auto
  qed
qed

lemma keys_inv_step:
  assumes "tool_step env s e s'" "in_sync s" "mcp_inv (tm_agent s)" "calls_ok s" "contexts_known s" "rows_inv env s" "keys_inv s"
  shows "keys_inv s'"
proof -
  have persists: "findConnection cid (mm_db (tm_agent s)) \<noteq> None"
    if "cid \<in> mm_ids (tm_agent s)" "findConnection cid (mm_db (tm_agent s')) \<noteq> None" for cid
    by (rule tool_step_persists [OF assms(1-3) that])
  from assms(1) show ?thesis
  proof (cases rule: tool_step.cases)
    case (agent_moves e a)
    have grow: "mm_ids (tm_agent s) \<subseteq> mm_ids a" using step_effects(2) [OF agent_moves(3)] by blast
    show ?thesis unfolding keys_inv_def
    proof (intro allI)
      fix cid key
      show "length (submissions cid key s') \<le> 1 \<and> (submissions cid key s' \<noteq> [] \<longrightarrow> cid \<in> mm_ids (tm_agent s') \<and>
          (findConnection cid (mm_db (tm_agent s')) \<noteq> None \<longrightarrow> key_held cid key (tm_shared s')))"
        using assms(7) persists [of cid] grow key_held_cascade [of cid key s a env e]
        by (auto simp: keys_inv_def agent_moves(2)) (simp_all add: agent_moved_def subset_iff)
    qed
  next
    case (call_starts ctx request recipients n)
    obtain step st where c: "call_start env (mm_now (tm_agent s)) ctx request (tm_shared s) = (step, st)" by fastforce
    show ?thesis unfolding call_starts(2) c
      by (rule keys_inv_advance [OF assms(7,2) _ _ _ call_start_keys [OF c]])
        (use call_starts assms(5) persists c in \<open>auto simp: contexts_known_def\<close>)
  next
    case (call_resumes n ctx request c k answer)
    obtain step st where r: "call_resume env (mm_now (tm_agent s)) ctx k answer (tm_shared s) = (step, st)" by fastforce
    have fits: "ctx \<in> tm_contexts s" "flight_fits ctx request k" using assms(4) call_resumes(3) by (auto simp: calls_ok_def)
    have "state_ok env (tm_shared s) (k # map flight_of (tm_flights (landed n s)))"
      by (rule landed_flights [OF call_resumes(3)]) (use assms(2,6) in \<open>auto simp: in_sync_def rows_inv_def\<close>)
    then have flights: "flights_ok env (tm_shared s) (k # map flight_of (tm_flights (landed n s)))" by (simp add: state_ok_def)
    show ?thesis unfolding call_resumes(2) r
      by (rule keys_inv_advance [OF assms(7,2) _ _ _ call_resume_keys [OF r fits(2) flights]])
        (use call_resumes(2) fits(1) assms(5) persists r in \<open>auto simp: contexts_known_def\<close>)
  qed
qed

lemma tool_inv_step: "tool_inv env s \<Longrightarrow> tool_step env s e s' \<Longrightarrow> tool_inv env s'"
  unfolding tool_inv_def
  by (auto intro: in_sync_step tool_step_mcp_inv calls_ok_step contexts_known_step rows_inv_step keys_inv_step)

lemma tool_initial_agent: "tool_initial s \<Longrightarrow> mcp_initial (tm_agent s)"
  unfolding tool_initial_def mcp_initial_def blank_tool_machine_def by force

lemma tool_inv_initial: "tool_initial s \<Longrightarrow> tool_inv env s"
  using mcp_inv_initial [OF tool_initial_agent] in_sync_initial [of s]
  by (auto simp: tool_inv_def tool_initial_def calls_ok_def contexts_known_def rows_inv_def keys_inv_def state_ok_def rows_ok_def
      flights_ok_def restores_ok_def restores_def submissions_def blank_tool_machine_def blank_tools_def)

interpretation tools: guarded_system tool_initial "tool_step env" "tool_inv env" for env
  by unfold_locales (auto intro: tool_inv_initial tool_inv_step)

section \<open>Projection\<close>

lemma reachable_agent:
  "reachable tool_initial (tool_step env) s \<Longrightarrow> reachable mcp_initial (mcp_step (te_agent env)) (tm_agent s)"
proof (induction rule: reachable.induct)
  case (start s)
  then show ?case by (intro reachable.start tool_initial_agent)
next
  case (step s e s')
  have "in_sync s" using tools.reachable_inv [OF step(1)] by (simp add: tool_inv_def)
  from tool_step_agent [OF step(2) this] show ?case using step.IH by auto
qed

lemma path_agent:
  "path (tool_step env) s es s' \<Longrightarrow> in_sync s \<Longrightarrow> \<exists>es'. path (mcp_step (te_agent env)) (tm_agent s) es' (tm_agent s')"
proof (induction rule: path.induct)
  case (onward s e s1 es s2)
  then obtain es' where "path (mcp_step (te_agent env)) (tm_agent s1) es' (tm_agent s2)" using in_sync_step by blast
  then show ?case using tool_step_agent [OF onward(1,4)] by (auto intro: path.onward)
qed auto

text \<open>A context that calls run in was let through by the check of a token.\<close>

lemma contexts_granted:
  "reachable tool_initial (tool_step env) s \<Longrightarrow> ctx \<in> tm_contexts s \<Longrightarrow>
     \<exists>s0 authorization ip. reachable tool_initial (tool_step env) s0 \<and>
       fst (bearer_verify (te_agent env) (mm_now (tm_agent s0)) (mc_connectionId ctx) authorization ip (mm_db (tm_agent s0))) =
         BearerOk ctx"
proof (induction rule: reachable.induct)
  case (step s e s')
  show ?case
  proof (cases "ctx \<in> tm_contexts s")
    case False
    with step(2,4) obtain e' where "ctx \<in> contexts_of (te_agent env) (mm_now (tm_agent s)) (mm_db (tm_agent s)) e'"
      by (cases rule: tool_step.cases) (auto simp: agent_moved_def)
    then obtain cid authorization ip where b:
      "fst (bearer_verify (te_agent env) (mm_now (tm_agent s)) cid authorization ip (mm_db (tm_agent s))) = BearerOk ctx"
      using context_connection by blast
    from bearer_accepted [OF b] obtain base connection token where
      "findConnection cid (mm_db (tm_agent s)) = Some connection"
      "fst (verify_token (te_agent env) (mm_now (tm_agent s)) base connection token ip (mm_db (tm_agent s))) = BearerOk ctx"
      by blast
    then have "mc_connectionId ctx = cid" using verify_token_accepted findConnection_id by metis
    then show ?thesis using b step(1) by blast
  qed (use step in blast)
qed (auto simp: tool_initial_def blank_tool_machine_def)

end
