(* ===== verification/McpToolLimits.thy ===== *)
theory McpToolLimits
  imports McpToolSystem
begin

text \<open>
  The two limits of the tools as sliding windows: the calls of a connection that pass the rate limiter,
  and the sends of a connection that are recorded and have not failed.  Settings may change at any time;
  a bound on them bounds the windows.  Replies are left out of the second, since they look at the limit
  before they await the message replied to and record the send after it.
\<close>

section \<open>Runs under a condition\<close>

definition tool_step_if ::
  "(tool_machine \<Rightarrow> tool_event \<Rightarrow> bool) \<Rightarrow> tool_env \<Rightarrow> tool_machine \<Rightarrow> tool_event \<Rightarrow> tool_machine \<Rightarrow> bool" where
  "tool_step_if P env s e s' = (P s e \<and> tool_step env s e s')"

definition tool_clock :: "tool_machine \<Rightarrow> int" where
  "tool_clock s = mm_now (tm_agent s)"

lemma tool_clock_forward:
  assumes "tool_step env s e s'"
  shows "tool_clock s \<le> tool_clock s'"
  using assms
proof (cases rule: tool_step.cases)
  case (agent_moves e a)
  then show ?thesis
    by (cases e) (auto elim!: mcp_stepE simp: agent_moved_def mcp_next_def may_happen_def tool_clock_def)
qed (simp_all add: tool_clock_def)

section \<open>Calls per minute\<close>

definition recent_calls :: "string \<Rightarrow> tools_state \<Rightarrow> int list" where
  "recent_calls cid st = (case ts_calls st cid of None \<Rightarrow> [] | Some ts \<Rightarrow> ts)"

definition last_minute :: "int \<Rightarrow> int list \<Rightarrow> int list" where
  "last_minute now ts = filter (\<lambda>t. now - 60000 < t) ts"

definition passed_times :: "string \<Rightarrow> tool_machine \<Rightarrow> int list" where
  "passed_times cid s = map snd (filter (\<lambda>p. fst p = cid) (tm_passed s))"

definition calls_within :: "nat \<Rightarrow> tool_machine \<Rightarrow> tool_event \<Rightarrow> bool" where
  "calls_within limit s e = (ms_toolCallsPerMinute (md_settings (mm_db (tm_agent s))) \<le> limit)"

text \<open>What the limiter keeps is what passed in the last minute, now and later.\<close>

definition limiter_inv :: "tool_machine \<Rightarrow> bool" where
  "limiter_inv s =
     (\<forall>cid later. tool_clock s \<le> later \<longrightarrow>
        last_minute later (recent_calls cid (tm_shared s)) = last_minute later (passed_times cid s))"

lemma last_minute_append [simp]: "last_minute now (us @ vs) = last_minute now us @ last_minute now vs"
  by (simp add: last_minute_def)

lemma last_minute_Nil [simp]: "last_minute now [] = []"
  by (simp add: last_minute_def)

lemma last_minute_recent: "now \<le> later \<Longrightarrow> last_minute later (filter (\<lambda>t. now - t < 60000) ts) = last_minute later ts"
  by (auto simp: last_minute_def intro!: filter_cong)

lemma length_last_minute: "length (last_minute now ts) = in_window 60000 now ts"
  by (simp add: last_minute_def in_window_def)

definition passing :: "string option \<Rightarrow> mcp_auth_context \<Rightarrow> int \<Rightarrow> string \<Rightarrow> int list" where
  "passing m ctx now cid = (if m = None \<and> cid = mc_connectionId ctx then [now] else [])"

lemma allow_calls:
  assumes "allow cid limit now calls = (b, calls')"
  shows "now \<le> later \<Longrightarrow> last_minute later (case calls' x of None \<Rightarrow> [] | Some ts \<Rightarrow> ts) =
      last_minute later ((case calls x of None \<Rightarrow> [] | Some ts \<Rightarrow> ts) @ (if b \<and> x = cid then [now] else []))"
    and "b \<Longrightarrow> in_window 60000 now (case calls cid of None \<Rightarrow> [] | Some ts \<Rightarrow> ts) < limit"
proof -
  define ts where "ts = (case calls cid of None \<Rightarrow> [] | Some ts \<Rightarrow> ts)"
  define recent where "recent = filter (\<lambda>t. now - t < 60000) ts"
  have same: "recent = last_minute now ts" by (auto simp: recent_def last_minute_def intro!: filter_cong)
  have result: "(b, calls') = (if limit \<le> length recent then (False, calls(cid \<mapsto> recent)) else (True, calls(cid \<mapsto> recent @ [now])))"
    using assms [symmetric] by (simp only: allow_def recent_def ts_def Let_def)
  show "last_minute later (case calls' x of None \<Rightarrow> [] | Some ts \<Rightarrow> ts) =
      last_minute later ((case calls x of None \<Rightarrow> [] | Some ts \<Rightarrow> ts) @ (if b \<and> x = cid then [now] else []))"
    if "now \<le> later"
    using result last_minute_recent [OF that, of ts]
    by (cases "x = cid") (auto simp: recent_def ts_def split: if_splits)
  show "in_window 60000 now (case calls cid of None \<Rightarrow> [] | Some ts \<Rightarrow> ts) < limit" if b
    using result that by (simp add: same length_last_minute flip: ts_def split: if_splits)
qed

lemma run_gate_cases:
  assumes "run_gate now ctx tool st = (m, st')"
  obtains (denied) e where "m = Some e" "ts_calls st' = ts_calls st"
  | (limited) e where "m = Some e"
      "allow (mc_connectionId ctx) (ms_toolCallsPerMinute (md_settings (ts_db st))) now (ts_calls st) = (False, ts_calls st')"
  | (passes) "m = None"
      "allow (mc_connectionId ctx) (ms_toolCallsPerMinute (md_settings (ts_db st))) now (ts_calls st) = (True, ts_calls st')"
proof (cases "case TOOL_SCOPES tool of None \<Rightarrow> True | Some scope \<Rightarrow> scope \<notin> set (mc_scopes ctx)")
  case True
  show thesis by (rule denied) (use assms True in \<open>auto simp: run_gate_def\<close>)
next
  case False
  obtain b calls where a: "allow (mc_connectionId ctx) (ms_toolCallsPerMinute (md_settings (ts_db st))) now (ts_calls st) = (b, calls)"
    by fastforce
  show thesis
  proof (cases b)
    case True
    show thesis by (rule passes) (use assms False a True in \<open>auto simp: run_gate_def\<close>)
  next
    case b: False
    show thesis by (rule limited) (use assms False a b in \<open>auto simp: run_gate_def\<close>)
  qed
qed

lemma run_gate_calls:
  assumes "run_gate now ctx tool st = (m, st')"
  shows "now \<le> later \<Longrightarrow> last_minute later (recent_calls cid st') = last_minute later (recent_calls cid st @ passing m ctx now cid)"
    and "m = None \<Longrightarrow> in_window 60000 now (recent_calls (mc_connectionId ctx) st) < ms_toolCallsPerMinute (md_settings (ts_db st))"
proof -
  show "last_minute later (recent_calls cid st') = last_minute later (recent_calls cid st @ passing m ctx now cid)"
    if "now \<le> later"
    using assms
  proof (cases rule: run_gate_cases)
    case (limited e)
    then show ?thesis using allow_calls(1) [OF limited(2) that, of cid] by (simp add: recent_calls_def passing_def)
  next
    case passes
    then show ?thesis using allow_calls(1) [OF passes(2) that, of cid] by (simp add: recent_calls_def passing_def)
  qed (simp add: recent_calls_def passing_def)
  show "in_window 60000 now (recent_calls (mc_connectionId ctx) st) < ms_toolCallsPerMinute (md_settings (ts_db st))"
    if "m = None"
    using assms
  proof (cases rule: run_gate_cases)
    case passes
    then show ?thesis using allow_calls(2) [OF passes(2)] by (simp add: recent_calls_def)
  qed (use that in simp_all)
qed

lemma call_start_calls:
  assumes "call_start env now ctx request st = (step, st')" "run_gate now ctx (tool_name request) st = (m, st1)"
  shows "ts_calls st' = ts_calls st1"
  using assms(1)
proof (cases rule: call_start_cases)
  case (runs st2 h st3)
  then show ?thesis using assms(2) conclude_effect(2) [OF runs(3)] handler_start_frame [OF runs(2)] by simp
qed (use assms(2) in simp)

lemma call_resume_calls:
  assumes "call_resume env now ctx k answer st = (step, st')"
  shows "ts_calls st' = ts_calls st"
  using assms
proof (cases rule: call_resume_cases)
  case (1 h st2)
  then show ?thesis using conclude_effect(2) [OF 1(2)] handler_resume_frame [OF 1(1)] by simp
qed

lemma recent_calls_cong: "ts_calls st' = ts_calls st \<Longrightarrow> recent_calls cid st' = recent_calls cid st"
  by (simp add: recent_calls_def)

lemma passed_times_noted:
  assumes "run_gate (mm_now (tm_agent s)) ctx (tool_name request) (tm_shared s) = (m, st1)"
  shows "passed_times cid (noted ctx request s) = passed_times cid s @ passing m ctx (tool_clock s) cid"
  by (simp add: noted_def assms passed_times_def passing_def tool_clock_def)

lemma passed_times_frame [simp]:
  "passed_times cid (advance n ctx request r s) = passed_times cid s" "passed_times cid (landed n s) = passed_times cid s"
  "passed_times cid (agent_moved env e a s) = passed_times cid s"
  by (simp_all add: passed_times_def agent_moved_def)

lemma limiter_inv_step:
  assumes "tool_step env s e s'" "limiter_inv s"
  shows "limiter_inv s'"
  using assms(1)
proof (cases rule: tool_step.cases)
  case (agent_moves e a)
  have "recent_calls cid (tm_shared s') = recent_calls cid (tm_shared s)" for cid
    by (simp add: agent_moves(2) agent_moved_def recent_calls_def)
  then show ?thesis using assms(2) tool_clock_forward [OF assms(1)] by (simp add: limiter_inv_def agent_moves(2))
next
  case (call_starts ctx request recipients n)
  obtain step st where c: "call_start env (mm_now (tm_agent s)) ctx request (tm_shared s) = (step, st)" by fastforce
  obtain m st1 where g: "run_gate (mm_now (tm_agent s)) ctx (tool_name request) (tm_shared s) = (m, st1)" by fastforce
  have clock: "tool_clock s' = tool_clock s" by (simp add: call_starts(2) tool_clock_def)
  have shared: "recent_calls cid (tm_shared s') = recent_calls cid st1" for cid
    using recent_calls_cong [OF call_start_calls [OF c g]] by (simp add: call_starts(2) c)
  show ?thesis unfolding limiter_inv_def clock shared
    using assms(2) run_gate_calls(1) [OF g] passed_times_noted [OF g]
    by (simp add: call_starts(2) limiter_inv_def tool_clock_def)
next
  case (call_resumes n ctx request c k answer)
  obtain step st where r: "call_resume env (mm_now (tm_agent s)) ctx k answer (tm_shared s) = (step, st)" by fastforce
  have clock: "tool_clock s' = tool_clock s" by (simp add: call_resumes(2) tool_clock_def)
  have "recent_calls cid (tm_shared s') = recent_calls cid (tm_shared s)" for cid
    using recent_calls_cong [OF call_resume_calls [OF r]] by (simp add: call_resumes(2) r)
  then show ?thesis using assms(2) unfolding limiter_inv_def clock by (simp add: call_resumes(2))
qed

lemma passed_admission:
  assumes "tool_step env s e s'" "in_sync s" "limiter_inv s" "calls_within limit s e"
  shows "passed_times cid s' = passed_times cid s \<or>
    passed_times cid s' = passed_times cid s @ [tool_clock s] \<and>
      in_window 60000 (tool_clock s) (passed_times cid s @ [tool_clock s]) \<le> limit"
  using assms(1)
proof (cases rule: tool_step.cases)
  case (call_starts ctx request recipients n)
  obtain m st1 where g: "run_gate (mm_now (tm_agent s)) ctx (tool_name request) (tm_shared s) = (m, st1)" by fastforce
  have times: "passed_times cid s' = passed_times cid s @ passing m ctx (tool_clock s) cid"
    by (simp add: call_starts(2) passed_times_noted [OF g])
  show ?thesis
  proof (cases "m = None \<and> cid = mc_connectionId ctx")
    case True
    have "in_window 60000 (tool_clock s) (passed_times cid s) = in_window 60000 (tool_clock s) (recent_calls cid (tm_shared s))"
      using assms(3) unfolding limiter_inv_def length_last_minute [symmetric] by simp
    then have "in_window 60000 (tool_clock s) (passed_times cid s) < limit"
      using run_gate_calls(2) [OF g] True assms(2,4) by (simp add: calls_within_def in_sync_def tool_clock_def)
    then show ?thesis using times True by (simp add: passing_def in_window_Cons)
  qed (simp add: times passing_def)
qed simp_all

interpretation rate: window_limiter tool_initial "tool_step_if (calls_within limit) env" "\<lambda>s. tool_inv env s \<and> limiter_inv s"
    "passed_times cid" tool_clock 60000 limit for env limit cid
proof
  fix s assume "tool_initial s"
  then show "tool_inv env s \<and> limiter_inv s" using tool_inv_initial
    by (auto simp: tool_initial_def limiter_inv_def recent_calls_def passed_times_def blank_tool_machine_def blank_tools_def)
next
  fix s e s' assume "tool_inv env s \<and> limiter_inv s" "tool_step_if (calls_within limit) env s e s'"
  then show "tool_inv env s' \<and> limiter_inv s'" using tool_inv_step limiter_inv_step by (auto simp: tool_step_if_def)
next
  fix s assume "tool_initial s"
  then show "passed_times cid s = []" by (auto simp: tool_initial_def passed_times_def blank_tool_machine_def)
next
  fix s e s' assume "tool_step_if (calls_within limit) env s e s'"
  then show "tool_clock s \<le> tool_clock s'" using tool_clock_forward by (auto simp: tool_step_if_def)
next
  fix s e s' assume "tool_inv env s \<and> limiter_inv s" "tool_step_if (calls_within limit) env s e s'"
  then show "subseq (passed_times cid s') (passed_times cid s) \<or> passed_times cid s' = passed_times cid s @ [tool_clock s] \<and>
      in_window 60000 (tool_clock s) (passed_times cid s @ [tool_clock s]) \<le> limit"
    using passed_admission [of env s e s' limit cid] by (auto simp: tool_step_if_def tool_inv_def simp del: in_window_append)
qed

section \<open>Sends per hour and per day\<close>

definition live_send :: "string \<Rightarrow> operation_row \<Rightarrow> bool" where
  "live_send cid r = (op_connectionId r = cid \<and> op_kind r = OpSend \<and> op_status r \<noteq> OpFailed)"

definition row_times :: "string \<Rightarrow> operation_row list \<Rightarrow> int list" where
  "row_times cid rows = map op_createdAt (filter (live_send cid) rows)"

definition send_times :: "string \<Rightarrow> tool_machine \<Rightarrow> int list" where
  "send_times cid s = row_times cid (ts_operations (tm_shared s))"

text \<open>The two counts of the code are those of windows that hold their first moment as well.\<close>

lemma countSendsSince_window:
  "countSendsSince cid (now - w) st = in_window (w + 1) now (row_times cid (ts_operations st))"
proof -
  have "counted_send cid (now - w) = (\<lambda>r. live_send cid r \<and> now - (w + 1) < op_createdAt r)"
  proof
    fix r show "counted_send cid (now - w) r = (live_send cid r \<and> now - (w + 1) < op_createdAt r)"
      by (cases "op_status r") (auto simp: counted_send_def live_send_def)
  qed
  then show ?thesis
    by (simp add: countSendsSince_def in_window_def row_times_def filter_map comp_def conj_commute)
qed

definition pending_sends :: "string set \<Rightarrow> operation_row list \<Rightarrow> bool" where
  "pending_sends X rows = (\<forall>r \<in> set rows. op_id r \<in> X \<longrightarrow> op_kind r = OpSend \<and> op_status r = OpPending)"

lemma aged_row_times:
  "list_all2 (row_ages X) xs ys \<Longrightarrow> pending_sends X xs \<Longrightarrow> subseq (row_times cid ys) (row_times cid xs)"
proof (induction rule: list_all2_induct)
  case (Cons x xs y ys)
  have "live_send cid y \<Longrightarrow> live_send cid x" "op_createdAt y = op_createdAt x"
    using Cons.hyps(1) Cons.prems by (auto simp: row_ages_def live_send_def pending_sends_def)
  moreover have "subseq (row_times cid ys) (row_times cid xs)" using Cons by (simp add: pending_sends_def)
  ultimately show ?case by (auto simp: row_times_def)
qed (simp add: row_times_def)

lemma rows_age_times:
  assumes "rows_age env X new st st'" "\<And>r. new r \<Longrightarrow> op_kind r \<noteq> OpSend" "pending_sends X (ts_operations st)"
  shows "subseq (row_times cid (ts_operations st')) (row_times cid (ts_operations st))"
proof -
  obtain xs ys where *: "ts_operations st' = xs @ ys" "list_all2 (row_ages X) (ts_operations st) xs" "\<forall>r \<in> set ys. new r"
    using assms(1) by (auto simp: rows_age_def)
  have "filter (live_send cid) ys = []" using *(3) assms(2) by (auto simp: filter_empty_conv live_send_def)
  then have "row_times cid (ts_operations st') = row_times cid xs" by (simp add: row_times_def *(1))
  then show ?thesis using aged_row_times [OF *(2) assms(3)] by simp
qed

lemma row_times_cascade: "subseq (row_times cid (cascade db rows)) (row_times cid rows)"
proof -
  have "filter (live_send cid) (cascade db rows) = filter (\<lambda>r. findConnection (op_connectionId r) db \<noteq> None) (filter (live_send cid) rows)"
    by (simp add: cascade_def filter_filter conj_commute)
  then show ?thesis unfolding row_times_def by (simp only:) (rule subseq_map, rule subseq_filter_left)
qed

definition is_reply :: "tool_request \<Rightarrow> bool" where
  "is_reply request = (case request of SendCall a \<Rightarrow> sa_replyToMessageId a \<noteq> None | _ \<Rightarrow> False)"

definition sends_within :: "nat \<Rightarrow> nat \<Rightarrow> tool_machine \<Rightarrow> tool_event \<Rightarrow> bool" where
  "sends_within hourly daily s e =
     (ms_sendsPerHour (md_settings (mm_db (tm_agent s))) \<le> hourly \<and> ms_sendsPerDay (md_settings (mm_db (tm_agent s))) \<le> daily \<and>
      (case e of Called n ctx recipients request \<Rightarrow> \<not> is_reply request | _ \<Rightarrow> True))"

definition awaits_original :: "flight \<Rightarrow> bool" where
  "awaits_original k = (case k of AfterOriginal plan \<Rightarrow> True | _ \<Rightarrow> False)"

definition no_replies :: "tool_machine \<Rightarrow> bool" where
  "no_replies s = (\<not> list_ex awaits_original (map flight_of (tm_flights s)))"

lemma restore_loop_original:
  "restore_loop now ctx acct ids results st = (h, st') \<Longrightarrow> \<not> list_ex awaits_original (awaited h)"
proof (induction ids arbitrary: results)
  case (Cons i ids)
  then show ?case
    by (cases "restorable_operation ctx i st")
      (auto simp: awaited_def awaits_original_def split: if_splits)
qed (auto simp: awaited_def)

lemma send_submit_original: "send_submit env ctx plan a b st = (h, st') \<Longrightarrow> \<not> list_ex awaits_original (awaited h)"
  by (erule send_submit_cases) (simp_all add: awaited_def awaits_original_def)

lemma handler_start_original:
  assumes "handler_start env now ctx request st = (h, st')" "\<not> is_reply request"
  shows "\<not> list_ex awaits_original (awaited h)"
proof (cases request)
  case (SendCall a)
  then show ?thesis using assms
    by (auto simp: send_start_def Let_def is_reply_def awaited_def split: option.splits if_splits sum.splits
        dest: send_submit_original)
next
  case (RestoreCall ids)
  then show ?thesis using assms(1)
    by (auto simp: restore_start_def awaited_def split: sum.splits dest: restore_loop_original)
qed (use assms(1) in \<open>auto simp: reading_defs delete_start_def awaited_def awaits_original_def
      split: sum.splits option.splits prod.splits\<close>)

lemma handler_resume_original:
  assumes "handler_resume env now ctx k answer st = (h, st')"
  shows "\<not> list_ex awaits_original (awaited h)"
proof -
  have over: "\<not> list_ex awaits_original (awaited (Done x))" for x by (simp add: awaited_def)
  show ?thesis using assms
    by (cases k)
      (auto simp: reading_defs after_original_def send_completed_def send_failed_def after_trash_def after_restore_def
        restore_refused_def Let_def over
        split: backend_answer.splits prod.splits sum.splits tool_throw.splits if_splits
        dest: restore_loop_original send_submit_original)
qed

lemma no_replies_step:
  assumes "tool_step env s e s'" "no_replies s" "sends_within hourly daily s e"
  shows "no_replies s'"
  using assms(1)
proof (cases rule: tool_step.cases)
  case (call_starts ctx request recipients n)
  obtain step st where c: "call_start env (mm_now (tm_agent s)) ctx request (tm_shared s) = (step, st)" by fastforce
  have plain: "\<not> is_reply request" using assms(3) by (simp add: call_starts(1) sends_within_def)
  have "\<not> list_ex awaits_original (waiting step)" using c
  proof (cases rule: call_start_cases)
    case (runs st1 h st2)
    then show ?thesis using handler_start_original [OF runs(2) plain] waiting_awaited [OF runs(3)] by simp
  qed (simp add: waiting_def)
  then show ?thesis using assms(2) by (simp add: no_replies_def call_starts(2) c advance_flights)
next
  case (call_resumes n ctx request c k answer)
  obtain step st where r: "call_resume env (mm_now (tm_agent s)) ctx k answer (tm_shared s) = (step, st)" by fastforce
  have "\<not> list_ex awaits_original (waiting step)" using r
  proof (cases rule: call_resume_cases)
    case (1 h st2)
    then show ?thesis using handler_resume_original [OF 1(1)] waiting_awaited [OF 1(2)] by simp
  qed
  moreover have "\<not> list_ex awaits_original (map flight_of (tm_flights (landed n s)))"
    using assms(2) by (auto simp: no_replies_def list_ex_iff landed_def)
  ultimately show ?thesis by (simp add: no_replies_def call_resumes(2) r advance_flights)
qed (use assms(2) in \<open>simp add: no_replies_def agent_moved_def\<close>)

text \<open>A step admits at most one send, and then neither count had reached its limit.\<close>

definition admits_send :: "nat \<Rightarrow> nat \<Rightarrow> int \<Rightarrow> int list \<Rightarrow> int list \<Rightarrow> bool" where
  "admits_send hourly daily now ts ts' =
     (subseq ts' ts \<or> ts' = ts @ [now] \<and> in_window 3600001 now (ts @ [now]) \<le> hourly \<and> in_window 86400001 now (ts @ [now]) \<le> daily)"

lemma call_start_sends:
  assumes "call_start env now ctx request st = (step, st')"
    "ms_sendsPerHour (md_settings (ts_db st)) \<le> hourly" "ms_sendsPerDay (md_settings (ts_db st)) \<le> daily"
  shows "admits_send hourly daily now (row_times cid (ts_operations st)) (row_times cid (ts_operations st'))"
  using assms(1)
proof (cases rule: call_start_cases)
  case (gated m)
  then show ?thesis using run_gate_frame(2) [OF gated(1)] by (simp add: admits_send_def)
next
  case (runs st1 h st2)
  note same = run_gate_frame(1,2) [OF runs(1)] conclude_effect(1) [OF runs(3)]
  from handler_start_rows [OF runs(2)] show ?thesis
  proof (elim disjE exE conjE)
    assume "ts_operations st2 = ts_operations st1"
    then show ?thesis by (simp add: same admits_send_def)
  next
    fix a plan assume h: "sp_now plan = now" "\<not> limit_reached now ctx st1" "send_submit env ctx plan None None st1 = (h, st2)"
    from h(3) show ?thesis
    proof (cases rule: send_submit_cases)
      case (submits row messageId m)
      have "live_send cid row \<longleftrightarrow> cid = mc_connectionId ctx" using submits by (auto simp: live_send_def)
      moreover have "countSendsSince (mc_connectionId ctx) (now - 3600000) st < hourly"
        "countSendsSince (mc_connectionId ctx) (now - 86400000) st < daily"
        using h(2) assms(2,3) same(1,2) by (auto simp: limit_reached_def countSendsSince_def)
      ultimately show ?thesis
        using submits(3,10) h(1) by (simp add: same admits_send_def row_times_def countSendsSince_window in_window_Cons)
    qed (simp add: same admits_send_def)
  qed
qed

lemma call_resume_sends:
  assumes "call_resume env now ctx k answer st = (step, st')" "\<not> awaits_original k" "flights_ok env st (k # ks)"
  shows "subseq (row_times cid (ts_operations st')) (row_times cid (ts_operations st))"
  using assms(1)
proof (cases rule: call_resume_cases)
  case (1 h st2)
  note same = conclude_effect(1) [OF 1(2)]
  have none: "pending_sends {} rows" for rows by (simp add: pending_sends_def)
  show ?thesis unfolding same
  proof (cases rule: handler_resume_rows [OF 1(1)])
    case 1
    note changes = this
    have "pending_sends (set (flight_send k)) (ts_operations st)" using assms(3) by (auto simp: flights_ok_def pending_sends_def)
    then show "subseq (row_times cid (ts_operations st2)) (row_times cid (ts_operations st))"
      by (intro rows_age_times [OF changes(1)]) (auto simp: added_by_def deletion_def split: flight.splits)
  next
    case (2 plan original)
    then show "subseq (row_times cid (ts_operations st2)) (row_times cid (ts_operations st))"
      using assms(2) by (simp add: awaits_original_def)
  next
    case (3 acct op i ids results ref r st1)
    note restores = this
    have "rows_age env {} (restoration_of (op_id op)) st st1"
      by (rule restore_recorded_age [OF restores(3)]) (use assms(3) restores(1) in \<open>auto simp: flights_ok_def\<close>)
    from rows_age_times [OF this _ none] show "subseq (row_times cid (ts_operations st2)) (row_times cid (ts_operations st))"
      by (simp add: restores(4) restoration_of_def)
  qed
qed

lemma send_admission:
  assumes "tool_step env s e s'" "tool_inv env s" "inj (te_opId env)" "no_replies s" "sends_within hourly daily s e"
  shows "admits_send hourly daily (tool_clock s) (send_times cid s) (send_times cid s')"
  using assms(1)
proof (cases rule: tool_step.cases)
  case (agent_moves e a)
  then show ?thesis using row_times_cascade by (simp add: admits_send_def send_times_def agent_moved_def)
next
  case (call_starts ctx request recipients n)
  obtain step st where c: "call_start env (mm_now (tm_agent s)) ctx request (tm_shared s) = (step, st)" by fastforce
  show ?thesis using call_start_sends [OF c] assms(2,5)
    by (simp add: send_times_def call_starts(2) c tool_clock_def sends_within_def tool_inv_def in_sync_def)
next
  case (call_resumes n ctx request c k answer)
  obtain step st where r: "call_resume env (mm_now (tm_agent s)) ctx k answer (tm_shared s) = (step, st)" by fastforce
  have "state_ok env (tm_shared s) (k # map flight_of (tm_flights (landed n s)))"
    by (rule landed_flights [OF call_resumes(3)]) (use assms(2,3) in \<open>auto simp: tool_inv_def in_sync_def rows_inv_def\<close>)
  then have flights: "flights_ok env (tm_shared s) (k # map flight_of (tm_flights (landed n s)))" by (simp add: state_ok_def)
  have "\<not> awaits_original k" using assms(4) call_resumes(3) by (force simp: no_replies_def list_ex_iff)
  from call_resume_sends [OF r this flights] show ?thesis
    by (simp add: send_times_def call_resumes(2) r admits_send_def)
qed

text \<open>Random identifiers are distinct on these runs.\<close>

definition send_runs :: "nat \<Rightarrow> nat \<Rightarrow> tool_env \<Rightarrow> tool_machine \<Rightarrow> tool_event \<Rightarrow> bool" where
  "send_runs hourly daily env s e = (inj (te_opId env) \<and> sends_within hourly daily s e)"

definition send_inv :: "tool_env \<Rightarrow> tool_machine \<Rightarrow> bool" where
  "send_inv env s = (tool_inv env s \<and> no_replies s)"

lemma send_inv_initial: "tool_initial s \<Longrightarrow> send_inv env s"
  using tool_inv_initial [of s env] by (auto simp: send_inv_def tool_initial_def no_replies_def blank_tool_machine_def)

lemma send_inv_step: "send_inv env s \<Longrightarrow> tool_step_if (send_runs hourly daily env) env s e s' \<Longrightarrow> send_inv env s'"
  using tool_inv_step no_replies_step by (auto simp: send_inv_def tool_step_if_def send_runs_def)

lemma send_times_initial: "tool_initial s \<Longrightarrow> send_times cid s = []"
  by (auto simp: tool_initial_def send_times_def row_times_def blank_tool_machine_def blank_tools_def)

lemma send_runs_admission:
  "send_inv env s \<Longrightarrow> tool_step_if (send_runs hourly daily env) env s e s' \<Longrightarrow>
     admits_send hourly daily (tool_clock s) (send_times cid s) (send_times cid s')"
  by (rule send_admission) (auto simp: send_inv_def tool_step_if_def send_runs_def)

lemma clock_forward_if: "tool_step_if P env s e s' \<Longrightarrow> tool_clock s \<le> tool_clock s'"
  using tool_clock_forward by (auto simp: tool_step_if_def)

interpretation hourly: window_limiter tool_initial "tool_step_if (send_runs hourly daily env) env" "send_inv env"
    "send_times cid" tool_clock 3600001 hourly for env hourly daily cid
  by unfold_locales
    (auto intro: send_inv_initial send_inv_step clock_forward_if simp: send_times_initial simp del: in_window_append
      dest: send_runs_admission [unfolded admits_send_def])

interpretation daily: window_limiter tool_initial "tool_step_if (send_runs hourly daily env) env" "send_inv env"
    "send_times cid" tool_clock 86400001 daily for env hourly daily cid
  by unfold_locales
    (auto intro: send_inv_initial send_inv_step clock_forward_if simp: send_times_initial simp del: in_window_append
      dest: send_runs_admission [unfolded admits_send_def])

text \<open>
  A reply that resumes does not look at the limit again: whatever was sent meanwhile, it records its send
  and submits it.
\<close>

lemma reply_ignores_limit:
  assumes "limit_reached now ctx st" "insertable env (mc_connectionId ctx) OpSend (sa_idempotencyKey (sp_args plan)) st"
  shows "\<exists>acct m saved k st'. after_original env ctx plan original st = (Await (SendMail acct m saved) k, st')"
  using assms(2) by (simp add: after_original_def send_submit_def createOperation_def Let_def)

end
