(* ===== verification/McpToolExample.thy ===== *)
theory McpToolExample
  imports McpToolLimits
begin

text \<open>
  A run of the tools: the run of the mail agent without tools, a request with its token, then calls.
\<close>

section \<open>Runs of the agent, lifted\<close>

definition lifted :: "mcp_machine \<Rightarrow> tool_machine \<Rightarrow> tool_machine" where
  "lifted a s = s\<lparr>tm_agent := a, tm_shared := (tm_shared s)\<lparr>ts_db := mm_db a\<rparr>\<rparr>"

definition bearer_event :: "mcp_event \<Rightarrow> bool" where
  "bearer_event e = (case e of BearerChecked cid authorization ip \<Rightarrow> True | _ \<Rightarrow> False)"

lemma contexts_of_none: "\<not> bearer_event e \<Longrightarrow> contexts_of env now db e = {}"
  by (cases e) (simp_all add: bearer_event_def)

lemma lifted_run:
  assumes "run_ok (te_agent env) a es" "run_all P (te_agent env) a es" "list_all (\<lambda>e. \<not> bearer_event e) es"
    "ts_operations (tm_shared s) = []" "\<And>a e. P a \<Longrightarrow> Q (lifted a s) (AgentStep e)"
  shows "path (tool_step_if Q env) (lifted a s) (map AgentStep es) (lifted (foldl (mcp_next (te_agent env)) a es) s)"
  using assms(1-3)
proof (induction es arbitrary: a)
  case (Cons e es)
  have "mcp_step (te_agent env) a e (mcp_next (te_agent env) a e)" by (rule happens) (use Cons.prems in simp)
  then have "tool_step env (lifted a s) (AgentStep e) (agent_moved env e (mcp_next (te_agent env) a e) (lifted a s))"
    by (intro agent_moves) (simp add: lifted_def)
  moreover have "agent_moved env e (mcp_next (te_agent env) a e) (lifted a s) = lifted (mcp_next (te_agent env) a e) s"
    using Cons.prems(3) assms(4) by (simp add: agent_moved_def lifted_def contexts_of_none cascade_def)
  ultimately show ?case using Cons assms(5) by (auto simp: tool_step_if_def)
qed auto

lemma reachable_along: "path moves s es s' \<Longrightarrow> reachable initial moves s \<Longrightarrow> reachable initial moves s'"
  by (induction rule: path.induct) auto

section \<open>The run\<close>

definition demo_op :: string where "demo_op = ''op_'' @ replicate 26 (CHR ''0'')"

definition demo_tools :: tool_env where
  "demo_tools = \<lparr>te_agent = demo_env, te_decrypt = (\<lambda>sealed aad. Some ''pw''),
     te_opId = (\<lambda>n. if n = 0 then demo_op else replicate n (CHR ''x'')), te_random = (\<lambda>n. ''r'')\<rparr>"

lemma demo_ids: "inj (te_opId demo_tools)"
proof (rule injI)
  fix m n assume "te_opId demo_tools m = te_opId demo_tools n"
  moreover have "demo_op \<noteq> replicate k (CHR ''x'')" "replicate k (CHR ''x'') \<noteq> demo_op" for k
    by (cases k; simp add: demo_op_def)+
  ultimately show "m = n" by (auto simp: demo_tools_def replicate_eq_replicate split: if_splits)
qed

definition demo_check :: mcp_event where "demo_check = BearerChecked demo_cid (Some ''Bearer at'') None"

definition demo_agent :: mcp_machine where "demo_agent = mcp_next demo_env (demo_state 12) demo_check"

definition tools_ready :: tool_machine where
  "tools_ready = agent_moved demo_tools demo_check demo_agent (lifted (demo_state 12) (blank_tool_machine demo_settings 0))"

lemma demo_tables:
  "mm_now demo_agent = 0" "md_settings (mm_db demo_agent) = demo_settings"
  "findBinding ''B'' (mm_db demo_agent) = Some (md_bindings demo_db ! 0)"
  "getCredential ''B'' (mm_db demo_agent) = Some (md_credentials demo_db ! 0)"
  "findConnection demo_cid (mm_db demo_agent) \<noteq> None"
  "findAccessTokenByHash ''at'' (mm_db demo_agent) = Some (md_access demo_db ! 0)"
  "map gr_id (md_grants (mm_db demo_agent)) = [''G'']" "map gr_connectionId (md_grants (mm_db demo_agent)) = [demo_cid]"
  "map cn_id (md_connections (mm_db demo_agent)) = [demo_cid]" "map cn_bindingId (md_connections (mm_db demo_agent)) = [''B'']"
  by (simp_all add: demo_agent_def mcp_next_def demo_check_def)
    (simp_all add: demo_db_def demo_settings_def defaultMcpSettings_def demo_scopes_def bearer_verify_def bearer_token_def trim_def
      trim_by_def js_space_def starts_with_def bearer_char_def
      unreserved_char_def less_eq_char_def findConnection_def findAccessTokenByHash_def demo_env_def verify_token_def Let_def
      resourceFor_def findGrant_def findBinding_def statusOf_def credentialHealthOf_def credentialHealth_def getCredential_def
      countActiveGrants_def availableCapabilities_def MCP_SCOPES_def touchGrant_def touchUsed_def update_where_def)

lemma tools_ready_simps [simp]:
  "tm_agent tools_ready = demo_agent" "ts_db (tm_shared tools_ready) = mm_db demo_agent"
  "ts_operations (tm_shared tools_ready) = []" "ts_calls (tm_shared tools_ready) = Map.empty" "ts_drawn (tm_shared tools_ready) = 0"
  "tm_contexts tools_ready = {demo_ctx}" "tm_flights tools_ready = []" "tm_log tools_ready = []" "tm_passed tools_ready = []"
  using demo_accepts
  by (simp_all add: tools_ready_def agent_moved_def lifted_def cascade_def blank_tool_machine_def blank_tools_def demo_check_def
      demo_tools_def)

lemma tools_ready_path:
  assumes "\<And>s e. md_settings (mm_db (tm_agent s)) = demo_settings \<Longrightarrow> Q s (AgentStep e)"
  shows "reachable tool_initial (tool_step_if Q demo_tools) tools_ready"
proof -
  let ?blank = "blank_tool_machine demo_settings 0"
  have start: "lifted demo_start ?blank = ?blank" by (simp add: lifted_def demo_start_def blank_tool_machine_def blank_tools_def blank_machine_def)
  have env: "te_agent demo_tools = demo_env" by (simp add: demo_tools_def)
  have state: "foldl (mcp_next demo_env) demo_start demo_events = demo_state 12"
    by (simp add: demo_state_def demo_events_def)
  have "path (tool_step_if Q demo_tools) (lifted demo_start ?blank) (map AgentStep demo_events) (lifted (demo_state 12) ?blank)"
    unfolding state [symmetric] env [symmetric]
  proof (rule lifted_run [where P = default_limits])
    show "run_ok (te_agent demo_tools) demo_start demo_events" unfolding env by (rule demo_run)
    show "run_all default_limits (te_agent demo_tools) demo_start demo_events" unfolding env by (rule demo_limits)
    show "list_all (\<lambda>e. \<not> bearer_event e) demo_events" by (simp add: demo_events_def bearer_event_def)
    show "ts_operations (tm_shared ?blank) = []" by (simp add: blank_tool_machine_def blank_tools_def)
    show "Q (lifted a ?blank) (AgentStep e)" if "default_limits a" for a e
      by (rule assms) (use that in \<open>simp add: default_limits_def lifted_def\<close>)
  qed
  then have "path (tool_step_if Q demo_tools) ?blank (map AgentStep demo_events) (lifted (demo_state 12) ?blank)" by (simp only: start)
  moreover have "reachable tool_initial (tool_step_if Q demo_tools) ?blank"
    by (rule reachable.start) (auto simp: tool_initial_def)
  ultimately have "reachable tool_initial (tool_step_if Q demo_tools) (lifted (demo_state 12) ?blank)"
    by (rule reachable_along)
  moreover have "mcp_step demo_env (demo_state 12) demo_check demo_agent"
    unfolding demo_agent_def by (rule demo_step) (simp_all add: demo_check_def)
  then have "tool_step demo_tools (lifted (demo_state 12) ?blank) (AgentStep demo_check) tools_ready"
    unfolding tools_ready_def by (intro agent_moves) (simp add: lifted_def env)
  moreover have "Q (lifted (demo_state 12) ?blank) (AgentStep demo_check)"
    by (rule assms) (simp add: lifted_def, simp add: demo_db_def demo_settings_def defaultMcpSettings_def)
  ultimately show ?thesis by (auto simp: tool_step_if_def)
qed

section \<open>A send\<close>

definition demo_mail :: send_args where
  "demo_mail = \<lparr>sa_to = [''a@b''], sa_cc = [], sa_bcc = [], sa_subject = ''s'', sa_text = Some ''t'', sa_html = None, sa_from = None,
     sa_fromName = None, sa_replyToMessageId = None, sa_attachments = [], sa_idempotencyKey = Some ''k1234567'', sa_confirm = True\<rparr>"

definition demo_account :: mail_account where
  "demo_account = \<lparr>acct_address = ''m'', acct_password = ''pw'', acct_transport = ms_mail demo_settings\<rparr>"

lemma demo_rows:
  "bi_id (md_bindings demo_db ! 0) = ''B''" "bi_mailbox (md_bindings demo_db ! 0) = ''m''" "cd_keyId (md_credentials demo_db ! 0) = ''k''"
  by (simp_all add: demo_db_def)

lemma demo_opens: "ts_db st = mm_db demo_agent \<Longrightarrow> account demo_tools demo_ctx st = Inr demo_account"
  by (simp add: account_def openCredential_def vault_open_def demo_ctx_def demo_tables demo_rows demo_tools_def demo_account_def
      demo_env_def)

lemma demo_limit_settings:
  "ms_toolCallsPerMinute demo_settings = 60" "ms_sendsPerHour demo_settings = 20" "ms_sendsPerDay demo_settings = 100"
  "ms_maxRecipientsPerMessage demo_settings = 20" "ms_saveSentCopies demo_settings"
  by (simp_all add: demo_settings_def defaultMcpSettings_def)

lemma demo_registered: "registered demo_ctx request"
  by (cases request) (simp_all add: registered_def TOOL_SCOPES_def demo_ctx_def demo_scopes_def)

text \<open>The gate lets the calls of the run through.\<close>

definition gated :: "tools_state \<Rightarrow> tools_state" where
  "gated st = st\<lparr>ts_calls := (ts_calls st)(demo_cid \<mapsto> recent_calls demo_cid st @ [0])\<rparr>"

lemma gated_simps [simp]:
  "ts_db (gated st) = ts_db st" "ts_operations (gated st) = ts_operations st" "ts_drawn (gated st) = ts_drawn st"
  "recent_calls demo_cid (gated st) = recent_calls demo_cid st @ [0]"
  by (simp_all add: gated_def recent_calls_def)

lemma demo_gate:
  assumes "ts_db st = mm_db demo_agent" "recent_calls demo_cid st = replicate j 0" "j < 60"
  shows "run_gate 0 demo_ctx (tool_name request) st = (None, gated st)"
proof -
  have "filter (\<lambda>t. 0 - t < (60000 :: int)) (recent_calls demo_cid st) = recent_calls demo_cid st" by (simp add: assms(2))
  then have "allow demo_cid 60 0 (ts_calls st) = (True, (ts_calls st)(demo_cid \<mapsto> recent_calls demo_cid st @ [0]))"
    using assms(2,3) by (simp add: allow_def recent_calls_def Let_def)
  then show ?thesis using demo_registered [of request] assms(1)
    by (auto simp: run_gate_def registered_def demo_tables demo_limit_settings demo_ctx_def gated_def split: option.splits)
qed

text \<open>A call of the client, and the answer to it.\<close>

definition demo_call :: "nat \<Rightarrow> tool_request \<Rightarrow> tool_machine \<Rightarrow> tool_machine" where
  "demo_call n request s = advance n demo_ctx request (call_start demo_tools 0 demo_ctx request (tm_shared s)) (noted demo_ctx request s)"

definition demo_answer :: "nat \<Rightarrow> tool_request \<Rightarrow> flight \<Rightarrow> backend_answer \<Rightarrow> tool_machine \<Rightarrow> tool_machine" where
  "demo_answer n request k answer s =
     advance n demo_ctx request (call_resume demo_tools 0 demo_ctx k answer (tm_shared s)) (landed n s)"

lemma demo_call_step:
  assumes "mm_now (tm_agent s) = 0" "demo_ctx \<in> tm_contexts s" "input_schema 20 request" "tm_flights s = []"
  shows "tool_step demo_tools s (Called n demo_ctx 20 request) (demo_call n request s)"
  unfolding demo_call_def assms(1) [symmetric]
  by (intro call_starts demo_registered) (simp_all add: assms)

lemma demo_answer_step:
  assumes "mm_now (tm_agent s) = 0" "tm_flights s = [(n, demo_ctx, request, c, k)]" "answers c answer"
  shows "tool_step demo_tools s (Answered n answer) (demo_answer n request k answer s)"
  unfolding demo_answer_def assms(1) [symmetric]
  by (rule call_resumes) (use assms in auto)

lemma landed_only: "tm_flights s = [(n, x)] \<Longrightarrow> tm_flights (landed n s) = []"
  by (simp add: landed_def)

definition demo_row :: operation_row where
  "demo_row = \<lparr>op_id = demo_op, op_connectionId = demo_cid, op_kind = OpSend, op_status = OpPending,
     op_idempotencyKey = Some ''k1234567'', op_details = SendDetails ''<r.mcp@m>'' 1 None, op_error = None, op_createdAt = 0,
     op_completedAt = None\<rparr>"

lemma demo_sends:
  "\<exists>m k. call_start demo_tools 0 demo_ctx (SendCall demo_mail) (tm_shared tools_ready) =
     (Waiting (SendMail demo_account m True) k, (gated (tm_shared tools_ready))\<lparr>ts_drawn := 1, ts_operations := [demo_row]\<rparr>)"
proof -
  let ?st = "gated (tm_shared tools_ready)"
  have "run_gate 0 demo_ctx (tool_name (SendCall demo_mail)) (tm_shared tools_ready) = (None, ?st)"
    by (rule demo_gate [where j = 0]) (simp_all add: recent_calls_def)
  moreover have "send_refusal demo_settings demo_ctx demo_mail = None"
    by (simp add: send_refusal_def demo_mail_def recipients_of_def demo_limit_settings from_address_def allowed_from_def demo_ctx_def
        or_else_text_def attachment_bytes_def)
  moreover have "previous_send demo_ctx demo_mail ?st = None"
    by (simp add: previous_send_def demo_mail_def findByIdempotencyKey_def)
  moreover have "\<not> limit_reached 0 demo_ctx ?st"
    by (simp add: limit_reached_def countSendsSince_def demo_tables demo_limit_settings)
  moreover have "account demo_tools demo_ctx ?st = Inr demo_account" by (rule demo_opens) simp
  moreover have "insertable demo_tools demo_cid OpSend key ?st" for key using demo_tables(5)
    by (auto simp: insertable_def split: option.split)
  moreover have "sa_replyToMessageId demo_mail = None" by (simp add: demo_mail_def)
  moreover have "from_address demo_ctx demo_mail = ''m''"
    by (simp add: from_address_def demo_mail_def demo_ctx_def or_else_text_def to_lower_def to_lower_char_def is_ascii_upper_def)
  moreover have "generateMessageId (te_random demo_tools 0) ''m'' = ''<r.mcp@m>''"
    by (simp add: generateMessageId_def demo_tools_def last_index_of_def Let_def)
  moreover have "recipients_of demo_mail = 1" "sa_idempotencyKey demo_mail = Some ''k1234567''"
    by (simp_all add: recipients_of_def demo_mail_def)
  moreover have "te_opId demo_tools 0 = demo_op" "mc_connectionId demo_ctx = demo_cid" by (simp_all add: demo_tools_def demo_ctx_def)
  ultimately show ?thesis
    by (simp add: call_start_def send_start_def demo_tables send_submit_def createOperation_def Let_def conclude_def
        demo_limit_settings demo_row_def)
qed

definition send_called :: tool_machine where "send_called = demo_call 0 (SendCall demo_mail) tools_ready"

lemma send_called_step: "tool_step demo_tools tools_ready (Called 0 demo_ctx 20 (SendCall demo_mail)) send_called"
  unfolding send_called_def
  by (rule demo_call_step)
    (simp_all add: demo_tables, simp add: demo_mail_def line_terminator_def is_ascii_alnum_def is_ascii_lower_def
      is_ascii_upper_def is_digit_def)

lemma send_called_simps:
  "ts_operations (tm_shared send_called) = [demo_row]" "tm_passed send_called = [(demo_cid, 0)]"
  "\<exists>m. tm_log send_called = [(demo_ctx, SendCall demo_mail, SendMail demo_account m True)]"
proof -
  obtain m k where *: "call_start demo_tools 0 demo_ctx (SendCall demo_mail) (tm_shared tools_ready) =
      (Waiting (SendMail demo_account m True) k, (gated (tm_shared tools_ready))\<lparr>ts_drawn := 1, ts_operations := [demo_row]\<rparr>)"
    using demo_sends by blast
  show "ts_operations (tm_shared send_called) = [demo_row]" by (simp add: send_called_def demo_call_def *)
  show "\<exists>m. tm_log send_called = [(demo_ctx, SendCall demo_mail, SendMail demo_account m True)]"
    by (simp add: send_called_def demo_call_def *)
  have "run_gate 0 demo_ctx (tool_name (SendCall demo_mail)) (tm_shared tools_ready) = (None, gated (tm_shared tools_ready))"
    by (rule demo_gate [where j = 0]) (simp_all add: recent_calls_def)
  moreover have "mc_connectionId demo_ctx = demo_cid" by (simp add: demo_ctx_def)
  ultimately show "tm_passed send_called = [(demo_cid, 0)]"
    by (simp add: send_called_def demo_call_def noted_def demo_tables(1))
qed

lemma send_called_reachable:
  assumes "\<And>s e. md_settings (mm_db (tm_agent s)) = demo_settings \<Longrightarrow> Q s (AgentStep e)"
    "Q tools_ready (Called 0 demo_ctx 20 (SendCall demo_mail))"
  shows "reachable tool_initial (tool_step_if Q demo_tools) send_called"
  using tools_ready_path [of Q] assms(1) send_called_step assms(2) by (auto simp: tool_step_if_def)

lemma reachable_if: "reachable tool_initial (tool_step_if Q env) s \<Longrightarrow> reachable tool_initial (tool_step env) s"
  by (induction rule: reachable.induct) (auto simp: tool_step_if_def)

lemma tools_ready_reachable: "reachable tool_initial (tool_step demo_tools) tools_ready"
  by (rule reachable_if [OF tools_ready_path [where Q = "\<lambda>_ _. True"]]) simp

section \<open>A rejected credential\<close>

definition folders_called :: tool_machine where "folders_called = demo_call 0 ListFoldersCall tools_ready"

lemma folders_called:
  "reachable tool_initial (tool_step demo_tools) folders_called" "tm_agent folders_called = demo_agent"
  "tm_flights folders_called = [(0, demo_ctx, ListFoldersCall, ListFolders demo_account, AfterFolders)]"
proof -
  have "tool_step demo_tools tools_ready (Called 0 demo_ctx 20 ListFoldersCall) folders_called"
    unfolding folders_called_def by (rule demo_call_step) (simp_all add: demo_tables)
  then show "reachable tool_initial (tool_step demo_tools) folders_called" by (rule reachable.step [OF tools_ready_reachable])
  have "run_gate 0 demo_ctx (tool_name ListFoldersCall) (tm_shared tools_ready) = (None, gated (tm_shared tools_ready))"
    by (rule demo_gate [where j = 0]) (simp_all add: recent_calls_def)
  moreover have "account demo_tools demo_ctx (gated (tm_shared tools_ready)) = Inr demo_account" by (rule demo_opens) simp
  ultimately have *: "call_start demo_tools 0 demo_ctx ListFoldersCall (tm_shared tools_ready) =
      (Waiting (ListFolders demo_account) AfterFolders, gated (tm_shared tools_ready))"
    by (simp add: call_start_def with_account_def conclude_def)
  show "tm_agent folders_called = demo_agent" by (simp add: folders_called_def demo_call_def * advance_def Let_def)
  show "tm_flights folders_called = [(0, demo_ctx, ListFoldersCall, ListFolders demo_account, AfterFolders)]"
    by (simp add: folders_called_def demo_call_def *)
qed

section \<open>A deletion and its restoration\<close>

definition demo_ref :: message_ref where "demo_ref = \<lparr>mr_folder = [73], mr_uidValidity = ''1'', mr_uid = 7\<rparr>"
definition demo_trash :: message_ref where "demo_trash = \<lparr>mr_folder = [84], mr_uidValidity = ''2'', mr_uid = 3\<rparr>"

definition demo_delete :: tool_request where "demo_delete = DeleteCall [encodeMessageRef demo_ref] True"
definition demo_restore :: tool_request where "demo_restore = RestoreCall [demo_op]"

definition demo_moved :: backend_answer where
  "demo_moved = MovedToTrash [\<lparr>tv_original = demo_ref, tv_trash = demo_trash, tv_messageId = None\<rparr>]"

definition demo_deletion :: "int option \<Rightarrow> operation_row" where
  "demo_deletion restored = \<lparr>op_id = demo_op, op_connectionId = demo_cid, op_kind = OpDelete, op_status = OpCompleted,
     op_idempotencyKey = None, op_details = DeleteDetails demo_ref demo_trash None True restored, op_error = None,
     op_createdAt = 0, op_completedAt = Some 0\<rparr>"

definition demo_restoration :: operation_row where
  "demo_restoration = \<lparr>op_id = ''x'', op_connectionId = demo_cid, op_kind = OpRestore, op_status = OpCompleted,
     op_idempotencyKey = None, op_details = RestoreDetails demo_op [73] 7, op_error = None, op_createdAt = 0, op_completedAt = Some 0\<rparr>"

lemma demo_server_ref: "server_ref demo_ref"
  by (simp add: demo_ref_def server_ref_def isSafeFolderName_def utf16_length_def UNSAFE_FOLDER_CHARACTERS_def
      MAX_FOLDER_LENGTH_def scalar_value_def surrogate_def is_digit_def)

lemma demo_utf8: "length (utf8_encode (mr_folder demo_ref)) = 1" "length (utf8_encode [73]) = 1"
  by (simp_all add: demo_ref_def utf8_encode_def utf8_point_def surrogate_def)

lemma demo_decodes: "decodeMessageRef (encodeMessageRef demo_ref) = Some demo_ref"
proof -
  have "utf8_decode (utf8_encode (mr_folder demo_ref)) = mr_folder demo_ref"
    by (rule utf8_decode_encode) (simp add: demo_ref_def scalar_value_def surrogate_def)
  then show ?thesis using demo_server_ref demo_utf8(1)
    by (simp add: decodeMessageRef_def message_id_groups_encode [OF demo_server_ref] Let_def server_ref_def isSafeFolderName_def)
qed

lemma demo_id_length: "Suc 0 \<le> length (encodeMessageRef demo_ref)" "length (encodeMessageRef demo_ref) \<le> 500"
  by (simp_all add: encodeMessageRef_def base64url_encode_def length_sextets demo_utf8 show_nat.simps [of 7] demo_ref_def)

lemma demo_env_ids: "te_opId demo_tools 0 = demo_op" "te_opId demo_tools (Suc 0) = ''x''" "isRestoreId demo_op" "demo_op \<noteq> ''x''"
  "mc_connectionId demo_ctx = demo_cid" "mc_mailbox demo_ctx = ''m''"
  by (simp_all add: demo_tools_def demo_op_def isRestoreId_def starts_with_def is_digit_def list_all_iff demo_ctx_def)

definition delete_called :: tool_machine where "delete_called = demo_call 1 demo_delete tools_ready"
definition delete_answered :: tool_machine where "delete_answered = demo_answer 1 demo_delete AfterTrash demo_moved delete_called"
definition restore_called :: tool_machine where "restore_called = demo_call 2 demo_restore delete_answered"
definition restore_answered :: tool_machine where
  "restore_answered = demo_answer 2 demo_restore (AfterRestore demo_account (demo_deletion None) demo_op [] []) (RestoredTo demo_ref) restore_called"

lemma delete_called:
  "tm_agent delete_called = demo_agent" "tm_contexts delete_called = {demo_ctx}"
  "tm_flights delete_called = [(1, demo_ctx, demo_delete, MoveToTrash demo_account [demo_ref], AfterTrash)]"
  "tm_shared delete_called = gated (tm_shared tools_ready)"
proof -
  have "run_gate 0 demo_ctx (tool_name demo_delete) (tm_shared tools_ready) = (None, gated (tm_shared tools_ready))"
    by (rule demo_gate [where j = 0]) (simp_all add: recent_calls_def)
  moreover have "account demo_tools demo_ctx (gated (tm_shared tools_ready)) = Inr demo_account" by (rule demo_opens) simp
  ultimately have *: "call_start demo_tools 0 demo_ctx demo_delete (tm_shared tools_ready) =
      (Waiting (MoveToTrash demo_account [demo_ref]) AfterTrash, gated (tm_shared tools_ready))"
    by (simp add: call_start_def demo_delete_def delete_start_def demo_decodes conclude_def)
  show "tm_agent delete_called = demo_agent" "tm_contexts delete_called = {demo_ctx}"
    "tm_flights delete_called = [(1, demo_ctx, demo_delete, MoveToTrash demo_account [demo_ref], AfterTrash)]"
    "tm_shared delete_called = gated (tm_shared tools_ready)"
    by (simp_all add: delete_called_def demo_call_def * advance_def Let_def)
qed

text \<open>A step of a call that ends it without a rejected credential keeps the database.\<close>

lemma concluded:
  "conclude 0 demo_ctx (Done (Inr out), st) =
     (Finished (ToolOk out), tool_audit 0 demo_ctx ''tool.called'' True (Some ''m'') st)"
  by (simp add: conclude_def run_finish_def rejected_binding_def is_tool_error_def demo_env_ids Let_def)

lemma recent_calls_audit [simp]: "recent_calls cid (tool_audit now ctx e b m st) = recent_calls cid st"
  by (simp add: recent_calls_def)

lemma recent_calls_rows [simp]:
  "recent_calls cid (st\<lparr>ts_operations := rows\<rparr>) = recent_calls cid st" "recent_calls cid (st\<lparr>ts_drawn := n\<rparr>) = recent_calls cid st"
  by (simp_all add: recent_calls_def)

lemma delete_answered:
  "tm_agent delete_answered = demo_agent" "tm_contexts delete_answered = {demo_ctx}" "tm_flights delete_answered = []"
  "ts_db (tm_shared delete_answered) = mm_db demo_agent" "ts_operations (tm_shared delete_answered) = [demo_deletion None]"
  "ts_drawn (tm_shared delete_answered) = 1" "recent_calls demo_cid (tm_shared delete_answered) = [0]"
proof -
  let ?st = "gated (tm_shared tools_ready)"
  have "insertable demo_tools demo_cid OpDelete None ?st" using demo_tables(5) by (simp add: insertable_def)
  then have moves: "\<exists>out. record_moves demo_tools 0 demo_ctx [\<lparr>tv_original = demo_ref, tv_trash = demo_trash, tv_messageId = None\<rparr>] [] ?st =
      (Inr out, ?st\<lparr>ts_drawn := 1, ts_operations := [demo_deletion None]\<rparr>)"
    by (simp add: createOperation_def Let_def demo_env_ids demo_deletion_def) (simp add: demo_trash_def)
  then obtain out b where *: "call_resume demo_tools 0 demo_ctx AfterTrash demo_moved ?st =
      (Finished (ToolOk out), tool_audit 0 demo_ctx ''tool.called'' True (Some ''m'')
        (tool_audit 0 demo_ctx ''mail.moved_to_trash'' b (Some ''m'') (?st\<lparr>ts_drawn := 1, ts_operations := [demo_deletion None]\<rparr>)))"
    by (auto simp: call_resume_def demo_moved_def after_trash_def concluded demo_env_ids)
  have calls: "recent_calls demo_cid (tm_shared tools_ready) = []" by (simp add: recent_calls_def)
  show "tm_agent delete_answered = demo_agent" "tm_contexts delete_answered = {demo_ctx}" "tm_flights delete_answered = []"
    "ts_db (tm_shared delete_answered) = mm_db demo_agent" "ts_operations (tm_shared delete_answered) = [demo_deletion None]"
    "ts_drawn (tm_shared delete_answered) = 1" "recent_calls demo_cid (tm_shared delete_answered) = [0]"
    by (simp_all add: delete_answered_def demo_answer_def delete_called * advance_def Let_def landed_def calls)
qed

lemma restore_called:
  "tm_agent restore_called = demo_agent" "tm_contexts restore_called = {demo_ctx}"
  "tm_flights restore_called = [(2, demo_ctx, demo_restore, RestoreFromTrash demo_account demo_trash [73] None,
     AfterRestore demo_account (demo_deletion None) demo_op [] [])]"
  "tm_shared restore_called = gated (tm_shared delete_answered)"
proof -
  let ?st = "gated (tm_shared delete_answered)"
  have "run_gate 0 demo_ctx (tool_name demo_restore) (tm_shared delete_answered) = (None, ?st)"
    by (rule demo_gate [where j = 1]) (simp_all add: delete_answered)
  moreover have "account demo_tools demo_ctx ?st = Inr demo_account" by (rule demo_opens) (simp add: delete_answered)
  moreover have "restorable_operation demo_ctx demo_op ?st = Some (demo_deletion None, demo_ref, demo_trash, None, None)"
    by (simp add: restorable_operation_def demo_env_ids findForConnection_def delete_answered) (simp add: demo_deletion_def)
  ultimately have *: "call_start demo_tools 0 demo_ctx demo_restore (tm_shared delete_answered) =
      (Waiting (RestoreFromTrash demo_account demo_trash [73] None) (AfterRestore demo_account (demo_deletion None) demo_op [] []), ?st)"
    by (simp add: call_start_def demo_restore_def restore_start_def conclude_def) (simp add: demo_ref_def)
  show "tm_agent restore_called = demo_agent" "tm_contexts restore_called = {demo_ctx}"
    "tm_flights restore_called = [(2, demo_ctx, demo_restore, RestoreFromTrash demo_account demo_trash [73] None,
       AfterRestore demo_account (demo_deletion None) demo_op [] [])]"
    "tm_shared restore_called = gated (tm_shared delete_answered)"
    by (simp_all add: restore_called_def demo_call_def * advance_def Let_def delete_answered)
qed

lemma restore_answered: "ts_operations (tm_shared restore_answered) = [demo_deletion (Some 0), demo_restoration]"
proof -
  let ?st = "gated (tm_shared delete_answered)"
  let ?marked = "?st\<lparr>ts_operations := [demo_deletion (Some 0)]\<rparr>"
  have "op_id (demo_deletion x) = demo_op" "details_restoredAt (op_details (demo_deletion x)) = x" for x
    by (simp_all add: demo_deletion_def)
  then have "markRestored (op_id (demo_deletion None)) 0 ?st = (True, ?marked)"
    by (simp add: markRestored_def findOperation_def delete_answered unrestored_def update_where_def) (simp add: demo_deletion_def)
  moreover have "insertable demo_tools demo_cid OpRestore None ?marked" using demo_tables(5)
    by (simp add: insertable_def delete_answered demo_env_ids) (simp add: demo_deletion_def demo_env_ids)
  ultimately have "ts_operations (snd (restore_recorded demo_tools 0 demo_ctx (demo_deletion None) demo_op demo_ref ?st)) =
      [demo_deletion (Some 0), demo_restoration]"
    by (simp add: restore_recorded_def createOperation_def Let_def delete_answered demo_env_ids demo_restoration_def)
      (simp add: demo_deletion_def demo_ref_def)
  then obtain r st where *: "restore_recorded demo_tools 0 demo_ctx (demo_deletion None) demo_op demo_ref ?st = (r, st)"
    "ts_operations st = [demo_deletion (Some 0), demo_restoration]" by (metis snd_conv surj_pair)
  have "call_resume demo_tools 0 demo_ctx (AfterRestore demo_account (demo_deletion None) demo_op [] []) (RestoredTo demo_ref) ?st =
      conclude 0 demo_ctx (restore_loop 0 demo_ctx demo_account [] [r] st)"
    by (simp add: call_resume_def after_restore_def *)
  then show ?thesis by (simp add: restore_answered_def demo_answer_def restore_called concluded *)
qed

lemma restore_answered_reachable: "reachable tool_initial (tool_step demo_tools) restore_answered"
proof -
  have now: "mm_now demo_agent = 0" by (rule demo_tables(1))
  have 1: "tool_step demo_tools tools_ready (Called 1 demo_ctx 20 demo_delete) delete_called"
    unfolding delete_called_def by (rule demo_call_step) (simp_all add: now, simp add: demo_delete_def demo_id_length MAX_IDS_PER_CALL_def)
  have 2: "tool_step demo_tools delete_called (Answered 1 demo_moved) delete_answered"
    unfolding delete_answered_def by (rule demo_answer_step) (simp_all add: delete_called now, simp add: demo_moved_def)
  have 3: "tool_step demo_tools delete_answered (Called 2 demo_ctx 20 demo_restore) restore_called"
    unfolding restore_called_def
    by (rule demo_call_step) (simp_all add: delete_answered now, simp add: demo_restore_def demo_op_def MAX_IDS_PER_CALL_def)
  have 4: "tool_step demo_tools restore_called (Answered 2 (RestoredTo demo_ref)) restore_answered"
    unfolding restore_answered_def by (rule demo_answer_step) (simp_all add: restore_called now, simp)
  show ?thesis
    by (rule reachable.step [OF reachable.step [OF reachable.step [OF reachable.step [OF tools_ready_reachable 1] 2] 3] 4])
qed

end
