(* ===== verification/McpToolProperties.thy ===== *)
theory McpToolProperties
  imports McpToolExample
begin

text \<open>
  What the mail tools promise: which mailbox a call reaches, how often a mail is sent and a deletion is
  restored, how many calls and sends there are, and what a rejected credential ends.
\<close>

section \<open>Calls\<close>



text \<open>
  C13 Under one idempotency key a connection submits at most one mail, however often the call is made,
  however many are under way at the same time, and however they end.
\<close>

theorem sent_at_most_once:
  assumes "reachable tool_initial (tool_step env) s" "inj (te_opId env)"
  shows "length (submissions cid key s) \<le> 1"
  using tools.reachable_inv [OF assms(1)] assms(2) by (auto simp: tool_inv_def keys_inv_def)

theorem sent_at_most_once_witness:
  "submissions demo_cid ''k1234567'' send_called \<noteq> [] \<and> length (submissions demo_cid ''k1234567'' send_called) \<le> 1"
proof
  show "submissions demo_cid ''k1234567'' send_called \<noteq> []" using send_called_simps(3)
    by (auto simp: submissions_def submits_key_def is_submission_def requested_key_def demo_mail_def demo_ctx_def)
  show "length (submissions demo_cid ''k1234567'' send_called) \<le> 1"
    by (rule sent_at_most_once [OF reachable.step [OF tools_ready_reachable send_called_step] demo_ids])
qed



text \<open>
  C17 In every window of a minute at most as many calls of a connection pass the rate limiter as the largest
  limit that was set, whatever else happens.
\<close>

theorem tool_rate_limit:
  assumes "reachable tool_initial (tool_step_if (calls_within limit) env) s"
  shows "length (filter (\<lambda>u. t - 60000 < u \<and> u \<le> t) (passed_times cid s)) \<le> limit"
  by (rule rate.window_bound [OF assms])

theorem tool_rate_limit_witness:
  "passed_times demo_cid send_called = [0] \<and>
     length (filter (\<lambda>u. 0 - 60000 < u \<and> u \<le> 0) (passed_times demo_cid send_called)) \<le> 60"
proof
  show "passed_times demo_cid send_called = [0]" by (simp add: passed_times_def send_called_simps)
  show "length (filter (\<lambda>u. 0 - 60000 < u \<and> u \<le> 0) (passed_times demo_cid send_called)) \<le> 60"
    by (rule tool_rate_limit [where env = demo_tools], rule send_called_reachable)
      (simp_all add: calls_within_def demo_limit_settings demo_tables)
qed

text \<open>
  C16 As long as no reply is sent, the sends of a connection that are on record and have not failed are in
  every hour and every day at most as many as the largest limits that were set, whatever calls overlap.
\<close>

theorem send_limit:
  assumes "reachable tool_initial (tool_step_if (sends_within hourly daily) env) s" "inj (te_opId env)"
  shows "length (filter (\<lambda>u. t - 3600000 \<le> u \<and> u \<le> t) (send_times cid s)) \<le> hourly \<and>
    length (filter (\<lambda>u. t - 86400000 \<le> u \<and> u \<le> t) (send_times cid s)) \<le> daily"
proof -
  have "send_runs hourly daily env = sends_within hourly daily" using assms(2) by (intro ext) (simp add: send_runs_def)
  then have run: "reachable tool_initial (tool_step_if (send_runs hourly daily env) env) s" using assms(1) by simp
  have window: "t - w \<le> u \<longleftrightarrow> t - (w + 1) < u" for w u :: int by linarith
  show ?thesis unfolding window
    using hourly.window_bound [OF run, of t cid] daily.window_bound [OF run, of t cid] by simp
qed

theorem send_limit_witness:
  "send_times demo_cid send_called = [0] \<and>
     length (filter (\<lambda>u. 0 - 3600000 \<le> u \<and> u \<le> 0) (send_times demo_cid send_called)) \<le> 20"
proof
  show "send_times demo_cid send_called = [0]"
    by (simp add: send_times_def row_times_def send_called_simps live_send_def demo_row_def)
  have "reachable tool_initial (tool_step_if (sends_within 20 100) demo_tools) send_called"
    by (rule send_called_reachable)
      (simp_all add: sends_within_def demo_limit_settings demo_tables is_reply_def, simp add: demo_mail_def)
  from send_limit [OF this demo_ids]
  show "length (filter (\<lambda>u. 0 - 3600000 \<le> u \<and> u \<le> 0) (send_times demo_cid send_called)) \<le> 20" by blast
qed

section \<open>A rejected credential\<close>

text \<open>The grants that are live after a revocation were live before and are others.\<close>

lemma revokeGrant_live:
  "g \<in> set (md_grants (snd (revokeGrant gid r now db))) \<Longrightarrow> gr_revokedAt g = None \<Longrightarrow>
     g \<in> set (md_grants db) \<and> gr_id g \<noteq> gid"
  by (auto simp: revokeGrant_def update_where_def grant_live_def split: if_splits)

lemma revokeAll_live:
  assumes "g \<in> set (md_grants (snd (revokeAllGrantsForConnection cid r now db)))" "gr_revokedAt g = None"
  shows "g \<in> set (md_grants db) \<and> gr_connectionId g \<noteq> cid"
proof -
  let ?step = "\<lambda>(count, db) g. if gr_revokedAt g = None then
      (let (changed, db) = revokeGrant (gr_id g) r now db in (if changed then count + 1 else count, db)) else (count, db)"
  have "g \<in> set (md_grants (snd (foldl ?step (n, db) gs))) \<Longrightarrow>
      g \<in> set (md_grants db) \<and> (\<forall>x \<in> set gs. gr_revokedAt x = None \<longrightarrow> gr_id x \<noteq> gr_id g)" for n :: nat and db gs
  proof (induction gs arbitrary: n db)
    case (Cons x gs)
    obtain b db1 where "revokeGrant (gr_id x) r now db = (b, db1)" by fastforce
    then have step: "?step (n, db) x = (if gr_revokedAt x = None \<and> b then n + 1 else n,
        if gr_revokedAt x = None then snd (revokeGrant (gr_id x) r now db) else db)" by simp
    have "g \<in> set (md_grants (snd (foldl ?step (?step (n, db) x) gs)))" using Cons.prems by simp
    from Cons.IH [OF this [unfolded step]] show ?case
      using revokeGrant_live [OF _ assms(2), of "gr_id x" r now db] by (auto split: if_splits)
  qed simp
  from this [of 0 db "listGrants cid db"] assms show ?thesis
    by (auto simp: revokeAllGrantsForConnection_def listGrants_def)
qed

lemma revokeAll_tables [simp]: "md_connections (snd (revokeAllGrantsForConnection cid r now db)) = md_connections db"
proof -
  have "md_connections (snd (foldl (\<lambda>(count, db) g. if gr_revokedAt g = None then
      (let (changed, db) = revokeGrant (gr_id g) r now db in (if changed then count + 1 else count, db)) else (count, db)) (n, db) gs)) =
    md_connections db" for n :: nat and gs and db
    by (induction gs arbitrary: n db) (auto simp: revokeGrant_def Let_def split: prod.splits)
  then show ?thesis by (simp add: revokeAllGrantsForConnection_def)
qed

lemma rejected_live:
  assumes "g \<in> set (md_grants (markCredentialRejected now b actor db))" "gr_revokedAt g = None"
  shows "g \<in> set (md_grants db) \<and> (\<forall>c \<in> set (md_connections db). cn_bindingId c = bi_id b \<longrightarrow> cn_id c \<noteq> gr_connectionId g)"
proof -
  have fold: "g \<in> set (md_grants (foldl (\<lambda>db c. snd (revokeAllGrantsForConnection (cn_id c) r now db)) db cs)) \<Longrightarrow>
      g \<in> set (md_grants db) \<and> (\<forall>c \<in> set cs. cn_id c \<noteq> gr_connectionId g)" for r db cs
  proof (induction cs arbitrary: db)
    case (Cons c cs)
    then have "g \<in> set (md_grants (snd (revokeAllGrantsForConnection (cn_id c) r now db))) \<and>
        (\<forall>c \<in> set cs. cn_id c \<noteq> gr_connectionId g)" by simp
    then show ?case using revokeAll_live [OF _ assms(2), of "cn_id c" r now db] by auto
  qed simp
  let ?reason = "''The mail server rejected the stored mailbox credential.''"
  let ?db = "setBindingState (bi_id b) BInvalid (Some ?reason) now (deleteCredential (bi_id b) db)"
  have "g \<in> set (md_grants (foldl (\<lambda>db c. snd (revokeAllGrantsForConnection (cn_id c) ?reason now db)) ?db (listByBinding (bi_id b) db)))"
    using assms(1) by (simp only: markCredentialRejected_def invalidateBinding_def Let_def snd_conv mcp_record_tables)
  from fold [OF this] show ?thesis by (simp add: setBindingState_def deleteCredential_def listByBinding_def)
qed

definition grant_of_binding :: "string \<Rightarrow> string \<Rightarrow> mcp_db \<Rightarrow> bool" where
  "grant_of_binding gid bid db =
     (list_ex (\<lambda>g. gr_id g = gid) (md_grants db) \<and>
      list_all (\<lambda>g. gr_id g = gid \<longrightarrow>
        list_ex (\<lambda>c. cn_id c = gr_connectionId g \<and> cn_bindingId c = bid) (md_connections db)) (md_grants db))"

lemma rejected_kills:
  "grant_of_binding gid (bi_id b) db \<Longrightarrow> g \<in> set (md_grants (markCredentialRejected now b actor db)) \<Longrightarrow> gr_id g = gid \<Longrightarrow>
     gr_revokedAt g \<noteq> None"
  using rejected_live by (fastforce simp: grant_of_binding_def list_all_iff list_ex_iff)

lemma auth_failed_ends:
  "handler_resume env now ctx k (Threw (MailError ErrAuthFailed m)) st = (h, st') \<Longrightarrow> h = Done (Inl (MailError ErrAuthFailed m))"
  by (cases k) (auto simp: otherwise_def send_failed_def restore_refused_def Let_def)

lemma auth_failed_step:
  assumes "tool_step env s (Answered n (Threw (MailError ErrAuthFailed m))) s1" "in_sync s"
    "(n, ctx, request, c, k) \<in> set (tm_flights s)" "findBinding (mc_bindingId ctx) (mm_db (tm_agent s)) = Some b"
  shows "tm_agent s1 = (tm_agent s)\<lparr>mm_db := markCredentialRejected (mm_now (tm_agent s)) b ''system'' (mm_db (tm_agent s))\<rparr>"
  using assms(1)
proof (cases rule: tool_step.cases)
  case (call_resumes ctx' request' c' k')
  have "inj_on fst (set (tm_flights s))" using assms(2) by (simp add: in_sync_def distinct_map)
  from inj_onD [OF this _ call_resumes(2) assms(3)] have same: "ctx' = ctx" by simp
  let ?answer = "Threw (MailError ErrAuthFailed m)" and ?now = "mm_now (tm_agent s)"
  obtain h st2 where h: "handler_resume env ?now ctx k' ?answer (tm_shared s) = (h, st2)" by fastforce
  obtain step st where r: "conclude ?now ctx (h, st2) = (step, st)" by fastforce
  have "ts_db st2 = mm_db (tm_agent s)" using handler_resume_frame [OF h] assms(2) by (simp add: in_sync_def)
  then have "ts_db st = markCredentialRejected ?now b ''system'' (mm_db (tm_agent s))"
    using conclude_effect(6) [OF r auth_failed_ends [OF h]] assms(4) by simp
  moreover have "call_resume env ?now ctx k' ?answer (tm_shared s) = (step, st)" by (simp add: call_resume_def h r)
  ultimately show ?thesis using call_resumes(1) same by (cases step) (simp_all add: advance_def Let_def)
qed

text \<open>
  C14 When the mail server rejects the credential of a call, every access token of every connection to that
  mailbox is refused from then on, for ever, whatever happens in between.
\<close>

theorem auth_failure_suspends:
  assumes "reachable tool_initial (tool_step env) s" "(n, ctx, request, c, k) \<in> set (tm_flights s)"
    and "findBinding (mc_bindingId ctx) (mm_db (tm_agent s)) = Some b"
    and "tool_step env s (Answered n (Threw (MailError ErrAuthFailed m))) s1" "path (tool_step env) s1 es s2"
    and "findAccessTokenByHash (me_sha256Hex (te_agent env) presented) (mm_db (tm_agent s)) = Some token"
    and "bearer_token header = Some presented" "grant_of_binding (at_grantId token) (bi_id b) (mm_db (tm_agent s))"
  shows "\<not> accepted (fst (bearer_verify (te_agent env) now cid (Some header) ip (mm_db (tm_agent s2))))"
proof -
  have sync: "in_sync s" using tools.reachable_inv [OF assms(1)] by (simp add: tool_inv_def)
  then have sync1: "in_sync s1" by (rule in_sync_step [OF assms(4)])
  obtain es' where path: "path (mcp_step (te_agent env)) (tm_agent s1) es' (tm_agent s2)" using path_agent [OF assms(5) sync1] by blast
  have "findGrant (at_grantId token) (mm_db (tm_agent s)) \<noteq> None"
    using assms(8) by (auto simp: grant_of_binding_def list_ex_iff findGrant_def find_None_iff)
  then obtain g where g: "findGrant (at_grantId token) (mm_db (tm_agent s)) = Some g" by blast
  have step: "mcp_step (te_agent env) (tm_agent s) (CredentialRejected b ''system'') (tm_agent s1)"
    unfolding auth_failed_step [OF assms(4) sync assms(2,3)] by (rule rejection_is_step)
  show ?thesis
    by (rule after_death [OF reachable_agent [OF assms(1)] step path assms(6,7) g])
      (use rejected_kills [OF assms(8)] in simp)
qed

theorem auth_failure_suspends_witness:
  "\<exists>s1. tool_step demo_tools folders_called (Answered 0 (Threw (MailError ErrAuthFailed []))) s1 \<and>
     \<not> accepted (fst (bearer_verify demo_env 1 demo_cid (Some ''Bearer at'') None (mm_db (tm_agent s1))))"
proof -
  have env: "te_agent demo_tools = demo_env" "me_sha256Hex demo_env ''at'' = ''at''" by (simp_all add: demo_tools_def demo_env_def)
  obtain s1 where s1: "tool_step demo_tools folders_called (Answered 0 (Threw (MailError ErrAuthFailed []))) s1"
    using call_resumes [of 0 demo_ctx ListFoldersCall "ListFolders demo_account" AfterFolders folders_called
        "Threw (MailError ErrAuthFailed [])" demo_tools] folders_called(3) by auto
  have "\<not> accepted (fst (bearer_verify (te_agent demo_tools) 1 demo_cid (Some ''Bearer at'') None (mm_db (tm_agent s1))))"
  proof (rule auth_failure_suspends [OF folders_called(1) _ _ s1 path.here])
    show "(0, demo_ctx, ListFoldersCall, ListFolders demo_account, AfterFolders) \<in> set (tm_flights folders_called)"
      by (simp add: folders_called)
    have "mc_bindingId demo_ctx = ''B''" by (simp add: demo_ctx_def)
    then show "findBinding (mc_bindingId demo_ctx) (mm_db (tm_agent folders_called)) = Some (md_bindings demo_db ! 0)"
      unfolding folders_called(2) by (simp only: demo_tables(3))
    show "findAccessTokenByHash (me_sha256Hex (te_agent demo_tools) ''at'') (mm_db (tm_agent folders_called)) =
        Some (md_access demo_db ! 0)"
      unfolding folders_called(2) env by (rule demo_tables(6))
    show "bearer_token ''Bearer at'' = Some ''at''" by (rule demo_token(3))
    show "grant_of_binding (at_grantId (md_access demo_db ! 0)) (bi_id (md_bindings demo_db ! 0)) (mm_db (tm_agent folders_called))"
      unfolding folders_called(2) demo_token(2) demo_rows(1)
      using demo_tables(7-10) by (auto simp: grant_of_binding_def list_ex_iff list_all_iff Cons_eq_map_conv map_eq_Cons_conv)
  qed
  then show ?thesis using s1 by (auto simp: env)
qed

section \<open>Refinement\<close>

text \<open>
  C15 Every run of the agent with its tools is, to what is not tools, a run of the agent without them: its
  states are reachable and its steps are paths there, so that what holds of tokens, codes and connections
  holds with tools running.
\<close>

theorem tools_refine_agent:
  assumes "reachable tool_initial (tool_step env) s"
  shows "reachable mcp_initial (mcp_step (te_agent env)) (tm_agent s) \<and> ts_db (tm_shared s) = mm_db (tm_agent s) \<and>
    (\<forall>es s'. path (tool_step env) s es s' \<longrightarrow> (\<exists>es'. path (mcp_step (te_agent env)) (tm_agent s) es' (tm_agent s')))"
proof -
  have "in_sync s" using tools.reachable_inv [OF assms] by (simp add: tool_inv_def)
  then show ?thesis using reachable_agent [OF assms] path_agent by (auto simp: in_sync_def)
qed

theorem tools_refine_agent_witness:
  "reachable mcp_initial (mcp_step demo_env) (tm_agent folders_called) \<and> tm_flights folders_called \<noteq> []"
  using tools_refine_agent [OF folders_called(1)] by (simp add: folders_called demo_tools_def)

end
