(* ===== verification/Spec2Isabelle.thy ===== *)
theory Spec2Isabelle
  imports BrokerApp Updater StaleImageCleanup JobRunner AuthMachine McpToolProperties
begin

text \<open>
  A verification development for docker-webmail-gui, a web administration panel for
  docker-mailserver.

  The program has a privileged tier and an unprivileged one.  The broker (\<^verbatim>\<open>apps/broker\<close>) holds the
  Docker socket and serves a closed vocabulary of named operations; the panel server (\<^verbatim>\<open>apps/server\<close>)
  owns accounts, sessions, jobs and the business logic and reaches Docker only by asking the broker;
  the mail agent (\<^verbatim>\<open>apps/mcp\<close>) is a third service, and \<^verbatim>\<open>packages/shared\<close> holds the contracts between
  them.  The security of the whole rests on what the broker does with a request from a server that may
  be compromised, so the broker is modelled completely and first; the state machines of the server that
  decide who may ask follow, and then the mail agent: its OAuth server, which decides which client may
  read which mailbox, and the tools by which a client reads, sends and deletes mail.

  \<^bold>\<open>Effects.\<close>  A program with effects (theory Effects) is a function from the calls made so far to an
  outcome (an error or a value) and the calls made by its end.  Docker, clocks and files answer each
  call by an arbitrary function of the calls before it, so every theorem holds for every behaviour of
  the outside world.  \<open>wp\<close> gives the conditions of a program as a predicate on its start, and
  \<open>guarded_client\<close> and its kind are the interfaces by which the handlers are shown to make only calls
  that a policy allows.  State machines (theory Transitions) are step relations with the interfaces
  \<open>guarded_system\<close> (an invariant) and \<open>settled_forever\<close> (facts that no step undoes).

  \<^bold>\<open>The shared vocabulary.\<close>  Prelude: JavaScript's string methods and character classes on Latin-1.
  Json: JSON values and strict object schemas.  Visibility (\<^verbatim>\<open>visibility.ts\<close>): globs and the matching of
  containers and images, with the glob's meaning as a specification.  DmsValidators
  (\<^verbatim>\<open>dms-validators.ts\<close>): every argument validator.  DmsProtocol (\<^verbatim>\<open>dms.ts\<close>) and BrokerProtocol
  (\<^verbatim>\<open>broker.ts\<close>, \<^verbatim>\<open>errors.ts\<close>): one datatype constructor per operation, one schema each, and the union.

  \<^bold>\<open>The broker.\<close>  DockerApi (\<^verbatim>\<open>docker-types.ts\<close>, \<^verbatim>\<open>errors.ts\<close>): the daemon as a parameter.
  ContainerResolver: identities resolve to the only match or to nothing.  DmsCommands
  (\<^verbatim>\<open>dms/commands.ts\<close>): a request becomes an argument vector, never a shell line.  Utf8, StreamDemux
  (\<^verbatim>\<open>stream-demux.ts\<close>) and Stats (\<^verbatim>\<open>stats.ts\<close>): what the daemon streams back.  DmsHandlers and Operations
  (\<^verbatim>\<open>operations.ts\<close>, \<^verbatim>\<open>dms/handlers.ts\<close>): one function per handler and the dispatch.  BrokerPolicy states
  which calls a request entitles the broker to and proves that no handler makes another.  ImageRefs,
  LaunchUpdater, Updater and StaleImageCleanup (\<^verbatim>\<open>self-update/\<close>): the update of the panel by a one-shot
  container, its rollback and the sweep of old images.  TarGuard (\<^verbatim>\<open>restore-tar-guard.ts\<close>): the stream
  that admits or rejects the entries of a restored archive.  BrokerConfig (\<^verbatim>\<open>config.ts\<close>) reads the
  environment.  BrokerApp (\<^verbatim>\<open>app.ts\<close>, \<^verbatim>\<open>auth.ts\<close>, \<^verbatim>\<open>archive-routes.ts\<close>) composes the secret guard, the body
  schema, the handlers, the archive routes and the error handler into the whole HTTP surface, and lifts
  the policy to it.

  \<^bold>\<open>The panel server.\<close>  JobRunner (\<^verbatim>\<open>platform/jobs\<close>): the serial queue of background jobs as a machine
  whose steps are the pieces of code between two \<^verbatim>\<open>await\<close>s.  Auth (\<^verbatim>\<open>modules/auth\<close>, \<^verbatim>\<open>platform/audit.ts\<close>):
  the tables, the repositories and the service.  AuthRoutes: the guards, the routes on administrators
  and the first administrator.  AuthProperties: what one operation decides.  AuthMachine: all of them
  interleaved, with a login in two stages.

  \<^bold>\<open>The mail agent.\<close>  McpStore (\<^verbatim>\<open>store/\<close>): the tables and one function per repository method.
  McpConnections (\<^verbatim>\<open>domain/connections.service.ts\<close>): mailbox identities, connections and setup passwords,
  driven by the postmaster and by the mail server's events.  McpOAuth (\<^verbatim>\<open>oauth/endpoints.ts\<close>,
  \<^verbatim>\<open>tokens.service.ts\<close>): resource URLs, code exchange, refresh and revocation.  McpAuthorize
  (\<^verbatim>\<open>bearer.ts\<close>, \<^verbatim>\<open>clients.service.ts\<close>): the check of every request with a token, and clients.  McpConsent
  (\<^verbatim>\<open>authorization.service.ts\<close>): the browser's half of the flow.  A method that awaits is split there; its
  second half takes what the first one read, which may be stale.  McpEvolution shows, one lemma per
  function, that rows only age and that new rows have fresh keys.  McpMachine puts all operations on one
  database in any interleaving, with the identifiers and digests issued so far, and McpLifecycle proves
  its invariant and the facts that no event undoes.  McpExample is one run from a blank database to a
  client's tokens.  McpProperties: only live tokens under live grants are served; revocations, deletions
  and replays end them for good; a code is exchanged once, a setup password leads to one grant at most,
  and every code rests on a verified password.

  \<^bold>\<open>The mail tools.\<close>  MessageRef (\<^verbatim>\<open>mail/message-ref.ts\<close>): the identifiers of messages, with the UTF-8
  and base64url codings behind them, and their round trip.  McpTools (\<^verbatim>\<open>mail/types.ts\<close>,
  \<^verbatim>\<open>store/operations.repository.ts\<close>, \<^verbatim>\<open>crypto/vault.ts\<close>, \<^verbatim>\<open>mcp/tools.ts\<close>): the mail server as a port, the table
  of write operations, the opening of a credential, the gate of every call and the results.
  McpToolHandlers (\<^verbatim>\<open>mcp/tools.ts\<close>): each tool, split at its awaits: a step ends the call, or calls the
  mail server and keeps what it goes on with.  McpToolMachine puts the agent and any number of overlapping
  calls on one database; the mail server answers whatever it likes, whenever it likes, or never.  It
  keeps a log of the calls to the mail server and of the times at which calls passed the rate limiter, and it
  refines McpMachine: a step of a call changes nothing of the agent but to suspend a mailbox identity.
  McpToolSafety: what reaches the mail server.  McpToolRows and McpToolInvariants: how the rows of
  operations age, and that identifiers are distinct, a send under way owns a pending row and a deletion is
  restored once.  McpToolSystem: at most one mail per idempotency key, and the invariant of the machine.
  SlidingWindow is the interface \<open>window_limiter\<close> of a limit over a sliding window, which McpToolLimits
  interprets for calls per minute and for sends per hour and per day.  McpToolExample is one run with a
  send, a deletion with its restoration and a rejected credential, and McpToolProperties holds the theorems.

  \<^bold>\<open>Bounds and fuel.\<close>  The updater polls a container's health every two seconds for ninety: 46 polls,
  so fuel 46 suffices whenever the clock advances by the delays (\<open>clock_runs\<close>), and then the updater
  returns.  All other recursions are structural or have a measure.

  \<^bold>\<open>Approximations.\<close>  Strings are Latin-1 (a JavaScript string holds UTF-16 units); text that comes from a
  container is a list of code points.  Quotients of counters are exact rationals where the code has
  doubles, and numbers read from text are exact.  Versions are compared exactly, as the code does below
  \<^verbatim>\<open>2^53\<close>.  Times are milliseconds.  Log lines are omitted; rejections of the archive guard leave out the
  quoted path.  SHA-256, Argon2, the URL parser, the HTTP framework and random identifiers are
  parameters; that fresh identifiers and tokens do not repeat is a premise where it is used.  SQL
  statements are functions on lists of rows with the constraints of the migrations that they can hit.  A
  job's closure is known only by how it settles.  In the mail agent, audit records leave out their
  details, pages are known by their kind and data, messages with typographic characters are shortened,
  lists are in order of insertion, and the decoded Basic header, the fetched client document and the
  mail server's verdict are arguments; a stored list or state that cannot be read (which the code takes
  as empty or invalid) is not represented.  Of the tools, audit rows are kept apart from the agent's, the
  texts of mails stand for Latin-1 texts, the patterns of addresses, types and dates in the input schemas
  are left out (which lets more requests through), the protocol around a call (titles, annotations and
  output schemas) is left out, and the random identifiers of operations are a stream whose values are
  distinct where that is used.  An administrator's creation checks the address once,
  where the code checks before it awaits the hash and again by the unique index.

  \<^bold>\<open>Not modelled.\<close>  The web interface (\<^verbatim>\<open>apps/web\<close>) is presentation.  Of the server, the drivers
  (clients of DNS, TLS, Rspamd, registries and of the broker), the backup engine and its destinations,
  the mail, Docker, security, configuration, dashboard, update, notification and mail agent control
  modules; of the mail agent, the IMAP and SMTP sessions behind the mail port and the conversion of
  mails to text, HTTP routing, pages, the guarded fetch, the cipher of the vault and the metadata documents; the installer, the container images
  and the tests.
\<close>

end
